(* ===== verification/Prelude.thy ===== *)
theory Prelude
  imports Complex_Main "HOL-Library.Word"
begin

text \<open>
  The shared layer of the development: the widths of the C integer types, C character
  buffers and the string functions of the C library the program calls (\<open>strncpy\<close>,
  \<open>snprintf\<close>, \<open>memset\<close>, \<open>isspace\<close>), and the faults a C program can run into when it
  leaves a buffer. A buffer is a list of characters of the declared size of the array;
  a C string is what the buffer holds before its first NUL.

  The platform is LP64 with glibc: \<open>int\<close> has 32 bits, \<open>long\<close> and \<open>size_t\<close> have 64.
\<close>

unbundle bit_operations_syntax

named_theorems buf_simps \<open>lengths and contents of buffers after the string functions\<close>
named_theorems wf_intros \<open>preservation of well-formedness\<close>

type_synonym u8 = "8 word"
type_synonym u16 = "16 word"
type_synonym u32 = "32 word"
type_synonym u64 = "64 word"
type_synonym buf = string

text \<open>
  Conditional compilation: \<open>PLATFORM_LINUX\<close> is defined by CMakeLists.txt on Linux,
  \<open>__APPLE__\<close> by the compiler on macOS.
\<close>

datatype platform = PLATFORM_LINUX | PLATFORM_APPLE | PLATFORM_OTHER

section \<open>Error codes and integer conversions\<close>

definition EPERM :: int where "EPERM = 1"
definition EIO :: int where "EIO = 5"
definition EINVAL :: int where "EINVAL = 22"
definition ENOSPC :: int where "ENOSPC = 28"
definition ERANGE :: int where "ERANGE = 34"
definition ENOENT :: int where "ENOENT = 2"
definition ENOSYS :: int where "ENOSYS = 38"

lemmas errno_defs = EPERM_def EIO_def EINVAL_def ENOSPC_def ERANGE_def ENOENT_def ENOSYS_def

text \<open>Conversion of an integer to the range of a C \<open>int\<close>, and subtraction on \<open>size_t\<close>.\<close>

definition to_s32 :: "int \<Rightarrow> int" where
  "to_s32 i = (i + 2 ^ 31) mod 2 ^ 32 - 2 ^ 31"

definition is_s32 :: "int \<Rightarrow> bool" where
  "is_s32 i \<longleftrightarrow> - (2 ^ 31) \<le> i \<and> i < 2 ^ 31"

definition size_sub :: "nat \<Rightarrow> nat \<Rightarrow> nat" where
  "size_sub a b = nat ((int a - int b) mod 2 ^ 64)"

lemma to_s32_id [simp]: "is_s32 i \<Longrightarrow> to_s32 i = i"
  by (auto simp: to_s32_def is_s32_def)

lemma is_s32_to_s32 [simp]: "is_s32 (to_s32 i)"
  using pos_mod_bound [of "2 ^ 32" "i + 2 ^ 31"] pos_mod_sign [of "2 ^ 32" "i + 2 ^ 31"]
  by (simp add: to_s32_def is_s32_def)

lemma size_sub_le: "b \<le> a \<Longrightarrow> a < 2 ^ 64 \<Longrightarrow> size_sub a b = a - b"
proof -
  assume "b \<le> a" and "a < 2 ^ 64"
  then have "(int a - int b) mod 2 ^ 64 = int (a - b)"
    by (subst mod_pos_pos_trivial) auto
  then show ?thesis
    by (simp only: size_sub_def nat_int)
qed

text \<open>An unsigned subtraction that goes below zero wraps to a size larger than any buffer.\<close>

lemma size_sub_wraps: "a < b \<Longrightarrow> b < 2 ^ 63 \<Longrightarrow> 2 ^ 63 < size_sub a b"
proof -
  assume ab: "a < b" and b: "b < 2 ^ 63"
  have "(int a - int b) mod 2 ^ 64 = (int a - int b + 2 ^ 64) mod 2 ^ 64"
    by simp
  also have "\<dots> = int a - int b + 2 ^ 64"
    using ab b by (intro mod_pos_pos_trivial) auto
  finally show ?thesis
    using ab b by (simp add: size_sub_def)
qed

section \<open>Faults\<close>

text \<open>
  What the C standard leaves undefined and the program must avoid: an access outside a
  buffer, reading a buffer without a terminating NUL as a string, and a sum of type
  \<open>int\<close> that its 32 bits do not hold.
\<close>

datatype fault = OutOfBounds | Unterminated | SignedOverflow

fun bindE :: "fault + 'a \<Rightarrow> ('a \<Rightarrow> fault + 'b) \<Rightarrow> fault + 'b" where
  "bindE (Inl e) f = Inl e"
| "bindE (Inr x) f = f x"

text \<open>The sum of two values of type \<open>int\<close>.\<close>

definition int_add :: "int \<Rightarrow> int \<Rightarrow> fault + int" where
  "int_add a b = (if is_s32 (a + b) then Inr (a + b) else Inl SignedOverflow)"

lemma bindE_Inr_iff: "bindE m f = Inr y \<longleftrightarrow> (\<exists>x. m = Inr x \<and> f x = Inr y)"
  by (cases m) auto

section \<open>Characters, buffers and C strings\<close>

abbreviation NUL :: char where "NUL \<equiv> CHR 0x00"
abbreviation NL :: char where "NL \<equiv> CHR 0x0A"
abbreviation CR :: char where "CR \<equiv> CHR 0x0D"
abbreviation DQ :: char where "DQ \<equiv> CHR 0x22"

definition isspace :: "char \<Rightarrow> bool" where
  "isspace c \<longleftrightarrow> c \<in> {CHR '' '', CHR 0x09, NL, CHR 0x0B, CHR 0x0C, CR}"

text \<open>A zeroed buffer (\<open>memset\<close>), the string in a buffer, and reading it with a fault.\<close>

definition zeros :: "nat \<Rightarrow> buf" where
  "zeros n = replicate n NUL"

definition cstr :: "buf \<Rightarrow> string" where
  "cstr b = takeWhile (\<lambda>c. c \<noteq> NUL) b"

definition terminated :: "buf \<Rightarrow> bool" where
  "terminated b \<longleftrightarrow> NUL \<in> set b"

definition read_str :: "buf \<Rightarrow> fault + string" where
  "read_str b = (if terminated b then Inr (cstr b) else Inl Unterminated)"

text \<open>
  \<open>strncpy(dst, src, n)\<close>: the first \<open>n\<close> bytes of \<open>dst\<close> become \<open>src\<close>, cut or padded
  with NUL; the rest of \<open>dst\<close> keeps its bytes.
\<close>

definition strncpy :: "buf \<Rightarrow> string \<Rightarrow> nat \<Rightarrow> buf" where
  "strncpy dst src n = take n (cstr src @ zeros n) @ drop n dst"

text \<open>
  \<open>snprintf(buf + off, n, ...)\<close> whose formatted text is \<open>s\<close>: at most \<open>n - 1\<close> characters
  and a NUL are stored, the result is the length of the whole text.
\<close>

definition snprintf :: "buf \<Rightarrow> nat \<Rightarrow> nat \<Rightarrow> string \<Rightarrow> fault + (buf \<times> int)" where
  "snprintf b off n s =
     (let k = min (length s) (n - 1) in
      if n = 0 then Inr (b, int (length s))
      else if off + k < length b
      then Inr (take off b @ take k s @ NUL # drop (off + k + 1) b, int (length s))
      else Inl OutOfBounds)"

lemma length_zeros [simp]: "length (zeros n) = n"
  by (simp add: zeros_def)

lemma terminated_zeros [simp]: "terminated (zeros n) \<longleftrightarrow> 0 < n"
  by (cases n) (auto simp: terminated_def zeros_def)

lemma cstr_zeros [simp]: "cstr (zeros n) = []"
  by (cases n) (simp_all add: cstr_def zeros_def)

lemma NUL_notin_cstr [simp]: "NUL \<notin> set (cstr b)"
  unfolding cstr_def by (auto dest: set_takeWhileD)

lemma cstr_id: "NUL \<notin> set s \<Longrightarrow> cstr s = s"
  unfolding cstr_def by (auto simp: takeWhile_eq_all_conv)

lemma cstr_append_NUL: "NUL \<notin> set s \<Longrightarrow> cstr (s @ NUL # t) = s"
  unfolding cstr_def by (induction s) auto

lemma cstr_append: "NUL \<notin> set s \<Longrightarrow> cstr (s @ t) = s @ cstr t"
  unfolding cstr_def by (induction s) auto

lemma cstr_append_zeros: "NUL \<notin> set s \<Longrightarrow> cstr (s @ zeros n) = s"
  by (simp add: cstr_append)

lemma length_cstr_le: "length (cstr b) \<le> length b"
  by (simp add: cstr_def length_takeWhile_le)

lemma length_cstr_terminated: "terminated b \<Longrightarrow> length (cstr b) < length b"
proof -
  assume "terminated b"
  then have "cstr b \<noteq> b"
    unfolding terminated_def using NUL_notin_cstr [of b] by metis
  moreover have "b = cstr b @ dropWhile (\<lambda>c. c \<noteq> NUL) b"
    by (simp add: cstr_def)
  ultimately have "0 < length (dropWhile (\<lambda>c. c \<noteq> NUL) b)"
    by (metis append_Nil2 length_greater_0_conv)
  then show ?thesis
    using \<open>b = _\<close> by (metis length_append less_add_same_cancel1)
qed

lemma read_str_terminated [simp]: "terminated b \<Longrightarrow> read_str b = Inr (cstr b)"
  by (simp add: read_str_def)

lemma length_strncpy [buf_simps]: "n \<le> length dst \<Longrightarrow> length (strncpy dst src n) = length dst"
  by (simp add: strncpy_def)

text \<open>
  Copying one byte less than the size of the array keeps a terminated array terminated,
  because the last byte is not written.
\<close>

definition last_nul :: "buf \<Rightarrow> bool" where
  "last_nul b \<longleftrightarrow> b \<noteq> [] \<and> last b = NUL"

lemma last_nul_terminated: "last_nul b \<Longrightarrow> terminated b"
  unfolding last_nul_def terminated_def by (metis last_in_set)

lemma last_nul_zeros [simp]: "last_nul (zeros n) \<longleftrightarrow> 0 < n"
  by (auto simp: last_nul_def zeros_def)

lemma last_nul_strncpy [wf_intros]:
  "last_nul dst \<Longrightarrow> n < length dst \<Longrightarrow> last_nul (strncpy dst src n)"
  by (auto simp: last_nul_def strncpy_def last_append)

lemma cstr_strncpy:
  assumes "n < length dst" "last_nul dst"
  shows "cstr (strncpy dst src n) = (if length (cstr src) < n then cstr src
           else take n (cstr src) @ cstr (drop n dst))"
proof (cases "length (cstr src) < n")
  case True
  then have "strncpy dst src n = cstr src @ NUL # zeros (n - length (cstr src) - 1) @ drop n dst"
    by (simp add: strncpy_def zeros_def min_def flip: replicate_Suc)
  then show ?thesis
    using True by (simp add: cstr_append_NUL)
next
  case False
  then have "strncpy dst src n = take n (cstr src) @ drop n dst"
    by (simp add: strncpy_def)
  moreover have "NUL \<notin> set (take n (cstr src))"
    using NUL_notin_cstr by (meson in_set_takeD)
  ultimately show ?thesis
    using False by (simp add: cstr_append)
qed

lemma zeros_simps [simp]:
  "zeros a @ zeros b = zeros (a + b)" "take k (zeros n) = zeros (min k n)" "drop k (zeros n) = zeros (n - k)"
  by (simp_all add: zeros_def replicate_add)

lemma strncpy_zeros:
  assumes "n \<le> m"
  shows "strncpy (zeros m) s n = take n (cstr s) @ zeros (m - min n (length (cstr s)))"
  using assms by (cases "length (cstr s) \<le> n") (simp_all add: strncpy_def min_def)

lemma cstr_strncpy_zeros: "n < m \<Longrightarrow> cstr (strncpy (zeros m) s n) = take n (cstr s)"
proof -
  assume "n < m"
  moreover have "NUL \<notin> set (take n (cstr s))"
    using NUL_notin_cstr by (meson in_set_takeD)
  ultimately show ?thesis
    by (simp add: strncpy_zeros cstr_append_zeros)
qed

lemma snprintf_fits:
  assumes "off + length s < length b" "length s < n"
  shows "snprintf b off n s =
           Inr (take off b @ s @ NUL # drop (off + length s + 1) b, int (length s))"
  using assms by (auto simp: snprintf_def Let_def min_def)

lemma snprintf_length: "snprintf b off n s = Inr (b', w) \<Longrightarrow> length b' = length b"
  by (auto simp: snprintf_def Let_def split: if_splits)

lemma snprintf_result: "snprintf b off n s = Inr (b', w) \<Longrightarrow> w = int (length s)"
  by (auto simp: snprintf_def Let_def split: if_splits)

text \<open>
  Appending to a report: the text so far is \<open>take off b\<close>. When the new piece fits, the
  buffer holds both; when it does not, the write is cut at the end of the buffer.
\<close>

definition holds :: "buf \<Rightarrow> string \<Rightarrow> bool" where
  "holds b t \<longleftrightarrow> length t < length b \<and> take (length t) b = t \<and> b ! length t = NUL"

lemma holds_cstr: "holds b t \<Longrightarrow> NUL \<notin> set t \<Longrightarrow> cstr b = t"
  by (metis holds_def cstr_append_NUL id_take_nth_drop)

lemma holds_terminated: "holds b t \<Longrightarrow> terminated b"
  unfolding holds_def terminated_def by (metis nth_mem)

lemma snprintf_first:
  "length s < length b \<Longrightarrow>
     \<exists>b'. snprintf b 0 (length b) s = Inr (b', int (length s)) \<and> length b' = length b \<and> holds b' s"
  by (auto simp: snprintf_fits holds_def nth_append)

lemma snprintf_append:
  assumes "holds b t" "length t + length s < length b" "length b < 2 ^ 64"
  shows "\<exists>b'. snprintf b (length t) (size_sub (length b) (length t)) s = Inr (b', int (length s)) \<and>
           length b' = length b \<and> holds b' (t @ s)"
  using assms by (auto simp: size_sub_le snprintf_fits holds_def nth_append)

lemma snprintf_cut:
  assumes "off < length b" "length b < 2 ^ 64"
  shows "\<exists>b'. snprintf b off (size_sub (length b) off) s = Inr (b', int (length s)) \<and> length b' = length b"
  using assms by (auto simp: size_sub_le snprintf_def Let_def)

text \<open>Where the text so far is known, so is the text after a write that may be cut.\<close>

lemma snprintf_append_cut:
  assumes "take (length t) b = t" "length t < length b" "length b < 2 ^ 64"
  shows "\<exists>b'. snprintf b (length t) (size_sub (length b) (length t)) s = Inr (b', int (length s)) \<and>
           length b' = length b \<and> holds b' (take (length b - 1) (t @ s))"
  using assms by (auto simp: size_sub_le snprintf_def Let_def holds_def nth_append min_def)

lemma snprintf_no_fault:
  "off + n \<le> length b \<Longrightarrow> \<exists>b'. snprintf b off n s = Inr (b', int (length s))"
  by (auto simp: snprintf_def Let_def)

section \<open>Reading lines\<close>

text \<open>
  \<open>fgets(line, n, fp)\<close> on the rest of a file: the characters stored, up to \<open>n - 1\<close> of them
  and ending with the first newline, and the text left; \<open>None\<close> at the end of the file.
\<close>

definition fgets :: "nat \<Rightarrow> string \<Rightarrow> (string \<times> string) option" where
  "fgets n s =
     (if s = [] then None
      else let k = min (n - 1) (length (takeWhile (\<lambda>c. c \<noteq> NL) s) + 1) in Some (take k s, drop k s))"

lemma fgets_shorter: "fgets n s = Some (l, r) \<Longrightarrow> 1 < n \<Longrightarrow> length r < length s"
  by (auto simp: fgets_def Let_def split: if_splits)

lemma fgets_line:
  "NL \<notin> set l \<Longrightarrow> length l + 1 < n \<Longrightarrow> fgets n (l @ NL # r) = Some (l @ [NL], r)"
proof -
  assume l: "NL \<notin> set l" and n: "length l + 1 < n"
  have "takeWhile (\<lambda>c. c \<noteq> NL) (l @ NL # r) = l"
    using l by (induction l) auto
  moreover have "min (n - 1) (length l + 1) = length l + 1"
    using n by simp
  ultimately show ?thesis
    by (simp add: fgets_def)
qed

end
