(* ===== verification/CNum.thy ===== *)
theory CNum
  imports Prelude
begin

text \<open>
  The number formatting and scanning the program takes from the C library: the
  conversions \<open>%u\<close>, \<open>%d\<close>, \<open>%04X\<close>, \<open>%02x\<close> and so on of \<open>printf\<close>, and \<open>strtoul\<close>
  with base 0, \<open>atoi\<close>, and the \<open>%u\<close>, \<open>%d\<close> and \<open>%lu\<close> conversions of \<open>scanf\<close>, with
  their skipping of white space, signs, saturation at the limits of \<open>long\<close> and
  truncation to the target type. The section on round trips shows that scanning undoes
  formatting; the configuration file rests on it.
\<close>

section \<open>Formatting\<close>

definition dig_lower :: "nat \<Rightarrow> char" where
  "dig_lower d = ''0123456789abcdef'' ! d"

definition dig_upper :: "nat \<Rightarrow> char" where
  "dig_upper d = ''0123456789ABCDEF'' ! d"

fun show_base :: "nat \<Rightarrow> (nat \<Rightarrow> char) \<Rightarrow> nat \<Rightarrow> string" where
  "show_base b dig n =
     (if n < b \<or> b < 2 then [dig (n mod b)] else show_base b dig (n div b) @ [dig (n mod b)])"

declare show_base.simps [simp del]

definition pad0 :: "nat \<Rightarrow> string \<Rightarrow> string" where
  "pad0 w s = replicate (w - length s) CHR ''0'' @ s"

definition fmt_u :: "nat \<Rightarrow> string" where
  "fmt_u n = show_base 10 dig_lower n"

definition fmt_d :: "int \<Rightarrow> string" where
  "fmt_d i = (if i < 0 then CHR ''-'' # fmt_u (nat (- i)) else fmt_u (nat i))"

definition fmt_x :: "nat \<Rightarrow> nat \<Rightarrow> string" where
  "fmt_x w n = pad0 w (show_base 16 dig_lower n)"

definition fmt_X :: "nat \<Rightarrow> nat \<Rightarrow> string" where
  "fmt_X w n = pad0 w (show_base 16 dig_upper n)"

text \<open>
  \<open>%.2f\<close>: the nearest multiple of one hundredth, ties to the even one, as the default
  rounding mode of the C library does it on the exact value.
\<close>

definition round_even :: "real \<Rightarrow> int" where
  "round_even x =
     (let f = \<lfloor>x\<rfloor>; r = x - of_int f in
      if r < 1/2 then f else if r > 1/2 then f + 1 else if even f then f else f + 1)"

definition fmt_f2 :: "real \<Rightarrow> string" where
  "fmt_f2 x =
     (let h = round_even (\<bar>x\<bar> * 100); n = nat h
      in (if x < 0 then ''-'' else '''') @ fmt_u (n div 100) @ ''.'' @ pad0 2 (fmt_u (n mod 100)))"

section \<open>Scanning\<close>

definition digit_val :: "char \<Rightarrow> nat option" where
  "digit_val c =
     (let n = of_char c :: nat in
      if 48 \<le> n \<and> n \<le> 57 then Some (n - 48)
      else if 97 \<le> n \<and> n \<le> 102 then Some (n - 87)
      else if 65 \<le> n \<and> n \<le> 70 then Some (n - 55)
      else None)"

definition is_dig :: "nat \<Rightarrow> char \<Rightarrow> bool" where
  "is_dig b c = (case digit_val c of Some d \<Rightarrow> d < b | None \<Rightarrow> False)"

fun scan_nat :: "nat \<Rightarrow> nat \<Rightarrow> string \<Rightarrow> nat \<times> string" where
  "scan_nat b acc [] = (acc, [])"
| "scan_nat b acc (c # cs) =
     (if is_dig b c then scan_nat b (acc * b + the (digit_val c)) cs else (acc, c # cs))"

fun scan_sign :: "string \<Rightarrow> bool \<times> string" where
  "scan_sign [] = (False, [])"
| "scan_sign (c # cs) =
     (if c = CHR ''-'' then (True, cs) else if c = CHR ''+'' then (False, cs) else (False, c # cs))"

definition ULONG_MAX :: nat where "ULONG_MAX = 2 ^ 64 - 1"

definition to_ulong :: "bool \<Rightarrow> nat \<Rightarrow> nat" where
  "to_ulong neg v = (if v > ULONG_MAX then ULONG_MAX
                     else if neg then (2 ^ 64 - v) mod 2 ^ 64 else v)"

definition to_long :: "bool \<Rightarrow> nat \<Rightarrow> int" where
  "to_long neg v = (if neg then max (- (2 ^ 63)) (- int v) else min (2 ^ 63 - 1) (int v))"

definition starts_dig :: "nat \<Rightarrow> string \<Rightarrow> bool" where
  "starts_dig b s = (case s of [] \<Rightarrow> False | c # _ \<Rightarrow> is_dig b c)"

text \<open>\<open>strtoul(s, NULL, 0)\<close>: decimal, or octal after \<open>0\<close>, or hexadecimal after \<open>0x\<close>.\<close>

definition strtoul :: "string \<Rightarrow> nat" where
  "strtoul s =
     (let (neg, t) = scan_sign (dropWhile isspace s) in
      case t of
        CHR ''0'' # x # u \<Rightarrow>
          if x = CHR ''x'' \<or> x = CHR ''X'' then to_ulong neg (fst (scan_nat 16 0 u))
          else to_ulong neg (fst (scan_nat 8 0 (x # u)))
      | _ \<Rightarrow> to_ulong neg (fst (scan_nat 10 0 t)))"

definition atoi :: "string \<Rightarrow> int" where
  "atoi s = (let (neg, t) = scan_sign (dropWhile isspace s)
             in to_s32 (to_long neg (fst (scan_nat 10 0 t))))"

text \<open>The conversions of \<open>scanf\<close> fail when no digit follows.\<close>

definition scan_lu :: "string \<Rightarrow> (nat \<times> string) option" where
  "scan_lu s = (let (neg, t) = scan_sign (dropWhile isspace s) in
     if starts_dig 10 t then (let (v, r) = scan_nat 10 0 t in Some (to_ulong neg v, r)) else None)"

definition scan_u :: "string \<Rightarrow> (u32 \<times> string) option" where
  "scan_u s = (case scan_lu s of None \<Rightarrow> None | Some (v, r) \<Rightarrow> Some (word_of_nat v, r))"

definition scan_d :: "string \<Rightarrow> (int \<times> string) option" where
  "scan_d s = (let (neg, t) = scan_sign (dropWhile isspace s) in
     if starts_dig 10 t then (let (v, r) = scan_nat 10 0 t in Some (to_s32 (to_long neg v), r))
     else None)"

text \<open>An ordinary character of a \<open>scanf\<close> format.\<close>

definition scan_char :: "char \<Rightarrow> string \<Rightarrow> string option" where
  "scan_char c s = (case s of [] \<Rightarrow> None | d # t \<Rightarrow> if d = c then Some t else None)"

section \<open>Digits\<close>

lemma less_16_cases:
  "(d::nat) < 16 \<Longrightarrow> d \<in> {0, 1, 2, 3, 4, 5, 6, 7, 8, 9, 10, 11, 12, 13, 14, 15}"
  unfolding insert_iff empty_iff by presburger

lemma digit_val_lower [simp]: "d < 16 \<Longrightarrow> digit_val (dig_lower d) = Some d"
  by (drule less_16_cases) (elim insertE, simp_all add: digit_val_def dig_lower_def)

lemma digit_val_upper [simp]: "d < 16 \<Longrightarrow> digit_val (dig_upper d) = Some d"
  by (drule less_16_cases) (elim insertE, simp_all add: digit_val_def dig_upper_def)

lemma digit_val_0 [simp]: "digit_val CHR ''0'' = Some 0"
  by (simp add: digit_val_def)

lemma digit_val_cases:
  assumes "digit_val c = Some d"
  shows "48 \<le> (of_char c :: nat)" "(of_char c :: nat) \<noteq> 60"
  using assms by (auto simp: digit_val_def Let_def split: if_splits)

text \<open>A digit is none of the characters the scanners treat specially.\<close>

lemma digit_not_special:
  assumes "is_dig b c"
  shows "\<not> isspace c" "c \<noteq> CHR ''-''" "c \<noteq> CHR ''+''" "c \<noteq> CHR ''.''" "c \<noteq> NUL"
    "c \<noteq> NL" "c \<noteq> CHR ''x''" "c \<noteq> CHR ''X''" "c \<noteq> CR" "c \<noteq> CHR ''#''"
  using assms by (auto simp: is_dig_def isspace_def digit_val_def Let_def split: if_splits)

section \<open>Round trips\<close>

definition all_digs :: "nat \<Rightarrow> string \<Rightarrow> bool" where
  "all_digs b s \<longleftrightarrow> (\<forall>c \<in> set s. is_dig b c)"

definition digs_val :: "nat \<Rightarrow> nat \<Rightarrow> string \<Rightarrow> nat" where
  "digs_val b acc s = foldl (\<lambda>a c. a * b + the (digit_val c)) acc s"

lemma all_digs_simps [simp]:
  "all_digs b []" "all_digs b (c # s) \<longleftrightarrow> is_dig b c \<and> all_digs b s"
  "all_digs b (s @ t) \<longleftrightarrow> all_digs b s \<and> all_digs b t"
  by (auto simp: all_digs_def)

lemma digs_val_simps [simp]:
  "digs_val b acc [] = acc" "digs_val b acc (c # s) = digs_val b (acc * b + the (digit_val c)) s"
  "digs_val b acc (s @ t) = digs_val b (digs_val b acc s) t"
  by (auto simp: digs_val_def)

lemma scan_nat_append:
  "all_digs b s \<Longrightarrow> scan_nat b acc (s @ t) = scan_nat b (digs_val b acc s) t"
  by (induction s arbitrary: acc) auto

lemma scan_nat_stop: "\<not> starts_dig b t \<Longrightarrow> scan_nat b acc t = (acc, t)"
  by (cases t) (auto simp: starts_dig_def)

lemma scan_nat_digs:
  "all_digs b s \<Longrightarrow> \<not> starts_dig b t \<Longrightarrow> scan_nat b acc (s @ t) = (digs_val b acc s, t)"
  by (simp add: scan_nat_append scan_nat_stop)

definition proper_digits :: "nat \<Rightarrow> (nat \<Rightarrow> char) \<Rightarrow> bool" where
  "proper_digits b dig \<longleftrightarrow> 2 \<le> b \<and> (\<forall>d<b. digit_val (dig d) = Some d)"

lemma proper_digits_instances [simp]:
  "proper_digits 10 dig_lower" "proper_digits 16 dig_lower" "proper_digits 16 dig_upper"
  by (auto simp: proper_digits_def)

lemma show_base_correct:
  "proper_digits b dig \<Longrightarrow> all_digs b (show_base b dig n) \<and> digs_val b 0 (show_base b dig n) = n"
proof (induction b dig n rule: show_base.induct)
  case (1 b dig n)
  then have b: "2 \<le> b" and dig: "\<And>d. d < b \<Longrightarrow> digit_val (dig d) = Some d"
    by (auto simp: proper_digits_def)
  have d: "digit_val (dig (n mod b)) = Some (n mod b)"
    using b dig by simp
  show ?case
  proof (cases "n < b")
    case True
    then show ?thesis
      using b d by (simp add: show_base.simps [of b dig n] is_dig_def)
  next
    case False
    then have "all_digs b (show_base b dig (n div b)) \<and> digs_val b 0 (show_base b dig (n div b)) = n div b"
      using "1" b by simp
    then show ?thesis
      using b d False by (simp add: show_base.simps [of b dig n] is_dig_def div_mult_mod_eq)
  qed
qed

lemma show_base_nonempty [simp]: "show_base b dig n \<noteq> []"
  by (subst show_base.simps) simp

lemma digs_val_zeros [simp]: "digs_val b 0 (replicate k CHR ''0'') = 0"
  by (induction k) auto

lemma all_digs_zeros [simp]: "0 < b \<Longrightarrow> all_digs b (replicate k CHR ''0'')"
  by (auto simp: all_digs_def is_dig_def)

lemma pad0_correct:
  assumes "0 < b" "all_digs b s"
  shows "all_digs b (pad0 w s)" "digs_val b 0 (pad0 w s) = digs_val b 0 s"
  using assms by (auto simp: pad0_def)

lemma fmt_u_digits [simp]: "all_digs 10 (fmt_u n)" "digs_val 10 0 (fmt_u n) = n" "fmt_u n \<noteq> []"
  using show_base_correct [OF proper_digits_instances(1), of n] by (auto simp: fmt_u_def)

lemma fmt_X_digits [simp]: "all_digs 16 (fmt_X w n)" "digs_val 16 0 (fmt_X w n) = n"
  using show_base_correct [OF proper_digits_instances(3), of n] by (auto simp: fmt_X_def pad0_correct)

lemma starts_dig_digs [simp]: "s \<noteq> [] \<Longrightarrow> all_digs b s \<Longrightarrow> starts_dig b (s @ t)"
  by (cases s) (auto simp: starts_dig_def)

lemma scan_prefix_digs:
  assumes "s \<noteq> []" "all_digs 10 s"
  shows "dropWhile isspace (s @ t) = s @ t" "scan_sign (s @ t) = (False, s @ t)"
proof -
  obtain c u where s: "s = c # u" and c: "is_dig 10 c"
    using assms by (cases s) auto
  show "dropWhile isspace (s @ t) = s @ t"
    using digit_not_special(1) [OF c] by (simp add: s)
  show "scan_sign (s @ t) = (False, s @ t)"
    using digit_not_special(2,3) [OF c] by (simp add: s)
qed

lemma show_base_head:
  "proper_digits b dig \<Longrightarrow> b \<le> n \<Longrightarrow> digit_val (hd (show_base b dig n)) \<noteq> Some 0"
proof (induction b dig n rule: show_base.induct)
  case (1 b dig n)
  then have b: "2 \<le> b" and dig: "\<And>d. d < b \<Longrightarrow> digit_val (dig d) = Some d"
    by (auto simp: proper_digits_def)
  show ?case
  proof (cases "n div b < b")
    case True
    then have "show_base b dig n = [dig (n div b), dig (n mod b)]"
      using b "1.prems" by (simp add: show_base.simps [of b dig n] show_base.simps [of b dig "n div b"])
    moreover have "n div b \<noteq> 0"
      using b "1.prems" by (simp add: div_greater_zero_iff)
    ultimately show ?thesis
      using dig [OF True] by simp
  next
    case False
    then show ?thesis
      using "1" b by (simp add: show_base.simps [of b dig n])
  qed
qed

text \<open>A decimal numeral starts with \<open>0\<close> only when it is \<open>0\<close>, so it is never read as octal.\<close>

lemma fmt_u_head: "fmt_u n = CHR ''0'' # t \<Longrightarrow> n = 0 \<and> t = []"
proof -
  assume eq: "fmt_u n = CHR ''0'' # t"
  have "n < 10"
    using show_base_head [OF proper_digits_instances(1), of n] eq
    by (cases "10 \<le> n") (auto simp: fmt_u_def)
  then have "fmt_u n = [dig_lower n]"
    by (simp add: fmt_u_def show_base.simps [of 10 dig_lower n])
  then have t: "t = []" and hd: "dig_lower n = CHR ''0''"
    using eq by auto
  have "Some n = Some 0"
    using digit_val_lower [of n] \<open>n < 10\<close> by (simp add: hd)
  then show ?thesis
    using t by simp
qed

lemma strtoul_fmt_u: "n \<le> ULONG_MAX \<Longrightarrow> strtoul (fmt_u n) = n"
proof -
  assume n: "n \<le> ULONG_MAX"
  have scan: "scan_nat 10 0 (fmt_u n) = (n, [])"
    using scan_nat_digs [of 10 "fmt_u n" "[]" 0] by (simp add: starts_dig_def)
  have pre: "scan_sign (dropWhile isspace (fmt_u n)) = (False, fmt_u n)"
    using scan_prefix_digs [of "fmt_u n" "[]"] by simp
  have "\<not> (\<exists>x u. fmt_u n = CHR ''0'' # x # u)"
    using fmt_u_head by blast
  then have "strtoul (fmt_u n) = to_ulong False (fst (scan_nat 10 0 (fmt_u n)))"
    unfolding strtoul_def pre by (auto split: list.splits char.splits bool.splits)
  then show ?thesis
    using n by (simp add: scan to_ulong_def)
qed

lemma strtoul_fmt_X: "n \<le> ULONG_MAX \<Longrightarrow> strtoul (''0x'' @ fmt_X w n) = n"
  using scan_nat_digs [of 16 "fmt_X w n" "[]" 0]
  by (simp add: strtoul_def isspace_def to_ulong_def starts_dig_def)

lemma scan_d_fmt_d:
  assumes "is_s32 i" "\<not> starts_dig 10 t"
  shows "scan_d (fmt_d i @ t) = Some (i, t)"
proof (cases "i < 0")
  case True
  then have "scan_nat 10 0 (fmt_u (nat (- i)) @ t) = (nat (- i), t)"
    using assms scan_nat_digs [of 10 "fmt_u (nat (- i))" t 0] by simp
  then show ?thesis
    using True assms by (simp add: scan_d_def fmt_d_def isspace_def to_long_def is_s32_def to_s32_id)
next
  case False
  then have "scan_nat 10 0 (fmt_u (nat i) @ t) = (nat i, t)"
    using assms scan_nat_digs [of 10 "fmt_u (nat i)" t 0] by simp
  then show ?thesis
    using False assms scan_prefix_digs [of "fmt_u (nat i)" t]
    by (simp add: scan_d_def fmt_d_def to_long_def is_s32_def to_s32_id)
qed

lemma atoi_fmt_d: "is_s32 i \<Longrightarrow> atoi (fmt_d i) = i"
proof -
  assume i: "is_s32 i"
  have "scan_d (fmt_d i @ []) = Some (i, [])"
    using i by (intro scan_d_fmt_d) (simp_all add: starts_dig_def)
  then show ?thesis
    by (auto simp: scan_d_def atoi_def Let_def split: prod.splits if_splits)
qed

lemma scan_u_fmt_u:
  assumes "n \<le> ULONG_MAX" "\<not> starts_dig 10 t"
  shows "scan_u (fmt_u n @ t) = Some (word_of_nat n, t)"
  using assms scan_nat_digs [of 10 "fmt_u n" t 0] scan_prefix_digs [of "fmt_u n" t]
  by (simp add: scan_u_def scan_lu_def to_ulong_def)

section \<open>Lengths and characters of formatted numbers\<close>

lemma show_base_length: "2 \<le> b \<Longrightarrow> n < b ^ k \<Longrightarrow> 0 < k \<Longrightarrow> length (show_base b dig n) \<le> k"
proof (induction b dig n arbitrary: k rule: show_base.induct)
  case (1 b dig n)
  show ?case
  proof (cases "n < b")
    case True
    then show ?thesis
      using "1.prems" by (simp add: show_base.simps [of b dig n])
  next
    case False
    then obtain j where k: "k = Suc j" "0 < j"
      using "1.prems" by (cases k; cases "k - 1") auto
    have "n div b < b ^ j"
      using "1.prems" k by (simp add: less_mult_imp_div_less mult.commute)
    then have "length (show_base b dig (n div b)) \<le> j"
      using "1" False k by simp
    then show ?thesis
      using False k "1.prems" by (simp add: show_base.simps [of b dig n])
  qed
qed

lemma fmt_u_length: "n < 10 ^ k \<Longrightarrow> 0 < k \<Longrightarrow> length (fmt_u n) \<le> k"
  by (simp add: fmt_u_def show_base_length)

lemma fmt_u_length_pos [simp]: "0 < length (fmt_u n)"
  by (simp add: fmt_u_def)

lemma fmt_d_length: "is_s32 i \<Longrightarrow> length (fmt_d i) \<le> 11"
proof -
  assume i: "is_s32 i"
  then have "nat (- i) < 10 ^ 10" "nat i < 10 ^ 10"
    by (auto simp: is_s32_def)
  then have "length (fmt_u (nat (- i))) \<le> 10" "length (fmt_u (nat i)) \<le> 10"
    by (auto intro: fmt_u_length)
  then show ?thesis
    by (simp add: fmt_d_def)
qed

lemma fmt_X_length: "n < 16 ^ k \<Longrightarrow> 0 < k \<Longrightarrow> length (fmt_X k n) = k"
  using show_base_length [of 16 n k dig_upper] by (simp add: fmt_X_def pad0_def)

lemma all_digs_clean:
  assumes "all_digs b s"
  shows "NUL \<notin> set s" "NL \<notin> set s" "CR \<notin> set s"
  using assms by (auto simp: all_digs_def dest: digit_not_special(5,6,9))

lemma fmt_u_clean [simp]: "NUL \<notin> set (fmt_u n)" "NL \<notin> set (fmt_u n)" "CR \<notin> set (fmt_u n)"
  using all_digs_clean [of 10 "fmt_u n"] by auto

lemma fmt_X_clean [simp]: "NUL \<notin> set (fmt_X w n)" "NL \<notin> set (fmt_X w n)" "CR \<notin> set (fmt_X w n)"
  using all_digs_clean [of 16 "fmt_X w n"] by auto

lemma fmt_d_clean [simp]: "NUL \<notin> set (fmt_d i)" "NL \<notin> set (fmt_d i)" "CR \<notin> set (fmt_d i)"
  by (auto simp: fmt_d_def)

lemma fmt_d_nonempty [simp]: "fmt_d i \<noteq> []"
  by (simp add: fmt_d_def)

end
