(* ===== verification/PNet_Api.thy ===== *)
theory PNet_Api
  imports CNum
begin

text \<open>
  The interface of the p-net stack as io_device.c uses it, and the mock of it under
  tests/mock. The real stack is a git submodule that is not part of the repository, so a
  stack is a parameter: the record \<open>pnet_api\<close> of the functions the device calls, over an
  arbitrary type of stack states. A call of \<open>pnet_handle_periodic\<close> returns the callbacks
  the stack makes while it runs, in order. The mock is one value of this type.
\<close>

section \<open>Types of the API\<close>

datatype pnet_event = PNET_EVENT_ABORT | PNET_EVENT_STARTUP | PNET_EVENT_PRMEND | PNET_EVENT_APPLRDY
  | PNET_EVENT_DATA | PNET_EVENT_OTHER int

datatype pnet_submodule_dir = PNET_DIR_NO_IO | PNET_DIR_INPUT | PNET_DIR_OUTPUT | PNET_DIR_IO

definition PNET_IOXS_BAD :: u8 where "PNET_IOXS_BAD = 0x00"
definition PNET_IOXS_GOOD :: u8 where "PNET_IOXS_GOOD = 0x80"

record pnet_device_id =
  vendor_id_high :: u8
  vendor_id_low :: u8
  device_id_high :: u8
  device_id_low :: u8

record pnet_im_0 =
  im_vendor_id_hi :: u8
  im_vendor_id_lo :: u8
  im_order_id :: buf
  im_serial_number :: buf
  im_hardware_revision :: u16
  im_sw_revision_prefix :: char
  im_sw_revision_functional_enhancement :: u8
  im_sw_revision_bug_fix :: u8
  im_sw_revision_internal_change :: u8
  im_revision_counter :: u16
  im_profile_id :: u16
  im_profile_specific_type :: u16
  im_version_major :: u16
  im_version_minor :: u16
  im_supported :: u16

record pnal_cfg =
  pnal_if_name :: buf
  pnal_use_dhcp :: bool
  pnal_ip_addr :: u32
  pnal_netmask :: u32
  pnal_gateway :: u32

type_synonym quad = "u8 \<times> u8 \<times> u8 \<times> u8"

text \<open>The interface part differs between the mock and the real API.\<close>

datatype pnet_if_cfg =
    MockIf (netif_name: buf) (eth_addr: "u8 list")
  | RealIf (main_netif_name: string) (ip_quad: quad) (mask_quad: quad) (gateway_quad: quad) (dhcp_enable: bool)

record pnet_cfg =
  p_tick_us :: u32
  im_0_data :: pnet_im_0
  p_device_id :: pnet_device_id
  oem_device_id :: pnet_device_id
  p_station_name :: buf
  p_product_name :: buf
  min_device_interval :: u16
  p_pnal_cfg :: pnal_cfg
  p_send_hello :: bool
  num_physical_ports :: u8
  use_qualified_diagnosis :: bool
  if_cfg :: pnet_if_cfg
  p_file_directory :: buf

text \<open>The sizes of the character arrays of the configuration (mock header).\<close>

definition PNET_PRODUCT_NAME_MAX_LEN :: nat where "PNET_PRODUCT_NAME_MAX_LEN = 25"
definition PNET_ORDER_ID_MAX_LEN :: nat where "PNET_ORDER_ID_MAX_LEN = 20"
definition PNET_SERIAL_NUMBER_MAX_LEN :: nat where "PNET_SERIAL_NUMBER_MAX_LEN = 16"
definition PNET_STATION_NAME_MAX_SIZE :: nat where "PNET_STATION_NAME_MAX_SIZE = 241"
definition PNET_MAX_DIRECTORYPATH_SIZE :: nat where "PNET_MAX_DIRECTORYPATH_SIZE = 240"
definition PNET_INTERFACE_NAME_MAX_SIZE :: nat where "PNET_INTERFACE_NAME_MAX_SIZE = 16"

lemmas pnet_size_defs = PNET_PRODUCT_NAME_MAX_LEN_def PNET_ORDER_ID_MAX_LEN_def
  PNET_SERIAL_NUMBER_MAX_LEN_def PNET_STATION_NAME_MAX_SIZE_def PNET_MAX_DIRECTORYPATH_SIZE_def
  PNET_INTERFACE_NAME_MAX_SIZE_def

section \<open>Callbacks\<close>

text \<open>What a stack can ask of the application, with the arguments the callback receives.\<close>

datatype mock_callback =
    M_State u32 pnet_event
  | M_Connect u32
  | M_Release u32
  | M_Dcontrol u32 u8
  | M_Ccontrol u32 u8
  | M_Write u32 u32 u16 u16 u16 u16
  | M_Read u32 u32 u16 u16 u16
  | M_ExpModule u32 u16 u32
  | M_ExpSubmodule u32 u16 u16 u32 u32
  | M_NewDataStatus u32 u8
  | M_AlarmInd u32 u32 u16 u16 u16
  | M_AlarmCnf u32
  | M_AlarmAckCnf u32
  | M_Reset bool
  | M_SignalLed
  | M_SmReleased u32 u32 u16 u16

datatype real_callback =
    R_State u32 pnet_event
  | R_Connect u32
  | R_Release u32
  | R_Dcontrol u32 int
  | R_Ccontrol u32
  | R_Write u32 u32 u16 u16 u16 u16 u16
  | R_Read u32 u32 u16 u16 u16 u16
  | R_ExpModule u32 u16 u32
  | R_ExpSubmodule u32 u16 u16 u32 u32 "(int \<times> u16 \<times> u16) option"
  | R_NewDataStatus u32 u32 u8 u8
  | R_AlarmInd u32 "(u16 \<times> u16 \<times> u16) option" u16 u16
  | R_AlarmCnf u32
  | R_AlarmAckCnf u32 int
  | R_Reset bool u16
  | R_SignalLed bool
  | R_SmReleased u32 u32 u16 u16

datatype callback = MockCb mock_callback | RealCb real_callback

section \<open>A stack\<close>

text \<open>
  The data arguments are the caller's buffers; a stack that reads or writes outside them
  faults. \<open>api_output_get\<close> returns the result, the caller's buffer, the stored length and
  the provider status. \<open>api_build\<close> says which header the program is compiled against, and
  \<open>api_sizes\<close> holds the sizes of the character arrays that header declares.
\<close>

datatype pnet_build = USE_MOCK_PNET | USE_REAL_PNET

record cfg_sizes =
  sz_product_name :: nat
  sz_station_name :: nat
  sz_order_id :: nat
  sz_serial_number :: nat
  sz_if_name :: nat
  sz_netif_name :: nat
  sz_file_directory :: nat

record 'n pnet_api =
  api_build :: pnet_build
  api_sizes :: cfg_sizes
  api_init :: "pnet_cfg \<Rightarrow> 'n option"
  api_periodic :: "'n \<Rightarrow> 'n \<times> callback list"
  api_plug_module :: "'n \<Rightarrow> u32 \<Rightarrow> u16 \<Rightarrow> u32 \<Rightarrow> int \<times> 'n"
  api_plug_submodule ::
    "'n \<Rightarrow> u32 \<Rightarrow> u16 \<Rightarrow> u16 \<Rightarrow> u32 \<Rightarrow> u32 \<Rightarrow> pnet_submodule_dir \<Rightarrow> u16 \<Rightarrow> u16 \<Rightarrow> int \<times> 'n"
  api_input_set :: "'n \<Rightarrow> u32 \<Rightarrow> u16 \<Rightarrow> u16 \<Rightarrow> u8 list \<Rightarrow> u16 \<Rightarrow> u8 \<Rightarrow> fault + (int \<times> 'n)"
  api_output_get :: "'n \<Rightarrow> u32 \<Rightarrow> u16 \<Rightarrow> u16 \<Rightarrow> u8 list \<Rightarrow> u16 \<Rightarrow> u8 \<Rightarrow> fault + (int \<times> u8 list \<times> u16 \<times> u8)"
  api_factory_reset :: "'n \<Rightarrow> int \<times> 'n"
  api_show :: "'n \<Rightarrow> nat \<Rightarrow> string"

section \<open>The mock stack\<close>

definition MOCK_MAX_SUBMODULES :: nat where "MOCK_MAX_SUBMODULES = 32"

record mock_submodule =
  sm_api :: u32
  sm_slot :: u16
  sm_subslot :: u16
  sm_module_ident :: u32
  sm_submodule_ident :: u32
  sm_direction :: pnet_submodule_dir
  sm_input_len :: u16
  sm_output_len :: u16
  sm_input_data :: "u8 list"
  sm_output_data :: "u8 list"
  sm_input_iops :: u8
  sm_output_iops :: u8
  sm_plugged :: bool

record mock_pnet =
  net_cfg :: pnet_cfg
  initialized :: bool
  primary :: bool
  next_arep :: u32
  tick_count :: u32
  submodules :: "mock_submodule list"
  submodule_count :: nat

text \<open>A submodule slot after \<open>calloc\<close>.\<close>

definition zero_submodule :: mock_submodule where
  "zero_submodule = \<lparr>sm_api = 0, sm_slot = 0, sm_subslot = 0, sm_module_ident = 0, sm_submodule_ident = 0,
     sm_direction = PNET_DIR_NO_IO, sm_input_len = 0, sm_output_len = 0,
     sm_input_data = replicate 256 0, sm_output_data = replicate 256 0,
     sm_input_iops = PNET_IOXS_BAD, sm_output_iops = PNET_IOXS_BAD, sm_plugged = False\<rparr>"

text \<open>\<open>pnet_init\<close>; memory is assumed to be available, so \<open>calloc\<close> succeeds.\<close>

definition mock_init :: "pnet_cfg option \<Rightarrow> mock_pnet option" where
  "mock_init cfg = (case cfg of
       None \<Rightarrow> None
     | Some c \<Rightarrow> Some \<lparr>net_cfg = c, initialized = True, primary = True, next_arep = 1, tick_count = 0,
         submodules = replicate MOCK_MAX_SUBMODULES zero_submodule, submodule_count = 0\<rparr>)"

definition mock_handle_periodic :: "mock_pnet option \<Rightarrow> mock_pnet option" where
  "mock_handle_periodic net = (case net of
       None \<Rightarrow> None
     | Some n \<Rightarrow> if \<not> initialized n then Some n else Some (n\<lparr>tick_count := tick_count n + 1\<rparr>))"

definition mock_application_ready :: "mock_pnet option \<Rightarrow> u32 \<Rightarrow> int" where
  "mock_application_ready net arep = (case net of
       None \<Rightarrow> -1 | Some n \<Rightarrow> if \<not> initialized n then -1 else 0)"

definition mock_plug_module :: "mock_pnet option \<Rightarrow> u32 \<Rightarrow> u16 \<Rightarrow> u32 \<Rightarrow> int" where
  "mock_plug_module net a slot ident = (case net of
       None \<Rightarrow> -1 | Some n \<Rightarrow> if \<not> initialized n then -1 else 0)"

definition mock_plug_submodule ::
    "mock_pnet option \<Rightarrow> u32 \<Rightarrow> u16 \<Rightarrow> u16 \<Rightarrow> u32 \<Rightarrow> u32 \<Rightarrow> pnet_submodule_dir \<Rightarrow> u16 \<Rightarrow> u16 \<Rightarrow>
     int \<times> mock_pnet option" where
  "mock_plug_submodule net a slot subslot mi si dir li lo = (case net of
       None \<Rightarrow> (-1, None)
     | Some n \<Rightarrow>
         if \<not> initialized n then (-1, net)
         else if submodule_count n \<ge> MOCK_MAX_SUBMODULES then (-1, net)
         else let sm = (submodules n ! submodule_count n)
                \<lparr>sm_api := a, sm_slot := slot, sm_subslot := subslot, sm_module_ident := mi,
                 sm_submodule_ident := si, sm_direction := dir, sm_input_len := li, sm_output_len := lo,
                 sm_input_iops := PNET_IOXS_GOOD, sm_output_iops := PNET_IOXS_GOOD, sm_plugged := True\<rparr>
              in (0, Some (n\<lparr>submodules := (submodules n)[submodule_count n := sm],
                            submodule_count := submodule_count n + 1\<rparr>)))"

definition mock_pull_module :: "mock_pnet option \<Rightarrow> u32 \<Rightarrow> u16 \<Rightarrow> int" where
  "mock_pull_module net a slot = (if net = None then -1 else 0)"

text \<open>The search loops: the first slot in use that matches.\<close>

definition sm_matches :: "u32 \<Rightarrow> u16 \<Rightarrow> u16 \<Rightarrow> mock_submodule \<Rightarrow> bool" where
  "sm_matches a slot subslot sm \<longleftrightarrow> sm_api sm = a \<and> sm_slot sm = slot \<and> sm_subslot sm = subslot"

definition find_sm :: "(mock_submodule \<Rightarrow> bool) \<Rightarrow> mock_pnet \<Rightarrow> nat option" where
  "find_sm P n = List.find (\<lambda>i. P (submodules n ! i)) [0..<submodule_count n]"

definition mock_pull_submodule :: "mock_pnet option \<Rightarrow> u32 \<Rightarrow> u16 \<Rightarrow> u16 \<Rightarrow> int \<times> mock_pnet option" where
  "mock_pull_submodule net a slot subslot = (case net of
       None \<Rightarrow> (-1, None)
     | Some n \<Rightarrow>
         (case find_sm (sm_matches a slot subslot) n of
            None \<Rightarrow> (-1, net)
          | Some i \<Rightarrow> (0, Some (n\<lparr>submodules := (submodules n)[i := (submodules n ! i)\<lparr>sm_plugged := False\<rparr>]\<rparr>))))"

definition mock_input_set ::
    "mock_pnet option \<Rightarrow> u32 \<Rightarrow> u16 \<Rightarrow> u16 \<Rightarrow> u8 list option \<Rightarrow> u8 \<Rightarrow> fault + (int \<times> mock_pnet option)" where
  "mock_input_set net a slot subslot data iops = (case (net, data) of
       (Some n, Some d) \<Rightarrow>
         (case find_sm (\<lambda>sm. sm_matches a slot subslot sm \<and> sm_plugged sm) n of
            None \<Rightarrow> Inr (-1, net)
          | Some i \<Rightarrow>
              let sm = submodules n ! i;
                  len = (if sm_input_len sm < 256 then unat (sm_input_len sm) else 256)
              in if length d < len then Inl OutOfBounds
                 else Inr (0, Some (n\<lparr>submodules := (submodules n)[i :=
                   sm\<lparr>sm_input_data := take len d @ drop len (sm_input_data sm), sm_input_iops := iops\<rparr>]\<rparr>)))
     | _ \<Rightarrow> Inr (-1, net))"

definition mock_input_get_iocs :: "mock_pnet option \<Rightarrow> u8 option \<Rightarrow> int \<times> u8 option" where
  "mock_input_get_iocs net iocs =
     (if net = None \<or> iocs = None then (-1, iocs) else (0, Some PNET_IOXS_GOOD))"

definition mock_output_get ::
    "mock_pnet option \<Rightarrow> u32 \<Rightarrow> u16 \<Rightarrow> u16 \<Rightarrow> u8 list option \<Rightarrow> u16 option \<Rightarrow> u8 option \<Rightarrow>
     fault + (int \<times> u8 list option \<times> u16 option \<times> u8 option)" where
  "mock_output_get net a slot subslot data data_len iops = (case (net, data, data_len, iops) of
       (Some n, Some d, Some l, Some _) \<Rightarrow>
         (case find_sm (\<lambda>sm. sm_matches a slot subslot sm \<and> sm_plugged sm) n of
            None \<Rightarrow> Inr (-1, data, data_len, iops)
          | Some i \<Rightarrow>
              let sm = submodules n ! i;
                  len = (if sm_output_len sm < l then sm_output_len sm else l)
              in if length d < unat len \<or> length (sm_output_data sm) < unat len then Inl OutOfBounds
                 else Inr (0, Some (take (unat len) (sm_output_data sm) @ drop (unat len) d), Some len,
                           Some (sm_output_iops sm)))
     | _ \<Rightarrow> Inr (-1, data, data_len, iops))"

definition mock_set_primary_state :: "mock_pnet option \<Rightarrow> bool \<Rightarrow> int \<times> mock_pnet option" where
  "mock_set_primary_state net p = (case net of
       None \<Rightarrow> (-1, None) | Some n \<Rightarrow> (0, Some (n\<lparr>primary := p\<rparr>)))"

definition mock_ar_abort :: "mock_pnet option \<Rightarrow> u32 \<Rightarrow> int" where
  "mock_ar_abort net arep = (if net = None then -1 else 0)"

definition mock_factory_reset :: "mock_pnet option \<Rightarrow> int" where
  "mock_factory_reset net = (if net = None then -1 else 0)"

definition mock_show :: "mock_pnet option \<Rightarrow> nat \<Rightarrow> string" where
  "mock_show net level = (case net of
       None \<Rightarrow> ''p-net: not initialized'' @ [NL]
     | Some n \<Rightarrow>
         if level \<ge> 1 then
           ''p-net: initialized, product='' @ cstr (p_product_name (net_cfg n)) @ '', station='' @
             cstr (p_station_name (net_cfg n)) @ [NL] @
           ''p-net: submodules='' @ fmt_d (int (submodule_count n)) @ '', tick_count='' @
             fmt_u (unat (tick_count n)) @ [NL]
         else [])"

definition mock_remove_data_files :: "string option \<Rightarrow> int" where
  "mock_remove_data_files dir = 0"

definition mock_sizes :: cfg_sizes where
  "mock_sizes = \<lparr>sz_product_name = PNET_PRODUCT_NAME_MAX_LEN + 1, sz_station_name = PNET_STATION_NAME_MAX_SIZE,
     sz_order_id = PNET_ORDER_ID_MAX_LEN + 1, sz_serial_number = PNET_SERIAL_NUMBER_MAX_LEN + 1,
     sz_if_name = PNET_INTERFACE_NAME_MAX_SIZE, sz_netif_name = PNET_INTERFACE_NAME_MAX_SIZE,
     sz_file_directory = PNET_MAX_DIRECTORYPATH_SIZE\<rparr>"

text \<open>The mock as a stack: the handle the device passes is never null.\<close>

definition mock_api :: "mock_pnet pnet_api" where
  "mock_api = \<lparr>
     api_build = USE_MOCK_PNET,
     api_sizes = mock_sizes,
     api_init = (\<lambda>c. mock_init (Some c)),
     api_periodic = (\<lambda>n. (the (mock_handle_periodic (Some n)), [])),
     api_plug_module = (\<lambda>n a s i. (mock_plug_module (Some n) a s i, n)),
     api_plug_submodule = (\<lambda>n a s ss mi si dir li lo.
       case mock_plug_submodule (Some n) a s ss mi si dir li lo of (r, n') \<Rightarrow> (r, the n')),
     api_input_set = (\<lambda>n a s ss d len iops.
       bindE (mock_input_set (Some n) a s ss (Some d) iops) (\<lambda>(r, n'). Inr (r, the n'))),
     api_output_get = (\<lambda>n a s ss d len iops.
       bindE (mock_output_get (Some n) a s ss (Some d) (Some len) (Some iops))
         (\<lambda>(r, d', l', i'). Inr (r, the d', the l', the i'))),
     api_factory_reset = (\<lambda>n. (mock_factory_reset (Some n), n)),
     api_show = (\<lambda>n level. mock_show (Some n) level)\<rparr>"

section \<open>The contract of a stack\<close>

text \<open>
  What io_device.c relies on: the stack keeps an invariant of its own, and a read of output
  data stays inside the caller's buffer and reports at most the length it was given.
\<close>

locale pnet_stack =
  fixes api :: "'n pnet_api"
    and stack_ok :: "'n \<Rightarrow> bool"
  assumes init_ok: "api_init api c = Some n \<Longrightarrow> stack_ok n"
    and periodic_ok: "stack_ok n \<Longrightarrow> stack_ok (fst (api_periodic api n))"
    and plug_module_ok: "stack_ok n \<Longrightarrow> stack_ok (snd (api_plug_module api n a s i))"
    and plug_submodule_ok: "stack_ok n \<Longrightarrow> unat li \<le> 1 \<Longrightarrow> unat lo \<le> 1 \<Longrightarrow>
      stack_ok (snd (api_plug_submodule api n a s ss mi si dir li lo))"
    and input_set_ok: "stack_ok n \<Longrightarrow> api_input_set api n a s ss d len iops = Inr (r, n') \<Longrightarrow> stack_ok n'"
    and output_get_ok: "stack_ok n \<Longrightarrow> unat len \<le> length d \<Longrightarrow>
      \<exists>r d' len' iops'. api_output_get api n a s ss d len iops = Inr (r, d', len', iops') \<and>
        length d' = length d \<and> unat len' \<le> unat len"

text \<open>
  A stack that also accepts input data: from a caller that passes at least one byte, the
  size of the input submodule the program plugs, it never reads outside the buffer.
\<close>

locale pnet_stack_total = pnet_stack +
  assumes input_set_total: "stack_ok n \<Longrightarrow> d \<noteq> [] \<Longrightarrow> unat len \<le> length d \<Longrightarrow>
    \<exists>r n'. api_input_set api n a s ss d len iops = Inr (r, n')"

section \<open>The mock fulfils the contract\<close>

text \<open>
  The mock copies \<open>output_len\<close> bytes out of an array of 256 and \<open>input_len\<close> bytes out of the
  caller's buffer, whose length it does not know. It is safe while only short submodules are
  plugged; io_device.c plugs lengths of at most 1.
\<close>

definition sm_ok :: "mock_submodule \<Rightarrow> bool" where
  "sm_ok sm \<longleftrightarrow> length (sm_input_data sm) = 256 \<and> length (sm_output_data sm) = 256 \<and>
     unat (sm_input_len sm) \<le> 1 \<and> unat (sm_output_len sm) \<le> 1"

definition mock_ok :: "mock_pnet \<Rightarrow> bool" where
  "mock_ok n \<longleftrightarrow> initialized n \<and> length (submodules n) = MOCK_MAX_SUBMODULES \<and>
     submodule_count n \<le> MOCK_MAX_SUBMODULES \<and> list_all sm_ok (submodules n)"

lemma find_sm_less: "find_sm P n = Some i \<Longrightarrow> i < submodule_count n \<and> P (submodules n ! i)"
  by (auto simp: find_sm_def find_Some_iff)

lemma mock_ok_nth: "mock_ok n \<Longrightarrow> i < MOCK_MAX_SUBMODULES \<Longrightarrow> sm_ok (submodules n ! i)"
  by (simp add: mock_ok_def list_all_length)

lemma mock_ok_update:
  "mock_ok n \<Longrightarrow> sm_ok sm \<Longrightarrow> mock_ok (n\<lparr>submodules := (submodules n)[i := sm]\<rparr>)"
  by (auto simp: mock_ok_def list_all_iff dest: set_update_subset_insert [THEN subsetD])

lemma mock_init_ok: "mock_init c = Some n \<Longrightarrow> mock_ok n"
  by (auto simp: mock_init_def mock_ok_def sm_ok_def zero_submodule_def list_all_iff split: option.splits)

lemma mock_periodic_ok: "mock_ok n \<Longrightarrow> mock_handle_periodic (Some n) = Some (n\<lparr>tick_count := tick_count n + 1\<rparr>)"
  by (simp add: mock_handle_periodic_def mock_ok_def)

lemma mock_plug_ok:
  assumes "mock_ok n" "unat li \<le> 1 \<and> unat lo \<le> 1" "mock_plug_submodule (Some n) a s ss mi si dir li lo = (r, Some n')"
  shows "mock_ok n'"
proof -
  let ?sm = "(submodules n ! submodule_count n)
                \<lparr>sm_api := a, sm_slot := s, sm_subslot := ss, sm_module_ident := mi,
                 sm_submodule_ident := si, sm_direction := dir, sm_input_len := li, sm_output_len := lo,
                 sm_input_iops := PNET_IOXS_GOOD, sm_output_iops := PNET_IOXS_GOOD, sm_plugged := True\<rparr>"
  show ?thesis
  proof (cases "submodule_count n < MOCK_MAX_SUBMODULES")
    case True
    then have "sm_ok ?sm"
      using assms(2) mock_ok_nth [OF assms(1) True] by (simp add: sm_ok_def)
    then have "mock_ok (n\<lparr>submodules := (submodules n)[submodule_count n := ?sm]\<rparr>)"
      using assms(1) by (intro mock_ok_update)
    then show ?thesis
      using assms True by (auto simp: mock_plug_submodule_def mock_ok_def Let_def)
  next
    case False
    then show ?thesis
      using assms by (auto simp: mock_plug_submodule_def split: if_splits)
  qed
qed

lemma mock_plug_handle: "\<exists>r n'. mock_plug_submodule (Some n) a s ss mi si dir li lo = (r, Some n')"
  by (auto simp: mock_plug_submodule_def Let_def)

lemma mock_input_set_ok:
  assumes "mock_ok n" "mock_input_set (Some n) a s ss (Some d) iops = Inr (r, n')"
  shows "\<exists>m. n' = Some m \<and> mock_ok m"
proof (cases "find_sm (\<lambda>sm. sm_matches a s ss sm \<and> sm_plugged sm) n")
  case None
  then show ?thesis
    using assms by (auto simp: mock_input_set_def)
next
  case (Some i)
  then have i: "i < MOCK_MAX_SUBMODULES"
    using assms(1) find_sm_less by (fastforce simp: mock_ok_def)
  have len: "(if sm_input_len sm < 256 then unat (sm_input_len sm) else 256) \<le> 256" for sm
    by (auto simp: word_less_nat_alt)
  show ?thesis
    using assms Some mock_ok_nth [OF assms(1) i] len [of "submodules n ! i"]
    by (auto simp: mock_input_set_def Let_def sm_ok_def split: if_splits intro!: mock_ok_update)
qed

lemma mock_output_get_ok:
  assumes "mock_ok n" "unat len \<le> length d"
  shows "\<exists>r d' len' iops'. mock_output_get (Some n) a s ss (Some d) (Some len) (Some iops) =
           Inr (r, Some d', Some len', Some iops') \<and> length d' = length d \<and> unat len' \<le> unat len"
proof (cases "find_sm (\<lambda>sm. sm_matches a s ss sm \<and> sm_plugged sm) n")
  case None
  then show ?thesis
    using assms by (simp add: mock_output_get_def)
next
  case (Some i)
  then have i: "i < MOCK_MAX_SUBMODULES"
    using assms(1) find_sm_less by (fastforce simp: mock_ok_def)
  then show ?thesis
    using assms Some mock_ok_nth [OF assms(1) i]
    by (auto simp: mock_output_get_def Let_def sm_ok_def not_less word_le_nat_alt word_less_nat_alt)
qed

lemma mock_input_set_total:
  assumes "mock_ok n" "d \<noteq> []"
  shows "\<exists>r n'. mock_input_set (Some n) a s ss (Some d) iops = Inr (r, n')"
proof (cases "find_sm (\<lambda>sm. sm_matches a s ss sm \<and> sm_plugged sm) n")
  case None
  then show ?thesis
    by (simp add: mock_input_set_def)
next
  case (Some i)
  then have "i < MOCK_MAX_SUBMODULES"
    using assms(1) find_sm_less by (fastforce simp: mock_ok_def)
  then have "unat (sm_input_len (submodules n ! i)) \<le> length d"
    using mock_ok_nth [OF assms(1)] assms(2) by (cases d) (auto simp: sm_ok_def intro: order_trans)
  then show ?thesis
    using Some by (auto simp: mock_input_set_def Let_def word_less_nat_alt)
qed

interpretation mock: pnet_stack_total mock_api mock_ok
proof
  fix n :: mock_pnet and a s ss mi si dir and li lo :: u16
  assume "mock_ok n" "unat li \<le> 1" "unat lo \<le> 1"
  then show "mock_ok (snd (api_plug_submodule mock_api n a s ss mi si dir li lo))"
    using mock_plug_handle [of n a s ss mi si dir li lo] mock_plug_ok by (auto simp: mock_api_def)
next
  fix n n' :: mock_pnet and a s ss d len iops r
  assume "mock_ok n" "api_input_set mock_api n a s ss d len iops = Inr (r, n')"
  then show "mock_ok n'"
    using mock_input_set_ok by (fastforce simp: mock_api_def bindE_Inr_iff)
next
  fix n :: mock_pnet and len d a s ss iops
  assume "mock_ok n" "unat (len :: u16) \<le> length (d :: u8 list)"
  then show "\<exists>r d' len' iops'. api_output_get mock_api n a s ss d len iops = Inr (r, d', len', iops') \<and>
        length d' = length d \<and> unat len' \<le> unat len"
    using mock_output_get_ok [of n len d a s ss iops] by (auto simp: mock_api_def)
next
  fix n :: mock_pnet and len a s ss iops and d :: "u8 list"
  assume "mock_ok n" "d \<noteq> []"
  then show "\<exists>r n'. api_input_set mock_api n a s ss d len iops = Inr (r, n')"
    using mock_input_set_total [of n d a s ss iops] by (auto simp: mock_api_def)
qed (auto simp: mock_api_def mock_periodic_ok dest: mock_init_ok, simp add: mock_ok_def)

end
