(* ===== verification/Net_Addr.thy ===== *)
theory Net_Addr
  imports CNum
begin

text \<open>
  IPv4 addresses: the dotted-quad printers and parsers of the program (\<open>parse_ip\<close> and
  \<open>format_ip\<close> of app_config.c, \<open>ip_to_str\<close> of main.c and of security_policy.c) and of
  the C library (\<open>inet_pton\<close>, \<open>inet_ntop\<close>, \<open>htonl\<close>, \<open>ntohl\<close>). An address is a 32-bit
  word; the octets of an address in the memory of the machine depend on its byte order,
  which is a parameter.
\<close>

datatype endianness = LittleEndian | BigEndian

section \<open>Octets\<close>

definition octet :: "nat \<Rightarrow> u32 \<Rightarrow> u32" where
  "octet sh ip = (drop_bit sh ip) AND 0xFF"

definition of_octets :: "u32 \<Rightarrow> u32 \<Rightarrow> u32 \<Rightarrow> u32 \<Rightarrow> u32" where
  "of_octets a b c d = push_bit 24 a OR push_bit 16 b OR push_bit 8 c OR d"

text \<open>The printed form of an address, most significant octet first.\<close>

definition dotted :: "u32 \<Rightarrow> u32 \<Rightarrow> u32 \<Rightarrow> u32 \<Rightarrow> string" where
  "dotted a b c d =
     fmt_u (unat a) @ ''.'' @ fmt_u (unat b) @ ''.'' @ fmt_u (unat c) @ ''.'' @ fmt_u (unat d)"

definition dotted_quad :: "u32 \<Rightarrow> string" where
  "dotted_quad ip = dotted (octet 24 ip) (octet 16 ip) (octet 8 ip) (octet 0 ip)"

text \<open>
  The bytes of a word as they lie in memory, and the conversion between host and network
  byte order.
\<close>

definition bswap32 :: "u32 \<Rightarrow> u32" where
  "bswap32 x = of_octets (octet 0 x) (octet 8 x) (octet 16 x) (octet 24 x)"

fun htonl :: "endianness \<Rightarrow> u32 \<Rightarrow> u32" where
  "htonl LittleEndian x = bswap32 x"
| "htonl BigEndian x = x"

abbreviation ntohl :: "endianness \<Rightarrow> u32 \<Rightarrow> u32" where
  "ntohl \<equiv> htonl"

section \<open>parse_ip and format_ip of app_config.c\<close>

definition scan_quad :: "string \<Rightarrow> (u32 \<times> u32 \<times> u32 \<times> u32) option" where
  "scan_quad s =
     (case scan_u s of None \<Rightarrow> None | Some (a, s1) \<Rightarrow>
     (case scan_char CHR ''.'' s1 of None \<Rightarrow> None | Some s2 \<Rightarrow>
     (case scan_u s2 of None \<Rightarrow> None | Some (b, s3) \<Rightarrow>
     (case scan_char CHR ''.'' s3 of None \<Rightarrow> None | Some s4 \<Rightarrow>
     (case scan_u s4 of None \<Rightarrow> None | Some (c, s5) \<Rightarrow>
     (case scan_char CHR ''.'' s5 of None \<Rightarrow> None | Some s6 \<Rightarrow>
     (case scan_u s6 of None \<Rightarrow> None | Some (d, s7) \<Rightarrow> Some (a, b, c, d))))))))"

definition parse_ip :: "string \<Rightarrow> u32" where
  "parse_ip s =
     (case scan_quad s of
        None \<Rightarrow> 0
      | Some (a, b, c, d) \<Rightarrow>
          if a > 255 \<or> b > 255 \<or> c > 255 \<or> d > 255 then 0 else of_octets a b c d)"

definition format_ip :: "u32 \<Rightarrow> buf \<Rightarrow> nat \<Rightarrow> fault + buf" where
  "format_ip ip b len = bindE (snprintf b 0 len (dotted_quad ip)) (\<lambda>(b', _). Inr b')"

section \<open>inet_pton and inet_ntop\<close>

text \<open>
  \<open>inet_pton(AF_INET, ...)\<close> accepts exactly four decimal octets without sign, white space,
  leading zeros or trailing characters. The scan of one octet returns its value and the
  rest of the string.
\<close>

definition scan_octet :: "string \<Rightarrow> (u32 \<times> string) option" where
  "scan_octet s =
     (let ds = takeWhile (is_dig 10) s; v = digs_val 10 0 ds in
      if ds = [] \<or> v > 255 \<or> (hd ds = CHR ''0'' \<and> ds \<noteq> ''0'') then None
      else Some (word_of_nat v, drop (length ds) s))"

definition scan_octets :: "string \<Rightarrow> (u32 \<times> u32 \<times> u32 \<times> u32) option" where
  "scan_octets s =
     (case scan_octet s of None \<Rightarrow> None | Some (a, s1) \<Rightarrow>
     (case scan_char CHR ''.'' s1 of None \<Rightarrow> None | Some s2 \<Rightarrow>
     (case scan_octet s2 of None \<Rightarrow> None | Some (b, s3) \<Rightarrow>
     (case scan_char CHR ''.'' s3 of None \<Rightarrow> None | Some s4 \<Rightarrow>
     (case scan_octet s4 of None \<Rightarrow> None | Some (c, s5) \<Rightarrow>
     (case scan_char CHR ''.'' s5 of None \<Rightarrow> None | Some s6 \<Rightarrow>
     (case scan_octet s6 of None \<Rightarrow> None | Some (d, s7) \<Rightarrow>
        if s7 = [] then Some (a, b, c, d) else None)))))))"

definition inet_pton :: "endianness \<Rightarrow> string \<Rightarrow> u32 option" where
  "inet_pton e s =
     (case scan_octets s of
        None \<Rightarrow> None
      | Some (a, b, c, d) \<Rightarrow> Some (htonl e (of_octets a b c d)))"

text \<open>\<open>inet_ntop\<close> fails, and writes nothing, when the text and its NUL do not fit.\<close>

definition inet_ntop :: "endianness \<Rightarrow> u32 \<Rightarrow> nat \<Rightarrow> string option" where
  "inet_ntop e addr sz =
     (let s = dotted_quad (ntohl e addr) in if length s < sz then Some s else None)"

section \<open>Laws of octets\<close>

lemma octet_bit: "bit (octet sh ip) n \<longleftrightarrow> n < 8 \<and> bit ip (sh + n)"
proof -
  have "octet sh ip = take_bit 8 (drop_bit sh ip)"
    by (simp add: octet_def take_bit_eq_mask mask_eq_exp_minus_1)
  then show ?thesis
    by (auto simp: bit_simps)
qed

lemma octet_le [simp]: "octet sh ip \<le> 255"
  by (simp add: octet_def word_and_le1)

lemma unat_octet_less: "unat (octet sh ip) < 256"
  using octet_le [of sh ip] by (simp add: word_le_nat_alt)

lemma small_bit: "x \<le> 255 \<Longrightarrow> bit (x::u32) n \<Longrightarrow> n < 8"
proof (rule ccontr)
  assume x: "x \<le> 255" and b: "bit x n" and n: "\<not> n < 8"
  have "unat x < 2 ^ 8"
    using x by (simp add: word_le_nat_alt)
  also have "(2::nat) ^ 8 \<le> 2 ^ n"
    using n by (intro power_increasing) auto
  finally have "\<not> bit (unat x) n"
    by (simp add: bit_iff_odd)
  then show False
    using b by (simp add: bit_unsigned_iff)
qed

lemma of_octets_octet [simp]:
  "of_octets (octet 24 ip) (octet 16 ip) (octet 8 ip) (octet 0 ip) = ip"
proof (rule bit_word_eqI)
  fix n assume "n < LENGTH(32)"
  then have "n < 8 \<or> 8 \<le> n \<and> n < 16 \<or> 16 \<le> n \<and> n < 24 \<or> 24 \<le> n \<and> n < 32"
    by auto
  then show "bit (of_octets (octet 24 ip) (octet 16 ip) (octet 8 ip) (octet 0 ip)) n = bit ip n"
    by (auto simp: of_octets_def bit_simps octet_bit)
qed

lemma octet_of_octets:
  assumes "a \<le> 255" "b \<le> 255" "c \<le> 255" "d \<le> 255"
  shows "octet 24 (of_octets a b c d) = a" "octet 16 (of_octets a b c d) = b"
    "octet 8 (of_octets a b c d) = c" "octet 0 (of_octets a b c d) = d"
  by (rule bit_word_eqI; use assms in \<open>auto simp: of_octets_def bit_simps octet_bit dest: small_bit\<close>)+

lemma octets_inject:
  assumes "\<And>sh. sh \<in> {0, 8, 16, 24} \<Longrightarrow> octet sh x = octet sh y"
  shows "x = y"
proof -
  have "octet 24 x = octet 24 y" "octet 16 x = octet 16 y" "octet 8 x = octet 8 y" "octet 0 x = octet 0 y"
    by (auto intro: assms)
  then show ?thesis
    by (metis of_octets_octet)
qed

lemma octet_bswap32:
  "octet 24 (bswap32 x) = octet 0 x" "octet 16 (bswap32 x) = octet 8 x"
  "octet 8 (bswap32 x) = octet 16 x" "octet 0 (bswap32 x) = octet 24 x"
  by (simp_all add: bswap32_def octet_of_octets)

lemma bswap32_involutive [simp]: "bswap32 (bswap32 x) = x"
  by (rule octets_inject) (auto simp: octet_bswap32)

lemma htonl_involutive [simp]: "htonl e (htonl e x) = x"
  by (cases e) simp_all

section \<open>Round trips\<close>

lemma starts_dig_dot [simp]: "\<not> starts_dig 10 (CHR ''.'' # t)"
  by (simp add: starts_dig_def is_dig_def digit_val_def)

lemma starts_dig_Nil [simp]: "\<not> starts_dig b []"
  by (simp add: starts_dig_def)

lemma scan_u_octet:
  "\<not> starts_dig 10 t \<Longrightarrow> scan_u (fmt_u (unat (x::u32)) @ t) = Some (x, t)"
proof -
  assume t: "\<not> starts_dig 10 t"
  have "unat x < 2 ^ LENGTH(32)"
    by (rule unsigned_less)
  then have "unat x \<le> ULONG_MAX"
    by (simp add: ULONG_MAX_def)
  then show ?thesis
    using scan_u_fmt_u [OF _ t, of "unat x"] by simp
qed

lemma scan_quad_dotted: "scan_quad (dotted a b c d @ t) = Some (a, b, c, d)"
  if "\<not> starts_dig 10 t"
  using that by (simp add: scan_quad_def dotted_def scan_u_octet scan_char_def)

lemma parse_ip_dotted_quad [simp]: "parse_ip (dotted_quad ip) = ip"
  using scan_quad_dotted [of "[]" "octet 24 ip" "octet 16 ip" "octet 8 ip" "octet 0 ip"]
  by (simp add: parse_ip_def dotted_quad_def flip: not_le)

lemma takeWhile_digs:
  "all_digs b s \<Longrightarrow> \<not> starts_dig b t \<Longrightarrow> takeWhile (is_dig b) (s @ t) = s"
  by (cases t) (auto simp: all_digs_def starts_dig_def takeWhile_append)

lemma scan_octet_fmt_u:
  assumes "x \<le> 255" "\<not> starts_dig 10 t"
  shows "scan_octet (fmt_u (unat (x::u32)) @ t) = Some (x, t)"
proof -
  have "\<not> (hd (fmt_u (unat x)) = CHR ''0'' \<and> fmt_u (unat x) \<noteq> ''0'')"
    using fmt_u_head [of "unat x"] by (metis fmt_u_digits(3) list.collapse)
  moreover have "unat x \<le> 255"
    using assms by (simp add: word_le_nat_alt)
  ultimately show ?thesis
    using assms by (auto simp: scan_octet_def takeWhile_digs Let_def)
qed

lemma scan_octets_dotted:
  assumes "a \<le> 255" "b \<le> 255" "c \<le> 255" "d \<le> 255"
  shows "scan_octets (dotted a b c d) = Some (a, b, c, d)"
  using assms scan_octet_fmt_u [of d "[]"]
  by (simp add: scan_octets_def dotted_def scan_octet_fmt_u scan_char_def)

lemma inet_pton_dotted_quad [simp]: "inet_pton e (dotted_quad ip) = Some (htonl e ip)"
  by (simp add: inet_pton_def dotted_quad_def scan_octets_dotted)

section \<open>Length and characters of a dotted quad\<close>

lemma dotted_quad_length: "length (dotted_quad ip) \<le> 15"
proof -
  have "length (fmt_u (unat (octet sh ip))) \<le> 3" for sh
    using unat_octet_less [of sh ip] by (intro fmt_u_length) simp_all
  from this [of 24] this [of 16] this [of 8] this [of 0] show ?thesis
    by (simp add: dotted_quad_def dotted_def)
qed

lemma dotted_quad_length_ge: "7 \<le> length (dotted_quad ip)"
proof -
  have "1 \<le> length (fmt_u n)" for n
    using fmt_u_length_pos [of n] by linarith
  from this [of "unat (octet 24 ip)"] this [of "unat (octet 16 ip)"]
    this [of "unat (octet 8 ip)"] this [of "unat (octet 0 ip)"]
  show ?thesis
    unfolding dotted_quad_def dotted_def length_append list.size by linarith
qed

lemma dotted_quad_clean [simp]:
  "NUL \<notin> set (dotted_quad ip)" "NL \<notin> set (dotted_quad ip)" "CR \<notin> set (dotted_quad ip)"
  by (simp_all add: dotted_quad_def dotted_def)

lemma dotted_quad_inject [simp]: "dotted_quad x = dotted_quad y \<longleftrightarrow> x = y"
  by (metis parse_ip_dotted_quad)

end
