(* ===== verification/IO_Device.thy ===== *)
theory IO_Device
  imports PNet_Api Net_Addr
begin

text \<open>
  io_device.c: the life cycle of the Profinet device on top of a stack \<open>api\<close>. The device is
  the record \<open>io_device\<close>, whose handle holds the state of the stack. Every function of the
  file is a definition; an operation returns a fault when it would leave a buffer. Of what
  is printed, the text of the callbacks and of \<open>io_device_show\<close> is modelled, the progress
  messages of the other functions are not.
\<close>

section \<open>Data\<close>

record io_device_cfg =
  product_name :: buf
  station_name :: buf
  interface_name :: buf
  mac_addr :: "u8 list"
  ip_addr :: u32
  netmask :: u32
  gateway :: u32
  vendor_id :: u16
  device_id :: u16
  tick_us :: u32
  send_hello :: bool
  file_directory :: buf

datatype io_device_state =
    IO_DEVICE_STATE_IDLE
  | IO_DEVICE_STATE_INITIALIZED
  | IO_DEVICE_STATE_CONNECTED
  | IO_DEVICE_STATE_RUNNING
  | IO_DEVICE_STATE_ERROR

record 'n io_device =
  config :: io_device_cfg
  dev_state :: io_device_state
  pnet_handle :: "'n option"
  active_arep :: u32
  cycle_count :: u64
  error_count :: u64
  input_data :: "u8 list"
  output_data :: "u8 list"
  input_size :: u16
  output_size :: u16

text \<open>What \<open>memset(..., 0, ...)\<close> leaves.\<close>

definition zero_cfg :: io_device_cfg where
  "zero_cfg = \<lparr>product_name = zeros 26, station_name = zeros 241, interface_name = zeros 16,
     mac_addr = replicate 6 0, ip_addr = 0, netmask = 0, gateway = 0, vendor_id = 0, device_id = 0,
     tick_us = 0, send_hello = False, file_directory = zeros 240\<rparr>"

definition zero_device :: "'n io_device" where
  "zero_device = \<lparr>config = zero_cfg, dev_state = IO_DEVICE_STATE_IDLE, pnet_handle = None, active_arep = 0,
     cycle_count = 0, error_count = 0, input_data = replicate 256 0, output_data = replicate 256 0,
     input_size = 0, output_size = 0\<rparr>"

section \<open>Constants\<close>

definition PNET_API_NO_APPLICATION_PROFILE :: u32 where "PNET_API_NO_APPLICATION_PROFILE = 0"
definition PNET_SLOT_DAP_IDENT :: u16 where "PNET_SLOT_DAP_IDENT = 0"
definition PNET_SUBSLOT_DAP_WHOLE_MODULE :: u16 where "PNET_SUBSLOT_DAP_WHOLE_MODULE = 0"
definition PNET_SUBSLOT_DAP_INTERFACE_1_IDENT :: u16 where "PNET_SUBSLOT_DAP_INTERFACE_1_IDENT = 0x8000"
definition PNET_SUBSLOT_DAP_INTERFACE_1_PORT_1_IDENT :: u16 where
  "PNET_SUBSLOT_DAP_INTERFACE_1_PORT_1_IDENT = 0x8001"
definition PNET_MOD_DAP_IDENT :: u32 where "PNET_MOD_DAP_IDENT = 1"
definition PNET_SUBMOD_DAP_IDENT :: u32 where "PNET_SUBMOD_DAP_IDENT = 1"
definition PNET_SUBMOD_DAP_INTERFACE_1_IDENT :: u32 where "PNET_SUBMOD_DAP_INTERFACE_1_IDENT = 0x8000"
definition PNET_SUBMOD_DAP_INTERFACE_1_PORT_1_IDENT :: u32 where
  "PNET_SUBMOD_DAP_INTERFACE_1_PORT_1_IDENT = 0x8001"
definition PNET_SUPPORTED_IM1 :: u16 where "PNET_SUPPORTED_IM1 = 2"

definition EXAMPLE_API :: u32 where "EXAMPLE_API = 0"
definition EXAMPLE_SLOT :: u16 where "EXAMPLE_SLOT = 1"
definition EXAMPLE_MODULE_IDENT :: u32 where "EXAMPLE_MODULE_IDENT = 0x30"
definition EXAMPLE_SUBSLOT_INPUT :: u16 where "EXAMPLE_SUBSLOT_INPUT = 1"
definition EXAMPLE_SUBMOD_INPUT :: u32 where "EXAMPLE_SUBMOD_INPUT = 0x31"
definition EXAMPLE_INPUT_SIZE :: u16 where "EXAMPLE_INPUT_SIZE = 1"
definition EXAMPLE_SUBSLOT_OUTPUT :: u16 where "EXAMPLE_SUBSLOT_OUTPUT = 2"
definition EXAMPLE_SUBMOD_OUTPUT :: u32 where "EXAMPLE_SUBMOD_OUTPUT = 0x32"
definition EXAMPLE_OUTPUT_SIZE :: u16 where "EXAMPLE_OUTPUT_SIZE = 1"

lemmas ident_defs = PNET_API_NO_APPLICATION_PROFILE_def PNET_SLOT_DAP_IDENT_def
  PNET_SUBSLOT_DAP_WHOLE_MODULE_def PNET_SUBSLOT_DAP_INTERFACE_1_IDENT_def
  PNET_SUBSLOT_DAP_INTERFACE_1_PORT_1_IDENT_def PNET_MOD_DAP_IDENT_def PNET_SUBMOD_DAP_IDENT_def
  PNET_SUBMOD_DAP_INTERFACE_1_IDENT_def PNET_SUBMOD_DAP_INTERFACE_1_PORT_1_IDENT_def
  EXAMPLE_API_def EXAMPLE_SLOT_def EXAMPLE_MODULE_IDENT_def EXAMPLE_SUBSLOT_INPUT_def
  EXAMPLE_SUBMOD_INPUT_def EXAMPLE_INPUT_SIZE_def EXAMPLE_SUBSLOT_OUTPUT_def
  EXAMPLE_SUBMOD_OUTPUT_def EXAMPLE_OUTPUT_SIZE_def

section \<open>Helpers\<close>

text \<open>\<open>strlen\<close> of the source faults without a NUL; the destination is written up to \<open>copy\<close>.\<close>

definition safe_strncpy :: "buf \<Rightarrow> buf \<Rightarrow> nat \<Rightarrow> fault + buf" where
  "safe_strncpy dst src dst_size =
     (if dst_size = 0 then Inr dst
      else bindE (read_str src) (\<lambda>s.
        let copy = (if length s < dst_size - 1 then length s else dst_size - 1)
        in if length dst \<le> copy then Inl OutOfBounds
           else Inr (take copy s @ NUL # drop (copy + 1) dst)))"

fun event_name :: "pnet_event \<Rightarrow> string" where
  "event_name PNET_EVENT_ABORT = ''ABORT''"
| "event_name PNET_EVENT_STARTUP = ''STARTUP''"
| "event_name PNET_EVENT_PRMEND = ''PRMEND''"
| "event_name PNET_EVENT_APPLRDY = ''APPLRDY''"
| "event_name PNET_EVENT_DATA = ''DATA''"
| "event_name (PNET_EVENT_OTHER i) = ''UNKNOWN''"

text \<open>Formatting of an unsigned argument (\<open>%u\<close>) and of a flag cast to \<open>int\<close> (\<open>%d\<close>).\<close>

abbreviation pu :: "'a::len word \<Rightarrow> string" where "pu w \<equiv> fmt_u (unat w)"
abbreviation px :: "nat \<Rightarrow> 'a::len word \<Rightarrow> string" where "px n w \<equiv> fmt_x n (unat w)"
abbreviation pb :: "bool \<Rightarrow> string" where "pb b \<equiv> fmt_d (if b then 1 else 0)"

section \<open>Callbacks\<close>

text \<open>
  Each build has its own set. The state indication is the only callback that touches the
  device; every callback prints a line and returns 0. First the callbacks of the real build
  whose counterparts in the mock build do the same.
\<close>

definition app_state_ind_cb :: "'n io_device \<Rightarrow> u32 \<Rightarrow> pnet_event \<Rightarrow> int \<times> 'n io_device \<times> string" where
  "app_state_ind_cb dev arep ev =
     (let dev1 = (if ev = PNET_EVENT_STARTUP then dev\<lparr>active_arep := arep\<rparr> else dev);
          dev2 = (if ev = PNET_EVENT_DATA then dev1\<lparr>dev_state := IO_DEVICE_STATE_RUNNING\<rparr>
                  else if ev = PNET_EVENT_ABORT
                  then dev1\<lparr>dev_state := IO_DEVICE_STATE_CONNECTED, active_arep := 0\<rparr>
                  else dev1)
      in (0, dev2, ''[IO-DEVICE] State event: '' @ event_name ev @ '' (AREP='' @ pu arep @ '')'' @ [NL]))"

definition app_connect_ind_cb :: "u32 \<Rightarrow> int \<times> string" where
  "app_connect_ind_cb arep = (0, ''[IO-DEVICE] Connect indication (AREP='' @ pu arep @ '')'' @ [NL])"

definition app_release_ind_cb :: "u32 \<Rightarrow> int \<times> string" where
  "app_release_ind_cb arep = (0, ''[IO-DEVICE] Release indication (AREP='' @ pu arep @ '')'' @ [NL])"

definition app_alarm_cnf_cb :: "u32 \<Rightarrow> int \<times> string" where
  "app_alarm_cnf_cb arep = (0, ''[IO-DEVICE] Alarm confirmation (AREP='' @ pu arep @ '')'' @ [NL])"

definition app_exp_module_ind_cb :: "u32 \<Rightarrow> u16 \<Rightarrow> u32 \<Rightarrow> int \<times> string" where
  "app_exp_module_ind_cb a slot mi =
     (0, ''[IO-DEVICE] Expected module indication (api='' @ pu a @ '', slot='' @ pu slot @
         '', module_ident=0x'' @ px 8 mi @ '')'' @ [NL])"

definition exp_submodule_line :: "u32 \<Rightarrow> u16 \<Rightarrow> u16 \<Rightarrow> u32 \<Rightarrow> u32 \<Rightarrow> string" where
  "exp_submodule_line a slot subslot mi si =
     ''[IO-DEVICE] Expected submodule indication (api='' @ pu a @ '', slot='' @ pu slot @
     '', subslot='' @ pu subslot @ '', mod=0x'' @ px 8 mi @ '', submod=0x'' @ px 8 si @ '')'' @ [NL]"

definition app_sm_released_ind_cb :: "u32 \<Rightarrow> u32 \<Rightarrow> u16 \<Rightarrow> u16 \<Rightarrow> int \<times> string" where
  "app_sm_released_ind_cb arep a slot subslot =
     (0, ''[IO-DEVICE] Submodule released (AREP='' @ pu arep @ '', api='' @ pu a @ '', slot='' @ pu slot @
         '', subslot='' @ pu subslot @ '')'' @ [NL])"

subsection \<open>Mock build\<close>

text \<open>These six do what their counterparts in the real build do.\<close>

definition mock_state_ind_cb :: "'n io_device \<Rightarrow> u32 \<Rightarrow> pnet_event \<Rightarrow> int \<times> 'n io_device \<times> string" where
  "mock_state_ind_cb dev arep ev =
     (let dev1 = (if ev = PNET_EVENT_STARTUP then dev\<lparr>active_arep := arep\<rparr> else dev);
          dev2 = (if ev = PNET_EVENT_DATA then dev1\<lparr>dev_state := IO_DEVICE_STATE_RUNNING\<rparr>
                  else if ev = PNET_EVENT_ABORT
                  then dev1\<lparr>dev_state := IO_DEVICE_STATE_CONNECTED, active_arep := 0\<rparr>
                  else dev1)
      in (0, dev2, ''[IO-DEVICE] State event: '' @ event_name ev @ '' (AREP='' @ pu arep @ '')'' @ [NL]))"

definition mock_connect_ind_cb :: "u32 \<Rightarrow> int \<times> string" where
  "mock_connect_ind_cb arep = (0, ''[IO-DEVICE] Connect indication (AREP='' @ pu arep @ '')'' @ [NL])"

definition mock_release_ind_cb :: "u32 \<Rightarrow> int \<times> string" where
  "mock_release_ind_cb arep = (0, ''[IO-DEVICE] Release indication (AREP='' @ pu arep @ '')'' @ [NL])"

definition mock_alarm_cnf_cb :: "u32 \<Rightarrow> int \<times> string" where
  "mock_alarm_cnf_cb arep = (0, ''[IO-DEVICE] Alarm confirmation (AREP='' @ pu arep @ '')'' @ [NL])"

definition mock_exp_module_ind_cb :: "u32 \<Rightarrow> u16 \<Rightarrow> u32 \<Rightarrow> int \<times> string" where
  "mock_exp_module_ind_cb a slot mi =
     (0, ''[IO-DEVICE] Expected module indication (api='' @ pu a @ '', slot='' @ pu slot @
         '', module_ident=0x'' @ px 8 mi @ '')'' @ [NL])"

definition mock_sm_released_ind_cb :: "u32 \<Rightarrow> u32 \<Rightarrow> u16 \<Rightarrow> u16 \<Rightarrow> int \<times> string" where
  "mock_sm_released_ind_cb arep a slot subslot =
     (0, ''[IO-DEVICE] Submodule released (AREP='' @ pu arep @ '', api='' @ pu a @ '', slot='' @ pu slot @
         '', subslot='' @ pu subslot @ '')'' @ [NL])"

definition mock_dcontrol_ind_cb :: "u32 \<Rightarrow> u8 \<Rightarrow> int \<times> string" where
  "mock_dcontrol_ind_cb arep cmd =
     (0, ''[IO-DEVICE] DControl indication (AREP='' @ pu arep @ '', cmd='' @ pu cmd @ '')'' @ [NL])"

definition mock_ccontrol_cnf_cb :: "u32 \<Rightarrow> u8 \<Rightarrow> int \<times> string" where
  "mock_ccontrol_cnf_cb arep cmd =
     (0, ''[IO-DEVICE] CControl confirmation (AREP='' @ pu arep @ '', cmd='' @ pu cmd @ '')'' @ [NL])"

definition mock_write_ind_cb :: "u32 \<Rightarrow> u32 \<Rightarrow> u16 \<Rightarrow> u16 \<Rightarrow> u16 \<Rightarrow> u16 \<Rightarrow> int \<times> string" where
  "mock_write_ind_cb arep a slot subslot idx len =
     (0, ''[IO-DEVICE] Write indication (AREP='' @ pu arep @ '', slot='' @ pu slot @ '', subslot='' @
         pu subslot @ '', idx=0x'' @ px 4 idx @ '', len='' @ pu len @ '')'' @ [NL])"

definition mock_read_ind_cb :: "u32 \<Rightarrow> u32 \<Rightarrow> u16 \<Rightarrow> u16 \<Rightarrow> u16 \<Rightarrow> int \<times> string" where
  "mock_read_ind_cb arep a slot subslot idx =
     (0, ''[IO-DEVICE] Read indication (AREP='' @ pu arep @ '', slot='' @ pu slot @ '', subslot='' @
         pu subslot @ '', idx=0x'' @ px 4 idx @ '')'' @ [NL])"

definition mock_exp_submodule_ind_cb :: "u32 \<Rightarrow> u16 \<Rightarrow> u16 \<Rightarrow> u32 \<Rightarrow> u32 \<Rightarrow> int \<times> string" where
  "mock_exp_submodule_ind_cb a slot subslot mi si = (0, exp_submodule_line a slot subslot mi si)"

definition mock_new_data_status_ind_cb :: "u32 \<Rightarrow> u8 \<Rightarrow> int \<times> string" where
  "mock_new_data_status_ind_cb arep changes =
     (0, ''[IO-DEVICE] New data status (AREP='' @ pu arep @ '', changes=0x'' @ px 2 changes @ '')'' @ [NL])"

definition mock_alarm_ind_cb :: "u32 \<Rightarrow> u32 \<Rightarrow> u16 \<Rightarrow> u16 \<Rightarrow> u16 \<Rightarrow> int \<times> string" where
  "mock_alarm_ind_cb arep a slot subslot data_len =
     (0, ''[IO-DEVICE] Alarm indication (AREP='' @ pu arep @ '', slot='' @ pu slot @ '', subslot='' @
         pu subslot @ '', data_len='' @ pu data_len @ '')'' @ [NL])"

definition mock_alarm_ack_cnf_cb :: "u32 \<Rightarrow> int \<times> string" where
  "mock_alarm_ack_cnf_cb arep = (0, ''[IO-DEVICE] Alarm ACK confirmation (AREP='' @ pu arep @ '')'' @ [NL])"

definition mock_reset_ind_cb :: "bool \<Rightarrow> int \<times> string" where
  "mock_reset_ind_cb r = (0, ''[IO-DEVICE] Reset indication (should_reset='' @ pb r @ '')'' @ [NL])"

definition mock_signal_led_ind_cb :: "int \<times> string" where
  "mock_signal_led_ind_cb = (0, ''[IO-DEVICE] Signal LED callback'' @ [NL])"

subsection \<open>Real build\<close>

definition real_dcontrol_ind_cb :: "u32 \<Rightarrow> int \<Rightarrow> int \<times> string" where
  "real_dcontrol_ind_cb arep cmd =
     (0, ''[IO-DEVICE] DControl indication (AREP='' @ pu arep @ '', cmd='' @ fmt_d cmd @ '')'' @ [NL])"

definition real_ccontrol_cnf_cb :: "u32 \<Rightarrow> int \<times> string" where
  "real_ccontrol_cnf_cb arep = (0, ''[IO-DEVICE] CControl confirmation (AREP='' @ pu arep @ '')'' @ [NL])"

definition real_write_ind_cb :: "u32 \<Rightarrow> u32 \<Rightarrow> u16 \<Rightarrow> u16 \<Rightarrow> u16 \<Rightarrow> u16 \<Rightarrow> u16 \<Rightarrow> int \<times> string" where
  "real_write_ind_cb arep a slot subslot idx sq len =
     (0, ''[IO-DEVICE] Write indication (AREP='' @ pu arep @ '', api='' @ pu a @ '', slot='' @ pu slot @
         '', subslot='' @ pu subslot @ '', idx=0x'' @ px 4 idx @ '', seq='' @ pu sq @
         '', len='' @ pu len @ '')'' @ [NL])"

definition real_read_ind_cb :: "u32 \<Rightarrow> u32 \<Rightarrow> u16 \<Rightarrow> u16 \<Rightarrow> u16 \<Rightarrow> u16 \<Rightarrow> int \<times> string" where
  "real_read_ind_cb arep a slot subslot idx sq =
     (0, ''[IO-DEVICE] Read indication (AREP='' @ pu arep @ '', api='' @ pu a @ '', slot='' @ pu slot @
         '', subslot='' @ pu subslot @ '', idx=0x'' @ px 4 idx @ '', seq='' @ pu sq @ '')'' @ [NL])"

definition real_exp_submodule_ind_cb ::
    "u32 \<Rightarrow> u16 \<Rightarrow> u16 \<Rightarrow> u32 \<Rightarrow> u32 \<Rightarrow> (int \<times> u16 \<times> u16) option \<Rightarrow> int \<times> string" where
  "real_exp_submodule_ind_cb a slot subslot mi si exp_data =
     (0, exp_submodule_line a slot subslot mi si @
         (case exp_data of None \<Rightarrow> []
          | Some (dir, insize, outsize) \<Rightarrow>
              ''[IO-DEVICE]   direction='' @ fmt_d dir @ '', in_size='' @ pu insize @
              '', out_size='' @ pu outsize @ [NL]))"

definition real_new_data_status_ind_cb :: "u32 \<Rightarrow> u32 \<Rightarrow> u8 \<Rightarrow> u8 \<Rightarrow> int \<times> string" where
  "real_new_data_status_ind_cb arep crep changes data_status =
     (0, ''[IO-DEVICE] New data status (AREP='' @ pu arep @ '', CREP='' @ pu crep @ '', changes=0x'' @
         px 2 changes @ '', status=0x'' @ px 2 data_status @ '')'' @ [NL])"

definition real_alarm_ind_cb :: "u32 \<Rightarrow> (u16 \<times> u16 \<times> u16) option \<Rightarrow> u16 \<Rightarrow> u16 \<Rightarrow> int \<times> string" where
  "real_alarm_ind_cb arep alarm data_len data_usi =
     (let (slot, subslot, typ) = (case alarm of Some x \<Rightarrow> x | None \<Rightarrow> (0, 0, 0))
      in (0, ''[IO-DEVICE] Alarm indication (AREP='' @ pu arep @ '', slot='' @ pu slot @ '', subslot='' @
             pu subslot @ '', type='' @ pu typ @ '', data_usi=0x'' @ px 4 data_usi @
             '', data_len='' @ pu data_len @ '')'' @ [NL]))"

definition real_alarm_ack_cnf_cb :: "u32 \<Rightarrow> int \<Rightarrow> int \<times> string" where
  "real_alarm_ack_cnf_cb arep res =
     (0, ''[IO-DEVICE] Alarm ACK confirmation (AREP='' @ pu arep @ '', result='' @ fmt_d res @ '')'' @ [NL])"

definition real_reset_ind_cb :: "bool \<Rightarrow> u16 \<Rightarrow> int \<times> string" where
  "real_reset_ind_cb r reset_mode =
     (0, ''[IO-DEVICE] Reset indication (reset_app='' @ pb r @ '', mode='' @ pu reset_mode @ '')'' @ [NL])"

definition real_signal_led_ind_cb :: "bool \<Rightarrow> int \<times> string" where
  "real_signal_led_ind_cb led = (0, ''[IO-DEVICE] Signal LED: '' @ (if led then ''ON'' else ''OFF'') @ [NL])"

subsection \<open>Dispatch\<close>

text \<open>
  The callbacks as \<open>io_device_start\<close> registers them, with the device as their argument:
  the result, the device and the text printed.
\<close>

fun mock_dispatch :: "'n io_device \<Rightarrow> mock_callback \<Rightarrow> int \<times> 'n io_device \<times> string" where
  "mock_dispatch dev (M_State arep ev) = mock_state_ind_cb dev arep ev"
| "mock_dispatch dev (M_Connect arep) = (let (r, t) = mock_connect_ind_cb arep in (r, dev, t))"
| "mock_dispatch dev (M_Release arep) = (let (r, t) = mock_release_ind_cb arep in (r, dev, t))"
| "mock_dispatch dev (M_Dcontrol arep c) = (let (r, t) = mock_dcontrol_ind_cb arep c in (r, dev, t))"
| "mock_dispatch dev (M_Ccontrol arep c) = (let (r, t) = mock_ccontrol_cnf_cb arep c in (r, dev, t))"
| "mock_dispatch dev (M_Write arep a s ss i l) = (let (r, t) = mock_write_ind_cb arep a s ss i l in (r, dev, t))"
| "mock_dispatch dev (M_Read arep a s ss i) = (let (r, t) = mock_read_ind_cb arep a s ss i in (r, dev, t))"
| "mock_dispatch dev (M_ExpModule a s mi) = (let (r, t) = mock_exp_module_ind_cb a s mi in (r, dev, t))"
| "mock_dispatch dev (M_ExpSubmodule a s ss mi si) =
     (let (r, t) = mock_exp_submodule_ind_cb a s ss mi si in (r, dev, t))"
| "mock_dispatch dev (M_NewDataStatus arep c) = (let (r, t) = mock_new_data_status_ind_cb arep c in (r, dev, t))"
| "mock_dispatch dev (M_AlarmInd arep a s ss l) = (let (r, t) = mock_alarm_ind_cb arep a s ss l in (r, dev, t))"
| "mock_dispatch dev (M_AlarmCnf arep) = (let (r, t) = mock_alarm_cnf_cb arep in (r, dev, t))"
| "mock_dispatch dev (M_AlarmAckCnf arep) = (let (r, t) = mock_alarm_ack_cnf_cb arep in (r, dev, t))"
| "mock_dispatch dev (M_Reset b) = (let (r, t) = mock_reset_ind_cb b in (r, dev, t))"
| "mock_dispatch dev M_SignalLed = (let (r, t) = mock_signal_led_ind_cb in (r, dev, t))"
| "mock_dispatch dev (M_SmReleased arep a s ss) = (let (r, t) = mock_sm_released_ind_cb arep a s ss in (r, dev, t))"

fun real_dispatch :: "'n io_device \<Rightarrow> real_callback \<Rightarrow> int \<times> 'n io_device \<times> string" where
  "real_dispatch dev (R_State arep ev) = app_state_ind_cb dev arep ev"
| "real_dispatch dev (R_Connect arep) = (let (r, t) = app_connect_ind_cb arep in (r, dev, t))"
| "real_dispatch dev (R_Release arep) = (let (r, t) = app_release_ind_cb arep in (r, dev, t))"
| "real_dispatch dev (R_Dcontrol arep c) = (let (r, t) = real_dcontrol_ind_cb arep c in (r, dev, t))"
| "real_dispatch dev (R_Ccontrol arep) = (let (r, t) = real_ccontrol_cnf_cb arep in (r, dev, t))"
| "real_dispatch dev (R_Write arep a s ss i q l) =
     (let (r, t) = real_write_ind_cb arep a s ss i q l in (r, dev, t))"
| "real_dispatch dev (R_Read arep a s ss i q) = (let (r, t) = real_read_ind_cb arep a s ss i q in (r, dev, t))"
| "real_dispatch dev (R_ExpModule a s mi) = (let (r, t) = app_exp_module_ind_cb a s mi in (r, dev, t))"
| "real_dispatch dev (R_ExpSubmodule a s ss mi si x) =
     (let (r, t) = real_exp_submodule_ind_cb a s ss mi si x in (r, dev, t))"
| "real_dispatch dev (R_NewDataStatus arep crep c d) =
     (let (r, t) = real_new_data_status_ind_cb arep crep c d in (r, dev, t))"
| "real_dispatch dev (R_AlarmInd arep x l u) = (let (r, t) = real_alarm_ind_cb arep x l u in (r, dev, t))"
| "real_dispatch dev (R_AlarmCnf arep) = (let (r, t) = app_alarm_cnf_cb arep in (r, dev, t))"
| "real_dispatch dev (R_AlarmAckCnf arep x) = (let (r, t) = real_alarm_ack_cnf_cb arep x in (r, dev, t))"
| "real_dispatch dev (R_Reset b m) = (let (r, t) = real_reset_ind_cb b m in (r, dev, t))"
| "real_dispatch dev (R_SignalLed b) = (let (r, t) = real_signal_led_ind_cb b in (r, dev, t))"
| "real_dispatch dev (R_SmReleased arep a s ss) = (let (r, t) = app_sm_released_ind_cb arep a s ss in (r, dev, t))"

fun dispatch :: "'n io_device \<Rightarrow> callback \<Rightarrow> int \<times> 'n io_device \<times> string" where
  "dispatch dev (MockCb c) = mock_dispatch dev c"
| "dispatch dev (RealCb c) = real_dispatch dev c"

fun run_callbacks :: "'n io_device \<Rightarrow> callback list \<Rightarrow> 'n io_device \<times> string" where
  "run_callbacks dev [] = (dev, [])"
| "run_callbacks dev (c # cs) =
     (case dispatch dev c of (_, dev1, t) \<Rightarrow>
      case run_callbacks dev1 cs of (dev2, u) \<Rightarrow> (dev2, t @ u))"

section \<open>Plugging the modules\<close>

text \<open>
  \<open>plug_all_modules\<close> makes these calls in order and returns the result of the first one
  that is not 0.
\<close>

datatype plug_call =
    PlugModule u32 u16 u32
  | PlugSubmodule u32 u16 u16 u32 u32 pnet_submodule_dir u16 u16

definition plug_calls :: "plug_call list" where
  "plug_calls =
     [PlugModule PNET_API_NO_APPLICATION_PROFILE PNET_SLOT_DAP_IDENT PNET_MOD_DAP_IDENT,
      PlugSubmodule PNET_API_NO_APPLICATION_PROFILE PNET_SLOT_DAP_IDENT PNET_SUBSLOT_DAP_WHOLE_MODULE
        PNET_MOD_DAP_IDENT PNET_SUBMOD_DAP_IDENT PNET_DIR_NO_IO 0 0,
      PlugSubmodule PNET_API_NO_APPLICATION_PROFILE PNET_SLOT_DAP_IDENT PNET_SUBSLOT_DAP_INTERFACE_1_IDENT
        PNET_MOD_DAP_IDENT PNET_SUBMOD_DAP_INTERFACE_1_IDENT PNET_DIR_NO_IO 0 0,
      PlugSubmodule PNET_API_NO_APPLICATION_PROFILE PNET_SLOT_DAP_IDENT
        PNET_SUBSLOT_DAP_INTERFACE_1_PORT_1_IDENT PNET_MOD_DAP_IDENT
        PNET_SUBMOD_DAP_INTERFACE_1_PORT_1_IDENT PNET_DIR_NO_IO 0 0,
      PlugModule EXAMPLE_API EXAMPLE_SLOT EXAMPLE_MODULE_IDENT,
      PlugSubmodule EXAMPLE_API EXAMPLE_SLOT EXAMPLE_SUBSLOT_INPUT EXAMPLE_MODULE_IDENT
        EXAMPLE_SUBMOD_INPUT PNET_DIR_INPUT EXAMPLE_INPUT_SIZE 0,
      PlugSubmodule EXAMPLE_API EXAMPLE_SLOT EXAMPLE_SUBSLOT_OUTPUT EXAMPLE_MODULE_IDENT
        EXAMPLE_SUBMOD_OUTPUT PNET_DIR_OUTPUT 0 EXAMPLE_OUTPUT_SIZE]"

fun plug :: "'n pnet_api \<Rightarrow> 'n \<Rightarrow> plug_call \<Rightarrow> int \<times> 'n" where
  "plug api net (PlugModule a s mi) = api_plug_module api net a s mi"
| "plug api net (PlugSubmodule a s ss mi si dir li lo) = api_plug_submodule api net a s ss mi si dir li lo"

fun plug_loop :: "'n pnet_api \<Rightarrow> 'n \<Rightarrow> plug_call list \<Rightarrow> int \<times> 'n" where
  "plug_loop api net [] = (0, net)"
| "plug_loop api net (c # cs) =
     (case plug api net c of (ret, net1) \<Rightarrow> if ret \<noteq> 0 then (ret, net1) else plug_loop api net1 cs)"

definition plug_all_modules :: "'n pnet_api \<Rightarrow> 'n \<Rightarrow> int \<times> 'n" where
  "plug_all_modules api net = plug_loop api net plug_calls"

section \<open>Life cycle\<close>

text \<open>The message at the end prints both names, so both must be terminated.\<close>

definition io_device_init ::
    "'n io_device option \<Rightarrow> io_device_cfg option \<Rightarrow> fault + (int \<times> 'n io_device option)" where
  "io_device_init dev cfg =
     (case (dev, cfg) of
        (Some d, Some c) \<Rightarrow>
          bindE (read_str (product_name c)) (\<lambda>_. bindE (read_str (station_name c)) (\<lambda>_.
            Inr (0, Some (d\<lparr>config := c, dev_state := IO_DEVICE_STATE_INITIALIZED, pnet_handle := None,
              active_arep := 0, cycle_count := 0, error_count := 0,
              input_size := EXAMPLE_INPUT_SIZE, output_size := EXAMPLE_OUTPUT_SIZE,
              input_data := replicate 256 0, output_data := replicate 256 0\<rparr>))))
      | _ \<Rightarrow> Inr (-1, dev))"

definition lit :: "string \<Rightarrow> buf" where
  "lit s = s @ [NUL]"

definition cfg_device_id :: "io_device_cfg \<Rightarrow> pnet_device_id" where
  "cfg_device_id c =
     \<lparr>vendor_id_high = ucast (drop_bit 8 (vendor_id c)), vendor_id_low = ucast (vendor_id c AND 0xFF),
      device_id_high = ucast (drop_bit 8 (device_id c)), device_id_low = ucast (device_id c AND 0xFF)\<rparr>"

definition cfg_im_0 :: "pnet_device_id \<Rightarrow> buf \<Rightarrow> buf \<Rightarrow> pnet_im_0" where
  "cfg_im_0 ident order_id serial =
     \<lparr>im_vendor_id_hi = vendor_id_high ident, im_vendor_id_lo = vendor_id_low ident,
      im_order_id = order_id, im_serial_number = serial, im_hardware_revision = 1,
      im_sw_revision_prefix = CHR ''V'', im_sw_revision_functional_enhancement = 0,
      im_sw_revision_bug_fix = 1, im_sw_revision_internal_change = 0, im_revision_counter = 0,
      im_profile_id = 0, im_profile_specific_type = 0, im_version_major = 1, im_version_minor = 0,
      im_supported = PNET_SUPPORTED_IM1\<rparr>"

definition quad_of :: "u32 \<Rightarrow> quad" where
  "quad_of ip = (ucast (drop_bit 24 ip AND 0xFF), ucast (drop_bit 16 ip AND 0xFF),
     ucast (drop_bit 8 ip AND 0xFF), ucast (ip AND 0xFF))"

definition cfg_if :: "'n pnet_api \<Rightarrow> io_device_cfg \<Rightarrow> fault + pnet_if_cfg" where
  "cfg_if api c =
     (case api_build api of
        USE_REAL_PNET \<Rightarrow>
          Inr (RealIf (interface_name c) (quad_of (ip_addr c)) (quad_of (netmask c)) (quad_of (gateway c)) False)
      | USE_MOCK_PNET \<Rightarrow>
          bindE (safe_strncpy (zeros (sz_netif_name (api_sizes api))) (interface_name c)
                   (sz_netif_name (api_sizes api)))
            (\<lambda>b. Inr (MockIf b (take 6 (mac_addr c)))))"

text \<open>The configuration structure: zeroed, then filled field by field.\<close>

definition build_pnet_cfg :: "'n pnet_api \<Rightarrow> io_device_cfg \<Rightarrow> fault + pnet_cfg" where
  "build_pnet_cfg api c =
     (let sz = api_sizes api; copy = (\<lambda>src n. safe_strncpy (zeros n) src n) in
      bindE (copy (product_name c) (sz_product_name sz)) (\<lambda>product.
      bindE (copy (station_name c) (sz_station_name sz)) (\<lambda>station.
      bindE (copy (lit ''PNET-IO-DEVICE'') (sz_order_id sz)) (\<lambda>order_id.
      bindE (copy (lit ''00001'') (sz_serial_number sz)) (\<lambda>serial.
      bindE (copy (interface_name c) (sz_if_name sz)) (\<lambda>ifn.
      bindE (cfg_if api c) (\<lambda>ifc.
      bindE (copy (file_directory c) (sz_file_directory sz)) (\<lambda>dir.
        Inr \<lparr>p_tick_us = tick_us c, im_0_data = cfg_im_0 (cfg_device_id c) order_id serial,
             p_device_id = cfg_device_id c, oem_device_id = cfg_device_id c,
             p_station_name = station, p_product_name = product, min_device_interval = 32,
             p_pnal_cfg = \<lparr>pnal_if_name = ifn, pnal_use_dhcp = False, pnal_ip_addr = ip_addr c,
               pnal_netmask = netmask c, pnal_gateway = gateway c\<rparr>,
             p_send_hello = send_hello c, num_physical_ports = 1, use_qualified_diagnosis = False,
             if_cfg = ifc, p_file_directory = dir\<rparr>))))))))"

text \<open>The end of \<open>io_device_start\<close>: create the stack, plug the modules, set the state.\<close>

definition start_stack :: "'n pnet_api \<Rightarrow> 'n io_device \<Rightarrow> pnet_cfg \<Rightarrow> int \<times> 'n io_device" where
  "start_stack api d cfg =
     (case api_init api cfg of
        None \<Rightarrow> (-1, d\<lparr>pnet_handle := None, dev_state := IO_DEVICE_STATE_ERROR\<rparr>)
      | Some net \<Rightarrow>
          (case plug_all_modules api net of (ret, net1) \<Rightarrow>
             if ret \<noteq> 0
             then (-1, d\<lparr>pnet_handle := Some net1, dev_state := IO_DEVICE_STATE_ERROR\<rparr>)
             else (0, d\<lparr>pnet_handle := Some net1, dev_state := IO_DEVICE_STATE_CONNECTED\<rparr>)))"

definition io_device_start :: "'n pnet_api \<Rightarrow> 'n io_device option \<Rightarrow> fault + (int \<times> 'n io_device option)" where
  "io_device_start api dev =
     (case dev of
        None \<Rightarrow> Inr (-1, None)
      | Some d \<Rightarrow>
          if dev_state d \<noteq> IO_DEVICE_STATE_INITIALIZED then Inr (-1, Some d)
          else bindE (build_pnet_cfg api (config d)) (\<lambda>cfg.
            case start_stack api d cfg of (ret, d1) \<Rightarrow> Inr (ret, Some d1)))"

text \<open>The last component is the text the callbacks print.\<close>

definition io_device_tick :: "'n pnet_api \<Rightarrow> 'n io_device option \<Rightarrow> int \<times> 'n io_device option \<times> string" where
  "io_device_tick api dev =
     (case dev of
        None \<Rightarrow> (-1, None, [])
      | Some d \<Rightarrow>
          (case pnet_handle d of
             None \<Rightarrow> (-1, Some d, [])
           | Some net \<Rightarrow>
               if dev_state d = IO_DEVICE_STATE_ERROR then (-1, Some d, [])
               else (case api_periodic api net of (net1, cbs) \<Rightarrow>
                     case run_callbacks (d\<lparr>pnet_handle := Some net1\<rparr>) cbs of (d1, t) \<Rightarrow>
                       (0, Some (d1\<lparr>cycle_count := cycle_count d1 + 1\<rparr>), t))))"

definition io_device_cleanup :: "'n io_device option \<Rightarrow> 'n io_device option" where
  "io_device_cleanup dev = (case dev of None \<Rightarrow> None
     | Some d \<Rightarrow> Some (zero_device\<lparr>dev_state := IO_DEVICE_STATE_IDLE\<rparr>))"

text \<open>The second component is the state the factory reset left the stack in.\<close>

definition io_device_stop ::
    "'n pnet_api \<Rightarrow> 'n io_device option \<Rightarrow> int \<times> 'n option \<times> 'n io_device option" where
  "io_device_stop api dev =
     (case dev of
        None \<Rightarrow> (-1, None, None)
      | Some d \<Rightarrow>
          (case pnet_handle d of
             None \<Rightarrow> (-1, None, Some d)
           | Some net \<Rightarrow> (case api_factory_reset api net of (ret, net1) \<Rightarrow>
               (0, Some net1, io_device_cleanup (Some (d\<lparr>pnet_handle := Some net1\<rparr>))))))"

section \<open>Data exchange\<close>

definition io_device_update_input ::
    "'n pnet_api \<Rightarrow> 'n io_device option \<Rightarrow> u8 list option \<Rightarrow> u16 \<Rightarrow> fault + (int \<times> 'n io_device option)" where
  "io_device_update_input api dev data len =
     (case (dev, data) of
        (Some d, Some bytes) \<Rightarrow>
          (case pnet_handle d of
             None \<Rightarrow> Inr (-1, dev)
           | Some net \<Rightarrow>
               if unat len > 256 then Inr (-1, dev)
               else if length bytes < unat len \<or> length (input_data d) < unat len then Inl OutOfBounds
               else let d1 = d\<lparr>input_data := take (unat len) bytes @ drop (unat len) (input_data d),
                               input_size := len\<rparr>
                    in bindE (api_input_set api net EXAMPLE_API EXAMPLE_SLOT EXAMPLE_SUBSLOT_INPUT bytes len
                                PNET_IOXS_GOOD)
                         (\<lambda>(r, net1). Inr (r, Some (d1\<lparr>pnet_handle := Some net1\<rparr>))))
      | _ \<Rightarrow> Inr (-1, dev))"

definition io_device_read_output ::
    "'n pnet_api \<Rightarrow> 'n io_device option \<Rightarrow> u8 list option \<Rightarrow> u16 option \<Rightarrow>
     fault + (int \<times> 'n io_device option \<times> u8 list option \<times> u16 option)" where
  "io_device_read_output api dev data len =
     (case (dev, data, len) of
        (Some d, Some bytes, Some l) \<Rightarrow>
          (case pnet_handle d of
             None \<Rightarrow> Inr (-1, dev, data, len)
           | Some net \<Rightarrow>
               bindE (api_output_get api net EXAMPLE_API EXAMPLE_SLOT EXAMPLE_SUBSLOT_OUTPUT bytes l PNET_IOXS_BAD)
                 (\<lambda>(ret, bytes1, data_len, iops).
                    if ret = 0 then
                      if length bytes1 < unat data_len \<or> length (output_data d) < unat data_len then Inl OutOfBounds
                      else Inr (0, Some (d\<lparr>output_data := take (unat data_len) bytes1 @ drop (unat data_len) (output_data d),
                                       output_size := data_len\<rparr>), Some bytes1, Some data_len)
                    else Inr (ret, dev, Some bytes1, len)))
      | _ \<Rightarrow> Inr (-1, dev, data, len))"

section \<open>Status\<close>

definition io_device_get_state :: "'n io_device option \<Rightarrow> io_device_state" where
  "io_device_get_state dev = (case dev of None \<Rightarrow> IO_DEVICE_STATE_ERROR | Some d \<Rightarrow> dev_state d)"

fun io_device_state_str :: "io_device_state \<Rightarrow> string" where
  "io_device_state_str IO_DEVICE_STATE_IDLE = ''IDLE''"
| "io_device_state_str IO_DEVICE_STATE_INITIALIZED = ''INITIALIZED''"
| "io_device_state_str IO_DEVICE_STATE_CONNECTED = ''CONNECTED''"
| "io_device_state_str IO_DEVICE_STATE_RUNNING = ''RUNNING''"
| "io_device_state_str IO_DEVICE_STATE_ERROR = ''ERROR''"

definition mac_text :: "u8 list \<Rightarrow> string" where
  "mac_text m = px 2 (m ! 0) @ '':'' @ px 2 (m ! 1) @ '':'' @ px 2 (m ! 2) @ '':'' @
     px 2 (m ! 3) @ '':'' @ px 2 (m ! 4) @ '':'' @ px 2 (m ! 5)"

definition io_device_show :: "'n pnet_api \<Rightarrow> 'n io_device option \<Rightarrow> fault + string" where
  "io_device_show api dev =
     (case dev of
        None \<Rightarrow> Inr (''IO Device: (null)'' @ [NL])
      | Some d \<Rightarrow>
          bindE (read_str (product_name (config d))) (\<lambda>product.
          bindE (read_str (station_name (config d))) (\<lambda>station.
          bindE (read_str (interface_name (config d))) (\<lambda>ifn.
          if length (mac_addr (config d)) < 6 then Inl OutOfBounds
          else Inr (
            ''=== IO Device Status ==='' @ [NL] @
            ''  Product name : '' @ product @ [NL] @
            ''  Station name : '' @ station @ [NL] @
            ''  Interface    : '' @ ifn @ [NL] @
            ''  MAC          : '' @ mac_text (mac_addr (config d)) @ [NL] @
            ''  IP address   : '' @ dotted_quad (ip_addr (config d)) @ [NL] @
            ''  Vendor ID    : 0x'' @ px 4 (vendor_id (config d)) @ [NL] @
            ''  Device ID    : 0x'' @ px 4 (device_id (config d)) @ [NL] @
            ''  State        : '' @ io_device_state_str (dev_state d) @ [NL] @
            ''  Cycle count  : '' @ pu (cycle_count d) @ [NL] @
            ''  Error count  : '' @ pu (error_count d) @ [NL] @
            ''  Active AREP  : '' @ pu (active_arep d) @ [NL] @
            ''  Input size   : '' @ pu (input_size d) @ '' bytes'' @ [NL] @
            ''  Output size  : '' @ pu (output_size d) @ '' bytes'' @ [NL] @
            ''  p-net handle : '' @ (if pnet_handle d = None then ''null'' else ''active'') @ [NL] @
            (case pnet_handle d of None \<Rightarrow> []
             | Some net \<Rightarrow> [NL] @ ''--- p-net stack internals ---'' @ [NL] @ api_show api net 1))))))"

section \<open>Copying strings\<close>

text \<open>
  On a zeroed array of the size it is given, \<open>safe_strncpy\<close> leaves what \<open>strncpy\<close> of one
  byte less leaves: the string cut to the array and padded with NUL.
\<close>

lemma safe_strncpy_zeros:
  assumes "terminated src"
  shows "safe_strncpy (zeros n) src n = Inr (strncpy (zeros n) src (n - 1))"
proof (cases n)
  case 0
  then show ?thesis
    by (simp add: safe_strncpy_def strncpy_def)
next
  case (Suc m)
  have "NUL # zeros k = zeros (Suc k)" for k
    by (simp add: zeros_def)
  then show ?thesis
    using assms Suc strncpy_zeros [of m n src]
    by (auto simp: safe_strncpy_def Let_def min_def Suc_diff_le)
qed

lemma cstr_copied: "0 < n \<Longrightarrow> cstr (strncpy (zeros n) src (n - 1)) = take (n - 1) (cstr src)"
  by (rule cstr_strncpy_zeros) simp

text \<open>A configuration as app_config.c builds it: arrays of the declared sizes, ending with NUL.\<close>

definition str_field :: "nat \<Rightarrow> buf \<Rightarrow> bool" where
  "str_field n b \<longleftrightarrow> length b = n \<and> last_nul b"

definition wf_cfg :: "io_device_cfg \<Rightarrow> bool" where
  "wf_cfg c \<longleftrightarrow> str_field 26 (product_name c) \<and> str_field 241 (station_name c) \<and>
     str_field 16 (interface_name c) \<and> str_field 240 (file_directory c) \<and> length (mac_addr c) = 6"

lemma str_field_terminated: "str_field n b \<Longrightarrow> terminated b"
  by (simp add: str_field_def last_nul_terminated)

lemma str_field_zeros [simp]: "0 < n \<Longrightarrow> str_field n (zeros n)"
  by (simp add: str_field_def)

lemma str_field_strncpy [wf_intros]: "str_field n b \<Longrightarrow> k < n \<Longrightarrow> str_field n (strncpy b s k)"
  by (simp add: str_field_def buf_simps wf_intros)

lemma str_field_take: "str_field n b \<Longrightarrow> n \<le> m \<Longrightarrow> take (m - 1) (cstr b) = cstr b"
  using length_cstr_terminated [of b] by (simp add: str_field_def last_nul_terminated)

lemma wf_cfg_terminated:
  assumes "wf_cfg c"
  shows "terminated (product_name c)" "terminated (station_name c)" "terminated (interface_name c)"
    "terminated (file_directory c)"
  using assms by (auto simp: wf_cfg_def intro: str_field_terminated)

lemma wf_zero_cfg [simp]: "wf_cfg zero_cfg"
  by (simp add: wf_cfg_def zero_cfg_def)

lemma terminated_lit [simp]: "terminated (lit s)"
  by (simp add: terminated_def lit_def)

lemma build_pnet_cfg_eq:
  assumes "wf_cfg c"
  shows "\<exists>p. build_pnet_cfg api c = Inr p \<and> p_tick_us p = tick_us c \<and> p_device_id p = cfg_device_id c \<and>
     p_product_name p = strncpy (zeros (sz_product_name (api_sizes api))) (product_name c) (sz_product_name (api_sizes api) - 1) \<and>
     p_station_name p = strncpy (zeros (sz_station_name (api_sizes api))) (station_name c) (sz_station_name (api_sizes api) - 1) \<and>
     p_file_directory p = strncpy (zeros (sz_file_directory (api_sizes api))) (file_directory c) (sz_file_directory (api_sizes api) - 1) \<and>
     pnal_if_name (p_pnal_cfg p) = strncpy (zeros (sz_if_name (api_sizes api))) (interface_name c) (sz_if_name (api_sizes api) - 1) \<and>
     pnal_ip_addr (p_pnal_cfg p) = ip_addr c \<and> pnal_netmask (p_pnal_cfg p) = netmask c \<and>
     pnal_gateway (p_pnal_cfg p) = gateway c \<and> p_send_hello p = send_hello c \<and> cfg_if api c = Inr (if_cfg p)"
proof -
  obtain i where "cfg_if api c = Inr i"
    using wf_cfg_terminated(3) [OF assms] by (cases "api_build api") (auto simp: cfg_if_def safe_strncpy_zeros)
  then show ?thesis
    using wf_cfg_terminated [OF assms] by (simp add: build_pnet_cfg_def Let_def safe_strncpy_zeros)
qed

section \<open>What the callbacks change\<close>

text \<open>The state events among the callbacks of a tick.\<close>

fun state_event :: "callback \<Rightarrow> (u32 \<times> pnet_event) option" where
  "state_event (MockCb (M_State arep ev)) = Some (arep, ev)"
| "state_event (RealCb (R_State arep ev)) = Some (arep, ev)"
| "state_event _ = None"

definition state_events :: "callback list \<Rightarrow> (u32 \<times> pnet_event) list" where
  "state_events cs = List.map_filter state_event cs"

fun event_state :: "io_device_state \<Rightarrow> u32 \<times> pnet_event \<Rightarrow> io_device_state" where
  "event_state s (arep, PNET_EVENT_DATA) = IO_DEVICE_STATE_RUNNING"
| "event_state s (arep, PNET_EVENT_ABORT) = IO_DEVICE_STATE_CONNECTED"
| "event_state s _ = s"

fun event_arep :: "u32 \<Rightarrow> u32 \<times> pnet_event \<Rightarrow> u32" where
  "event_arep x (arep, PNET_EVENT_STARTUP) = arep"
| "event_arep x (arep, PNET_EVENT_ABORT) = 0"
| "event_arep x _ = x"

definition after_events :: "'n io_device \<Rightarrow> (u32 \<times> pnet_event) list \<Rightarrow> 'n io_device" where
  "after_events d es = d\<lparr>dev_state := foldl event_state (dev_state d) es,
     active_arep := foldl event_arep (active_arep d) es\<rparr>"

lemma mock_callbacks:
  "mock_state_ind_cb = app_state_ind_cb" "mock_connect_ind_cb = app_connect_ind_cb"
  "mock_release_ind_cb = app_release_ind_cb" "mock_alarm_cnf_cb = app_alarm_cnf_cb"
  "mock_exp_module_ind_cb = app_exp_module_ind_cb" "mock_sm_released_ind_cb = app_sm_released_ind_cb"
  by (simp_all add: fun_eq_iff mock_state_ind_cb_def app_state_ind_cb_def mock_connect_ind_cb_def app_connect_ind_cb_def
    mock_release_ind_cb_def app_release_ind_cb_def mock_alarm_cnf_cb_def app_alarm_cnf_cb_def
    mock_exp_module_ind_cb_def app_exp_module_ind_cb_def mock_sm_released_ind_cb_def app_sm_released_ind_cb_def)

lemma state_cb_effect:
  "fst (app_state_ind_cb d arep ev) = 0"
  "fst (snd (app_state_ind_cb d arep ev)) = after_events d [(arep, ev)]"
  by (cases ev; auto simp: app_state_ind_cb_def after_events_def)+

lemma dispatch_effect:
  "fst (dispatch d c) = 0"
  "fst (snd (dispatch d c)) = (case state_event c of None \<Rightarrow> d | Some e \<Rightarrow> after_events d [e])"
proof -
  have "fst (mock_dispatch d m) = 0 \<and>
      fst (snd (mock_dispatch d m)) = (case state_event (MockCb m) of None \<Rightarrow> d | Some e \<Rightarrow> after_events d [e])" for m
    by (cases m) (auto simp: mock_callbacks state_cb_effect app_connect_ind_cb_def app_release_ind_cb_def app_alarm_cnf_cb_def
      app_exp_module_ind_cb_def app_sm_released_ind_cb_def mock_dcontrol_ind_cb_def mock_ccontrol_cnf_cb_def
      mock_write_ind_cb_def mock_read_ind_cb_def mock_exp_submodule_ind_cb_def mock_new_data_status_ind_cb_def
      mock_alarm_ind_cb_def mock_alarm_ack_cnf_cb_def mock_reset_ind_cb_def mock_signal_led_ind_cb_def)
  moreover have "fst (real_dispatch d m) = 0 \<and>
      fst (snd (real_dispatch d m)) = (case state_event (RealCb m) of None \<Rightarrow> d | Some e \<Rightarrow> after_events d [e])" for m
    by (cases m) (auto simp: state_cb_effect app_connect_ind_cb_def app_release_ind_cb_def app_alarm_cnf_cb_def
      app_exp_module_ind_cb_def app_sm_released_ind_cb_def real_dcontrol_ind_cb_def real_ccontrol_cnf_cb_def
      real_write_ind_cb_def real_read_ind_cb_def real_exp_submodule_ind_cb_def real_new_data_status_ind_cb_def
      real_alarm_ind_cb_def real_alarm_ack_cnf_cb_def real_reset_ind_cb_def real_signal_led_ind_cb_def
      split: prod.splits)
  ultimately show "fst (dispatch d c) = 0"
    "fst (snd (dispatch d c)) = (case state_event c of None \<Rightarrow> d | Some e \<Rightarrow> after_events d [e])"
    by (cases c; simp)+
qed

lemma state_events_simps [simp]:
  "state_events [] = []"
  "state_events (c # cs) = (case state_event c of None \<Rightarrow> state_events cs | Some e \<Rightarrow> e # state_events cs)"
  by (simp_all add: state_events_def List.map_filter_simps split: option.splits)

lemma run_callbacks_effect: "fst (run_callbacks d cs) = after_events d (state_events cs)"
proof (induction cs arbitrary: d)
  case Nil
  then show ?case
    by (simp add: after_events_def)
next
  case (Cons c cs)
  have "fst (run_callbacks d (c # cs)) = fst (run_callbacks (fst (snd (dispatch d c))) cs)"
    by (simp split: prod.splits)
  then show ?case
    by (simp add: Cons.IH dispatch_effect after_events_def split: option.splits)
qed

text \<open>The state after a sequence of events is decided by the last of DATA and ABORT.\<close>

definition decisive :: "u32 \<times> pnet_event \<Rightarrow> bool" where
  "decisive e \<longleftrightarrow> snd e = PNET_EVENT_DATA \<or> snd e = PNET_EVENT_ABORT"

lemma event_state_cases:
  "event_state s e = (if snd e = PNET_EVENT_DATA then IO_DEVICE_STATE_RUNNING
     else if snd e = PNET_EVENT_ABORT then IO_DEVICE_STATE_CONNECTED else s)"
  by (cases "(s, e)" rule: event_state.cases) auto

lemma foldl_event_state:
  "foldl event_state s es =
     (if filter decisive es = [] then s
      else if snd (last (filter decisive es)) = PNET_EVENT_DATA then IO_DEVICE_STATE_RUNNING
      else IO_DEVICE_STATE_CONNECTED)"
proof (induction es rule: rev_induct)
  case (snoc e es)
  show ?case
  proof (cases "decisive e")
    case True
    then show ?thesis
      by (auto simp: event_state_cases decisive_def)
  next
    case False
    then have "event_state t e = t" for t
      by (simp add: event_state_cases decisive_def)
    then show ?thesis
      using snoc False by simp
  qed
qed simp

section \<open>The life cycle as a state machine\<close>

text \<open>
  The calls a program makes on one device that exists, with buffers that exist. A call that
  returns is a step, whatever its result, provided the caller did its duties: it initialises
  the device with a well-formed configuration, and reads outputs with a length of at most
  256 into a buffer that holds this length. The other calls have no duties here. The duties
  are needed: the code checks neither that the strings of a configuration end with NUL nor
  the length of a read.
\<close>

datatype dev_call =
    Call_init io_device_cfg
  | Call_start
  | Call_tick
  | Call_stop
  | Call_cleanup
  | Call_update_input "u8 list" u16
  | Call_read_output "u8 list" u16

inductive dev_step :: "'n pnet_api \<Rightarrow> 'n io_device \<Rightarrow> dev_call \<Rightarrow> int \<Rightarrow> 'n io_device \<Rightarrow> bool" for api where
  step_init: "wf_cfg c \<Longrightarrow> io_device_init (Some d) (Some c) = Inr (r, Some d') \<Longrightarrow> dev_step api d (Call_init c) r d'"
| step_start: "io_device_start api (Some d) = Inr (r, Some d') \<Longrightarrow> dev_step api d Call_start r d'"
| step_tick: "io_device_tick api (Some d) = (r, Some d', t) \<Longrightarrow> dev_step api d Call_tick r d'"
| step_stop: "io_device_stop api (Some d) = (r, n, Some d') \<Longrightarrow> dev_step api d Call_stop r d'"
| step_cleanup: "io_device_cleanup (Some d) = Some d' \<Longrightarrow> dev_step api d Call_cleanup 0 d'"
| step_update: "io_device_update_input api (Some d) (Some bs) l = Inr (r, Some d') \<Longrightarrow>
    dev_step api d (Call_update_input bs l) r d'"
| step_read: "unat l \<le> 256 \<Longrightarrow> unat l \<le> length bs \<Longrightarrow>
    io_device_read_output api (Some d) (Some bs) (Some l) = Inr (r, Some d', bs', l') \<Longrightarrow>
    dev_step api d (Call_read_output bs l) r d'"

inductive_cases dev_stepE: "dev_step api d call r d'"

inductive dev_reach :: "'n pnet_api \<Rightarrow> 'n io_device \<Rightarrow> bool" for api where
  reach_zero: "dev_reach api zero_device"
| reach_step: "dev_reach api d \<Longrightarrow> dev_step api d call r d' \<Longrightarrow> dev_reach api d'"

text \<open>
  The invariant: the arrays have their sizes, the handle exists exactly in the states after
  a start, and counters and the active connection are only set there.
\<close>

definition dev_buffers_ok :: "'n io_device \<Rightarrow> bool" where
  "dev_buffers_ok d \<longleftrightarrow> wf_cfg (config d) \<and> length (input_data d) = 256 \<and> length (output_data d) = 256 \<and>
     unat (input_size d) \<le> 256 \<and> unat (output_size d) \<le> 256"

abbreviation started :: "'n io_device \<Rightarrow> bool" where
  "started d \<equiv> dev_state d \<in> {IO_DEVICE_STATE_CONNECTED, IO_DEVICE_STATE_RUNNING}"

definition dev_handle_ok :: "('n \<Rightarrow> bool) \<Rightarrow> 'n io_device \<Rightarrow> bool" where
  "dev_handle_ok ok d \<longleftrightarrow>
     (started d \<longrightarrow> pnet_handle d \<noteq> None) \<and>
     (dev_state d \<in> {IO_DEVICE_STATE_IDLE, IO_DEVICE_STATE_INITIALIZED} \<longrightarrow> pnet_handle d = None) \<and>
     (\<not> started d \<longrightarrow> active_arep d = 0 \<and> cycle_count d = 0) \<and>
     (case pnet_handle d of None \<Rightarrow> True | Some n \<Rightarrow> ok n)"

definition dev_ok :: "('n \<Rightarrow> bool) \<Rightarrow> 'n io_device \<Rightarrow> bool" where
  "dev_ok ok d \<longleftrightarrow> dev_buffers_ok d \<and> dev_handle_ok ok d"

lemma zero_device_ok: "dev_ok ok zero_device"
  by (simp add: dev_ok_def dev_buffers_ok_def dev_handle_ok_def zero_device_def)

lemma init_Some:
  assumes "wf_cfg c"
  shows "io_device_init (Some d) (Some c) =
    Inr (0, Some (d\<lparr>config := c, dev_state := IO_DEVICE_STATE_INITIALIZED, pnet_handle := None,
      active_arep := 0, cycle_count := 0, error_count := 0,
      input_size := EXAMPLE_INPUT_SIZE, output_size := EXAMPLE_OUTPUT_SIZE,
      input_data := replicate 256 0, output_data := replicate 256 0\<rparr>))"
  using wf_cfg_terminated [OF assms] by (simp add: io_device_init_def)

lemma device_init_ok: "wf_cfg c \<Longrightarrow> io_device_init (Some d) (Some c) = Inr (r, Some d') \<Longrightarrow> dev_ok ok d' \<and> r = 0"
  by (auto simp: init_Some dev_ok_def dev_buffers_ok_def dev_handle_ok_def ident_defs)

lemma device_cleanup_ok: "io_device_cleanup (Some d) = Some d' \<Longrightarrow> dev_ok ok d'"
  using zero_device_ok by (auto simp: io_device_cleanup_def zero_device_def)

lemma foldl_event_state_started:
  "s \<in> {IO_DEVICE_STATE_CONNECTED, IO_DEVICE_STATE_RUNNING} \<Longrightarrow>
   foldl event_state s es \<in> {IO_DEVICE_STATE_CONNECTED, IO_DEVICE_STATE_RUNNING}"
  by (simp add: foldl_event_state)

text \<open>What a tick does when it reaches the stack.\<close>

lemma tick_Some:
  "pnet_handle d = Some net \<Longrightarrow> dev_state d \<noteq> IO_DEVICE_STATE_ERROR \<Longrightarrow>
   \<exists>t. io_device_tick api (Some d) =
     (0, Some ((after_events d (state_events (snd (api_periodic api net))))
        \<lparr>pnet_handle := Some (fst (api_periodic api net)), cycle_count := cycle_count d + 1\<rparr>), t)"
  using run_callbacks_effect [of "d\<lparr>pnet_handle := Some (fst (api_periodic api net))\<rparr>" "snd (api_periodic api net)"]
  by (auto simp: io_device_tick_def after_events_def split: prod.splits)

lemma tick_refused:
  "pnet_handle d = None \<or> dev_state d = IO_DEVICE_STATE_ERROR \<Longrightarrow> io_device_tick api (Some d) = (-1, Some d, [])"
  by (auto simp: io_device_tick_def split: option.splits)

lemma plug_lengths: "list_all (\<lambda>c. case c of PlugModule _ _ _ \<Rightarrow> True | PlugSubmodule _ _ _ _ _ _ li lo \<Rightarrow> unat li \<le> 1 \<and> unat lo \<le> 1) plug_calls"
  by (simp add: plug_calls_def ident_defs)

context pnet_stack
begin

lemma plug_loop_ok:
  "stack_ok n \<Longrightarrow>
   list_all (\<lambda>c. case c of PlugModule _ _ _ \<Rightarrow> True | PlugSubmodule _ _ _ _ _ _ li lo \<Rightarrow> unat li \<le> 1 \<and> unat lo \<le> 1) cs \<Longrightarrow>
   stack_ok (snd (plug_loop api n cs))"
proof (induction cs arbitrary: n)
  case (Cons c cs)
  then have "stack_ok (snd (plug api n c))"
    by (cases c) (simp_all add: plug_module_ok plug_submodule_ok)
  then show ?case
    using Cons by (auto split: prod.splits)
qed simp

lemma plug_all_ok: "stack_ok n \<Longrightarrow> plug_all_modules api n = (r, n') \<Longrightarrow> stack_ok n'"
  using plug_loop_ok [OF _ plug_lengths, of n] by (simp add: plug_all_modules_def)

lemma start_ok:
  assumes "dev_ok stack_ok d" "io_device_start api (Some d) = Inr (r, Some d')"
  shows "dev_ok stack_ok d'"
proof (cases "dev_state d = IO_DEVICE_STATE_INITIALIZED")
  case False
  then show ?thesis
    using assms by (simp add: io_device_start_def start_stack_def)
next
  case True
  then obtain s h where "d' = d\<lparr>pnet_handle := h, dev_state := s\<rparr>"
    and "s = IO_DEVICE_STATE_ERROR \<or> s = IO_DEVICE_STATE_CONNECTED \<and> h \<noteq> None"
    and "case h of None \<Rightarrow> True | Some n \<Rightarrow> stack_ok n"
    using assms(2) by (fastforce simp: io_device_start_def start_stack_def bindE_Inr_iff split: if_splits option.splits prod.splits
      dest: init_ok plug_all_ok)
  then show ?thesis
    using assms(1) True by (auto simp: dev_ok_def dev_buffers_ok_def dev_handle_ok_def)
qed

lemma tick_ok:
  assumes "dev_ok stack_ok d" "io_device_tick api (Some d) = (r, Some d', t)"
  shows "dev_ok stack_ok d'"
proof (cases "pnet_handle d = None \<or> dev_state d = IO_DEVICE_STATE_ERROR")
  case True
  then show ?thesis
    using assms by (simp add: tick_refused)
next
  case False
  then obtain net where net: "pnet_handle d = Some net" and s: "dev_state d \<noteq> IO_DEVICE_STATE_ERROR"
    by auto
  moreover from this have "started d"
    using assms(1) by (cases "dev_state d") (auto simp: dev_ok_def dev_handle_ok_def)
  ultimately show ?thesis
    using assms tick_Some [OF net s, of api] periodic_ok [of net] foldl_event_state_started [of "dev_state d" "state_events (snd (api_periodic api net))"]
    by (auto simp del: insert_iff simp: dev_ok_def dev_buffers_ok_def dev_handle_ok_def after_events_def)
qed

lemma stop_ok: "dev_ok stack_ok d \<Longrightarrow> io_device_stop api (Some d) = (r, n, Some d') \<Longrightarrow> dev_ok stack_ok d'"
  by (auto simp: io_device_stop_def split: option.splits prod.splits dest: device_cleanup_ok)

lemma update_ok:
  "dev_ok stack_ok d \<Longrightarrow> io_device_update_input api (Some d) (Some bs) l = Inr (r, Some d') \<Longrightarrow> dev_ok stack_ok d'"
  by (auto simp: io_device_update_input_def bindE_Inr_iff dev_ok_def dev_buffers_ok_def dev_handle_ok_def Let_def
    split: if_splits option.splits prod.splits dest: input_set_ok)

text \<open>With the duties of the caller, reading outputs neither faults nor breaks the invariant.\<close>

lemma read_ok:
  assumes "dev_ok stack_ok d" "unat l \<le> 256" "unat l \<le> length bs"
  shows "\<exists>r d' bs' l'. io_device_read_output api (Some d) (Some bs) (Some l) = Inr (r, Some d', bs', l') \<and>
    dev_ok stack_ok d'"
proof (cases "pnet_handle d")
  case None
  then show ?thesis
    using assms by (simp add: io_device_read_output_def)
next
  case (Some net)
  then have "stack_ok net"
    using assms(1) by (simp add: dev_ok_def dev_handle_ok_def)
  then obtain r bs' l' iops where
    "api_output_get api net EXAMPLE_API EXAMPLE_SLOT EXAMPLE_SUBSLOT_OUTPUT bs l PNET_IOXS_BAD = Inr (r, bs', l', iops)"
    "length bs' = length bs" "unat l' \<le> unat l"
    using output_get_ok [OF _ assms(3)] by blast
  then show ?thesis
    using assms Some
    by (auto simp: io_device_read_output_def dev_ok_def dev_buffers_ok_def dev_handle_ok_def)
qed

lemma step_ok:
  assumes "dev_step api d call r d'" "dev_ok stack_ok d"
  shows "dev_ok stack_ok d'"
  using assms(1)
proof (cases rule: dev_step.cases)
  case (step_read l bs bs' l')
  then show ?thesis
    using read_ok [OF assms(2), of l bs] by auto
qed (use assms(2) in \<open>blast dest: device_init_ok start_ok tick_ok stop_ok device_cleanup_ok update_ok\<close>)+

lemma reach_ok: "dev_reach api d \<Longrightarrow> dev_ok stack_ok d"
  by (induction rule: dev_reach.induct) (auto simp: zero_device_ok intro: step_ok)

end

text \<open>
  The duties of a caller, as a test on a call. A caller that fulfils them gets an answer:
  on a stack that accepts input data, no call of the life cycle leaves its arrays.
\<close>

fun call_ok :: "dev_call \<Rightarrow> bool" where
  "call_ok (Call_init c) = wf_cfg c"
| "call_ok (Call_update_input bs l) = (bs \<noteq> [] \<and> unat l \<le> length bs)"
| "call_ok (Call_read_output bs l) = (unat l \<le> 256 \<and> unat l \<le> length bs)"
| "call_ok _ = True"

lemma start_returns:
  assumes "dev_buffers_ok d"
  shows "\<exists>r d'. io_device_start api (Some d) = Inr (r, Some d')"
  using build_pnet_cfg_eq [of "config d" api] assms
  by (auto simp: io_device_start_def start_stack_def dev_buffers_ok_def split: option.splits prod.splits)

lemma tick_returns: "\<exists>r d' t. io_device_tick api (Some d) = (r, Some d', t)"
  by (auto simp: io_device_tick_def split: option.splits prod.splits)

lemma stop_returns: "\<exists>r n d'. io_device_stop api (Some d) = (r, n, Some d')"
  by (auto simp: io_device_stop_def io_device_cleanup_def split: option.splits prod.splits)

context pnet_stack_total
begin

lemma update_returns:
  assumes "dev_ok stack_ok d" "bs \<noteq> []" "unat l \<le> length bs"
  shows "\<exists>r d'. io_device_update_input api (Some d) (Some bs) l = Inr (r, Some d')"
proof (cases "pnet_handle d")
  case (Some net)
  then have "stack_ok net" "length (input_data d) = 256"
    using assms(1) by (simp_all add: dev_ok_def dev_handle_ok_def dev_buffers_ok_def)
  then show ?thesis
    using Some assms(3) input_set_total [OF _ assms(2,3), of net EXAMPLE_API EXAMPLE_SLOT EXAMPLE_SUBSLOT_INPUT PNET_IOXS_GOOD]
    by (auto simp: io_device_update_input_def Let_def)
qed (simp add: io_device_update_input_def)

lemma progress:
  assumes "dev_ok stack_ok d" "call_ok call"
  shows "\<exists>r d'. dev_step api d call r d'"
proof (cases call)
  case (Call_init c)
  then show ?thesis
    using assms(2) init_Some [of c d] by (auto intro: step_init)
next
  case Call_start
  then show ?thesis
    using assms(1) start_returns [of d api] unfolding dev_ok_def by (blast intro: step_start)
next
  case (Call_update_input bs l)
  then show ?thesis
    using assms update_returns [of d bs l] by (auto intro: step_update)
next
  case (Call_read_output bs l)
  then show ?thesis
    using assms read_ok [of d l bs] by (auto intro: step_read)
next
  case Call_cleanup
  then show ?thesis
    using step_cleanup [of d zero_device api] by (auto simp: io_device_cleanup_def zero_device_def intro: step_cleanup)
qed (use tick_returns [of api d] stop_returns [of api d] in \<open>blast intro: step_tick step_stop\<close>)+

end

section \<open>The states as an automaton\<close>

text \<open>
  The specification of the life cycle. What it knows of a device is its state and whether
  there is a stack; it says from where a call with which result leads where. A failed start
  leaves ERROR, with or without a stack, which only initialising, stopping or cleaning up
  leaves again; stopping asks for the stack, not for the state.
\<close>

definition dev_abs :: "'n io_device \<Rightarrow> io_device_state \<times> bool" where
  "dev_abs d = (dev_state d, pnet_handle d \<noteq> None)"

fun automaton :: "io_device_state \<times> bool \<Rightarrow> dev_call \<Rightarrow> int \<Rightarrow> io_device_state \<times> bool \<Rightarrow> bool" where
  "automaton _ (Call_init _) r t \<longleftrightarrow> r = 0 \<and> t = (IO_DEVICE_STATE_INITIALIZED, False)"
| "automaton (s, h) Call_start r t \<longleftrightarrow>
     (if s = IO_DEVICE_STATE_INITIALIZED
      then r = 0 \<and> t = (IO_DEVICE_STATE_CONNECTED, True) \<or> r = -1 \<and> fst t = IO_DEVICE_STATE_ERROR
      else r = -1 \<and> t = (s, h))"
| "automaton (s, h) Call_tick r t \<longleftrightarrow>
     (if s \<in> {IO_DEVICE_STATE_CONNECTED, IO_DEVICE_STATE_RUNNING}
      then r = 0 \<and> h \<and> t \<in> {(IO_DEVICE_STATE_CONNECTED, True), (IO_DEVICE_STATE_RUNNING, True)}
      else r = -1 \<and> t = (s, h))"
| "automaton (s, h) Call_stop r t \<longleftrightarrow>
     (if h then r = 0 \<and> t = (IO_DEVICE_STATE_IDLE, False) else r = -1 \<and> t = (s, h))"
| "automaton _ Call_cleanup r t \<longleftrightarrow> r = 0 \<and> t = (IO_DEVICE_STATE_IDLE, False)"
| "automaton (s, h) (Call_update_input _ _) r t \<longleftrightarrow> t = (s, h) \<and> (\<not> h \<longrightarrow> r = -1)"
| "automaton (s, h) (Call_read_output _ _) r t \<longleftrightarrow> t = (s, h) \<and> (\<not> h \<longrightarrow> r = -1)"

lemma handle_of_state:
  assumes "dev_ok ok d"
  shows "dev_state d \<in> {IO_DEVICE_STATE_IDLE, IO_DEVICE_STATE_INITIALIZED} \<Longrightarrow> pnet_handle d = None"
    and "started d \<Longrightarrow> \<exists>net. pnet_handle d = Some net"
  using assms by (auto simp: dev_ok_def dev_handle_ok_def)

lemma start_automaton:
  assumes "io_device_start api (Some d) = Inr (r, Some d')"
  shows "automaton (dev_abs d) Call_start r (dev_abs d')"
proof (cases "dev_state d = IO_DEVICE_STATE_INITIALIZED")
  case True
  then obtain p where p: "build_pnet_cfg api (config d) = Inr p"
    using assms by (auto simp: io_device_start_def start_stack_def bindE_Inr_iff)
  show ?thesis
  proof (cases "api_init api p")
    case (Some net)
    then show ?thesis
      using assms True p by (cases "plug_all_modules api net") (auto simp: dev_abs_def io_device_start_def start_stack_def split: if_splits)
  qed (use assms True p in \<open>auto simp: dev_abs_def io_device_start_def start_stack_def\<close>)
qed (use assms in \<open>simp add: dev_abs_def io_device_start_def start_stack_def\<close>)

lemma tick_automaton:
  assumes "dev_ok ok d" "io_device_tick api (Some d) = (r, Some d', t)"
  shows "automaton (dev_abs d) Call_tick r (dev_abs d')"
proof (cases "started d")
  case True
  then obtain net where "pnet_handle d = Some net" "dev_state d \<noteq> IO_DEVICE_STATE_ERROR"
    using handle_of_state(2) [OF assms(1)] by auto
  then show ?thesis
    using True assms(2) tick_Some [of d net api] foldl_event_state_started [OF True]
    by (auto simp: dev_abs_def after_events_def)
next
  case False
  then have "pnet_handle d = None \<or> dev_state d = IO_DEVICE_STATE_ERROR"
    using handle_of_state(1) [OF assms(1)] by (cases "dev_state d") auto
  then show ?thesis
    using False assms(2) by (simp add: tick_refused dev_abs_def)
qed

lemma stop_automaton:
  assumes "io_device_stop api (Some d) = (r, n, Some d')"
  shows "automaton (dev_abs d) Call_stop r (dev_abs d')"
  using assms
  by (auto simp: dev_abs_def io_device_stop_def io_device_cleanup_def zero_device_def split: option.splits prod.splits)

lemma data_automaton:
  shows "io_device_update_input api (Some d) (Some bs) l = Inr (r, Some d') \<Longrightarrow>
      automaton (dev_abs d) (Call_update_input bs l) r (dev_abs d')"
    and "io_device_read_output api (Some d) (Some bs) (Some l) = Inr (r, Some d', bs', l') \<Longrightarrow>
      automaton (dev_abs d) (Call_read_output bs l) r (dev_abs d')"
  by (auto simp: dev_abs_def io_device_update_input_def io_device_read_output_def bindE_Inr_iff Let_def split: if_splits option.splits prod.splits)

lemma step_automaton:
  assumes "dev_step api d call r d'" "dev_ok ok d"
  shows "automaton (dev_abs d) call r (dev_abs d')"
  using assms(1)
proof (cases rule: dev_step.cases)
  case (step_init c)
  then show ?thesis
    by (auto simp: init_Some dev_abs_def)
next
  case step_cleanup
  then show ?thesis
    by (auto simp: io_device_cleanup_def dev_abs_def zero_device_def)
qed (use assms(2) in \<open>blast intro: start_automaton tick_automaton stop_automaton data_automaton\<close>)+

section \<open>Starting on the mock\<close>

text \<open>The submodules in use, as the arguments they were plugged with.\<close>

type_synonym plug_key = "u32 \<times> u16 \<times> u16 \<times> u32 \<times> u32 \<times> pnet_submodule_dir \<times> u16 \<times> u16 \<times> bool"

definition sm_key :: "mock_submodule \<Rightarrow> plug_key" where
  "sm_key sm = (sm_api sm, sm_slot sm, sm_subslot sm, sm_module_ident sm, sm_submodule_ident sm,
     sm_direction sm, sm_input_len sm, sm_output_len sm, sm_plugged sm)"

definition plugged_keys :: "mock_pnet \<Rightarrow> plug_key list" where
  "plugged_keys n = map sm_key (take (submodule_count n) (submodules n))"

lemma plug_submodule_keys:
  assumes "mock_ok n" "submodule_count n < MOCK_MAX_SUBMODULES" "unat li \<le> 1 \<and> unat lo \<le> 1"
  shows "\<exists>n'. mock_plug_submodule (Some n) a s ss mi si dir li lo = (0, Some n') \<and> mock_ok n' \<and>
    net_cfg n' = net_cfg n \<and> submodule_count n' = submodule_count n + 1 \<and>
    plugged_keys n' = plugged_keys n @ [(a, s, ss, mi, si, dir, li, lo, True)]"
proof -
  obtain n' where n': "mock_plug_submodule (Some n) a s ss mi si dir li lo = (0, Some n')"
    using assms by (auto simp: mock_plug_submodule_def mock_ok_def Let_def)
  then have "mock_ok n'"
    using assms mock_plug_ok by blast
  moreover have "submodule_count n < length (submodules n)"
    using assms by (simp add: mock_ok_def)
  ultimately show ?thesis
    using n' assms
    by (auto simp: mock_plug_submodule_def mock_ok_def plugged_keys_def Let_def take_Suc_conv_app_nth sm_key_def)
qed

text \<open>On a fresh mock every call succeeds, and the submodules are plugged in the order of the calls.\<close>

fun submodule_keys :: "plug_call list \<Rightarrow> plug_key list" where
  "submodule_keys [] = []"
| "submodule_keys (PlugModule _ _ _ # cs) = submodule_keys cs"
| "submodule_keys (PlugSubmodule a s ss mi si dir li lo # cs) =
     (a, s, ss, mi, si, dir, li, lo, True) # submodule_keys cs"

lemma plug_loop_mock:
  assumes "mock_ok n" "submodule_count n + length cs \<le> MOCK_MAX_SUBMODULES"
    "list_all (\<lambda>c. case c of PlugModule _ _ _ \<Rightarrow> True | PlugSubmodule _ _ _ _ _ _ li lo \<Rightarrow> unat li \<le> 1 \<and> unat lo \<le> 1) cs"
  shows "\<exists>n'. plug_loop mock_api n cs = (0, n') \<and> mock_ok n' \<and> net_cfg n' = net_cfg n \<and>
    plugged_keys n' = plugged_keys n @ submodule_keys cs"
  using assms
proof (induction cs arbitrary: n)
  case (Cons c cs)
  show ?case
  proof (cases c)
    case (PlugModule a s mi)
    then show ?thesis
      using Cons by (simp add: mock_api_def mock_plug_module_def mock_ok_def)
  next
    case (PlugSubmodule a s ss mi si dir li lo)
    then obtain n1 where "mock_plug_submodule (Some n) a s ss mi si dir li lo = (0, Some n1)" "mock_ok n1"
      "net_cfg n1 = net_cfg n" "submodule_count n1 = submodule_count n + 1"
      "plugged_keys n1 = plugged_keys n @ [(a, s, ss, mi, si, dir, li, lo, True)]"
      using Cons.prems plug_submodule_keys [of n li lo a s ss mi si dir] by auto
    then show ?thesis
      using Cons.prems Cons.IH [of n1] PlugSubmodule by (auto simp: mock_api_def)
  qed
qed simp

lemma start_mock_eq:
  assumes "wf_cfg (config d)" "dev_state d = IO_DEVICE_STATE_INITIALIZED"
  shows "\<exists>p n. build_pnet_cfg mock_api (config d) = Inr p \<and> net_cfg n = p \<and> mock_ok n \<and>
    plugged_keys n = submodule_keys plug_calls \<and>
    io_device_start mock_api (Some d) =
      Inr (0, Some (d\<lparr>pnet_handle := Some n, dev_state := IO_DEVICE_STATE_CONNECTED\<rparr>))"
proof -
  obtain p where p: "build_pnet_cfg mock_api (config d) = Inr p"
    using build_pnet_cfg_eq [OF assms(1), of mock_api] by blast
  define n where "n = the (api_init mock_api p)"
  have n: "api_init mock_api p = Some n" "mock_ok n" "net_cfg n = p" "submodule_count n = 0" "plugged_keys n = []"
    using mock_init_ok [of "Some p"] by (auto simp: n_def mock_api_def mock_init_def plugged_keys_def)
  have "submodule_count n + length plug_calls \<le> MOCK_MAX_SUBMODULES"
    using n by (simp add: plug_calls_def MOCK_MAX_SUBMODULES_def)
  then obtain n' where "plug_all_modules mock_api n = (0, n')" "mock_ok n'" "net_cfg n' = p"
    "plugged_keys n' = submodule_keys plug_calls"
    using n plug_loop_mock [OF n(2) _ plug_lengths] by (auto simp: plug_all_modules_def)
  then show ?thesis
    using p n assms by (auto simp: io_device_start_def start_stack_def)
qed

section \<open>Identification bytes\<close>

lemma high_low_bytes:
  fixes x :: u16
  shows "push_bit 8 (ucast (ucast (drop_bit 8 x) :: u8)) OR ucast (ucast (x AND 0xFF) :: u8) = x"
proof -
  have "x AND 0xFF = take_bit 8 x"
    by (simp add: take_bit_eq_mask mask_eq_exp_minus_1)
  then show ?thesis
    by (auto intro!: bit_word_eqI simp: bit_simps)
qed

lemma ucast_octet: "ucast (ucast (octet sh ip) :: u8) = octet sh ip"
  by (rule bit_word_eqI) (auto simp: bit_simps octet_bit)

lemma quad_of_octets:
  "quad_of ip = (ucast (octet 24 ip), ucast (octet 16 ip), ucast (octet 8 ip), ucast (octet 0 ip))"
  by (simp add: quad_of_def octet_def)

section \<open>Data exchange on the mock\<close>

lemma find_sm_first:
  assumes "i < submodule_count n" "P (submodules n ! i)" "\<And>j. j < i \<Longrightarrow> \<not> P (submodules n ! j)"
  shows "find_sm P n = Some i"
  unfolding find_sm_def find_Some_iff using assms by (auto intro!: exI [of _ i])

text \<open>The submodules after a start, by their position.\<close>

lemma started_keys:
  "submodule_keys plug_calls =
     [(0, 0, 0, 1, 1, PNET_DIR_NO_IO, 0, 0, True), (0, 0, 0x8000, 1, 0x8000, PNET_DIR_NO_IO, 0, 0, True),
      (0, 0, 0x8001, 1, 0x8001, PNET_DIR_NO_IO, 0, 0, True), (0, 1, 1, 0x30, 0x31, PNET_DIR_INPUT, 1, 0, True),
      (0, 1, 2, 0x30, 0x32, PNET_DIR_OUTPUT, 0, 1, True)]"
  by (simp add: plug_calls_def ident_defs)

lemma plugged_keys_nth:
  "mock_ok n \<Longrightarrow> i < submodule_count n \<Longrightarrow> plugged_keys n ! i = sm_key (submodules n ! i)"
  by (simp add: plugged_keys_def mock_ok_def)

lemma started_submodules:
  assumes "mock_ok n" "plugged_keys n = submodule_keys plug_calls"
  shows "submodule_count n = 5"
    and "sm_key (submodules n ! 0) = (0, 0, 0, 1, 1, PNET_DIR_NO_IO, 0, 0, True)"
    and "sm_key (submodules n ! 1) = (0, 0, 0x8000, 1, 0x8000, PNET_DIR_NO_IO, 0, 0, True)"
    and "sm_key (submodules n ! 2) = (0, 0, 0x8001, 1, 0x8001, PNET_DIR_NO_IO, 0, 0, True)"
    and "sm_key (submodules n ! 3) = (0, 1, 1, 0x30, 0x31, PNET_DIR_INPUT, 1, 0, True)"
    and "sm_key (submodules n ! 4) = (0, 1, 2, 0x30, 0x32, PNET_DIR_OUTPUT, 0, 1, True)"
proof -
  have "length (plugged_keys n) = 5"
    using assms by (simp add: started_keys)
  then show c: "submodule_count n = 5"
    using assms(1) by (simp add: plugged_keys_def mock_ok_def MOCK_MAX_SUBMODULES_def)
  show "sm_key (submodules n ! 0) = (0, 0, 0, 1, 1, PNET_DIR_NO_IO, 0, 0, True)"
    and "sm_key (submodules n ! 1) = (0, 0, 0x8000, 1, 0x8000, PNET_DIR_NO_IO, 0, 0, True)"
    and "sm_key (submodules n ! 2) = (0, 0, 0x8001, 1, 0x8001, PNET_DIR_NO_IO, 0, 0, True)"
    and "sm_key (submodules n ! 3) = (0, 1, 1, 0x30, 0x31, PNET_DIR_INPUT, 1, 0, True)"
    and "sm_key (submodules n ! 4) = (0, 1, 2, 0x30, 0x32, PNET_DIR_OUTPUT, 0, 1, True)"
    using assms c by (simp_all add: started_keys flip: plugged_keys_nth)
qed

lemma below_3: "j < (3::nat) \<Longrightarrow> j = 0 \<or> j = 1 \<or> j = 2"
  by arith

lemma below_4: "j < (4::nat) \<Longrightarrow> j = 0 \<or> j = 1 \<or> j = 2 \<or> j = 3"
  by arith

lemma find_started:
  assumes "mock_ok n" "plugged_keys n = submodule_keys plug_calls"
  shows "find_sm (\<lambda>sm. sm_matches EXAMPLE_API EXAMPLE_SLOT EXAMPLE_SUBSLOT_INPUT sm \<and> sm_plugged sm) n = Some 3"
    and "find_sm (\<lambda>sm. sm_matches EXAMPLE_API EXAMPLE_SLOT EXAMPLE_SUBSLOT_OUTPUT sm \<and> sm_plugged sm) n = Some 4"
    and "sm_input_len (submodules n ! 3) = 1" "sm_output_len (submodules n ! 4) = 1"
proof -
  note keys = started_submodules [OF assms]
  show "find_sm (\<lambda>sm. sm_matches EXAMPLE_API EXAMPLE_SLOT EXAMPLE_SUBSLOT_INPUT sm \<and> sm_plugged sm) n = Some 3"
    by (rule find_sm_first) (use keys in
      \<open>auto simp: sm_matches_def sm_key_def ident_defs dest!: below_3\<close>)
  show "find_sm (\<lambda>sm. sm_matches EXAMPLE_API EXAMPLE_SLOT EXAMPLE_SUBSLOT_OUTPUT sm \<and> sm_plugged sm) n = Some 4"
    by (rule find_sm_first) (use keys in
      \<open>auto simp: sm_matches_def sm_key_def ident_defs dest!: below_4\<close>)
  show "sm_input_len (submodules n ! 3) = 1" "sm_output_len (submodules n ! 4) = 1"
    using keys by (simp_all add: sm_key_def)
qed

section \<open>Properties\<close>

text \<open>A stack that makes the same callbacks in every cycle and returns as many bytes as it is asked for.\<close>

definition echo_stack :: "nat pnet_api" where
  "echo_stack = \<lparr>api_build = USE_MOCK_PNET, api_sizes = mock_sizes, api_init = (\<lambda>_. Some 0),
      api_periodic = (\<lambda>n. (n + 1, [MockCb (M_State 7 PNET_EVENT_DATA), MockCb (M_State 7 PNET_EVENT_ABORT),
        MockCb (M_Connect 8), MockCb (M_State 8 PNET_EVENT_DATA), MockCb (M_State 8 PNET_EVENT_PRMEND)])),
      api_plug_module = (\<lambda>n _ _ _. (0, n)), api_plug_submodule = (\<lambda>n _ _ _ _ _ _ _ _. (0, n)),
      api_input_set = (\<lambda>n _ _ _ _ _ _. Inr (0, n)), api_output_get = (\<lambda>n _ _ _ d l i. Inr (0, d, l, i)),
      api_factory_reset = (\<lambda>n. (0, n)), api_show = (\<lambda>_ _. [])\<rparr>"

lemma reach_started:
  "\<exists>d. dev_reach mock_api d \<and> dev_state d = IO_DEVICE_STATE_CONNECTED"
proof -
  obtain d1 :: "mock_pnet io_device" where i: "io_device_init (Some zero_device) (Some zero_cfg) = Inr (0, Some d1)"
    and d1: "config d1 = zero_cfg" "dev_state d1 = IO_DEVICE_STATE_INITIALIZED"
    by (simp add: init_Some)
  then have "dev_reach mock_api d1"
    by (blast intro: reach_zero reach_step step_init wf_zero_cfg)
  moreover obtain n where "io_device_start mock_api (Some d1) =
      Inr (0, Some (d1\<lparr>pnet_handle := Some n, dev_state := IO_DEVICE_STATE_CONNECTED\<rparr>))"
    using start_mock_eq [of d1] d1 by auto
  ultimately have "dev_reach mock_api (d1\<lparr>pnet_handle := Some n, dev_state := IO_DEVICE_STATE_CONNECTED\<rparr>)"
    by (blast intro: reach_step step_start)
  then show ?thesis
    by (intro exI [of _ "d1\<lparr>pnet_handle := Some n, dev_state := IO_DEVICE_STATE_CONNECTED\<rparr>"]) simp
qed

text \<open>
  C3: from a zeroed device on, whatever calls of the life cycle and of the data exchange a
  program makes that fulfil the duties of a caller (it initialises with a well-formed
  configuration and reads outputs with a length of at most 256 that its buffer holds; the
  other calls have none), in any order and with any results, the device keeps its invariant:
  its arrays have their sizes and end with NUL where they are strings, the recorded data sizes stay within the arrays, the stack handle is present in
  the states CONNECTED and RUNNING and absent in IDLE and INITIALIZED, the cycle counter and
  the active connection are only set in CONNECTED and RUNNING, and the stack keeps its own
  invariant. And the device answers: every further call that fulfils these duties, and for an
  update of the input passes a buffer that is not empty and holds the length given, returns
  without an access outside an array. This holds for every stack that fulfils the
  contract and accepts input data.
\<close>
theorem device_invariant:
  assumes "pnet_stack_total api ok" "dev_reach api d"
  shows "dev_ok ok d \<and> (call_ok call \<longrightarrow> (\<exists>r d'. dev_step api d call r d'))"
proof -
  have "dev_ok ok d"
    using pnet_stack.reach_ok [OF pnet_stack_total.axioms(1) [OF assms(1)] assms(2)] .
  then show ?thesis
    using pnet_stack_total.progress [OF assms(1)] by blast
qed

theorem device_invariant_witness:
  "\<exists>d. dev_reach mock_api d \<and> dev_state d = IO_DEVICE_STATE_CONNECTED \<and> dev_ok mock_ok d \<and>
     (\<exists>r d'. dev_step mock_api d (Call_update_input [0xA5] 1) r d')"
  using reach_started device_invariant [OF mock.pnet_stack_total_axioms, of _ "Call_update_input [0xA5] 1"]
  by (auto simp del: fun_upd_apply)

text \<open>
  C17: the life cycle of a device refines the automaton over its state and whether there is
  a stack. On every device a program can reach by calls that fulfil the duties of a caller
  (initialising with a well-formed configuration, reading outputs with a length of at most
  256 that the buffer holds), every such call changes both as the automaton says, with the
  result it says: a start works in INITIALIZED only and ends in CONNECTED with a stack or in
  ERROR, a tick succeeds exactly in CONNECTED and RUNNING, and then stays there and keeps
  the stack; stopping succeeds exactly when there is a stack, in whatever state, ends in
  IDLE without one, and is refused without effect otherwise; initialising and cleaning up
  drop the stack; and the exchange of data changes neither and is refused without a stack.
\<close>
theorem device_refines_automaton:
  assumes "pnet_stack api ok" "dev_reach api d" "dev_step api d call r d'"
  shows "automaton (dev_abs d) call r (dev_abs d')"
  by (rule step_automaton [OF assms(3) pnet_stack.reach_ok [OF assms(1,2)]])

theorem device_refines_automaton_witness:
  "\<exists>d d' r. dev_step mock_api d Call_tick r d' \<and> dev_state d = IO_DEVICE_STATE_CONNECTED \<and> r = 0 \<and>
     automaton (dev_abs d) Call_tick r (dev_abs d')"
proof -
  obtain d where d: "dev_reach mock_api d" "dev_state d = IO_DEVICE_STATE_CONNECTED"
    using reach_started by blast
  then obtain net where "pnet_handle d = Some net"
    using handle_of_state(2) [OF pnet_stack.reach_ok [OF mock.pnet_stack_axioms]] by blast
  then obtain d' t where "io_device_tick mock_api (Some d) = (0, Some d', t)"
    using tick_Some [of d net mock_api] d(2) by auto
  then have "dev_step mock_api d Call_tick 0 d'"
    by (rule step_tick)
  then show ?thesis
    using d device_refines_automaton [OF mock.pnet_stack_axioms d(1)] by blast
qed

text \<open>
  C16: a tick that reaches the stack counts one cycle (modulo 2 to the 64th) and leaves the
  configuration and both data buffers alone, whatever callbacks the stack makes. The new
  state is decided by the last DATA or ABORT event among the callbacks: RUNNING after DATA,
  CONNECTED after ABORT, unchanged when there is none.
\<close>
theorem tick_effect:
  assumes "pnet_handle d = Some net" "dev_state d \<noteq> IO_DEVICE_STATE_ERROR"
    and "es = filter decisive (state_events (snd (api_periodic api net)))"
  shows "\<exists>d' t. io_device_tick api (Some d) = (0, Some d', t) \<and>
    pnet_handle d' = Some (fst (api_periodic api net)) \<and> cycle_count d' = cycle_count d + 1 \<and>
    dev_state d' = (if es = [] then dev_state d else if snd (last es) = PNET_EVENT_DATA
      then IO_DEVICE_STATE_RUNNING else IO_DEVICE_STATE_CONNECTED) \<and>
    config d' = config d \<and> error_count d' = error_count d \<and> input_data d' = input_data d \<and>
    output_data d' = output_data d \<and> input_size d' = input_size d \<and> output_size d' = output_size d"
  using tick_Some [OF assms(1,2), of api] assms(3) by (auto simp: after_events_def foldl_event_state)

theorem tick_effect_witness:
  "\<exists>d' t. io_device_tick echo_stack
     (Some (zero_device\<lparr>pnet_handle := Some 0, dev_state := IO_DEVICE_STATE_CONNECTED\<rparr>)) = (0, Some d', t) \<and>
     dev_state d' = IO_DEVICE_STATE_RUNNING \<and> pnet_handle d' = Some 1 \<and> cycle_count d' = 1"
  using tick_effect [OF _ _ refl, of "zero_device\<lparr>pnet_handle := Some 0, dev_state := IO_DEVICE_STATE_CONNECTED\<rparr>"
    0 echo_stack]
  by (auto simp: zero_device_def decisive_def echo_stack_def)

text \<open>
  C12: starting on the mock succeeds for every well-formed configuration. The stack then
  holds the device access point with its interface and port and the example module with
  one input byte and one output byte, in this order, and its configuration carries the
  configured values unchanged: product, station and interface name (the last in both places
  that take it), file directory, IP address, netmask, gateway, MAC address, tick interval and
  the flag for the hello message; the two bytes of the vendor and of the device identifier
  recombine to the configured values.
\<close>
theorem start_on_mock:
  assumes "wf_cfg (config d)" "dev_state d = IO_DEVICE_STATE_INITIALIZED"
  shows "\<exists>n. io_device_start mock_api (Some d) =
      Inr (0, Some (d\<lparr>pnet_handle := Some n, dev_state := IO_DEVICE_STATE_CONNECTED\<rparr>)) \<and>
    plugged_keys n =
     [(0, 0, 0, 1, 1, PNET_DIR_NO_IO, 0, 0, True), (0, 0, 0x8000, 1, 0x8000, PNET_DIR_NO_IO, 0, 0, True),
      (0, 0, 0x8001, 1, 0x8001, PNET_DIR_NO_IO, 0, 0, True), (0, 1, 1, 0x30, 0x31, PNET_DIR_INPUT, 1, 0, True),
      (0, 1, 2, 0x30, 0x32, PNET_DIR_OUTPUT, 0, 1, True)] \<and>
    cstr (p_product_name (net_cfg n)) = cstr (product_name (config d)) \<and>
    cstr (p_station_name (net_cfg n)) = cstr (station_name (config d)) \<and>
    cstr (pnal_if_name (p_pnal_cfg (net_cfg n))) = cstr (interface_name (config d)) \<and>
    cstr (p_file_directory (net_cfg n)) = cstr (file_directory (config d)) \<and>
    pnal_ip_addr (p_pnal_cfg (net_cfg n)) = ip_addr (config d) \<and>
    pnal_netmask (p_pnal_cfg (net_cfg n)) = netmask (config d) \<and>
    pnal_gateway (p_pnal_cfg (net_cfg n)) = gateway (config d) \<and>
    (\<exists>b. if_cfg (net_cfg n) = MockIf b (mac_addr (config d)) \<and> cstr b = cstr (interface_name (config d))) \<and>
    p_tick_us (net_cfg n) = tick_us (config d) \<and> p_send_hello (net_cfg n) = send_hello (config d) \<and>
    (let i = p_device_id (net_cfg n) in
       push_bit 8 (ucast (vendor_id_high i)) OR ucast (vendor_id_low i) = vendor_id (config d) \<and>
       push_bit 8 (ucast (device_id_high i)) OR ucast (device_id_low i) = device_id (config d))"
proof -
  obtain p n where n: "build_pnet_cfg mock_api (config d) = Inr p" "net_cfg n = p"
    "plugged_keys n = submodule_keys plug_calls" "io_device_start mock_api (Some d) =
      Inr (0, Some (d\<lparr>pnet_handle := Some n, dev_state := IO_DEVICE_STATE_CONNECTED\<rparr>))"
    using start_mock_eq [OF assms] by blast
  have sz: "sz_product_name (api_sizes mock_api) = 26" "sz_station_name (api_sizes mock_api) = 241"
    "sz_if_name (api_sizes mock_api) = 16" "sz_netif_name (api_sizes mock_api) = 16"
    "sz_file_directory (api_sizes mock_api) = 240" "api_build mock_api = USE_MOCK_PNET"
    by (simp_all add: mock_api_def mock_sizes_def pnet_size_defs)
  have str: "str_field 26 (product_name (config d))" "str_field 241 (station_name (config d))"
    "str_field 16 (interface_name (config d))" "str_field 240 (file_directory (config d))"
    using assms(1) by (simp_all add: wf_cfg_def)
  note copied = str [THEN str_field_take, OF order.refl, simplified]
  have "cfg_if mock_api (config d) = Inr (MockIf (strncpy (zeros 16) (interface_name (config d)) 15) (mac_addr (config d)))"
    using assms(1) str(3) [THEN str_field_terminated] by (simp add: cfg_if_def sz safe_strncpy_zeros wf_cfg_def)
  then have "if_cfg (net_cfg n) = MockIf (strncpy (zeros 16) (interface_name (config d)) 15) (mac_addr (config d))"
    using build_pnet_cfg_eq [OF assms(1), of mock_api] n by auto
  then show ?thesis
    using build_pnet_cfg_eq [OF assms(1), of mock_api] n
    by (intro exI [of _ n]) (auto simp: started_keys sz copied cstr_strncpy_zeros Let_def cfg_device_id_def high_low_bytes)
qed

theorem start_on_mock_witness:
  "\<exists>n. io_device_start mock_api (Some (zero_device\<lparr>config := zero_cfg\<lparr>product_name := ''PLC'' @ zeros 23\<rparr>,
       dev_state := IO_DEVICE_STATE_INITIALIZED\<rparr>)) =
     Inr (0, Some (zero_device\<lparr>config := zero_cfg\<lparr>product_name := ''PLC'' @ zeros 23\<rparr>,
       dev_state := IO_DEVICE_STATE_CONNECTED, pnet_handle := Some n\<rparr>)) \<and>
     cstr (p_product_name (net_cfg n)) = ''PLC''"
proof -
  have "wf_cfg (zero_cfg\<lparr>product_name := ''PLC'' @ zeros 23\<rparr>)"
    using wf_zero_cfg by (auto simp: wf_cfg_def str_field_def last_nul_def zeros_def)
  moreover have "cstr (''PLC'' @ zeros 23) = ''PLC''"
    by (rule cstr_append_zeros) simp
  ultimately show ?thesis
    using start_on_mock [of "zero_device\<lparr>config := zero_cfg\<lparr>product_name := ''PLC'' @ zeros 23\<rparr>,
       dev_state := IO_DEVICE_STATE_INITIALIZED\<rparr>"]
    by (auto simp: zero_device_def)
qed

lemma hd_tl_1: "xs \<noteq> [] \<Longrightarrow> take (Suc 0) xs = [hd xs]" "drop (Suc 0) xs = tl xs"
  by (cases xs; simp)+

lemma started_input_set:
  assumes "mock_ok n" "plugged_keys n = submodule_keys plug_calls" "bs \<noteq> []"
  shows "\<exists>n'. api_input_set mock_api n EXAMPLE_API EXAMPLE_SLOT EXAMPLE_SUBSLOT_INPUT bs l iops = Inr (0, n') \<and>
    hd (sm_input_data (submodules n' ! 3)) = hd bs \<and> sm_input_iops (submodules n' ! 3) = iops"
  using assms find_started [OF assms(1,2)]
  by (cases bs) (simp_all add: mock_api_def mock_input_set_def Let_def mock_ok_def MOCK_MAX_SUBMODULES_def)

lemma started_output_get:
  assumes "mock_ok n" "plugged_keys n = submodule_keys plug_calls" "bs \<noteq> []" "0 < l"
  shows "\<exists>iops'. api_output_get mock_api n EXAMPLE_API EXAMPLE_SLOT EXAMPLE_SUBSLOT_OUTPUT bs l iops =
    Inr (0, hd (sm_output_data (submodules n ! 4)) # tl bs, 1, iops')"
proof -
  have "\<not> (1 :: u16) < l \<Longrightarrow> l = 1"
    using assms(4) by (simp add: word_less_nat_alt unat_eq_nat_uint [symmetric] word_unat_eq_iff)
  moreover have "sm_output_data (submodules n ! 4) \<noteq> []"
    using mock_ok_nth [OF assms(1), of 4] by (auto simp: sm_ok_def MOCK_MAX_SUBMODULES_def)
  ultimately show ?thesis
    using assms find_started [OF assms(1,2)]
    by (cases "1 < l") (simp_all add: mock_api_def mock_output_get_def Let_def hd_tl_1 not_less Suc_le_eq)
qed

text \<open>
  C25: process data reaches the mock after a start. Writing inputs returns 0, caches the
  bytes in the device and puts the first byte with status GOOD into the input submodule;
  reading outputs returns 0 with the one byte of the output submodule, and both leave the
  rest of the device alone.
\<close>
theorem data_exchange:
  assumes "pnet_handle d = Some n" "mock_ok n" "plugged_keys n = submodule_keys plug_calls"
    and "length (input_data d) = 256" "length (output_data d) = 256"
    and "bs \<noteq> []" "unat l \<le> length bs" "unat l \<le> 256" "0 < l"
  shows "(\<exists>n'. io_device_update_input mock_api (Some d) (Some bs) l =
      Inr (0, Some (d\<lparr>input_data := take (unat l) bs @ drop (unat l) (input_data d), input_size := l,
        pnet_handle := Some n'\<rparr>)) \<and>
      hd (sm_input_data (submodules n' ! 3)) = hd bs \<and> sm_input_iops (submodules n' ! 3) = PNET_IOXS_GOOD) \<and>
    io_device_read_output mock_api (Some d) (Some bs) (Some l) =
      Inr (0, Some (d\<lparr>output_data := hd (sm_output_data (submodules n ! 4)) # tl (output_data d), output_size := 1\<rparr>),
        Some (hd (sm_output_data (submodules n ! 4)) # tl bs), Some 1)"
proof -
  obtain n' where "api_input_set mock_api n EXAMPLE_API EXAMPLE_SLOT EXAMPLE_SUBSLOT_INPUT bs l PNET_IOXS_GOOD = Inr (0, n')"
    "hd (sm_input_data (submodules n' ! 3)) = hd bs" "sm_input_iops (submodules n' ! 3) = PNET_IOXS_GOOD"
    using started_input_set [OF assms(2,3,6)] by blast
  moreover obtain i where "api_output_get mock_api n EXAMPLE_API EXAMPLE_SLOT EXAMPLE_SUBSLOT_OUTPUT bs l PNET_IOXS_BAD =
      Inr (0, hd (sm_output_data (submodules n ! 4)) # tl bs, 1, i)"
    using started_output_get [OF assms(2,3,6,9)] by blast
  moreover have "output_data d \<noteq> []"
    using assms(5) by auto
  ultimately show ?thesis
    using assms by (auto simp: io_device_update_input_def io_device_read_output_def hd_tl_1)
qed

theorem data_exchange_witness:
  "\<exists>n d'. io_device_start mock_api (Some (zero_device\<lparr>dev_state := IO_DEVICE_STATE_INITIALIZED\<rparr>)) =
       Inr (0, Some (zero_device\<lparr>dev_state := IO_DEVICE_STATE_CONNECTED, pnet_handle := Some n\<rparr>)) \<and>
     io_device_update_input mock_api (Some (zero_device\<lparr>dev_state := IO_DEVICE_STATE_CONNECTED, pnet_handle := Some n\<rparr>))
       (Some [0xA5]) 1 = Inr (0, Some d') \<and> take 1 (input_data d') = [0xA5]"
proof -
  obtain n where n: "mock_ok n" "plugged_keys n = submodule_keys plug_calls"
    "io_device_start mock_api (Some (zero_device\<lparr>dev_state := IO_DEVICE_STATE_INITIALIZED\<rparr>)) =
       Inr (0, Some (zero_device\<lparr>dev_state := IO_DEVICE_STATE_CONNECTED, pnet_handle := Some n\<rparr>))"
    using start_mock_eq [of "zero_device\<lparr>dev_state := IO_DEVICE_STATE_INITIALIZED\<rparr>"]
    by (auto simp: zero_device_def)
  then show ?thesis
    using data_exchange [of "zero_device\<lparr>dev_state := IO_DEVICE_STATE_CONNECTED, pnet_handle := Some n\<rparr>" n "[0xA5]" 1]
    by (auto simp: zero_device_def)
qed

text \<open>A stack without a state of its own fulfils the contract too.\<close>

interpretation echo: pnet_stack_total echo_stack "\<lambda>_. True"
  by unfold_locales (auto simp: echo_stack_def)

text \<open>
  C30: for every stack that fulfils the contract, reading outputs leaves the device's buffer
  exactly when the stack reports success with more than 256 bytes. The length the caller
  passes is handed to the stack without a test against the size of the buffer the bytes are
  cached in, so only a caller that asks for at most 256 bytes is safe: then the call
  returns, and the device keeps its invariant.
\<close>
theorem read_output_fault:
  assumes "pnet_stack api ok" "dev_ok ok d" "pnet_handle d = Some net" "unat l \<le> length bs"
  shows "(io_device_read_output api (Some d) (Some bs) (Some l) = Inl OutOfBounds \<longleftrightarrow>
      (\<exists>bs' l' i. api_output_get api net EXAMPLE_API EXAMPLE_SLOT EXAMPLE_SUBSLOT_OUTPUT bs l PNET_IOXS_BAD =
        Inr (0, bs', l', i) \<and> 256 < unat l')) \<and>
    (unat l \<le> 256 \<longrightarrow> (\<exists>r d' bs' l'. io_device_read_output api (Some d) (Some bs) (Some l) =
      Inr (r, Some d', Some bs', Some l') \<and> dev_ok ok d' \<and> unat l' \<le> unat l))"
proof -
  have ok: "ok net" "length (output_data d) = 256"
    using assms(2,3) by (auto simp: dev_ok_def dev_handle_ok_def dev_buffers_ok_def)
  obtain r bs' l' i where out: "api_output_get api net EXAMPLE_API EXAMPLE_SLOT EXAMPLE_SUBSLOT_OUTPUT bs l PNET_IOXS_BAD =
      Inr (r, bs', l', i)" "length bs' = length bs" "unat l' \<le> unat l"
    using pnet_stack.output_get_ok [OF assms(1) ok(1) assms(4)] by blast
  have "\<exists>d'. io_device_read_output api (Some d) (Some bs) (Some l) =
      Inr (r, Some d', Some bs', Some (if r = 0 then l' else l)) \<and> dev_ok ok d'" if "unat l \<le> 256"
    using that assms(2-4) ok out
    by (auto simp: io_device_read_output_def dev_ok_def dev_handle_ok_def dev_buffers_ok_def)
  then show ?thesis
    using assms(3,4) ok out by (auto simp: io_device_read_output_def split: if_splits)
qed

theorem read_output_fault_witness:
  "io_device_read_output echo_stack (Some (zero_device\<lparr>pnet_handle := Some 0, dev_state := IO_DEVICE_STATE_CONNECTED\<rparr>))
     (Some (replicate 300 0)) (Some 300) = Inl OutOfBounds"
proof -
  let ?d = "zero_device\<lparr>pnet_handle := Some (0 :: nat), dev_state := IO_DEVICE_STATE_CONNECTED\<rparr>"
  have "dev_ok (\<lambda>_. True) ?d"
    using zero_device_ok [of "\<lambda>_. True"] by (auto simp: dev_ok_def dev_handle_ok_def dev_buffers_ok_def)
  then show ?thesis
    using read_output_fault [OF echo.pnet_stack_axioms, of ?d 0 300 "replicate 300 0"] by (simp add: echo_stack_def)
qed

end
