(* ===== verification/OS_Files.thy ===== *)
theory OS_Files
  imports Prelude
begin

text \<open>
  The files the program reads, writes and removes through the C library. A file system is
  a record: the contents by path, the access modes, and what the operating system decides
  (which paths can be opened for reading or writing, which text a file accepts, why a
  path cannot be removed). The decisions are fields, so a theorem holds for every outcome
  unless it names one as a hypothesis.
\<close>

record fs =
  content :: "string \<rightharpoonup> string"
  perms :: "string \<rightharpoonup> nat"
  can_read :: "string \<Rightarrow> bool"
  can_write :: "string \<Rightarrow> bool"
  accepts :: "string \<Rightarrow> string \<Rightarrow> bool"
  create_mode :: nat
  chmod_ok :: "string \<Rightarrow> bool"
  remove_errno :: "string \<Rightarrow> int"

text \<open>\<open>fopen(path, "r")\<close>: the text to be read, or \<open>None\<close> for \<open>NULL\<close>.\<close>

definition fopen_r :: "fs \<Rightarrow> string \<Rightarrow> string option" where
  "fopen_r f p = (if can_read f p then content f p else None)"

text \<open>
  \<open>fopen(path, "w")\<close>, the \<open>fprintf\<close> calls and \<open>fclose\<close>: \<open>None\<close> when the open fails. The
  text reaches the file when the stream is flushed on closing; a file that does not accept
  the text (a kernel setting that refuses a value) keeps its contents, and \<open>fclose\<close>
  reports it to nobody.
\<close>

definition write_file :: "fs \<Rightarrow> string \<Rightarrow> string \<Rightarrow> fs option" where
  "write_file f p txt =
     (if \<not> can_write f p then None
      else Some (let f' = (if perms f p = None then f\<lparr>perms := (perms f)(p \<mapsto> create_mode f)\<rparr> else f)
                 in if accepts f p txt then f'\<lparr>content := (content f')(p \<mapsto> txt)\<rparr> else f'))"

definition chmod :: "fs \<Rightarrow> string \<Rightarrow> nat \<Rightarrow> fs" where
  "chmod f p m = (if chmod_ok f p \<and> perms f p \<noteq> None then f\<lparr>perms := (perms f)(p \<mapsto> m)\<rparr> else f)"

text \<open>\<open>remove(path)\<close>: the result, the new file system and the new value of \<open>errno\<close>.\<close>

definition remove_file :: "fs \<Rightarrow> int \<Rightarrow> string \<Rightarrow> int \<times> fs \<times> int" where
  "remove_file f err p =
     (if content f p = None then (-1, f, ENOENT)
      else if remove_errno f p \<noteq> 0 then (-1, f, remove_errno f p)
      else (0, f\<lparr>content := (content f)(p := None), perms := (perms f)(p := None)\<rparr>, err))"

lemma write_file_content:
  "write_file f p txt = Some f' \<Longrightarrow> accepts f p txt \<Longrightarrow> content f' = (content f)(p \<mapsto> txt)"
  by (auto simp: write_file_def Let_def split: if_splits)

lemma write_file_rejected:
  "write_file f p txt = Some f' \<Longrightarrow> \<not> accepts f p txt \<Longrightarrow> content f' = content f"
  by (auto simp: write_file_def Let_def split: if_splits)

lemma write_file_frame:
  "write_file f p txt = Some f' \<Longrightarrow>
     can_read f' = can_read f \<and> can_write f' = can_write f \<and> accepts f' = accepts f \<and>
     create_mode f' = create_mode f \<and> chmod_ok f' = chmod_ok f \<and> remove_errno f' = remove_errno f"
  by (auto simp: write_file_def Let_def split: if_splits)

lemma write_file_other:
  "write_file f p txt = Some f' \<Longrightarrow> q \<noteq> p \<Longrightarrow> content f' q = content f q \<and> perms f' q = perms f q"
  by (auto simp: write_file_def Let_def split: if_splits)

text \<open>Outside the paths \<open>P\<close>, every file has its contents and its mode.\<close>

definition files_kept :: "string set \<Rightarrow> fs \<Rightarrow> fs \<Rightarrow> bool" where
  "files_kept P f f' \<longleftrightarrow> (\<forall>q. q \<notin> P \<longrightarrow> content f' q = content f q \<and> perms f' q = perms f q)"

lemma files_kept_refl [simp]: "files_kept P f f"
  by (simp add: files_kept_def)

lemma files_kept_trans: "files_kept P f g \<Longrightarrow> files_kept P g h \<Longrightarrow> files_kept P f h"
  by (simp add: files_kept_def)

lemma write_file_kept: "write_file f p txt = Some f' \<Longrightarrow> p \<in> P \<Longrightarrow> files_kept P f f'"
  using write_file_other by (fastforce simp: files_kept_def)

lemma write_file_perms: "write_file f p txt = Some f' \<Longrightarrow> perms f' p \<noteq> None"
  by (auto simp: write_file_def Let_def split: if_splits)

lemma write_file_Some: "can_write f p \<Longrightarrow> \<exists>f'. write_file f p txt = Some f'"
  by (simp add: write_file_def)

lemma write_file_None [simp]: "write_file f p txt = None \<longleftrightarrow> \<not> can_write f p"
  by (simp add: write_file_def)

lemma write_file_SomeD: "write_file f p txt = Some f' \<Longrightarrow> can_write f p"
  by (auto simp: write_file_def split: if_splits)

lemma chmod_frame [simp]:
  "content (chmod f p m) = content f" "can_read (chmod f p m) = can_read f"
  "can_write (chmod f p m) = can_write f" "accepts (chmod f p m) = accepts f"
  by (simp_all add: chmod_def)

lemma chmod_perms: "chmod_ok f p \<Longrightarrow> perms f p \<noteq> None \<Longrightarrow> perms (chmod f p m) p = Some m"
  by (simp add: chmod_def)

text \<open>A file system that allows everything, for examples.\<close>

definition open_fs :: "(string \<rightharpoonup> string) \<Rightarrow> fs" where
  "open_fs m = \<lparr>content = m, perms = (\<lambda>p. map_option (\<lambda>_. 420) (m p)), can_read = (\<lambda>_. True), can_write = (\<lambda>_. True),
     accepts = (\<lambda>_ _. True), create_mode = 420, chmod_ok = (\<lambda>_. True), remove_errno = (\<lambda>_. 0)\<rparr>"

end
