(* ===== verification/Network_Config.thy ===== *)
theory Network_Config
  imports Net_Addr OS_Files
begin

text \<open>
  network_config.c: querying and configuring network interfaces through \<open>ioctl\<close> (Linux) or
  \<open>getifaddrs\<close> (macOS), the TCP settings under /proc/sys, and the address utilities. The
  \<open>#ifdef\<close> branches are selected by the platform argument. The interfaces of the machine,
  the number of open descriptors and what the kernel permits are the record \<open>net_os\<close>.
\<close>

section \<open>Data\<close>

record net_if_config =
  if_name :: buf
  net_ip_addr :: u32
  net_netmask :: u32
  net_gateway :: u32
  net_mac_addr :: "u8 list"
  configured :: bool

record tcp_tuning_config =
  tcp_timestamps :: bool
  tcp_window_scaling :: bool
  tcp_sack :: bool
  tcp_rmem :: "u32 \<times> u32 \<times> u32"
  tcp_wmem :: "u32 \<times> u32 \<times> u32"

section \<open>The operating system\<close>

text \<open>
  An interface as the kernel keeps it. The address and the mask are the words a
  \<open>sockaddr_in\<close> carries in \<open>s_addr\<close>.
\<close>

record iface =
  ifc_addr :: u32
  ifc_mask :: u32
  ifc_flags :: u16
  ifc_hw :: "u8 list"

datatype ioctl_req = SIOCGIFADDR | SIOCGIFHWADDR | SIOCGIFFLAGS
  | SIOCSIFADDR u32 | SIOCSIFNETMASK u32 | SIOCSIFFLAGS u16

datatype ioctl_res = IoctlFail | IoctlDone | IoctlAddr u32 | IoctlHw "u8 list" | IoctlFlags u16

datatype sockaddr = AF_INET u32 | AF_LINK "u8 list" | AF_OTHER

text \<open>
  \<open>ioctl_ok\<close> says which requests the kernel grants on a name, \<open>default_mask\<close> which mask it
  gives an interface when its address is set; \<open>ifap\<close> is the list \<open>getifaddrs\<close> returns.
\<close>

record net_os =
  ifaces :: "string \<rightharpoonup> iface"
  open_fds :: nat
  sock_ok :: bool
  ioctl_ok :: "ioctl_req \<Rightarrow> string \<Rightarrow> bool"
  default_mask :: "u32 \<Rightarrow> u32"
  ifap :: "(string \<times> sockaddr option) list option"

definition IFF_UP :: u16 where "IFF_UP = 1"

fun serve :: "net_os \<Rightarrow> string \<Rightarrow> iface \<Rightarrow> ioctl_req \<Rightarrow> ioctl_res \<times> net_os" where
  "serve os n i SIOCGIFADDR = (IoctlAddr (ifc_addr i), os)"
| "serve os n i SIOCGIFHWADDR = (IoctlHw (ifc_hw i), os)"
| "serve os n i SIOCGIFFLAGS = (IoctlFlags (ifc_flags i), os)"
| "serve os n i (SIOCSIFADDR a) =
     (IoctlDone, os\<lparr>ifaces := (ifaces os)(n \<mapsto> i\<lparr>ifc_addr := a, ifc_mask := default_mask os a\<rparr>)\<rparr>)"
| "serve os n i (SIOCSIFNETMASK m) = (IoctlDone, os\<lparr>ifaces := (ifaces os)(n \<mapsto> i\<lparr>ifc_mask := m\<rparr>)\<rparr>)"
| "serve os n i (SIOCSIFFLAGS f) = (IoctlDone, os\<lparr>ifaces := (ifaces os)(n \<mapsto> i\<lparr>ifc_flags := f\<rparr>)\<rparr>)"

definition ioctl :: "net_os \<Rightarrow> string \<Rightarrow> ioctl_req \<Rightarrow> ioctl_res \<times> net_os" where
  "ioctl os n r =
     (case ifaces os n of
        None \<Rightarrow> (IoctlFail, os)
      | Some i \<Rightarrow> if ioctl_ok os r n then serve os n i r else (IoctlFail, os))"

definition close_fd :: "net_os \<Rightarrow> net_os" where
  "close_fd os = os\<lparr>open_fds := open_fds os - 1\<rparr>"

text \<open>The socket for the queries: \<open>None\<close> for a negative descriptor.\<close>

definition create_ioctl_socket :: "net_os \<Rightarrow> net_os option" where
  "create_ioctl_socket os = (if sock_ok os then Some (os\<lparr>open_fds := open_fds os + 1\<rparr>) else None)"

text \<open>\<open>struct ifreq\<close> zeroed, then \<open>strncpy(ifr.ifr_name, if_name, IFNAMSIZ - 1)\<close>.\<close>

definition ifr_name :: "string \<Rightarrow> string" where
  "ifr_name n = cstr (strncpy (zeros 16) n 15)"

section \<open>Queries\<close>

fun find_inet :: "string \<Rightarrow> (string \<times> sockaddr option) list \<Rightarrow> u32 option" where
  "find_inet n [] = None"
| "find_inet n ((m, Some (AF_INET a)) # xs) = (if m = n then Some a else find_inet n xs)"
| "find_inet n (_ # xs) = find_inet n xs"

fun find_link :: "string \<Rightarrow> (string \<times> sockaddr option) list \<Rightarrow> u8 list option" where
  "find_link n [] = None"
| "find_link n ((m, Some (AF_LINK a)) # xs) = (if m = n \<and> length a = 6 then Some a else find_link n xs)"
| "find_link n (_ # xs) = find_link n xs"

text \<open>
  The result, the value of the output argument afterwards and the operating system. The
  output argument is \<open>None\<close> for a null pointer.
\<close>

definition net_if_get_ip ::
    "platform \<Rightarrow> net_os \<Rightarrow> string option \<Rightarrow> u32 option \<Rightarrow> int \<times> u32 option \<times> net_os" where
  "net_if_get_ip pf os name ip =
     (case (name, ip) of
        (Some n, Some _) \<Rightarrow>
          (case pf of
             PLATFORM_LINUX \<Rightarrow>
               (case create_ioctl_socket os of
                  None \<Rightarrow> (-1, ip, os)
                | Some os1 \<Rightarrow>
                    (case ioctl os1 (ifr_name n) SIOCGIFADDR of
                       (IoctlAddr a, os2) \<Rightarrow> (0, Some a, close_fd os2)
                     | (_, os2) \<Rightarrow> (-1, ip, close_fd os2)))
           | PLATFORM_APPLE \<Rightarrow>
               (case ifap os of
                  None \<Rightarrow> (-1, ip, os)
                | Some xs \<Rightarrow> (case find_inet n xs of Some a \<Rightarrow> (0, Some a, os) | None \<Rightarrow> (-1, ip, os)))
           | PLATFORM_OTHER \<Rightarrow> (-1, ip, os))
      | _ \<Rightarrow> (-1, ip, os))"

definition net_if_get_mac ::
    "platform \<Rightarrow> net_os \<Rightarrow> string option \<Rightarrow> u8 list option \<Rightarrow> int \<times> u8 list option \<times> net_os" where
  "net_if_get_mac pf os name mac =
     (case (name, mac) of
        (Some n, Some _) \<Rightarrow>
          (case pf of
             PLATFORM_LINUX \<Rightarrow>
               (case create_ioctl_socket os of
                  None \<Rightarrow> (-1, mac, os)
                | Some os1 \<Rightarrow>
                    (case ioctl os1 (ifr_name n) SIOCGIFHWADDR of
                       (IoctlHw a, os2) \<Rightarrow> (0, Some (take 6 a), close_fd os2)
                     | (_, os2) \<Rightarrow> (-1, mac, close_fd os2)))
           | PLATFORM_APPLE \<Rightarrow>
               (case ifap os of
                  None \<Rightarrow> (-1, mac, os)
                | Some xs \<Rightarrow> (case find_link n xs of Some a \<Rightarrow> (0, Some a, os) | None \<Rightarrow> (-1, mac, os)))
           | PLATFORM_OTHER \<Rightarrow> (-1, mac, os))
      | _ \<Rightarrow> (-1, mac, os))"

section \<open>Configuration\<close>

definition net_if_set_ip :: "platform \<Rightarrow> net_os \<Rightarrow> string option \<Rightarrow> u32 \<Rightarrow> int \<times> net_os" where
  "net_if_set_ip pf os name ip =
     (case name of
        None \<Rightarrow> (-1, os)
      | Some n \<Rightarrow>
          if pf = PLATFORM_LINUX then
            (case create_ioctl_socket os of
               None \<Rightarrow> (-1, os)
             | Some os1 \<Rightarrow>
                 (case ioctl os1 (ifr_name n) (SIOCSIFADDR ip) of
                    (IoctlFail, os2) \<Rightarrow> (-1, close_fd os2)
                  | (_, os2) \<Rightarrow> (0, close_fd os2)))
          else (-1, os))"

definition net_if_set_netmask :: "platform \<Rightarrow> net_os \<Rightarrow> string option \<Rightarrow> u32 \<Rightarrow> int \<times> net_os" where
  "net_if_set_netmask pf os name nm =
     (case name of
        None \<Rightarrow> (-1, os)
      | Some n \<Rightarrow>
          if pf = PLATFORM_LINUX then
            (case create_ioctl_socket os of
               None \<Rightarrow> (-1, os)
             | Some os1 \<Rightarrow>
                 (case ioctl os1 (ifr_name n) (SIOCSIFNETMASK nm) of
                    (IoctlFail, os2) \<Rightarrow> (-1, close_fd os2)
                  | (_, os2) \<Rightarrow> (0, close_fd os2)))
          else (-1, os))"

text \<open>\<open>net_if_set_up\<close> and \<open>net_if_set_down\<close> differ in how they change the flag word.\<close>

definition change_flags :: "platform \<Rightarrow> net_os \<Rightarrow> string option \<Rightarrow> (u16 \<Rightarrow> u16) \<Rightarrow> int \<times> net_os" where
  "change_flags pf os name upd =
     (case name of
        None \<Rightarrow> (-1, os)
      | Some n \<Rightarrow>
          if pf = PLATFORM_LINUX then
            (case create_ioctl_socket os of
               None \<Rightarrow> (-1, os)
             | Some os1 \<Rightarrow>
                 (case ioctl os1 (ifr_name n) SIOCGIFFLAGS of
                    (IoctlFlags f, os2) \<Rightarrow>
                      (case ioctl os2 (ifr_name n) (SIOCSIFFLAGS (upd f)) of
                         (IoctlFail, os3) \<Rightarrow> (-1, close_fd os3)
                       | (_, os3) \<Rightarrow> (0, close_fd os3))
                  | (_, os2) \<Rightarrow> (-1, close_fd os2)))
          else (-1, os))"

definition net_if_set_up :: "platform \<Rightarrow> net_os \<Rightarrow> string option \<Rightarrow> int \<times> net_os" where
  "net_if_set_up pf os name = change_flags pf os name (\<lambda>f. f OR IFF_UP)"

definition net_if_set_down :: "platform \<Rightarrow> net_os \<Rightarrow> string option \<Rightarrow> int \<times> net_os" where
  "net_if_set_down pf os name = change_flags pf os name (\<lambda>f. f AND NOT IFF_UP)"

definition net_if_get_config ::
    "platform \<Rightarrow> net_os \<Rightarrow> string option \<Rightarrow> net_if_config option \<Rightarrow> int \<times> net_if_config option \<times> net_os" where
  "net_if_get_config pf os name config =
     (case (name, config) of
        (Some n, Some _) \<Rightarrow>
          let c0 = \<lparr>if_name = strncpy (zeros 16) n 15, net_ip_addr = 0, net_netmask = 0, net_gateway = 0,
                    net_mac_addr = replicate 6 0, configured = False\<rparr>;
              (ip_ret, ip, os1) = net_if_get_ip pf os name (Some (net_ip_addr c0));
              (mac_ret, mac, os2) = net_if_get_mac pf os1 name (Some (net_mac_addr c0));
              c1 = c0\<lparr>net_ip_addr := the ip, net_mac_addr := the mac\<rparr>
          in if ip_ret = 0 \<and> mac_ret = 0 then (0, Some (c1\<lparr>configured := True\<rparr>), os2)
             else (-1, Some (c1\<lparr>configured := False\<rparr>), os2)
      | _ \<Rightarrow> (-1, config, os))"

section \<open>TCP settings\<close>

definition PROC_TCP_TIMESTAMPS :: string where "PROC_TCP_TIMESTAMPS = ''/proc/sys/net/ipv4/tcp_timestamps''"
definition PROC_TCP_WIN_SCALE :: string where "PROC_TCP_WIN_SCALE = ''/proc/sys/net/ipv4/tcp_window_scaling''"
definition PROC_TCP_SACK :: string where "PROC_TCP_SACK = ''/proc/sys/net/ipv4/tcp_sack''"
definition PROC_TCP_RMEM :: string where "PROC_TCP_RMEM = ''/proc/sys/net/ipv4/tcp_rmem''"
definition PROC_TCP_WMEM :: string where "PROC_TCP_WMEM = ''/proc/sys/net/ipv4/tcp_wmem''"

definition proc_write_int :: "fs \<Rightarrow> string \<Rightarrow> int \<Rightarrow> int \<times> fs" where
  "proc_write_int f path v =
     (let txt = fmt_d v @ [NL] in
      case write_file f path txt of
        None \<Rightarrow> (-1, f)
      | Some f' \<Rightarrow> (if int (length txt) > 0 then 0 else -1, f'))"

definition proc_read_int :: "fs \<Rightarrow> string \<Rightarrow> int \<Rightarrow> int \<times> int" where
  "proc_read_int f path out =
     (case fopen_r f path of
        None \<Rightarrow> (-1, out)
      | Some txt \<Rightarrow> (case scan_d txt of Some (v, _) \<Rightarrow> (0, v) | None \<Rightarrow> (-1, out)))"

definition proc_read_u32_triple :: "fs \<Rightarrow> string \<Rightarrow> u32 \<times> u32 \<times> u32 \<Rightarrow> int \<times> (u32 \<times> u32 \<times> u32)" where
  "proc_read_u32_triple f path out =
     (case fopen_r f path of
        None \<Rightarrow> (-1, out)
      | Some txt \<Rightarrow>
          (case scan_u txt of None \<Rightarrow> (-1, out) | Some (a, s1) \<Rightarrow>
          (case scan_u s1 of None \<Rightarrow> (-1, out) | Some (b, s2) \<Rightarrow>
          (case scan_u s2 of None \<Rightarrow> (-1, out) | Some (c, _) \<Rightarrow> (0, (a, b, c))))))"

definition proc_write_u32_triple :: "fs \<Rightarrow> string \<Rightarrow> u32 \<times> u32 \<times> u32 \<Rightarrow> int \<times> fs" where
  "proc_write_u32_triple f path val =
     (case val of (a, b, c) \<Rightarrow>
      let txt = fmt_u (unat a) @ '' '' @ fmt_u (unat b) @ '' '' @ fmt_u (unat c) @ [NL] in
      case write_file f path txt of
        None \<Rightarrow> (-1, f)
      | Some f' \<Rightarrow> (if int (length txt) > 0 then 0 else -1, f'))"

definition net_tcp_tuning_apply :: "platform \<Rightarrow> fs \<Rightarrow> tcp_tuning_config option \<Rightarrow> int \<times> fs" where
  "net_tcp_tuning_apply pf f tuning =
     (case tuning of
        None \<Rightarrow> (-1, f)
      | Some t \<Rightarrow>
          if pf = PLATFORM_LINUX then
            let (r1, f1) = proc_write_int f PROC_TCP_TIMESTAMPS (if tcp_timestamps t then 1 else 0);
                (r2, f2) = proc_write_int f1 PROC_TCP_WIN_SCALE (if tcp_window_scaling t then 1 else 0);
                (r3, f3) = proc_write_int f2 PROC_TCP_SACK (if tcp_sack t then 1 else 0);
                (r4, f4) = proc_write_u32_triple f3 PROC_TCP_RMEM (tcp_rmem t);
                (r5, f5) = proc_write_u32_triple f4 PROC_TCP_WMEM (tcp_wmem t);
                ret = 0 OR r1 OR r2 OR r3 OR r4 OR r5
            in (if ret = 0 then 0 else -1, f5)
          else (-1, f))"

definition net_tcp_tuning_read_current ::
    "platform \<Rightarrow> fs \<Rightarrow> tcp_tuning_config option \<Rightarrow> int \<times> tcp_tuning_config option" where
  "net_tcp_tuning_read_current pf f tuning =
     (case tuning of
        None \<Rightarrow> (-1, None)
      | Some _ \<Rightarrow>
          if pf = PLATFORM_LINUX then
            let (r1, ts) = proc_read_int f PROC_TCP_TIMESTAMPS 0;
                (r2, ws) = proc_read_int f PROC_TCP_WIN_SCALE 0;
                (r3, sack) = proc_read_int f PROC_TCP_SACK 0;
                (r4, rmem) = proc_read_u32_triple f PROC_TCP_RMEM (0, 0, 0);
                (r5, wmem) = proc_read_u32_triple f PROC_TCP_WMEM (0, 0, 0);
                ret = 0 OR r1 OR r2 OR r3 OR r4 OR r5
            in (if ret = 0 then 0 else -1,
                Some \<lparr>tcp_timestamps = (ts \<noteq> 0), tcp_window_scaling = (ws \<noteq> 0), tcp_sack = (sack \<noteq> 0),
                      tcp_rmem = rmem, tcp_wmem = wmem\<rparr>)
          else (-1, tuning))"

section \<open>Address utilities\<close>

definition net_ip_from_string :: "endianness \<Rightarrow> string option \<Rightarrow> u32" where
  "net_ip_from_string e str =
     (case str of
        None \<Rightarrow> 0
      | Some s \<Rightarrow> (case inet_pton e s of Some a \<Rightarrow> a | None \<Rightarrow> 0))"

definition net_ip_to_string :: "endianness \<Rightarrow> u32 \<Rightarrow> buf option \<Rightarrow> nat \<Rightarrow> buf option" where
  "net_ip_to_string e ip b buf_size =
     (case b of
        None \<Rightarrow> None
      | Some b0 \<Rightarrow>
          if buf_size = 0 then b
          else (case inet_ntop e ip buf_size of
                  Some s \<Rightarrow> Some (s @ NUL # drop (length s + 1) b0)
                | None \<Rightarrow> Some ((strncpy b0 ''0.0.0.0'' buf_size)[buf_size - 1 := NUL])))"

definition net_ip_is_valid :: "endianness \<Rightarrow> u32 \<Rightarrow> bool" where
  "net_ip_is_valid e ip =
     (let host_ip = ntohl e ip in
      if host_ip = 0 then False
      else if host_ip = 0xFFFFFFFF then False
      else if (host_ip AND 0xFF000000) = 0 then False
      else if (host_ip AND 0xF0000000) = 0xF0000000 then False
      else True)"

section \<open>Descriptors\<close>

lemma serve_frame:
  "serve os n i r = (x, os') \<Longrightarrow>
     open_fds os' = open_fds os \<and> sock_ok os' = sock_ok os \<and> ioctl_ok os' = ioctl_ok os \<and>
     default_mask os' = default_mask os \<and> ifap os' = ifap os \<and>
     (\<forall>m. m \<noteq> n \<longrightarrow> ifaces os' m = ifaces os m) \<and> x \<noteq> IoctlFail"
  by (cases r) auto

lemma ioctl_frame:
  "ioctl os n r = (x, os') \<Longrightarrow>
     open_fds os' = open_fds os \<and> sock_ok os' = sock_ok os \<and> ioctl_ok os' = ioctl_ok os \<and>
     default_mask os' = default_mask os \<and> ifap os' = ifap os \<and>
     (\<forall>m. m \<noteq> n \<longrightarrow> ifaces os' m = ifaces os m) \<and> (x = IoctlFail \<longrightarrow> os' = os)"
  by (auto simp: ioctl_def split: option.splits if_splits dest: serve_frame)

lemma close_create: "create_ioctl_socket os = Some os1 \<Longrightarrow> close_fd os1 = os"
  by (auto simp: create_ioctl_socket_def close_fd_def split: if_splits)

lemma close_fd_simps [simp]:
  "ifaces (close_fd os) = ifaces os" "open_fds (close_fd os) = open_fds os - 1" "ifap (close_fd os) = ifap os"
  "sock_ok (close_fd os) = sock_ok os" "ioctl_ok (close_fd os) = ioctl_ok os"
  "default_mask (close_fd os) = default_mask os"
  by (simp_all add: close_fd_def)

lemma create_ioctl_socketD:
  "create_ioctl_socket os = Some os1 \<Longrightarrow>
     open_fds os1 = open_fds os + 1 \<and> ifaces os1 = ifaces os \<and> ioctl_ok os1 = ioctl_ok os \<and>
     sock_ok os1 = sock_ok os \<and> default_mask os1 = default_mask os \<and> ifap os1 = ifap os"
  by (auto simp: create_ioctl_socket_def split: if_splits)

text \<open>
  One session: open the socket, run requests, close it. \<open>balanced\<close> says the operating
  system afterwards has as many open descriptors as before.
\<close>

definition balanced :: "net_os \<Rightarrow> net_os \<Rightarrow> bool" where
  "balanced os os' \<longleftrightarrow> open_fds os' = open_fds os"

lemma balanced_session:
  "create_ioctl_socket os = Some os1 \<Longrightarrow> ioctl os1 n r = (x, os2) \<Longrightarrow> balanced os (close_fd os2)"
  by (auto simp: balanced_def dest!: create_ioctl_socketD ioctl_frame)

lemma balanced_session2:
  "create_ioctl_socket os = Some os1 \<Longrightarrow> ioctl os1 n r = (x, os2) \<Longrightarrow> ioctl os2 n q = (y, os3) \<Longrightarrow>
     balanced os (close_fd os3)"
  by (auto simp: balanced_def dest!: create_ioctl_socketD ioctl_frame)

lemma balanced_refl [simp]: "balanced os os"
  by (simp add: balanced_def)

lemmas session_splits = option.splits platform.splits ioctl_res.splits prod.splits if_splits

lemma get_ip_balanced: "balanced os (snd (snd (net_if_get_ip pf os name ip)))"
  by (auto simp: net_if_get_ip_def split: session_splits dest: balanced_session)

lemma get_mac_balanced: "balanced os (snd (snd (net_if_get_mac pf os name mac)))"
  by (auto simp: net_if_get_mac_def split: session_splits dest: balanced_session)

lemma set_ip_balanced: "balanced os (snd (net_if_set_ip pf os name ip))"
  by (auto simp: net_if_set_ip_def split: session_splits dest: balanced_session)

lemma set_netmask_balanced: "balanced os (snd (net_if_set_netmask pf os name nm))"
  by (auto simp: net_if_set_netmask_def split: session_splits dest: balanced_session)

lemma change_flags_balanced: "balanced os (snd (change_flags pf os name upd))"
  by (auto simp: change_flags_def split: session_splits dest: balanced_session balanced_session2)

lemma get_config_balanced: "balanced os (snd (snd (net_if_get_config pf os name config)))"
  using get_ip_balanced [of os pf name "Some 0"]
    get_mac_balanced [of "snd (snd (net_if_get_ip pf os name (Some 0)))" pf name "Some (replicate 6 0)"]
  by (auto simp: net_if_get_config_def Let_def balanced_def split: option.splits prod.splits)

section \<open>What the setters do\<close>

lemma ifr_name_eq: "ifr_name n = take 15 (cstr n)"
  by (simp add: ifr_name_def cstr_strncpy_zeros)

lemma set_ip_linux:
  "net_if_set_ip PLATFORM_LINUX os (Some n) a =
     (case ifaces os (ifr_name n) of
        Some i \<Rightarrow> if sock_ok os \<and> ioctl_ok os (SIOCSIFADDR a) (ifr_name n)
          then (0, os\<lparr>ifaces := (ifaces os)(ifr_name n \<mapsto> i\<lparr>ifc_addr := a, ifc_mask := default_mask os a\<rparr>)\<rparr>)
          else (-1, os)
      | None \<Rightarrow> (-1, os))"
  by (auto simp: net_if_set_ip_def create_ioctl_socket_def ioctl_def close_fd_def split: option.splits)

lemma set_netmask_linux:
  "net_if_set_netmask PLATFORM_LINUX os (Some n) m =
     (case ifaces os (ifr_name n) of
        Some i \<Rightarrow> if sock_ok os \<and> ioctl_ok os (SIOCSIFNETMASK m) (ifr_name n)
          then (0, os\<lparr>ifaces := (ifaces os)(ifr_name n \<mapsto> i\<lparr>ifc_mask := m\<rparr>)\<rparr>)
          else (-1, os)
      | None \<Rightarrow> (-1, os))"
  by (auto simp: net_if_set_netmask_def create_ioctl_socket_def ioctl_def close_fd_def split: option.splits)

lemma change_flags_linux:
  "change_flags PLATFORM_LINUX os (Some n) upd =
     (case ifaces os (ifr_name n) of
        Some i \<Rightarrow> if sock_ok os \<and> ioctl_ok os SIOCGIFFLAGS (ifr_name n) \<and>
            ioctl_ok os (SIOCSIFFLAGS (upd (ifc_flags i))) (ifr_name n)
          then (0, os\<lparr>ifaces := (ifaces os)(ifr_name n \<mapsto> i\<lparr>ifc_flags := upd (ifc_flags i)\<rparr>)\<rparr>)
          else (-1, os)
      | None \<Rightarrow> (-1, os))"
  by (auto simp: change_flags_def create_ioctl_socket_def ioctl_def close_fd_def split: option.splits)

lemma get_ip_linux:
  "net_if_get_ip PLATFORM_LINUX os (Some n) (Some x) =
     (case ifaces os (ifr_name n) of
        Some i \<Rightarrow> if sock_ok os \<and> ioctl_ok os SIOCGIFADDR (ifr_name n)
          then (0, Some (ifc_addr i), os) else (-1, Some x, os)
      | None \<Rightarrow> (-1, Some x, os))"
  by (auto simp: net_if_get_ip_def create_ioctl_socket_def ioctl_def close_fd_def split: option.splits)

lemma get_mac_linux:
  "net_if_get_mac PLATFORM_LINUX os (Some n) (Some x) =
     (case ifaces os (ifr_name n) of
        Some i \<Rightarrow> if sock_ok os \<and> ioctl_ok os SIOCGIFHWADDR (ifr_name n)
          then (0, Some (take 6 (ifc_hw i)), os) else (-1, Some x, os)
      | None \<Rightarrow> (-1, Some x, os))"
  by (auto simp: net_if_get_mac_def create_ioctl_socket_def ioctl_def close_fd_def split: option.splits)

lemmas linux_ops = set_ip_linux set_netmask_linux change_flags_linux get_ip_linux get_mac_linux

section \<open>The TCP settings\<close>

definition tcp_paths :: "string list" where
  "tcp_paths = [PROC_TCP_TIMESTAMPS, PROC_TCP_WIN_SCALE, PROC_TCP_SACK, PROC_TCP_RMEM, PROC_TCP_WMEM]"

definition triple_text :: "u32 \<times> u32 \<times> u32 \<Rightarrow> string" where
  "triple_text v = (case v of (a, b, c) \<Rightarrow>
     fmt_u (unat a) @ '' '' @ fmt_u (unat b) @ '' '' @ fmt_u (unat c) @ [NL])"

definition flag_text :: "bool \<Rightarrow> string" where
  "flag_text x = fmt_d (if x then 1 else 0) @ [NL]"

text \<open>What the settings of a configuration look like in the files.\<close>

definition tcp_files :: "tcp_tuning_config \<Rightarrow> (string \<times> string) list" where
  "tcp_files t = zip tcp_paths [flag_text (tcp_timestamps t), flag_text (tcp_window_scaling t),
     flag_text (tcp_sack t), triple_text (tcp_rmem t), triple_text (tcp_wmem t)]"

lemmas tcp_path_defs = PROC_TCP_TIMESTAMPS_def PROC_TCP_WIN_SCALE_def PROC_TCP_SACK_def
  PROC_TCP_RMEM_def PROC_TCP_WMEM_def

definition put_file :: "fs \<Rightarrow> string \<Rightarrow> string \<Rightarrow> fs" where
  "put_file f p txt = (case write_file f p txt of None \<Rightarrow> f | Some f' \<Rightarrow> f')"

lemma proc_write_int_eq:
  "proc_write_int f p v = (if can_write f p then 0 else -1, put_file f p (fmt_d v @ [NL]))"
  by (auto simp: proc_write_int_def put_file_def Let_def split: option.splits dest: write_file_SomeD)

lemma proc_write_u32_triple_eq:
  "proc_write_u32_triple f p v = (if can_write f p then 0 else -1, put_file f p (triple_text v))"
  by (auto simp: proc_write_u32_triple_def put_file_def triple_text_def Let_def split: option.splits prod.splits
      dest: write_file_SomeD)

lemma put_file_frame [simp]:
  "can_write (put_file f p txt) = can_write f" "can_read (put_file f p txt) = can_read f"
  "accepts (put_file f p txt) = accepts f"
  by (auto simp: put_file_def split: option.splits dest: write_file_frame)

lemma put_file_content:
  "content (put_file f p txt) = (if can_write f p \<and> accepts f p txt then (content f)(p \<mapsto> txt) else content f)"
  by (auto simp: put_file_def split: option.splits dest: write_file_content write_file_rejected
      write_file_SomeD)

lemma or_status:
  "r1 \<in> {0, -1} \<Longrightarrow> r2 \<in> {0, -1} \<Longrightarrow> r3 \<in> {0, -1} \<Longrightarrow> r4 \<in> {0, -1} \<Longrightarrow> r5 \<in> {0, -1} \<Longrightarrow>
     (0 OR r1 OR r2 OR r3 OR r4 OR r5 = (0::int)) \<longleftrightarrow> r1 = 0 \<and> r2 = 0 \<and> r3 = 0 \<and> r4 = 0 \<and> r5 = 0"
  by auto

lemma tuning_apply_linux:
  "net_tcp_tuning_apply PLATFORM_LINUX f (Some t) =
     (if list_all (can_write f) tcp_paths then 0 else -1,
      fold (\<lambda>(p, txt) g. put_file g p txt) (tcp_files t) f)"
  using or_status [of "if can_write f PROC_TCP_TIMESTAMPS then 0 else -1" "if can_write f PROC_TCP_WIN_SCALE then 0 else -1"
      "if can_write f PROC_TCP_SACK then 0 else -1" "if can_write f PROC_TCP_RMEM then 0 else -1"
      "if can_write f PROC_TCP_WMEM then 0 else -1"]
  by (simp add: net_tcp_tuning_apply_def proc_write_int_eq proc_write_u32_triple_eq tcp_files_def tcp_paths_def
      flag_text_def)

lemma not_digit_NL [simp]: "\<not> starts_dig 10 (NL # t)" "\<not> starts_dig 10 (CHR '' '' # t)"
  by (simp_all add: starts_dig_def is_dig_def digit_val_def)

lemma isspace_space [simp]: "isspace CHR '' ''"
  by (simp add: isspace_def)

lemma scan_u_space: "scan_u (CHR '' '' # s) = scan_u s"
  by (simp add: scan_u_def scan_lu_def)

lemma read_flag:
  "fopen_r f p = Some (flag_text x) \<Longrightarrow> proc_read_int f p z = (0, if x then 1 else 0)"
  using scan_d_fmt_d [of "if x then 1 else 0" "[NL]"]
  by (auto simp: proc_read_int_def flag_text_def is_s32_def)

lemma read_triple:
  "fopen_r f p = Some (triple_text v) \<Longrightarrow> proc_read_u32_triple f p z = (0, v)"
  by (cases v) (simp add: proc_read_u32_triple_def triple_text_def scan_u_octet scan_u_space)

lemma tuning_read_linux:
  assumes "\<And>p txt. (p, txt) \<in> set (tcp_files t) \<Longrightarrow> fopen_r f p = Some txt"
  shows "net_tcp_tuning_read_current PLATFORM_LINUX f (Some z) = (0, Some t)"
proof -
  have "fopen_r f PROC_TCP_TIMESTAMPS = Some (flag_text (tcp_timestamps t))"
    "fopen_r f PROC_TCP_WIN_SCALE = Some (flag_text (tcp_window_scaling t))"
    "fopen_r f PROC_TCP_SACK = Some (flag_text (tcp_sack t))"
    "fopen_r f PROC_TCP_RMEM = Some (triple_text (tcp_rmem t))"
    "fopen_r f PROC_TCP_WMEM = Some (triple_text (tcp_wmem t))"
    by (rule assms; simp add: tcp_files_def tcp_paths_def)+
  then show ?thesis
    by (simp add: net_tcp_tuning_read_current_def read_flag read_triple)
qed

section \<open>Addresses\<close>

lemma high_bits:
  "(x::u32) AND 0xFF000000 = push_bit 24 (octet 24 x)"
  "(x::u32) AND 0xF0000000 = push_bit 28 (drop_bit 4 (octet 24 x))"
proof -
  have m: "(0xFF000000::u32) = push_bit 24 (mask 8)" "(0xF0000000::u32) = push_bit 28 (mask 4)"
    by (simp_all add: mask_eq_exp_minus_1 push_bit_eq_mult)
  show "x AND 0xFF000000 = push_bit 24 (octet 24 x)"
    unfolding m by (rule bit_word_eqI) (auto simp: bit_simps octet_bit)
  show "x AND 0xF0000000 = push_bit 28 (drop_bit 4 (octet 24 x))"
    unfolding m by (rule bit_word_eqI) (auto simp: bit_simps octet_bit)
qed

lemma unat_push_bit:
  assumes "unat (y::u32) * 2 ^ k < 2 ^ 32"
  shows "unat (push_bit k y) = unat y * 2 ^ k"
proof -
  have "unat (push_bit k y) = take_bit 32 (push_bit k (unat y))"
    by (simp add: unsigned_push_bit_eq)
  then show ?thesis
    using assms by (simp add: take_bit_eq_mod push_bit_eq_mult)
qed

lemma high_bits_octet:
  "(x::u32) AND 0xFF000000 = 0 \<longleftrightarrow> octet 24 x = 0"
  "(x::u32) AND 0xF0000000 = 0xF0000000 \<longleftrightarrow> 240 \<le> octet 24 x"
proof -
  let ?a = "unat (octet 24 x)"
  have a: "?a < 256"
    by (rule unat_octet_less)
  have "unat (push_bit 24 (octet 24 x)) = ?a * 2 ^ 24"
    using a by (intro unat_push_bit) simp
  then have "x AND 0xFF000000 = 0 \<longleftrightarrow> ?a * 2 ^ 24 = 0"
    unfolding high_bits by (metis unat_0 unsigned_word_eqI)
  then show "x AND 0xFF000000 = 0 \<longleftrightarrow> octet 24 x = 0"
    by (simp add: unat_eq_0)
  have d: "unat (drop_bit 4 (octet 24 x)) = ?a div 16"
    by (simp add: drop_bit_eq_div unat_div_distrib)
  have "unat (push_bit 28 (drop_bit 4 (octet 24 x))) = ?a div 16 * 2 ^ 28"
    using a by (subst unat_push_bit) (simp_all add: d)
  moreover have "unat (0xF0000000::u32) = 15 * 2 ^ 28"
    by simp
  ultimately have "x AND 0xF0000000 = 0xF0000000 \<longleftrightarrow> ?a div 16 * 2 ^ 28 = 15 * 2 ^ 28"
    unfolding high_bits by (metis unsigned_word_eqI)
  also have "\<dots> \<longleftrightarrow> 240 \<le> ?a"
    using a by auto
  finally show "x AND 0xF0000000 = 0xF0000000 \<longleftrightarrow> 240 \<le> octet 24 x"
    by (simp add: word_le_nat_alt)
qed

section \<open>Properties\<close>

definition demo_os :: net_os where
  "demo_os = \<lparr>ifaces = [''eth0'' \<mapsto> \<lparr>ifc_addr = 0, ifc_mask = 0, ifc_flags = 0x1042, ifc_hw = [1, 2, 3, 4, 5, 6]\<rparr>],
     open_fds = 3, sock_ok = True, ioctl_ok = (\<lambda>_ _. True), default_mask = (\<lambda>_. 0xFFFFFF), ifap = None\<rparr>"

text \<open>
  C15: no operation on an interface leaks a descriptor. On every platform, for every name,
  value and decision of the kernel, and on every error path, as many descriptors are open
  afterwards as before.
\<close>
theorem descriptors_balanced:
  "open_fds (snd (snd (net_if_get_ip pf os name ip))) = open_fds os \<and>
   open_fds (snd (snd (net_if_get_mac pf os name mac))) = open_fds os \<and>
   open_fds (snd (net_if_set_ip pf os name a)) = open_fds os \<and>
   open_fds (snd (net_if_set_netmask pf os name a)) = open_fds os \<and>
   open_fds (snd (net_if_set_up pf os name)) = open_fds os \<and>
   open_fds (snd (net_if_set_down pf os name)) = open_fds os \<and>
   open_fds (snd (snd (net_if_get_config pf os name c))) = open_fds os"
  using get_ip_balanced [of os pf name ip] get_mac_balanced [of os pf name mac] set_ip_balanced [of os pf name a]
    set_netmask_balanced [of os pf name a] change_flags_balanced [of os pf name] get_config_balanced [of os pf name c]
  by (simp add: balanced_def net_if_set_up_def net_if_set_down_def)

text \<open>
  C9: an address that was set is the address that is read back, alone and as part of the
  whole configuration, as long as the kernel answers the queries. The interface is the one
  named by the first 15 characters of the name, its mask is the kernel's default for the
  address, its flags and hardware address stay, and no other interface changes.
\<close>
theorem set_then_get_config:
  assumes "net_if_set_ip PLATFORM_LINUX os (Some n) a = (0, os')" "m = take 15 (cstr n)"
    and "ioctl_ok os SIOCGIFADDR m" "ioctl_ok os SIOCGIFHWADDR m"
  shows "\<exists>i. ifaces os m = Some i \<and>
    ifaces os' = (ifaces os)(m \<mapsto> i\<lparr>ifc_addr := a, ifc_mask := default_mask os a\<rparr>) \<and>
    net_if_get_ip PLATFORM_LINUX os' (Some n) (Some x) = (0, Some a, os') \<and>
    net_if_get_config PLATFORM_LINUX os' (Some n) (Some c) =
      (0, Some \<lparr>if_name = strncpy (zeros 16) n 15, net_ip_addr = a, net_netmask = 0, net_gateway = 0,
         net_mac_addr = take 6 (ifc_hw i), configured = True\<rparr>, os')"
  using assms by (auto simp: linux_ops ifr_name_eq net_if_get_config_def Let_def split: option.splits if_splits)

theorem set_then_get_config_witness:
  "\<exists>os'. net_if_set_ip PLATFORM_LINUX demo_os (Some ''eth0'') 42 = (0, os') \<and>
    net_if_get_config PLATFORM_LINUX os' (Some ''eth0'') (Some \<lparr>if_name = zeros 16, net_ip_addr = 0, net_netmask = 0,
      net_gateway = 0, net_mac_addr = replicate 6 0, configured = False\<rparr>) =
      (0, Some \<lparr>if_name = strncpy (zeros 16) ''eth0'' 15, net_ip_addr = 42, net_netmask = 0, net_gateway = 0,
         net_mac_addr = [1, 2, 3, 4, 5, 6], configured = True\<rparr>, os')"
proof -
  obtain os' where "net_if_set_ip PLATFORM_LINUX demo_os (Some ''eth0'') 42 = (0, os')"
    by (simp add: linux_ops ifr_name_eq cstr_id demo_os_def)
  then show ?thesis
    using set_then_get_config [of demo_os "''eth0''" 42 os' "''eth0''" 0] by (auto simp: demo_os_def cstr_id)
qed

text \<open>
  C35: bringing an interface up sets exactly bit 0 of its flag word and bringing it down
  clears exactly that bit; all other flags and the rest of the interface stay.
\<close>
theorem up_down_flags:
  assumes "ifaces os (take 15 (cstr n)) = Some i"
    and "net_if_set_up PLATFORM_LINUX os (Some n) = (0, os1)" "net_if_set_down PLATFORM_LINUX os (Some n) = (0, os2)"
  shows "\<exists>f1 f2. ifaces os1 (take 15 (cstr n)) = Some (i\<lparr>ifc_flags := f1\<rparr>) \<and>
    ifaces os2 (take 15 (cstr n)) = Some (i\<lparr>ifc_flags := f2\<rparr>) \<and>
    (\<forall>k. bit f1 k \<longleftrightarrow> k = 0 \<or> bit (ifc_flags i) k) \<and> (\<forall>k. bit f2 k \<longleftrightarrow> k \<noteq> 0 \<and> bit (ifc_flags i) k)"
proof -
  have "ifaces os1 (take 15 (cstr n)) = Some (i\<lparr>ifc_flags := ifc_flags i OR 1\<rparr>)"
    "ifaces os2 (take 15 (cstr n)) = Some (i\<lparr>ifc_flags := ifc_flags i AND NOT 1\<rparr>)"
    using assms by (auto simp: net_if_set_up_def net_if_set_down_def linux_ops ifr_name_eq IFF_UP_def split: if_splits)
  moreover have "bit (ifc_flags i OR 1) k \<longleftrightarrow> k = 0 \<or> bit (ifc_flags i) k"
    "bit (ifc_flags i AND NOT 1) k \<longleftrightarrow> k \<noteq> 0 \<and> bit (ifc_flags i) k" for k
    by (auto simp: bit_simps dest: bit_imp_le_length)
  ultimately show ?thesis
    by blast
qed

theorem up_down_flags_witness:
  "\<exists>os1 f1. net_if_set_up PLATFORM_LINUX demo_os (Some ''eth0'') = (0, os1) \<and>
     ifaces os1 ''eth0'' = Some ((the (ifaces demo_os ''eth0''))\<lparr>ifc_flags := f1\<rparr>) \<and> bit f1 0"
proof -
  obtain os1 where u: "net_if_set_up PLATFORM_LINUX demo_os (Some ''eth0'') = (0, os1)"
    by (simp add: net_if_set_up_def linux_ops ifr_name_eq cstr_id demo_os_def)
  obtain os2 where d: "net_if_set_down PLATFORM_LINUX demo_os (Some ''eth0'') = (0, os2)"
    by (simp add: net_if_set_down_def linux_ops ifr_name_eq cstr_id demo_os_def)
  have n: "take 15 (cstr ''eth0'') = ''eth0''"
    by (simp add: cstr_id)
  have "ifaces demo_os ''eth0'' = Some (the (ifaces demo_os ''eth0''))"
    by (simp add: demo_os_def)
  then show ?thesis
    using up_down_flags [OF _ u d, unfolded n] u by blast
qed

lemma fold_put_frame [simp]:
  "can_write (fold (\<lambda>(p, t) g. put_file g p t) ps f) = can_write f"
  "can_read (fold (\<lambda>(p, t) g. put_file g p t) ps f) = can_read f"
  "accepts (fold (\<lambda>(p, t) g. put_file g p t) ps f) = accepts f"
  by (induction ps arbitrary: f) auto

lemma fold_put_other:
  "p \<notin> fst ` set ps \<Longrightarrow> content (fold (\<lambda>(p, t) g. put_file g p t) ps f) p = content f p"
  by (induction ps arbitrary: f) (auto simp: put_file_content)

lemma fold_put_content:
  "distinct (map fst ps) \<Longrightarrow> (p, t) \<in> set ps \<Longrightarrow>
   content (fold (\<lambda>(p, t) g. put_file g p t) ps f) p = (if can_write f p \<and> accepts f p t then Some t else content f p)"
proof (induction ps arbitrary: f)
  case (Cons q ps)
  obtain p' t' where q: "q = (p', t')"
    by (cases q)
  show ?case
  proof (cases "(p, t) = q")
    case True
    have notin: "p \<notin> fst ` set ps"
      using Cons.prems(1) by (simp flip: True)
    then show ?thesis
      using True [symmetric] q fold_put_other [OF notin, of "put_file f p t"] by (auto simp: put_file_content)
  next
    case False
    then have ps: "(p, t) \<in> set ps"
      using Cons.prems(2) by auto
    then have "p \<in> fst ` set ps"
      by (force simp: image_iff)
    then have "p \<noteq> p'"
      using Cons.prems(1) q by auto
    then show ?thesis
      using Cons.IH [of "put_file f p' t'"] Cons.prems(1) q ps by (simp add: put_file_content)
  qed
qed simp

lemma tcp_files_distinct: "distinct (map fst (tcp_files t))"
  by (simp add: tcp_files_def tcp_paths_def tcp_path_defs)

lemma tcp_files_paths: "map fst (tcp_files t) = tcp_paths"
  by (simp add: tcp_files_def tcp_paths_def)

text \<open>
  C22: applying the TCP settings attempts all five files, whatever happens to the others: each
  file that can be opened and accepts its text gets it, every other file stays. The result
  is 0 exactly when all five could be opened, so a value the kernel refuses goes unnoticed.
\<close>
theorem tcp_apply_effect:
  "fst (net_tcp_tuning_apply PLATFORM_LINUX f (Some t)) = (if list_all (can_write f) tcp_paths then 0 else -1) \<and>
   (\<forall>(p, s) \<in> set (tcp_files t). content (snd (net_tcp_tuning_apply PLATFORM_LINUX f (Some t))) p =
      (if can_write f p \<and> accepts f p s then Some s else content f p)) \<and>
   (\<forall>p. p \<notin> set tcp_paths \<longrightarrow> content (snd (net_tcp_tuning_apply PLATFORM_LINUX f (Some t))) p = content f p)"
proof -
  have "p \<notin> set tcp_paths \<Longrightarrow> content (fold (\<lambda>(p, t) g. put_file g p t) (tcp_files t) f) p = content f p" for p
    using fold_put_other [of p "tcp_files t" f] tcp_files_paths [of t] by (metis list.set_map)
  then show ?thesis
    using fold_put_content [OF tcp_files_distinct] by (auto simp: tuning_apply_linux)
qed

theorem tcp_apply_effect_witness:
  "content (snd (net_tcp_tuning_apply PLATFORM_LINUX (open_fs Map.empty) (Some \<lparr>tcp_timestamps = True,
     tcp_window_scaling = False, tcp_sack = False, tcp_rmem = (0, 0, 0), tcp_wmem = (0, 0, 0)\<rparr>))) PROC_TCP_TIMESTAMPS =
   Some (flag_text True)"
  using tcp_apply_effect [of "open_fs Map.empty" "\<lparr>tcp_timestamps = True,
     tcp_window_scaling = False, tcp_sack = False, tcp_rmem = (0, 0, 0), tcp_wmem = (0, 0, 0)\<rparr>"]
  by (auto simp: open_fs_def tcp_files_def tcp_paths_def)

text \<open>
  C21: TCP settings that were written are the settings that are read back, when the files can
  be written and read and the kernel keeps the values.
\<close>
theorem tcp_round_trip:
  assumes "\<And>p. can_write f p" "\<And>p. can_read f p" "\<And>p s. accepts f p s"
  shows "\<exists>f'. net_tcp_tuning_apply PLATFORM_LINUX f (Some t) = (0, f') \<and>
    net_tcp_tuning_read_current PLATFORM_LINUX f' (Some z) = (0, Some t)"
proof -
  let ?f = "fold (\<lambda>(p, txt) g. put_file g p txt) (tcp_files t) f"
  have "fopen_r ?f p = Some s" if "(p, s) \<in> set (tcp_files t)" for p s
    using fold_put_content [OF tcp_files_distinct that, of f] assms by (simp add: fopen_r_def)
  then show ?thesis
    using tuning_read_linux [of t ?f z] assms by (simp add: tuning_apply_linux tcp_paths_def)
qed

theorem tcp_round_trip_witness:
  "\<exists>f'. net_tcp_tuning_apply PLATFORM_LINUX (open_fs Map.empty) (Some \<lparr>tcp_timestamps = True,
     tcp_window_scaling = False, tcp_sack = True, tcp_rmem = (4096, 87380, 6291456), tcp_wmem = (1, 2, 3)\<rparr>) = (0, f') \<and>
    net_tcp_tuning_read_current PLATFORM_LINUX f' (Some \<lparr>tcp_timestamps = False, tcp_window_scaling = False, tcp_sack = False,
       tcp_rmem = (0, 0, 0), tcp_wmem = (0, 0, 0)\<rparr>) = (0, Some \<lparr>tcp_timestamps = True,
     tcp_window_scaling = False, tcp_sack = True, tcp_rmem = (4096, 87380, 6291456), tcp_wmem = (1, 2, 3)\<rparr>)"
  using tcp_round_trip [of "open_fs Map.empty"] by (simp add: open_fs_def)

lemma is_valid_text:
  "(net_ip_is_valid e (net_ip_from_string e (Some (dotted_quad ip))) \<longleftrightarrow> octet 24 ip \<in> {1..239}) \<and>
   (inet_pton e s = None \<longrightarrow> \<not> net_ip_is_valid e (net_ip_from_string e (Some s)))"
proof -
  have "octet 24 (0 :: u32) = 0" "octet 24 (0xFFFFFFFF :: u32) = 255"
    by (simp_all add: octet_def drop_bit_eq_div)
  moreover have "x \<noteq> 0 \<longleftrightarrow> 1 \<le> x" for x :: u32
    by (simp add: word_le_nat_alt Suc_le_eq unat_gt_0)
  moreover have "\<not> 240 \<le> x \<longleftrightarrow> x \<le> 239" for x :: u32
    by (simp add: word_le_nat_alt word_less_nat_alt not_le) linarith
  ultimately have "net_ip_is_valid e (htonl e ip) \<longleftrightarrow> octet 24 ip \<in> {1..239}"
    by (auto simp: net_ip_is_valid_def Let_def high_bits_octet)
  moreover have "\<not> net_ip_is_valid e 0"
    by (cases e) (simp_all add: net_ip_is_valid_def bswap32_def octet_def of_octets_def)
  ultimately show ?thesis
    by (simp add: net_ip_from_string_def inet_pton_dotted_quad)
qed

text \<open>
  C33: the dotted form of an address and its network-order word are inverse to each other on
  both byte orders: parsing gives the network-order word, and printing that word into a
  buffer of 16 bytes or more gives the dotted form. An address given as text is valid exactly
  when its first octet is between 1 and 239: this excludes 0.0.0.0 and 255.255.255.255, but
  not the loopback network and not multicast addresses. A text that is no address is never
  valid.
\<close>
theorem address_round_trip:
  assumes "16 \<le> n" "length b = n"
  shows "net_ip_from_string e (Some (dotted_quad ip)) = htonl e ip \<and>
    (\<exists>b'. net_ip_to_string e (htonl e ip) (Some b) n = Some b' \<and> cstr b' = dotted_quad ip \<and> length b' = n) \<and>
    (net_ip_is_valid e (net_ip_from_string e (Some (dotted_quad ip))) \<longleftrightarrow> octet 24 ip \<in> {1..239}) \<and>
    (inet_pton e s = None \<longrightarrow> \<not> net_ip_is_valid e (net_ip_from_string e (Some s)))"
proof -
  have len: "length (dotted_quad ip) < n"
    using assms(1) dotted_quad_length [of ip] by simp
  have "NUL \<notin> set (dotted_quad ip)"
    by (simp add: dotted_quad_def dotted_def)
  then show ?thesis
    using len assms(2) is_valid_text [of e ip s]
    by (auto simp: net_ip_from_string_def net_ip_to_string_def inet_ntop_def inet_pton_dotted_quad cstr_append_NUL)
qed

theorem address_round_trip_witness:
  "net_ip_from_string LittleEndian (Some (dotted_quad 0xC0A80064)) = htonl LittleEndian 0xC0A80064 \<and>
   \<not> net_ip_is_valid LittleEndian (net_ip_from_string LittleEndian (Some ''300.1.1.1''))"
proof -
  have "inet_pton LittleEndian ''300.1.1.1'' = None"
    by code_simp
  then show ?thesis
    using address_round_trip [of 16 "zeros 16" LittleEndian "0xC0A80064" "''300.1.1.1''"] by simp
qed

end
