(* ===== verification/Security_Policy.thy ===== *)
theory Security_Policy
  imports Net_Addr OS_Files
begin

text \<open>
  security_policy.c: the firewall rule table (init, add, remove, flush), the generation of
  the iptables script, its execution, the IPSec tunnel files and the audit report.

  A pointer argument is an option, \<open>None\<close> for \<open>NULL\<close>. The rule array is a list of
  \<open>MAX_FW_RULES\<close> rules of which the first \<open>rule_count\<close> are in use. Output buffers are
  explicit, and every write outside them is a fault. Messages on stdout and stderr are
  left out.
\<close>

section \<open>Data\<close>

definition MAX_FW_RULES :: nat where "MAX_FW_RULES = 64"

text \<open>The constructors ending in \<open>OTHER\<close> are values outside the enumeration.\<close>

datatype sec_action = SEC_ACTION_ACCEPT | SEC_ACTION_DROP | SEC_ACTION_REJECT | SEC_ACTION_OTHER int

datatype sec_chain = SEC_CHAIN_INPUT | SEC_CHAIN_OUTPUT | SEC_CHAIN_FORWARD | SEC_CHAIN_OTHER int

record sec_rule =
  chain :: sec_chain
  src_ip :: u32
  src_mask :: u32
  dst_port :: u32
  protocol :: u8
  action :: sec_action
  priority :: int
  active :: bool
  comment :: buf

record sec_policy =
  rules :: "sec_rule list"
  rule_count :: int
  enabled :: bool

text \<open>A rule after \<open>memset(..., 0, sizeof(sec_rule_t))\<close>.\<close>

definition zero_rule :: sec_rule where
  "zero_rule = \<lparr>chain = SEC_CHAIN_INPUT, src_ip = 0, src_mask = 0, dst_port = 0, protocol = 0,
     action = SEC_ACTION_ACCEPT, priority = 0, active = False, comment = zeros 64\<rparr>"

section \<open>Names\<close>

fun action_to_str :: "sec_action \<Rightarrow> string" where
  "action_to_str SEC_ACTION_ACCEPT = ''ACCEPT''"
| "action_to_str SEC_ACTION_DROP = ''DROP''"
| "action_to_str SEC_ACTION_REJECT = ''REJECT''"
| "action_to_str (SEC_ACTION_OTHER _) = ''DROP''"

fun chain_to_str :: "sec_chain \<Rightarrow> string" where
  "chain_to_str SEC_CHAIN_INPUT = ''INPUT''"
| "chain_to_str SEC_CHAIN_OUTPUT = ''OUTPUT''"
| "chain_to_str SEC_CHAIN_FORWARD = ''FORWARD''"
| "chain_to_str (SEC_CHAIN_OTHER _) = ''INPUT''"

definition proto_to_str :: "u8 \<Rightarrow> string" where
  "proto_to_str p = (if p = 6 then ''tcp'' else if p = 17 then ''udp'' else if p = 0 then ''all'' else ''all'')"

text \<open>
  \<open>ip_to_str\<close>: the text in a buffer of the given size. When \<open>inet_ntop\<close> fails the buffer
  stays uninitialised, and reading it is a fault.
\<close>

definition sec_ip_to_str :: "endianness \<Rightarrow> u32 \<Rightarrow> nat \<Rightarrow> fault + string" where
  "sec_ip_to_str e ip len =
     (case inet_ntop e (htonl e ip) len of Some s \<Rightarrow> Inr s | None \<Rightarrow> Inl Unterminated)"

definition INET_ADDRSTRLEN :: nat where "INET_ADDRSTRLEN = 16"

section \<open>The rule table\<close>

definition sec_policy_init :: "sec_policy option \<Rightarrow> int \<times> sec_policy option" where
  "sec_policy_init policy =
     (case policy of
        None \<Rightarrow> (- EINVAL, None)
      | Some p \<Rightarrow> (0, Some \<lparr>rules = replicate MAX_FW_RULES zero_rule, rule_count = 0, enabled = False\<rparr>))"

definition sec_policy_add_rule ::
    "sec_policy option \<Rightarrow> sec_rule option \<Rightarrow> fault + (int \<times> sec_policy option)" where
  "sec_policy_add_rule policy rule =
     (case (policy, rule) of
        (Some p, Some r) \<Rightarrow>
          if rule_count p \<ge> int MAX_FW_RULES then Inr (- ENOSPC, Some p)
          else if rule_count p < 0 \<or> rule_count p \<ge> int (length (rules p)) then Inl OutOfBounds
          else Inr (0, Some (p\<lparr>rules := (rules p)[nat (rule_count p) := r\<lparr>active := True\<rparr>],
                              rule_count := rule_count p + 1\<rparr>))
      | _ \<Rightarrow> Inr (- EINVAL, policy))"

text \<open>The loop that moves the rules after \<open>index\<close> down by one.\<close>

function shift_rules :: "sec_rule list \<Rightarrow> nat \<Rightarrow> nat \<Rightarrow> fault + sec_rule list" where
  "shift_rules rs i n =
     (if i + 1 < n
      then if i + 1 < length rs then shift_rules (rs[i := rs ! (i + 1)]) (i + 1) n else Inl OutOfBounds
      else Inr rs)"
  by pat_completeness auto
termination
  by (relation "measure (\<lambda>(rs, i, n). n - i)") auto

declare shift_rules.simps [simp del]

definition sec_policy_remove_rule :: "sec_policy option \<Rightarrow> int \<Rightarrow> fault + (int \<times> sec_policy option)" where
  "sec_policy_remove_rule policy index =
     (case policy of
        None \<Rightarrow> Inr (- EINVAL, None)
      | Some p \<Rightarrow>
          if index < 0 \<or> index \<ge> rule_count p then Inr (- ERANGE, Some p)
          else bindE (shift_rules (rules p) (nat index) (nat (rule_count p))) (\<lambda>rs.
            if rule_count p - 1 \<ge> int (length rs) then Inl OutOfBounds
            else Inr (0, Some (p\<lparr>rules := rs[nat (rule_count p - 1) := zero_rule],
                                rule_count := rule_count p - 1\<rparr>))))"

definition sec_policy_flush :: "sec_policy option \<Rightarrow> int \<times> sec_policy option" where
  "sec_policy_flush policy =
     (case policy of
        None \<Rightarrow> (- EINVAL, None)
      | Some p \<Rightarrow> (0, Some (p\<lparr>rules := replicate MAX_FW_RULES zero_rule, rule_count := 0\<rparr>)))"

section \<open>Well-formed tables\<close>

definition wf_rule :: "sec_rule \<Rightarrow> bool" where
  "wf_rule r \<longleftrightarrow> length (comment r) = 64 \<and> terminated (comment r)"

definition wf_policy :: "sec_policy \<Rightarrow> bool" where
  "wf_policy p \<longleftrightarrow> length (rules p) = MAX_FW_RULES \<and> 0 \<le> rule_count p \<and>
     rule_count p \<le> int MAX_FW_RULES \<and> list_all wf_rule (rules p)"

text \<open>The rules in use, as an abstract list.\<close>

definition rule_list :: "sec_policy \<Rightarrow> sec_rule list" where
  "rule_list p = take (nat (rule_count p)) (rules p)"

definition policy_ok :: "sec_policy option \<Rightarrow> bool" where
  "policy_ok q = (case q of None \<Rightarrow> False | Some p \<Rightarrow> wf_policy p)"

definition policy_rules :: "sec_policy option \<Rightarrow> sec_rule list" where
  "policy_rules q = (case q of None \<Rightarrow> [] | Some p \<Rightarrow> rule_list p)"

lemma wf_zero_rule [simp]: "wf_rule zero_rule"
  by (simp add: wf_rule_def zero_rule_def)

lemma wf_rule_active [simp]: "wf_rule (r\<lparr>active := b\<rparr>) = wf_rule r"
  by (simp add: wf_rule_def)

lemma length_rule_list: "wf_policy p \<Longrightarrow> length (rule_list p) = nat (rule_count p)"
  by (auto simp: wf_policy_def rule_list_def)

lemma list_all_update: "list_all P xs \<Longrightarrow> P x \<Longrightarrow> list_all P (xs[i := x])"
  by (auto simp: list_all_iff dest: set_update_subset_insert [THEN subsetD])

lemma take_update_last: "n < length xs \<Longrightarrow> take (Suc n) (xs[n := x]) = take n xs @ [x]"
  by (simp add: take_Suc_conv_app_nth)

text \<open>What the shifting loop leaves in the array.\<close>

lemma shift_rules_eq:
  "n \<le> length rs \<Longrightarrow> i < n \<Longrightarrow>
     shift_rules rs i n = Inr (take i rs @ take (n - 1 - i) (drop (i + 1) rs) @ drop (n - 1) rs)"
proof (induction rs i n rule: shift_rules.induct)
  case (1 rs i n)
  show ?case
  proof (cases "i + 1 < n")
    case True
    let ?rs = "rs[i := rs ! (i + 1)]"
    have "shift_rules rs i n = shift_rules ?rs (i + 1) n"
      using True "1.prems" by (subst shift_rules.simps) simp
    also have "\<dots> = Inr (take (i + 1) ?rs @ take (n - 1 - (i + 1)) (drop (i + 1 + 1) ?rs) @ drop (n - 1) ?rs)"
      using True "1.prems" by (intro "1.IH") auto
    finally have "shift_rules rs i n =
        Inr (take (i + 1) ?rs @ take (n - 1 - (i + 1)) (drop (i + 1 + 1) ?rs) @ drop (n - 1) ?rs)" .
    moreover have "take (i + 1) ?rs = take i rs @ [rs ! (i + 1)]"
      using "1.prems" by (simp add: take_update_last)
    moreover have "drop (n - 1) ?rs = drop (n - 1) rs"
      using True by simp
    moreover have "take (n - 1 - i) (drop (i + 1) rs) =
        rs ! (i + 1) # take (n - 1 - (i + 1)) (drop (i + 1 + 1) ?rs)"
    proof -
      have "drop (i + 1) rs = rs ! (i + 1) # drop (i + 1 + 1) rs"
        using True "1.prems" by (simp add: Cons_nth_drop_Suc)
      moreover have "n - 1 - i = Suc (n - 1 - (i + 1))"
        using True by simp
      ultimately show ?thesis
        by simp
    qed
    ultimately show ?thesis
      by simp
  next
    case False
    with "1.prems" have "n = Suc i"
      by simp
    then show ?thesis
      by (subst shift_rules.simps) simp
  qed
qed

section \<open>The table as an abstract data type\<close>

text \<open>
  The contract a client of a bounded table relies on. \<open>items\<close> is the abstract content,
  \<open>stored\<close> what the table keeps of an element, \<open>fit\<close> which elements may be added.
\<close>

locale bounded_table =
  fixes items :: "'t \<Rightarrow> 'e list"
    and invar :: "'t \<Rightarrow> bool"
    and fit :: "'e \<Rightarrow> bool"
    and stored :: "'e \<Rightarrow> 'e"
    and capacity :: nat
    and add :: "'t \<Rightarrow> 'e \<Rightarrow> fault + (int \<times> 't)"
    and remove :: "'t \<Rightarrow> int \<Rightarrow> fault + (int \<times> 't)"
    and flush :: "'t \<Rightarrow> int \<times> 't"
  assumes bound: "invar t \<Longrightarrow> length (items t) \<le> capacity"
    and add_free: "invar t \<Longrightarrow> fit x \<Longrightarrow> length (items t) < capacity \<Longrightarrow>
      \<exists>t'. add t x = Inr (0, t') \<and> invar t' \<and> items t' = items t @ [stored x]"
    and add_full: "invar t \<Longrightarrow> length (items t) = capacity \<Longrightarrow> add t x = Inr (- ENOSPC, t)"
    and remove_in: "invar t \<Longrightarrow> 0 \<le> i \<Longrightarrow> i < int (length (items t)) \<Longrightarrow>
      \<exists>t'. remove t i = Inr (0, t') \<and> invar t' \<and>
        items t' = take (nat i) (items t) @ drop (Suc (nat i)) (items t)"
    and remove_out: "invar t \<Longrightarrow> i < 0 \<or> int (length (items t)) \<le> i \<Longrightarrow> remove t i = Inr (- ERANGE, t)"
    and flush_all: "invar t \<Longrightarrow> fst (flush t) = 0 \<and> invar (snd (flush t)) \<and> items (snd (flush t)) = []"

text \<open>Clients issue sequences of calls; the same calls on a plain list are the specification.\<close>

datatype 'e table_call = Add 'e | Remove int | Flush

fun run_table ::
    "('t \<Rightarrow> 'e \<Rightarrow> fault + (int \<times> 't)) \<Rightarrow> ('t \<Rightarrow> int \<Rightarrow> fault + (int \<times> 't)) \<Rightarrow> ('t \<Rightarrow> int \<times> 't) \<Rightarrow>
     't \<Rightarrow> 'e table_call list \<Rightarrow> fault + 't" where
  "run_table add remove flush t [] = Inr t"
| "run_table add remove flush t (Add x # cs) =
     bindE (add t x) (\<lambda>(_, t'). run_table add remove flush t' cs)"
| "run_table add remove flush t (Remove i # cs) =
     bindE (remove t i) (\<lambda>(_, t'). run_table add remove flush t' cs)"
| "run_table add remove flush t (Flush # cs) = run_table add remove flush (snd (flush t)) cs"

fun run_list :: "nat \<Rightarrow> ('e \<Rightarrow> 'e) \<Rightarrow> 'e list \<Rightarrow> 'e table_call list \<Rightarrow> 'e list" where
  "run_list cap st xs [] = xs"
| "run_list cap st xs (Add x # cs) = run_list cap st (if length xs < cap then xs @ [st x] else xs) cs"
| "run_list cap st xs (Remove i # cs) =
     run_list cap st (if 0 \<le> i \<and> i < int (length xs)
                      then take (nat i) xs @ drop (Suc (nat i)) xs else xs) cs"
| "run_list cap st xs (Flush # cs) = run_list cap st [] cs"

fun calls_fit :: "('e \<Rightarrow> bool) \<Rightarrow> 'e table_call list \<Rightarrow> bool" where
  "calls_fit fit [] = True"
| "calls_fit fit (Add x # cs) = (fit x \<and> calls_fit fit cs)"
| "calls_fit fit (_ # cs) = calls_fit fit cs"

context bounded_table
begin

lemma run_refines_list:
  "invar t \<Longrightarrow> calls_fit fit cs \<Longrightarrow>
     \<exists>t'. run_table add remove flush t cs = Inr t' \<and> invar t' \<and>
       items t' = run_list capacity stored (items t) cs"
proof (induction cs arbitrary: t)
  case Nil
  then show ?case by simp
next
  case (Cons c cs)
  show ?case
  proof (cases c)
    case (Add x)
    show ?thesis
    proof (cases "length (items t) < capacity")
      case True
      then obtain t' where t': "add t x = Inr (0, t')" "invar t'" "items t' = items t @ [stored x]"
        using add_free Cons.prems Add by auto
      then show ?thesis
        using Cons.IH [of t'] Cons.prems True by (simp add: Add)
    next
      case False
      then have "add t x = Inr (- ENOSPC, t)"
        using bound add_full Cons.prems by (simp add: order.antisym not_less)
      then show ?thesis
        using Cons.IH [of t] Cons.prems False by (simp add: Add)
    qed
  next
    case (Remove i)
    show ?thesis
    proof (cases "0 \<le> i \<and> i < int (length (items t))")
      case True
      then obtain t' where "remove t i = Inr (0, t')" "invar t'"
          "items t' = take (nat i) (items t) @ drop (Suc (nat i)) (items t)"
        using remove_in Cons.prems by auto
      then show ?thesis
        using Cons.IH [of t'] Cons.prems True by (simp add: Remove)
    next
      case False
      then have "remove t i = Inr (- ERANGE, t)"
        using remove_out Cons.prems by auto
      then show ?thesis
        using Cons.IH [of t] Cons.prems False by (auto simp: Remove)
    qed
  next
    case Flush
    then show ?thesis
      using Cons.IH [of "snd (flush t)"] Cons.prems flush_all by simp
  qed
qed

end

lemma policy_okE:
  assumes "policy_ok q"
  obtains p where "q = Some p" "wf_policy p" "policy_rules q = rule_list p"
  using assms by (cases q) (auto simp: policy_ok_def policy_rules_def)

lemma wf_add:
  assumes "wf_policy p" "wf_rule r" "rule_count p < int MAX_FW_RULES"
  defines "p' \<equiv> p\<lparr>rules := (rules p)[nat (rule_count p) := r], rule_count := rule_count p + 1\<rparr>"
  shows "wf_policy p'" "rule_list p' = rule_list p @ [r]"
proof -
  show "wf_policy p'"
    using assms by (auto simp: wf_policy_def list_all_update)
  have "nat (rule_count p) < length (rules p)" "nat (rule_count p + 1) = Suc (nat (rule_count p))"
    using assms by (auto simp: wf_policy_def)
  then show "rule_list p' = rule_list p @ [r]"
    by (simp add: p'_def rule_list_def take_update_last)
qed

lemma wf_remove:
  assumes "wf_policy p" "0 \<le> i" "i < rule_count p"
  defines "n \<equiv> nat (rule_count p)"
  defines "rs \<equiv> take (nat i) (rules p) @ take (n - 1 - nat i) (drop (nat i + 1) (rules p)) @ drop (n - 1) (rules p)"
  defines "p' \<equiv> p\<lparr>rules := rs[nat (rule_count p - 1) := zero_rule], rule_count := rule_count p - 1\<rparr>"
  shows "length rs = MAX_FW_RULES" "wf_policy p'"
    "rule_list p' = take (nat i) (rule_list p) @ drop (Suc (nat i)) (rule_list p)"
proof -
  have n: "nat i < n" "n \<le> length (rules p)" "length (rules p) = MAX_FW_RULES"
    and i: "nat (rule_count p - 1) = n - 1"
    using assms by (auto simp: wf_policy_def)
  show len: "length rs = MAX_FW_RULES"
    using n by (simp add: rs_def)
  have "list_all wf_rule rs"
    using assms(1) by (auto simp: wf_policy_def rs_def list_all_iff dest: in_set_takeD in_set_dropD)
  then show "wf_policy p'"
    using assms(1-3) len by (auto simp: wf_policy_def p'_def list_all_update)
  have "rule_list p' = take (n - 1) rs"
    using i by (simp add: p'_def rule_list_def)
  also have "\<dots> = take (nat i) (rules p) @ take (n - 1 - nat i) (drop (nat i + 1) (rules p))"
    using n by (simp add: rs_def)
  also have "\<dots> = take (nat i) (rule_list p) @ drop (Suc (nat i)) (rule_list p)"
    using n by (simp add: rule_list_def n_def [symmetric] drop_take min_def)
  finally show "rule_list p' = take (nat i) (rule_list p) @ drop (Suc (nat i)) (rule_list p)" .
qed

interpretation rule_table: bounded_table policy_rules policy_ok wf_rule "\<lambda>r. r\<lparr>active := True\<rparr>"
  MAX_FW_RULES "\<lambda>t r. sec_policy_add_rule t (Some r)" sec_policy_remove_rule sec_policy_flush
proof (unfold_locales, goal_cases)
  case (1 t)
  then show ?case
    by (elim policy_okE) (auto simp: length_rule_list wf_policy_def)
next
  case (2 t x)
  then obtain p where p: "t = Some p" "wf_policy p" "policy_rules t = rule_list p"
    by (auto elim: policy_okE)
  then have c: "rule_count p < int MAX_FW_RULES"
    using 2 by (simp add: length_rule_list wf_policy_def)
  show ?case
    using p c 2(2) wf_add [of p "x\<lparr>active := True\<rparr>"]
    by (simp add: sec_policy_add_rule_def policy_ok_def policy_rules_def wf_policy_def)
next
  case (3 t x)
  then show ?case
    by (elim policy_okE) (auto simp: length_rule_list sec_policy_add_rule_def MAX_FW_RULES_def)
next
  case (4 t i)
  then obtain p where p: "t = Some p" "wf_policy p" "policy_rules t = rule_list p"
    by (auto elim: policy_okE)
  then have i: "0 \<le> i" "i < rule_count p" "nat i < nat (rule_count p)" "nat (rule_count p) \<le> length (rules p)"
      "rule_count p \<le> int MAX_FW_RULES"
    using 4 by (auto simp: length_rule_list wf_policy_def)
  show ?case
    using p i wf_remove [of p i]
    by (simp add: sec_policy_remove_rule_def shift_rules_eq policy_ok_def policy_rules_def)
next
  case (5 t i)
  then show ?case
    by (elim policy_okE) (auto simp: length_rule_list sec_policy_remove_rule_def wf_policy_def)
next
  case (6 t)
  then show ?case
    by (elim policy_okE)
      (auto simp: sec_policy_flush_def policy_ok_def policy_rules_def wf_policy_def rule_list_def
        list_all_iff)
qed

section \<open>Script generation\<close>

definition generate_rule_line :: "endianness \<Rightarrow> buf \<Rightarrow> nat \<Rightarrow> sec_rule \<Rightarrow> fault + (buf \<times> int)" where
  "generate_rule_line e b len rule =
     (if \<not> active rule then
        bindE (read_str (comment rule)) (\<lambda>c. snprintf b 0 len (''# [inactive] rule: '' @ c @ [NL]))
      else bindE
        (if src_ip rule \<noteq> 0 then
           bindE (sec_ip_to_str e (src_ip rule) INET_ADDRSTRLEN) (\<lambda>src_buf.
             if src_mask rule \<noteq> 0 then
               bindE (sec_ip_to_str e (src_mask rule) INET_ADDRSTRLEN) (\<lambda>mask_buf.
                 snprintf b 0 len (''iptables -A '' @ chain_to_str (chain rule) @ '' -s '' @ src_buf @ ''/'' @ mask_buf @
                   '' -p '' @ proto_to_str (protocol rule) @ '' --dport '' @ fmt_u (unat (dst_port rule)) @
                   '' -j '' @ action_to_str (action rule)))
             else
               snprintf b 0 len (''iptables -A '' @ chain_to_str (chain rule) @ '' -s '' @ src_buf @
                 '' -p '' @ proto_to_str (protocol rule) @ '' --dport '' @ fmt_u (unat (dst_port rule)) @
                 '' -j '' @ action_to_str (action rule)))
         else
           snprintf b 0 len (''iptables -A '' @ chain_to_str (chain rule) @
             '' -p '' @ proto_to_str (protocol rule) @ '' --dport '' @ fmt_u (unat (dst_port rule)) @
             '' -j '' @ action_to_str (action rule)))
        (\<lambda>(b', written). Inr (b', if written < 0 \<or> written \<ge> int len then -1 else written)))"

definition script_header :: "int \<Rightarrow> string" where
  "script_header n = ''#!/bin/bash'' @ [NL] @ ''# Auto-generated PROFINET security policy'' @ [NL] @
     ''# Rule count: '' @ fmt_d n @ [NL, NL] @ ''set -e'' @ [NL, NL]"

definition script_footer :: "int \<Rightarrow> string" where
  "script_footer n =
     ''echo '' @ [DQ] @ ''PROFINET security policy applied: '' @ fmt_d n @ '' rules'' @ [DQ, NL]"

text \<open>
  The loop over the rules from index \<open>i\<close> to \<open>rule_count\<close>: the buffer, the offset and a
  status, 0 at the end of the loop or \<open>-ENOSPC\<close> for the early return.
\<close>

fun script_loop :: "endianness \<Rightarrow> sec_policy \<Rightarrow> nat \<Rightarrow> nat list \<Rightarrow> buf \<Rightarrow> nat \<Rightarrow> fault + (buf \<times> nat \<times> int)" where
  "script_loop e p len [] b off = Inr (b, off, 0)"
| "script_loop e p len (i # is) b off =
     (if i \<ge> length (rules p) then Inl OutOfBounds
      else bindE (generate_rule_line e (zeros 256) 256 (rules p ! i)) (\<lambda>(line, line_len).
        if line_len < 0 then script_loop e p len is b off
        else bindE (read_str (comment (rules p ! i))) (\<lambda>c. bindE (read_str line) (\<lambda>l.
          bindE (snprintf b off (size_sub len off)
                  (''# Rule '' @ fmt_d (int i) @ '': '' @ c @ [NL] @ l @ [NL, NL])) (\<lambda>(b', written).
            if written < 0 \<or> int off + written \<ge> int len then Inr (b', off, - ENOSPC)
            else script_loop e p len is b' (off + nat written))))))"

definition sec_policy_generate_script ::
    "endianness \<Rightarrow> sec_policy option \<Rightarrow> buf option \<Rightarrow> nat \<Rightarrow> fault + (int \<times> buf option)" where
  "sec_policy_generate_script e policy b len =
     (case (policy, b) of
        (Some p, Some b0) \<Rightarrow>
          if len = 0 then Inr (- EINVAL, b)
          else bindE (snprintf b0 0 len (script_header (rule_count p))) (\<lambda>(b1, written).
            if written < 0 \<or> written \<ge> int len then Inr (- ENOSPC, Some b1)
            else bindE (script_loop e p len [0..<nat (rule_count p)] b1 (nat written)) (\<lambda>(b2, off, st).
              if st \<noteq> 0 then Inr (st, Some b2)
              else bindE (snprintf b2 off (size_sub len off) (script_footer (rule_count p))) (\<lambda>(b3, w).
                if w < 0 \<or> int off + w \<ge> int len then Inr (- ENOSPC, Some b3) else Inr (0, Some b3))))
      | _ \<Rightarrow> Inr (- EINVAL, b))"

section \<open>The text of the script\<close>

text \<open>A reference for the script: header, one block per rule in table order, footer.\<close>

definition rule_text :: "sec_rule \<Rightarrow> string" where
  "rule_text r =
     (if \<not> active r then ''# [inactive] rule: '' @ cstr (comment r) @ [NL]
      else ''iptables -A '' @ chain_to_str (chain r) @
        (if src_ip r = 0 then ''''
         else '' -s '' @ dotted_quad (src_ip r) @ (if src_mask r = 0 then '''' else ''/'' @ dotted_quad (src_mask r))) @
        '' -p '' @ proto_to_str (protocol r) @ '' --dport '' @ fmt_u (unat (dst_port r)) @
        '' -j '' @ action_to_str (action r))"

definition rule_block :: "nat \<Rightarrow> sec_rule \<Rightarrow> string" where
  "rule_block i r = ''# Rule '' @ fmt_d (int i) @ '': '' @ cstr (comment r) @ [NL] @ rule_text r @ [NL, NL]"

definition rule_blocks :: "sec_policy \<Rightarrow> nat list \<Rightarrow> string" where
  "rule_blocks p is = concat (map (\<lambda>i. rule_block i (rules p ! i)) is)"

definition script_text :: "sec_policy \<Rightarrow> string" where
  "script_text p = script_header (rule_count p) @ rule_blocks p [0..<nat (rule_count p)] @
     script_footer (rule_count p)"

lemma chain_to_str_bounds: "length (chain_to_str c) \<le> 7" "5 \<le> length (chain_to_str c)" "NUL \<notin> set (chain_to_str c)"
  by (cases c; simp)+

lemma action_to_str_bounds: "length (action_to_str a) \<le> 6" "4 \<le> length (action_to_str a)" "NUL \<notin> set (action_to_str a)"
  by (cases a; simp)+

lemma proto_to_str_bounds: "length (proto_to_str p) = 3" "NUL \<notin> set (proto_to_str p)"
  by (auto simp: proto_to_str_def)

lemma port_length: "length (fmt_u (unat (x::u32))) \<le> 10"
proof -
  have "unat x < 2 ^ LENGTH(32)"
    by (rule unsigned_less)
  then show ?thesis
    by (intro fmt_u_length) simp_all
qed

lemma rule_text_bounds:
  assumes "wf_rule r"
  shows "length (rule_text r) < 256" "NUL \<notin> set (rule_text r)"
proof -
  have "length (cstr (comment r)) < 64"
    using assms length_cstr_terminated [of "comment r"] by (simp add: wf_rule_def)
  then show "length (rule_text r) < 256"
    using dotted_quad_length [of "src_ip r"] dotted_quad_length [of "src_mask r"]
      chain_to_str_bounds(1) [of "chain r"] action_to_str_bounds(1) [of "action r"]
      proto_to_str_bounds(1) [of "protocol r"] port_length [of "dst_port r"]
    by (simp add: rule_text_def)
  show "NUL \<notin> set (rule_text r)"
    by (simp add: rule_text_def chain_to_str_bounds action_to_str_bounds proto_to_str_bounds)
qed

lemma sec_ip_to_str_eq [simp]: "sec_ip_to_str e ip INET_ADDRSTRLEN = Inr (dotted_quad ip)"
  using dotted_quad_length [of ip] by (simp add: sec_ip_to_str_def inet_ntop_def INET_ADDRSTRLEN_def)

lemma generate_rule_line_eq:
  assumes "wf_rule r"
  shows "\<exists>b'. generate_rule_line e (zeros 256) 256 r = Inr (b', int (length (rule_text r))) \<and>
           terminated b' \<and> cstr b' = rule_text r"
proof -
  obtain b' where b': "snprintf (zeros 256) 0 256 (rule_text r) = Inr (b', int (length (rule_text r)))"
      "holds b' (rule_text r)"
    using snprintf_first [of "rule_text r" "zeros 256"] rule_text_bounds [OF assms] by auto
  have "generate_rule_line e (zeros 256) 256 r = Inr (b', int (length (rule_text r)))"
    using assms b' rule_text_bounds [OF assms]
    by (cases "active r"; cases "src_ip r = 0"; cases "src_mask r = 0")
      (simp_all add: generate_rule_line_def rule_text_def wf_rule_def)
  then show ?thesis
    using b' rule_text_bounds [OF assms] by (auto simp: holds_cstr holds_terminated)
qed

lemma script_loop_eq:
  assumes "wf_policy p" "holds b t" "length b = len" "len < 2 ^ 64"
    and "set is \<subseteq> {..<length (rules p)}"
  shows "if length t + length (rule_blocks p is) < len
    then \<exists>b'. script_loop e p len is b (length t) = Inr (b', length (t @ rule_blocks p is), 0) \<and>
           length b' = len \<and> holds b' (t @ rule_blocks p is)
    else \<exists>b' off. script_loop e p len is b (length t) = Inr (b', off, - ENOSPC) \<and> length b' = len \<and>
           holds b' (take (len - 1) (t @ rule_blocks p is))"
  using assms
proof (induction "is" arbitrary: b t)
  case Nil
  then show ?case
    by (auto simp: rule_blocks_def holds_def)
next
  case (Cons i "is")
  let ?r = "rules p ! i" and ?s = "rule_block i (rules p ! i)"
  have i: "i < length (rules p)" and r: "wf_rule ?r"
    using Cons.prems by (auto simp: wf_policy_def list_all_iff)
  obtain l where l: "generate_rule_line e (zeros 256) 256 ?r = Inr (l, int (length (rule_text ?r)))"
      "terminated l" "cstr l = rule_text ?r"
    using generate_rule_line_eq [OF r] by blast
  have c: "terminated (comment ?r)"
    using r by (simp add: wf_rule_def)
  have unfold: "script_loop e p len (i # is) b (length t) =
      bindE (snprintf b (length t) (size_sub len (length t)) ?s) (\<lambda>(b', written).
        if written < 0 \<or> int (length t) + written \<ge> int len then Inr (b', length t, - ENOSPC)
        else script_loop e p len is b' (length t + nat written))"
    using i l c by (simp add: rule_block_def)
  have blocks: "rule_blocks p (i # is) = ?s @ rule_blocks p is"
    by (simp add: rule_blocks_def)
  show ?case
  proof (cases "length t + length ?s < len")
    case True
    then obtain b' where b': "snprintf b (length t) (size_sub len (length t)) ?s = Inr (b', int (length ?s))"
        "length b' = len" "holds b' (t @ ?s)"
      using snprintf_append [of b t ?s] Cons.prems by auto
    have step: "script_loop e p len (i # is) b (length t) = script_loop e p len is b' (length (t @ ?s))"
      using True b' by (simp add: unfold del: script_loop.simps)
    have "set is \<subseteq> {..<length (rules p)}"
      using Cons.prems by simp
    from Cons.IH [OF Cons.prems(1) b'(3,2) Cons.prems(4) this] show ?thesis
      unfolding step blocks append_assoc [symmetric] length_append [symmetric] by simp
  next
    case False
    obtain b' where "snprintf b (length t) (size_sub len (length t)) ?s = Inr (b', int (length ?s))"
        "length b' = len" "holds b' (take (len - 1) (t @ ?s))"
      using snprintf_append_cut [of t b ?s] Cons.prems by (auto simp: holds_def)
    then show ?thesis
      using False by (simp add: unfold blocks del: script_loop.simps)
  qed
qed

lemma script_header_clean [simp]: "NUL \<notin> set (script_header n)"
  by (simp add: script_header_def)

lemma script_footer_clean [simp]: "NUL \<notin> set (script_footer n)"
  by (simp add: script_footer_def)

lemma rule_block_clean: "wf_rule r \<Longrightarrow> NUL \<notin> set (rule_block i r)"
  by (simp add: rule_block_def rule_text_bounds)

lemma script_text_clean:
  assumes "wf_policy p"
  shows "NUL \<notin> set (script_text p)"
proof -
  have "nat (rule_count p) \<le> length (rules p)" "\<forall>r \<in> set (rules p). wf_rule r"
    using assms by (auto simp: wf_policy_def list_all_iff)
  then show ?thesis
    by (auto simp: script_text_def rule_blocks_def dest!: rule_block_clean [rotated])
qed

text \<open>
  The last write of a generator: the buffer holds the whole text, or as much of it as fits
  and the result is \<open>-ENOSPC\<close>.
\<close>

lemma final_append_eq:
  assumes "holds b t" "length b = len" "len < 2 ^ 64"
  shows "\<exists>b'. length b' = len \<and>
    bindE (snprintf b (length t) (size_sub len (length t)) s) (\<lambda>(b3, w).
      if w < 0 \<or> int (length t) + w \<ge> int len then Inr (- ENOSPC, Some b3) else Inr (0, Some b3)) =
      Inr (if length (t @ s) < len then 0 else - ENOSPC, Some b') \<and>
    holds b' (take (len - 1) (t @ s))"
proof -
  obtain b' where "snprintf b (length t) (size_sub len (length t)) s = Inr (b', int (length s))"
    "length b' = len" "holds b' (take (len - 1) (t @ s))"
    using snprintf_append_cut [of t b s] assms by (auto simp: holds_def)
  then show ?thesis
    by auto
qed

lemma generate_script_eq:
  assumes p: "wf_policy p" and b: "length b = len" "0 < len" "len < 2 ^ 64"
  shows "\<exists>b'. length b' = len \<and>
    sec_policy_generate_script e (Some p) (Some b) len =
      Inr (if length (script_text p) < len then 0 else - ENOSPC, Some b') \<and>
    holds b' (take (len - 1) (script_text p))"
proof (cases "length (script_header (rule_count p)) < len")
  case False
  then show ?thesis
    using b snprintf_append_cut [of "[]" b "script_header (rule_count p)"]
    by (auto simp: sec_policy_generate_script_def script_text_def size_sub_le)
next
  case True
  let ?h = "script_header (rule_count p)" and ?is = "[0..<nat (rule_count p)]"
  let ?t = "?h @ rule_blocks p ?is"
  obtain b1 where b1: "snprintf b 0 len ?h = Inr (b1, int (length ?h))" "length b1 = len" "holds b1 ?h"
    using True snprintf_first [of ?h b] b by auto
  have "set ?is \<subseteq> {..<length (rules p)}"
    using p by (auto simp: wf_policy_def)
  note loop = script_loop_eq [OF p b1(3,2) b(3) this, of e]
  show ?thesis
  proof (cases "length ?t < len")
    case False
    then obtain b2 off where "script_loop e p len ?is b1 (length ?h) = Inr (b2, off, - ENOSPC)" "length b2 = len"
        "holds b2 (take (len - 1) ?t)"
      using loop by (auto split: if_splits)
    then show ?thesis
      using False True b b1 by (auto simp: sec_policy_generate_script_def script_text_def ENOSPC_def)
  next
    case fits: True
    then obtain b2 where b2: "script_loop e p len ?is b1 (length ?h) = Inr (b2, length ?t, 0)"
        "length b2 = len" "holds b2 ?t"
      using loop by auto
    have "script_text p = ?t @ script_footer (rule_count p)"
      by (simp add: script_text_def)
    then show ?thesis
      using final_append_eq [OF b2(3,2) b(3), of "script_footer (rule_count p)"] b b1 b2 True
      by (simp add: sec_policy_generate_script_def)
  qed
qed

section \<open>Applying the policy\<close>

text \<open>
  \<open>sh\<close> is the exit status the shell gives to a command; the result carries the commands
  passed to \<open>system\<close>, in order.
\<close>

definition sec_policy_apply ::
    "platform \<Rightarrow> endianness \<Rightarrow> (string \<Rightarrow> int) \<Rightarrow> sec_policy option \<Rightarrow> fault + (int \<times> string list)" where
  "sec_policy_apply pf e sh policy =
     (if policy = None then Inr (- EINVAL, [])
      else bindE (sec_policy_generate_script e policy (Some (zeros 4096)) 4096) (\<lambda>(ret, script).
        if ret < 0 then Inr (ret, [])
        else if pf = PLATFORM_LINUX then
          bindE (read_str (the script)) (\<lambda>s.
            let cmds = [''iptables -F PNET_CHAIN 2>/dev/null'', s]
            in if sh s \<noteq> 0 then Inr (- EIO, cmds) else Inr (0, cmds))
        else Inr (0, [])))"

lemma apply_linux_eq:
  assumes "wf_policy p"
  shows "sec_policy_apply PLATFORM_LINUX e sh (Some p) =
    Inr (if 4096 \<le> length (script_text p) then (- ENOSPC, [])
         else (if sh (script_text p) \<noteq> 0 then - EIO else 0,
               [''iptables -F PNET_CHAIN 2>/dev/null'', script_text p]))"
proof -
  obtain b' where "sec_policy_generate_script e (Some p) (Some (zeros 4096)) 4096 =
      Inr (if length (script_text p) < 4096 then 0 else - ENOSPC, Some b')"
      "holds b' (take 4095 (script_text p))"
    using generate_script_eq [OF assms, of "zeros 4096" 4096 e] by auto
  then show ?thesis
    using script_text_clean [OF assms]
    by (auto simp: sec_policy_apply_def ENOSPC_def holds_terminated holds_cstr)
qed

section \<open>IPSec tunnels\<close>

definition IPSEC_CONF_DIR :: string where "IPSEC_CONF_DIR = ''/etc/ipsec.d''"

text \<open>The paths are built in buffers of 256 bytes, so a long name is cut.\<close>

definition ipsec_path :: "string \<Rightarrow> string \<Rightarrow> fault + string" where
  "ipsec_path name ext =
     bindE (snprintf (zeros 256) 0 256 (IPSEC_CONF_DIR @ ''/'' @ name @ ext)) (\<lambda>(b, _). read_str b)"

definition ipsec_conn :: "string \<Rightarrow> string \<Rightarrow> string \<Rightarrow> string" where
  "ipsec_conn name local_str remote_str =
     ''conn '' @ name @ [NL] @
     ''    authby=secret'' @ [NL] @
     ''    left=%defaultroute'' @ [NL] @
     ''    leftid='' @ local_str @ [NL] @
     ''    leftsubnet='' @ local_str @ ''/32'' @ [NL] @
     ''    right='' @ remote_str @ [NL] @
     ''    rightsubnet='' @ remote_str @ ''/32'' @ [NL] @
     ''    ike=aes256-sha256-modp2048'' @ [NL] @
     ''    esp=aes256-sha256'' @ [NL] @
     ''    keyexchange=ikev2'' @ [NL] @
     ''    auto=start'' @ [NL] @
     ''    type=transport'' @ [NL] @ [NL]"

definition ipsec_secret :: "string \<Rightarrow> string \<Rightarrow> string \<Rightarrow> string" where
  "ipsec_secret local_str remote_str psk =
     local_str @ '' '' @ remote_str @ '' : PSK '' @ [DQ] @ psk @ [DQ, NL]"

definition sec_ipsec_create_tunnel ::
    "endianness \<Rightarrow> fs \<Rightarrow> string option \<Rightarrow> u32 \<Rightarrow> u32 \<Rightarrow> string option \<Rightarrow> fault + (int \<times> fs)" where
  "sec_ipsec_create_tunnel e f name local_ip remote_ip psk =
     (case (name, psk) of
        (Some nm, Some key) \<Rightarrow>
          bindE (sec_ip_to_str e local_ip INET_ADDRSTRLEN) (\<lambda>local_str.
          bindE (sec_ip_to_str e remote_ip INET_ADDRSTRLEN) (\<lambda>remote_str.
          bindE (ipsec_path nm ''.conf'') (\<lambda>conf_path.
            case write_file f conf_path (ipsec_conn nm local_str remote_str) of
              None \<Rightarrow> Inr (- EIO, f)
            | Some f1 \<Rightarrow>
                bindE (ipsec_path nm ''.secrets'') (\<lambda>secrets_path.
                  case write_file f1 secrets_path (ipsec_secret local_str remote_str key) of
                    None \<Rightarrow> Inr (- EIO, f1)
                  | Some f2 \<Rightarrow> Inr (0, chmod f2 secrets_path 0x180)))))
      | _ \<Rightarrow> Inr (- EINVAL, f))"

definition sec_ipsec_remove_tunnel :: "fs \<Rightarrow> int \<Rightarrow> string option \<Rightarrow> fault + (int \<times> fs)" where
  "sec_ipsec_remove_tunnel f err name =
     (case name of
        None \<Rightarrow> Inr (- EINVAL, f)
      | Some nm \<Rightarrow>
          bindE (ipsec_path nm ''.conf'') (\<lambda>conf_path.
          bindE (ipsec_path nm ''.secrets'') (\<lambda>secrets_path.
            let (ret_conf, f1, err1) = remove_file f err conf_path;
                (ret_secret, f2, err2) = remove_file f1 err1 secrets_path
            in if ret_conf \<noteq> 0 \<and> err2 \<noteq> ENOENT then Inr (- EIO, f2)
               else if ret_secret \<noteq> 0 \<and> err2 \<noteq> ENOENT then Inr (- EIO, f2)
               else Inr (0, f2))))"

text \<open>The path a name leads to: the first 255 characters of the full path.\<close>

definition ipsec_file :: "string \<Rightarrow> string \<Rightarrow> string" where
  "ipsec_file name ext = take 255 (IPSEC_CONF_DIR @ ''/'' @ name @ ext)"

lemma ipsec_path_eq:
  assumes "NUL \<notin> set name" "NUL \<notin> set ext"
  shows "ipsec_path name ext = Inr (ipsec_file name ext)"
proof -
  let ?s = "IPSEC_CONF_DIR @ ''/'' @ name @ ext" and ?k = "min (length (IPSEC_CONF_DIR @ ''/'' @ name @ ext)) 255"
  have k: "take ?k ?s = ipsec_file name ext"
    by (simp add: ipsec_file_def min_def)
  have "snprintf (zeros 256) 0 256 ?s = Inr (take ?k ?s @ NUL # drop (?k + 1) (zeros 256), int (length ?s))"
    by (simp add: snprintf_def Let_def)
  moreover have "NUL \<notin> set ?s"
    using assms by (simp add: IPSEC_CONF_DIR_def)
  then have "NUL \<notin> set (ipsec_file name ext)"
    unfolding ipsec_file_def by (meson in_set_takeD)
  ultimately show ?thesis
    unfolding ipsec_path_def k by (simp add: read_str_def terminated_def cstr_append_NUL)
qed

lemma ipsec_files_collide:
  "ipsec_file name ''.conf'' = ipsec_file name ''.secrets'' \<longleftrightarrow> 241 \<le> length name"
proof -
  have "ipsec_file name ext = IPSEC_CONF_DIR @ ''/'' @ take 242 name @ take (242 - length name) ext" for ext
    by (simp add: ipsec_file_def IPSEC_CONF_DIR_def)
  then have "ipsec_file name ''.conf'' = ipsec_file name ''.secrets'' \<longleftrightarrow>
      take (242 - length name) ''.conf'' = take (242 - length name) ''.secrets''"
    by simp
  also have "\<dots> \<longleftrightarrow> 242 - length name \<le> 1"
    by (auto simp: take_Cons split: nat.splits)
  finally show ?thesis
    by auto
qed

section \<open>Audit\<close>

text \<open>The loops of the audit: a search with \<open>break\<close>, and a count.\<close>

fun any_rule :: "(sec_rule \<Rightarrow> bool) \<Rightarrow> sec_rule list \<Rightarrow> nat list \<Rightarrow> fault + bool" where
  "any_rule P rs [] = Inr False"
| "any_rule P rs (i # is) =
     (if i \<ge> length rs then Inl OutOfBounds else if P (rs ! i) then Inr True else any_rule P rs is)"

fun count_rules :: "(sec_rule \<Rightarrow> bool) \<Rightarrow> sec_rule list \<Rightarrow> nat list \<Rightarrow> int \<Rightarrow> fault + int" where
  "count_rules P rs [] k = Inr k"
| "count_rules P rs (i # is) k =
     (if i \<ge> length rs then Inl OutOfBounds
      else count_rules P rs is (if P (rs ! i) then k + 1 else k))"

definition is_default_deny :: "sec_rule \<Rightarrow> bool" where
  "is_default_deny r \<longleftrightarrow> chain r = SEC_CHAIN_INPUT \<and> protocol r = 0 \<and> dst_port r = 0 \<and> src_ip r = 0 \<and>
     (action r = SEC_ACTION_DROP \<or> action r = SEC_ACTION_REJECT)"

definition is_ipsec_rule :: "sec_rule \<Rightarrow> bool" where
  "is_ipsec_rule r \<longleftrightarrow> protocol r = 17 \<and> (dst_port r = 500 \<or> dst_port r = 4500)"

text \<open>
  One check of the audit: when it applies, its line is printed at the current offset
  without a test that it fits, and the offset grows by the length of the whole line.
\<close>

definition audit_note ::
    "nat \<Rightarrow> bool \<Rightarrow> bool \<Rightarrow> string \<Rightarrow> buf \<times> nat \<times> int \<Rightarrow> fault + (buf \<times> nat \<times> int)" where
  "audit_note len applies warn line st =
     (case st of (b, off, warnings) \<Rightarrow>
        if \<not> applies then Inr st
        else bindE (snprintf b off (size_sub len off) line) (\<lambda>(b', written).
          if written > 0 then Inr (b', off + nat written, if warn then warnings + 1 else warnings)
          else Inr (b', off, warnings)))"

definition audit_header :: "sec_policy \<Rightarrow> string" where
  "audit_header p = ''=== PROFINET Security Policy Audit Report ==='' @ [NL] @
     ''Total rules: '' @ fmt_d (rule_count p) @ '' / '' @ fmt_d (int MAX_FW_RULES) @ [NL] @
     ''Policy enabled: '' @ (if enabled p then ''yes'' else ''no'') @ [NL, NL]"

definition line_disabled :: string where
  "line_disabled = ''[WARN] Policy is disabled - no rules are enforced'' @ [NL]"

definition line_empty :: string where
  "line_empty = ''[WARN] No firewall rules defined'' @ [NL]"

definition line_no_deny :: string where
  "line_no_deny = ''[WARN] No default-deny rule on INPUT chain'' @ [NL]"

definition line_no_ipsec :: string where
  "line_no_ipsec = ''[WARN] No IPSec (UDP 500/4500) rules found - '' @
     ''consider enabling IPSec for encrypted traffic'' @ [NL]"

definition line_inactive :: "int \<Rightarrow> string" where
  "line_inactive n = ''[INFO] '' @ fmt_d n @ '' inactive rule(s) present'' @ [NL]"

definition line_full :: "int \<Rightarrow> string" where
  "line_full n = ''[WARN] Rule table is '' @ fmt_d ((n * 100) div int MAX_FW_RULES) @ ''% full ('' @
     fmt_d n @ ''/'' @ fmt_d (int MAX_FW_RULES) @ '') - '' @ ''consider consolidating rules'' @ [NL]"

definition line_summary :: "int \<Rightarrow> string" where
  "line_summary w = [NL] @ ''Audit complete: '' @ fmt_d w @ '' warning(s)'' @ [NL]"

definition sec_policy_audit :: "sec_policy option \<Rightarrow> buf option \<Rightarrow> nat \<Rightarrow> fault + (int \<times> buf option)" where
  "sec_policy_audit policy report len =
     (case (policy, report) of
        (Some p, Some b0) \<Rightarrow>
          if len = 0 then Inr (- EINVAL, report)
          else bindE (snprintf b0 0 len (audit_header p)) (\<lambda>(b1, written).
            if written < 0 \<or> written \<ge> int len then Inr (- ENOSPC, Some b1)
            else let idx = [0..<nat (rule_count p)] in
              bindE (audit_note len (\<not> enabled p) True line_disabled (b1, nat written, 0)) (\<lambda>s1.
              bindE (audit_note len (rule_count p = 0) True line_empty s1) (\<lambda>s2.
              bindE (any_rule is_default_deny (rules p) idx) (\<lambda>has_default_deny.
              bindE (audit_note len (\<not> has_default_deny) True line_no_deny s2) (\<lambda>s3.
              bindE (any_rule is_ipsec_rule (rules p) idx) (\<lambda>has_ipsec_rules.
              bindE (audit_note len (\<not> has_ipsec_rules) True line_no_ipsec s3) (\<lambda>s4.
              bindE (count_rules (\<lambda>r. \<not> active r) (rules p) idx 0) (\<lambda>inactive_count.
              bindE (audit_note len (inactive_count > 0) False (line_inactive inactive_count) s4) (\<lambda>s5.
              bindE (audit_note len (rule_count p > int MAX_FW_RULES * 3 div 4) True (line_full (rule_count p)) s5)
                (\<lambda>(b, off, warnings).
                  bindE (snprintf b off (size_sub len off) (line_summary warnings)) (\<lambda>(b', w).
                    if w < 0 \<or> int off + w \<ge> int len then Inr (- ENOSPC, Some b')
                    else Inr (warnings, Some b'))))))))))))
      | _ \<Rightarrow> Inr (- EINVAL, report))"

section \<open>What the audit reports\<close>

text \<open>
  The reference: the checks in order, each with whether it applies, whether it counts as a
  warning, and its line.
\<close>

definition inactive_rules :: "sec_policy \<Rightarrow> nat" where
  "inactive_rules p = length (filter (\<lambda>r. \<not> active r) (rule_list p))"

definition audit_checks :: "sec_policy \<Rightarrow> (bool \<times> bool \<times> string) list" where
  "audit_checks p =
     [(\<not> enabled p, True, line_disabled),
      (rule_list p = [], True, line_empty),
      (\<not> list_ex is_default_deny (rule_list p), True, line_no_deny),
      (\<not> list_ex is_ipsec_rule (rule_list p), True, line_no_ipsec),
      (0 < inactive_rules p, False, line_inactive (int (inactive_rules p))),
      (48 < length (rule_list p), True, line_full (rule_count p))]"

definition audit_lines :: "(bool \<times> bool \<times> string) list \<Rightarrow> string" where
  "audit_lines cs = concat (map (\<lambda>(_, _, s). s) (filter (\<lambda>(a, _, _). a) cs))"

definition audit_warnings :: "(bool \<times> bool \<times> string) list \<Rightarrow> int" where
  "audit_warnings cs = int (length (filter (\<lambda>(a, w, _). a \<and> w) cs))"

text \<open>The report before its summary, and the whole report.\<close>

definition audit_body :: "sec_policy \<Rightarrow> string" where
  "audit_body p = audit_header p @ audit_lines (audit_checks p)"

definition audit_text :: "sec_policy \<Rightarrow> string" where
  "audit_text p = audit_body p @ line_summary (audit_warnings (audit_checks p))"

fun audit_steps :: "nat \<Rightarrow> (bool \<times> bool \<times> string) list \<Rightarrow> buf \<times> nat \<times> int \<Rightarrow> fault + (buf \<times> nat \<times> int)" where
  "audit_steps len [] st = Inr st"
| "audit_steps len ((a, w, s) # cs) st = bindE (audit_note len a w s st) (audit_steps len cs)"

lemma any_rule_take:
  "n \<le> length rs \<Longrightarrow> any_rule P rs [m..<n] = Inr (list_ex P (drop m (take n rs)))"
proof (induction "n - m" arbitrary: m)
  case 0
  then show ?case by simp
next
  case (Suc k)
  then have m: "m < n" "drop m (take n rs) = rs ! m # drop (Suc m) (take n rs)"
    by (auto simp: Cons_nth_drop_Suc [symmetric])
  with Suc show ?case
    by (simp add: upt_conv_Cons)
qed

lemma count_rules_take:
  "n \<le> length rs \<Longrightarrow> count_rules P rs [m..<n] k = Inr (k + int (length (filter P (drop m (take n rs)))))"
proof (induction "n - m" arbitrary: m k)
  case 0
  then show ?case by simp
next
  case (Suc j)
  then have m: "m < n" "drop m (take n rs) = rs ! m # drop (Suc m) (take n rs)"
    by (auto simp: Cons_nth_drop_Suc [symmetric])
  with Suc show ?case
    by (simp add: upt_conv_Cons)
qed

lemma audit_eq_steps:
  assumes "wf_policy p" "length b = len" "0 < len" "length (audit_header p) < len"
    and "snprintf b 0 len (audit_header p) = Inr (b1, int (length (audit_header p)))"
  shows "sec_policy_audit (Some p) (Some b) len =
    bindE (audit_steps len (audit_checks p) (b1, length (audit_header p), 0)) (\<lambda>(b', off, warnings).
      bindE (snprintf b' off (size_sub len off) (line_summary warnings)) (\<lambda>(b'', w).
        if w < 0 \<or> int off + w \<ge> int len then Inr (- ENOSPC, Some b'') else Inr (warnings, Some b'')))"
proof -
  have n: "nat (rule_count p) \<le> length (rules p)" and z: "rule_count p = 0 \<longleftrightarrow> rule_list p = []"
    and f: "rule_count p > int MAX_FW_RULES * 3 div 4 \<longleftrightarrow> 48 < length (rule_list p)"
    using assms(1) by (auto simp: wf_policy_def rule_list_def MAX_FW_RULES_def)
  have bind_assoc: "bindE (bindE m g) h = bindE m (\<lambda>x. bindE (g x) h)"
    for m :: "fault + (buf \<times> nat \<times> int)" and g :: "buf \<times> nat \<times> int \<Rightarrow> fault + (buf \<times> nat \<times> int)"
      and h :: "buf \<times> nat \<times> int \<Rightarrow> fault + (int \<times> buf option)"
    by (cases m) auto
  show ?thesis
    using assms n any_rule_take [OF n, of _ 0] count_rules_take [OF n, of _ 0 0]
    by (simp add: sec_policy_audit_def audit_checks_def z f rule_list_def [symmetric]
        inactive_rules_def [symmetric] bind_assoc)
qed

lemma audit_lines_simps [simp]:
  "audit_lines [] = []" "audit_lines ((a, w, s) # cs) = (if a then s else []) @ audit_lines cs"
  by (auto simp: audit_lines_def)

lemma audit_warnings_simps [simp]:
  "audit_warnings [] = 0" "audit_warnings ((a, w, s) # cs) = (if a \<and> w then 1 else 0) + audit_warnings cs"
  by (auto simp: audit_warnings_def)

definition proper_checks :: "(bool \<times> bool \<times> string) list \<Rightarrow> bool" where
  "proper_checks cs \<longleftrightarrow> (\<forall>(a, w, s) \<in> set cs. s \<noteq> [])"

lemma proper_checks_simps [simp]:
  "proper_checks []" "proper_checks ((a, w, s) # cs) \<longleftrightarrow> s \<noteq> [] \<and> proper_checks cs"
  by (auto simp: proper_checks_def)

text \<open>As long as everything fits, the buffer holds the text so far.\<close>

lemma audit_steps_fit:
  assumes "proper_checks cs" "holds b t" "length b = len" "len < 2 ^ 64"
    and "length t + length (audit_lines cs) < len"
  shows "\<exists>b'. audit_steps len cs (b, length t, w) =
      Inr (b', length (t @ audit_lines cs), w + audit_warnings cs) \<and>
    length b' = len \<and> holds b' (t @ audit_lines cs)"
  using assms
proof (induction cs arbitrary: b t w)
  case Nil
  then show ?case by simp
next
  case (Cons c cs)
  obtain a v s where c: "c = (a, v, s)"
    by (cases c)
  show ?case
  proof (cases a)
    case True
    then obtain b' where b': "snprintf b (length t) (size_sub len (length t)) s = Inr (b', int (length s))"
        "length b' = len" "holds b' (t @ s)"
      using snprintf_append [of b t s] Cons.prems c by auto
    have "audit_note len a v s (b, length t, w) = Inr (b', length (t @ s), if v then w + 1 else w)"
      using True b' Cons.prems c by (simp add: audit_note_def)
    then show ?thesis
      using Cons.IH [of b' "t @ s" "if v then w + 1 else w"] Cons.prems b' c True
      by (cases v) (simp_all add: add.assoc)
  next
    case False
    then show ?thesis
      using Cons c by (simp add: audit_note_def)
  qed
qed

text \<open>Once the offset is past the end, the next line that applies is written out of bounds.\<close>

lemma write_past_end:
  assumes "length b < off" "off < 2 ^ 63"
  shows "snprintf b off (size_sub (length b) off) s = Inl OutOfBounds"
proof -
  have "2 ^ 63 < size_sub (length b) off"
    using assms by (rule size_sub_wraps)
  then show ?thesis
    using assms by (auto simp: snprintf_def Let_def)
qed

lemma audit_steps_past_end:
  assumes "proper_checks cs" "length b = len" "len < off" "off < 2 ^ 63"
  shows "audit_steps len cs (b, off, w) =
    (if audit_lines cs = [] then Inr (b, off, w) else Inl OutOfBounds)"
  using assms
proof (induction cs)
  case (Cons c cs)
  then show ?case
    by (cases c) (auto simp: audit_note_def write_past_end)
qed simp

lemma write_to_end:
  assumes "off \<le> length b" "length b < 2 ^ 64"
  shows "\<exists>b'. snprintf b off (size_sub (length b) off) s = Inr (b', int (length s)) \<and> length b' = length b"
  using assms snprintf_cut [of off b s]
  by (cases "off = length b") (auto simp: size_sub_le snprintf_def)

lemma no_lines_no_warnings: "proper_checks cs \<Longrightarrow> audit_lines cs = [] \<Longrightarrow> audit_warnings cs = 0"
  by (induction cs) (auto split: if_splits)

lemma audit_steps_offset:
  assumes "proper_checks cs" "length b = len" "off \<le> len" "off + length (audit_lines cs) < 2 ^ 63" "len < 2 ^ 63"
  shows "(\<exists>b'. audit_steps len cs (b, off, w) = Inr (b', off + length (audit_lines cs), w + audit_warnings cs) \<and>
           length b' = len) \<or>
         len < off + length (audit_lines cs) \<and> audit_steps len cs (b, off, w) = Inl OutOfBounds"
  using assms
proof (induction cs arbitrary: b off w)
  case (Cons c cs)
  obtain a v s where c: "c = (a, v, s)"
    by (cases c)
  show ?case
  proof (cases a)
    case False
    then show ?thesis
      using Cons c by (simp add: audit_note_def)
  next
    case True
    obtain b' where b': "snprintf b off (size_sub len off) s = Inr (b', int (length s))" "length b' = len"
      using write_to_end [of off b s] Cons.prems by auto
    then have note_eq: "audit_note len a v s (b, off, w) = Inr (b', off + length s, if v then w + 1 else w)"
      using True Cons.prems c by (simp add: audit_note_def)
    show ?thesis
    proof (cases "off + length s \<le> len")
      case fits: True
      then show ?thesis
        using Cons.IH [of b' "off + length s" "if v then w + 1 else w"] Cons.prems True note_eq b' c
        by (cases v) (simp_all add: add.assoc)
    next
      case False
      then show ?thesis
        using audit_steps_past_end [of cs b' len "off + length s"] Cons.prems True note_eq b' c
        by (auto simp: no_lines_no_warnings)
    qed
  qed
qed simp

section \<open>Size of the report\<close>

lemma fmt_d_small: "0 \<le> i \<Longrightarrow> i < 1000 \<Longrightarrow> length (fmt_d i) \<le> 3"
  using fmt_u_length [of "nat i" 3] by (simp add: fmt_d_def nat_less_iff)

lemma proper_audit_checks [simp]: "proper_checks (audit_checks p)"
  by (simp add: audit_checks_def line_disabled_def line_empty_def line_no_deny_def line_no_ipsec_def
      line_inactive_def line_full_def)

lemma audit_header_length:
  assumes "wf_policy p"
  shows "length (audit_header p) \<le> 92"
  using fmt_d_small [of "rule_count p"] fmt_d_small [of 64] assms
  by (simp add: audit_header_def wf_policy_def MAX_FW_RULES_def)

lemma audit_lines_length:
  assumes "wf_policy p"
  shows "length (audit_lines (audit_checks p)) \<le> 340"
proof -
  have n: "length (rule_list p) \<le> 64" "inactive_rules p \<le> length (rule_list p)" "0 \<le> rule_count p" "rule_count p \<le> 64"
    using assms length_rule_list [OF assms] length_filter_le [of "\<lambda>r. \<not> active r" "rule_list p"]
    unfolding inactive_rules_def by (auto simp: wf_policy_def MAX_FW_RULES_def)
  have "rule_count p * 100 div 64 < 1000" "0 \<le> rule_count p * 100 div 64"
    using n by auto
  then have "length (line_full (rule_count p)) \<le> 80"
    using n fmt_d_small [of "rule_count p * 100 div 64"] fmt_d_small [of "rule_count p"] fmt_d_small [of 64]
    by (simp add: line_full_def MAX_FW_RULES_def)
  moreover have "length (line_inactive (int (inactive_rules p))) \<le> 36"
    using n fmt_d_small [of "int (inactive_rules p)"] by (simp add: line_inactive_def)
  moreover have "length line_disabled = 50" "length line_empty = 33" "length line_no_deny = 43"
      "length line_no_ipsec = 91"
    by (simp_all add: line_disabled_def line_empty_def line_no_deny_def line_no_ipsec_def)
  ultimately show ?thesis
    by (simp add: audit_checks_def)
qed

lemma audit_warnings_bounds: "0 \<le> audit_warnings (audit_checks p)" "audit_warnings (audit_checks p) \<le> 5"
  by (simp_all add: audit_checks_def)

lemma audit_text_length:
  assumes "wf_policy p"
  shows "length (audit_text p) < 512"
  using audit_header_length [OF assms] audit_lines_length [OF assms] audit_warnings_bounds [of p]
    fmt_d_small [of "audit_warnings (audit_checks p)"]
  by (simp add: audit_text_def audit_body_def line_summary_def)

lemma audit_text_clean: "NUL \<notin> set (audit_text p)"
  by (simp add: audit_text_def audit_body_def audit_header_def audit_checks_def line_disabled_def
      line_empty_def line_no_deny_def line_no_ipsec_def line_inactive_def line_full_def line_summary_def)

lemma audit_fits:
  assumes p: "wf_policy p" and b: "length b = len" "len < 2 ^ 64" and fit: "length (audit_text p) < len"
  shows "\<exists>b'. sec_policy_audit (Some p) (Some b) len = Inr (audit_warnings (audit_checks p), Some b') \<and>
    cstr b' = audit_text p"
proof -
  have h: "length (audit_header p) < len"
    using fit by (simp add: audit_text_def audit_body_def)
  obtain b1 where b1: "snprintf b 0 len (audit_header p) = Inr (b1, int (length (audit_header p)))"
      "length b1 = len" "holds b1 (audit_header p)"
    using snprintf_first [of "audit_header p" b] b h by auto
  obtain b2 where b2: "audit_steps len (audit_checks p) (b1, length (audit_header p), 0) =
      Inr (b2, length (audit_body p), audit_warnings (audit_checks p))" "length b2 = len" "holds b2 (audit_body p)"
    using audit_steps_fit [of "audit_checks p" b1 "audit_header p" len 0] b1 b fit
    by (auto simp: audit_text_def audit_body_def)
  obtain b3 where "snprintf b2 (length (audit_body p)) (size_sub len (length (audit_body p)))
        (line_summary (audit_warnings (audit_checks p))) =
      Inr (b3, int (length (line_summary (audit_warnings (audit_checks p)))))" "holds b3 (audit_text p)"
    using snprintf_append [of b2 "audit_body p" "line_summary (audit_warnings (audit_checks p))"] b2 b fit
    by (auto simp: audit_text_def)
  then show ?thesis
    using fit b b2 audit_text_clean [of p]
    by (auto simp: audit_eq_steps [OF p b(1) _ h b1(1)] audit_text_def holds_cstr)
qed

section \<open>Properties\<close>

definition empty_policy :: sec_policy where
  "empty_policy = \<lparr>rules = replicate MAX_FW_RULES zero_rule, rule_count = 0, enabled = False\<rparr>"

lemma wf_empty_policy [simp]: "wf_policy empty_policy"
  by (simp add: wf_policy_def empty_policy_def list_all_iff)

text \<open>
  C4: the array with its count is a bounded list. Any sequence of additions, removals by
  index and flushes, started on a well-formed table, runs without leaving the array, keeps
  the table well-formed and leaves the rules the same calls leave in a plain list of at most
  64 elements: additions to a full list and removals out of range change nothing, added
  rules become active, the order is kept.
\<close>
theorem table_refines_list:
  assumes "wf_policy p" "calls_fit wf_rule cs"
  shows "\<exists>p'. run_table (\<lambda>t r. sec_policy_add_rule t (Some r)) sec_policy_remove_rule sec_policy_flush (Some p) cs =
      Inr (Some p') \<and> wf_policy p' \<and>
    rule_list p' = run_list MAX_FW_RULES (\<lambda>r. r\<lparr>active := True\<rparr>) (rule_list p) cs"
proof -
  have "policy_ok (Some p)" "policy_rules (Some p) = rule_list p"
    using assms(1) by (simp_all add: policy_ok_def policy_rules_def)
  then obtain t' where "run_table (\<lambda>t r. sec_policy_add_rule t (Some r)) sec_policy_remove_rule sec_policy_flush (Some p) cs = Inr t'"
    "policy_ok t'" "policy_rules t' = run_list MAX_FW_RULES (\<lambda>r. r\<lparr>active := True\<rparr>) (rule_list p) cs"
    using rule_table.run_refines_list [of "Some p" cs] assms(2) by auto
  then show ?thesis
    by (elim policy_okE) auto
qed

theorem table_refines_list_witness:
  "\<exists>p'. run_table (\<lambda>t r. sec_policy_add_rule t (Some r)) sec_policy_remove_rule sec_policy_flush (Some empty_policy)
      [Add (zero_rule\<lparr>dst_port := 80\<rparr>), Add (zero_rule\<lparr>dst_port := 443\<rparr>), Remove 7, Remove 0] = Inr (Some p') \<and>
    rule_list p' = [zero_rule\<lparr>dst_port := 443, active := True\<rparr>]"
proof -
  have "wf_rule (zero_rule\<lparr>dst_port := n\<rparr>)" for n
    using wf_zero_rule by (simp add: wf_rule_def)
  moreover have "rule_list empty_policy = []"
    by (simp add: rule_list_def empty_policy_def)
  ultimately show ?thesis
    using table_refines_list [of empty_policy
        "[Add (zero_rule\<lparr>dst_port := 80\<rparr>), Add (zero_rule\<lparr>dst_port := 443\<rparr>), Remove 7, Remove 0]"]
    by (auto simp: MAX_FW_RULES_def)
qed

text \<open>
  C6: generating the script never leaves the caller's buffer and always terminates it within
  the length given. It returns 0 exactly when the reference text (header, one block per rule
  in table order, footer) fits with its NUL, and then the buffer holds exactly that text;
  otherwise it returns -ENOSPC, and the buffer holds a terminated string too: the first
  characters of the reference text, as many as fit before the last byte of the buffer.
\<close>
theorem generate_script_exact:
  assumes "wf_policy p" "length b = len" "0 < len" "len < 2 ^ 64"
  shows "\<exists>b'. sec_policy_generate_script e (Some p) (Some b) len =
      Inr (if length (script_text p) < len then 0 else - ENOSPC, Some b') \<and> length b' = len \<and>
    terminated b' \<and> cstr b' = (if length (script_text p) < len then script_text p else take (len - 1) (script_text p))"
proof -
  obtain b' where b': "sec_policy_generate_script e (Some p) (Some b) len =
      Inr (if length (script_text p) < len then 0 else - ENOSPC, Some b')" "length b' = len"
    "holds b' (take (len - 1) (script_text p))"
    using generate_script_eq [OF assms, of e] by blast
  moreover have "NUL \<notin> set (take (len - 1) (script_text p))"
    using script_text_clean [OF assms(1)] by (blast dest: in_set_takeD)
  ultimately show ?thesis
    using holds_cstr [OF b'(3)] holds_terminated [OF b'(3)] by auto
qed

theorem generate_script_exact_witness:
  "\<exists>b'. sec_policy_generate_script LittleEndian (Some empty_policy) (Some (zeros 12)) 12 = Inr (- ENOSPC, Some b') \<and>
     terminated b' \<and> cstr b' = ''#!/bin/bash''"
  using generate_script_exact [of empty_policy "zeros 12" 12 LittleEndian]
  by (auto simp: script_text_def script_header_def)

lemma dotted_block_length: "src_ip r \<noteq> 0 \<Longrightarrow> active r \<Longrightarrow> 66 \<le> length (rule_block i r)"
proof -
  assume r: "src_ip r \<noteq> 0" "active r"
  have u: "1 \<le> length (fmt_u n)" for n
    by (simp add: Suc_le_eq)
  have d: "1 \<le> length (fmt_d j)" for j
    by (simp add: Suc_le_eq)
  show ?thesis
    using r chain_to_str_bounds(2) [of "chain r"] action_to_str_bounds(2) [of "action r"] u [of "unat (dst_port r)"]
      proto_to_str_bounds(1) [of "protocol r"] dotted_quad_length_ge [of "src_ip r"] d [of "int i"]
    by (simp add: rule_block_def rule_text_def)
qed

lemma concat_length_ge: "(\<And>x. x \<in> set xs \<Longrightarrow> k \<le> length (f x)) \<Longrightarrow> k * length xs \<le> length (concat (map f xs))"
proof (induction xs)
  case (Cons x xs)
  then have "k \<le> length (f x)" "k * length xs \<le> length (concat (map f xs))"
    by auto
  then show ?case
    by simp
qed simp

lemma full_table_text:
  assumes "wf_policy p" "rule_count p = int MAX_FW_RULES" "list_all (\<lambda>r. active r \<and> src_ip r \<noteq> 0) (rules p)"
  shows "4096 \<le> length (script_text p)"
proof -
  have n: "length (rules p) = 64"
    using assms(1) by (simp add: wf_policy_def MAX_FW_RULES_def)
  have "66 * length [0..<64] \<le> length (rule_blocks p [0..<64])"
    unfolding rule_blocks_def using assms(3) n
    by (intro concat_length_ge dotted_block_length) (auto simp: list_all_length)
  then show ?thesis
    using assms(2) by (simp add: script_text_def MAX_FW_RULES_def)
qed

text \<open>
  C18: on Linux, applying a well-formed policy flushes the chain and runs the reference text
  of the script as one shell command, in this order, and returns -EIO when the shell fails;
  when the text does not fit into 4095 characters nothing is run and the result is -ENOSPC.
  Neither depends on whether the policy is enabled. A full table of active rules that each
  name a source address never fits: it cannot be applied at all.
\<close>
theorem apply_exact:
  assumes "wf_policy p"
  shows "sec_policy_apply PLATFORM_LINUX e sh (Some p) =
      Inr (if 4096 \<le> length (script_text p) then (- ENOSPC, [])
           else (if sh (script_text p) \<noteq> 0 then - EIO else 0,
                 [''iptables -F PNET_CHAIN 2>/dev/null'', script_text p])) \<and>
    sec_policy_apply PLATFORM_LINUX e sh (Some (p\<lparr>enabled := b\<rparr>)) = sec_policy_apply PLATFORM_LINUX e sh (Some p) \<and>
    (rule_count p = int MAX_FW_RULES \<and> list_all (\<lambda>r. active r \<and> src_ip r \<noteq> 0) (rules p) \<longrightarrow>
      sec_policy_apply PLATFORM_LINUX e sh (Some p) = Inr (- ENOSPC, []))"
proof -
  have "wf_policy (p\<lparr>enabled := b\<rparr>)"
    using assms by (simp add: wf_policy_def)
  moreover have "script_text (p\<lparr>enabled := b\<rparr>) = script_text p"
    by (simp add: script_text_def rule_blocks_def)
  ultimately show ?thesis
    using assms full_table_text [OF assms] by (simp add: apply_linux_eq)
qed

theorem apply_exact_witness:
  "(\<exists>s. sec_policy_apply PLATFORM_LINUX LittleEndian (\<lambda>_. 0) (Some (empty_policy\<lparr>enabled := False\<rparr>)) =
     Inr (0, [''iptables -F PNET_CHAIN 2>/dev/null'', s])) \<and>
   sec_policy_apply PLATFORM_LINUX LittleEndian (\<lambda>_. 0)
     (Some \<lparr>rules = replicate 64 (zero_rule\<lparr>active := True, src_ip := 1\<rparr>), rule_count = 64, enabled = True\<rparr>) =
     Inr (- ENOSPC, [])"
proof -
  let ?full = "\<lparr>rules = replicate 64 (zero_rule\<lparr>active := True, src_ip := 1\<rparr>), rule_count = 64, enabled = True\<rparr>"
  have wf: "wf_policy ?full"
    using wf_zero_rule by (simp add: wf_policy_def MAX_FW_RULES_def wf_rule_def list_all_iff)
  have "length (script_text empty_policy) < 4096"
    using fmt_d_length [of 0] by (simp add: script_text_def rule_blocks_def empty_policy_def script_header_def
      script_footer_def is_s32_def)
  then show ?thesis
    using apply_exact [OF wf_empty_policy, of LittleEndian "\<lambda>_. 0" False]
      apply_exact [OF wf, of LittleEndian "\<lambda>_. 0" True, THEN conjunct2, THEN conjunct2]
    by (auto simp: MAX_FW_RULES_def list_all_iff)
qed

lemma ipsec_file_short: "length name < 200 \<Longrightarrow> length ext \<le> 8 \<Longrightarrow> ipsec_file name ext = ''/etc/ipsec.d/'' @ name @ ext"
  by (simp add: ipsec_file_def IPSEC_CONF_DIR_def)

lemma create_tunnel_eq:
  assumes "NUL \<notin> set name" "can_write f (ipsec_file name ''.conf'')" "can_write f (ipsec_file name ''.secrets'')"
  shows "\<exists>f1 f2. write_file f (ipsec_file name ''.conf'') (ipsec_conn name (dotted_quad lip) (dotted_quad rip)) = Some f1 \<and>
    write_file f1 (ipsec_file name ''.secrets'') (ipsec_secret (dotted_quad lip) (dotted_quad rip) psk) = Some f2 \<and>
    sec_ipsec_create_tunnel e f (Some name) lip rip (Some psk) =
      Inr (0, chmod f2 (ipsec_file name ''.secrets'') 0x180)"
proof -
  obtain f1 where f1: "write_file f (ipsec_file name ''.conf'') (ipsec_conn name (dotted_quad lip) (dotted_quad rip)) = Some f1"
    using write_file_Some [OF assms(2)] by blast
  then have "can_write f1 (ipsec_file name ''.secrets'')"
    using write_file_frame [OF f1] assms(3) by simp
  then obtain f2 where "write_file f1 (ipsec_file name ''.secrets'') (ipsec_secret (dotted_quad lip) (dotted_quad rip) psk) = Some f2"
    using write_file_Some by blast
  then show ?thesis
    using f1 assms(1) by (simp add: sec_ipsec_create_tunnel_def ipsec_path_eq)
qed

text \<open>
  C24: creating a tunnel with a name of at most 240 characters writes the connection and
  the secret into two different files named after the tunnel, restricts the secret to its
  owner (mode 0600) and returns 0; every other file keeps its content and its mode. Where
  the system removes files, removing the tunnel afterwards returns 0 and undoes it: neither
  file is left, and every other file is as it was before the tunnel was created.
\<close>
theorem create_tunnel_files:
  assumes "NUL \<notin> set name" "length name \<le> 240"
    and "can_write f (ipsec_file name ''.conf'')" "can_write f (ipsec_file name ''.secrets'')"
    and "\<And>p t. accepts f p t" "\<And>p. chmod_ok f p"
  shows "\<exists>f'. sec_ipsec_create_tunnel e f (Some name) lip rip (Some psk) = Inr (0, f') \<and>
    content f' (ipsec_file name ''.conf'') = Some (ipsec_conn name (dotted_quad lip) (dotted_quad rip)) \<and>
    content f' (ipsec_file name ''.secrets'') = Some (ipsec_secret (dotted_quad lip) (dotted_quad rip) psk) \<and>
    perms f' (ipsec_file name ''.secrets'') = Some 0x180 \<and>
    (\<forall>p. p \<noteq> ipsec_file name ''.conf'' \<longrightarrow> p \<noteq> ipsec_file name ''.secrets'' \<longrightarrow>
      content f' p = content f p \<and> perms f' p = perms f p) \<and>
    ((\<forall>p. remove_errno f p = 0) \<longrightarrow> (\<exists>f''. sec_ipsec_remove_tunnel f' err (Some name) = Inr (0, f'') \<and>
      content f'' = (content f)(ipsec_file name ''.conf'' := None, ipsec_file name ''.secrets'' := None) \<and>
      perms f'' = (perms f)(ipsec_file name ''.conf'' := None, ipsec_file name ''.secrets'' := None)))"
proof -
  have ne: "ipsec_file name ''.conf'' \<noteq> ipsec_file name ''.secrets''"
    using assms(2) ipsec_files_collide [of name] by linarith
  obtain f' where create: "sec_ipsec_create_tunnel e f (Some name) lip rip (Some psk) = Inr (0, f')"
    and f': "content f' = (content f)(ipsec_file name ''.conf'' \<mapsto> ipsec_conn name (dotted_quad lip) (dotted_quad rip),
        ipsec_file name ''.secrets'' \<mapsto> ipsec_secret (dotted_quad lip) (dotted_quad rip) psk)"
      "perms f' (ipsec_file name ''.secrets'') = Some 0x180" "remove_errno f' = remove_errno f"
      "\<forall>p. p \<noteq> ipsec_file name ''.conf'' \<longrightarrow> p \<noteq> ipsec_file name ''.secrets'' \<longrightarrow> perms f' p = perms f p"
    using create_tunnel_eq [OF assms(1,3,4), of lip rip psk e] assms(5,6) ne
    by (auto simp: write_file_def chmod_def Let_def split: if_splits)
  have "\<exists>f''. sec_ipsec_remove_tunnel f' err (Some name) = Inr (0, f'') \<and>
      content f'' = (content f')(ipsec_file name ''.conf'' := None, ipsec_file name ''.secrets'' := None) \<and>
      perms f'' = (perms f')(ipsec_file name ''.conf'' := None, ipsec_file name ''.secrets'' := None)"
    if "\<forall>p. remove_errno f p = 0"
    using that ne f'(1,3) by (simp add: sec_ipsec_remove_tunnel_def remove_file_def ipsec_path_eq assms(1))
  then show ?thesis
    using create f' ne by (fastforce simp: fun_eq_iff)
qed

theorem create_tunnel_files_witness:
  "\<exists>f'. sec_ipsec_create_tunnel LittleEndian (open_fs Map.empty) (Some ''plc'') 0xC0A80064 0xC0A80001 (Some ''key'') = Inr (0, f') \<and>
    perms f' (ipsec_file ''plc'' ''.secrets'') = Some 0x180"
  using create_tunnel_files [where name = "''plc''" and f = "open_fs Map.empty" and e = LittleEndian
    and lip = "0xC0A80064" and rip = "0xC0A80001" and psk = "''key''"]
  by (auto simp: open_fs_def)

text \<open>
  C37: with a name of 241 or more characters both paths are cut to the same file. Creating
  the tunnel still returns 0, but the secret has overwritten the connection.
\<close>
theorem long_name_loses_connection:
  assumes "NUL \<notin> set name" "241 \<le> length name" "can_write f (ipsec_file name ''.conf'')" "\<And>p t. accepts f p t"
  shows "\<exists>f'. sec_ipsec_create_tunnel e f (Some name) lip rip (Some psk) = Inr (0, f') \<and>
    content f' = (content f)(ipsec_file name ''.conf'' \<mapsto> ipsec_secret (dotted_quad lip) (dotted_quad rip) psk)"
proof -
  have eq: "ipsec_file name ''.secrets'' = ipsec_file name ''.conf''"
    using assms(2) ipsec_files_collide [of name] by simp
  then show ?thesis
    using create_tunnel_eq [of name f lip rip psk e] assms
    by (auto simp: write_file_def Let_def split: if_splits)
qed

theorem long_name_loses_connection_witness:
  "\<exists>f'. sec_ipsec_create_tunnel LittleEndian (open_fs Map.empty) (Some (replicate 241 CHR ''a'')) 1 2 (Some ''key'') = Inr (0, f') \<and>
    content f' = [ipsec_file (replicate 241 CHR ''a'') ''.conf'' \<mapsto> ipsec_secret (dotted_quad 1) (dotted_quad 2) ''key'']"
  using long_name_loses_connection [where name = "replicate 241 CHR ''a''" and f = "open_fs Map.empty"
    and e = LittleEndian and lip = 1 and rip = 2 and psk = "''key''"]
  by (simp add: open_fs_def)

text \<open>
  C36: removing a tunnel with a name of at most 240 characters attempts both files and leaves
  every other file alone: a file is gone afterwards unless the system refuses its removal.
  It reports an error exactly when there is a secret and one of the two files stays. So
  success is also reported when the connection file stays and there is no secret: the second
  removal overwrites the reason why the first one failed.
\<close>
theorem remove_tunnel_exact:
  assumes "NUL \<notin> set name" "length name \<le> 240" "\<And>p. remove_errno f p \<noteq> ENOENT"
    and "conf = ipsec_file name ''.conf''" "secret = ipsec_file name ''.secrets''"
  shows "\<exists>f'. sec_ipsec_remove_tunnel f err (Some name) =
      Inr (if content f secret \<noteq> None \<and> (content f' conf \<noteq> None \<or> content f' secret \<noteq> None) then - EIO else 0, f') \<and>
    content f' = (\<lambda>p. if p \<in> {conf, secret} \<and> remove_errno f p = 0 then None else content f p)"
proof -
  have "conf \<noteq> secret"
    using assms(2) ipsec_files_collide [of name] unfolding assms(4,5) by linarith
  then show ?thesis
    using assms(3) unfolding sec_ipsec_remove_tunnel_def remove_file_def Let_def
    by (auto simp: ipsec_path_eq assms(1) fun_eq_iff simp flip: assms(4,5))
qed

theorem remove_tunnel_exact_witness:
  "\<exists>f'. sec_ipsec_remove_tunnel ((open_fs [ipsec_file ''plc'' ''.conf'' \<mapsto> ''conn'']) \<lparr>remove_errno := (\<lambda>_. EPERM)\<rparr>) 0 (Some ''plc'') =
     Inr (0, f') \<and> content f' (ipsec_file ''plc'' ''.conf'') = Some ''conn''"
  using remove_tunnel_exact [of "''plc''" "(open_fs [ipsec_file ''plc'' ''.conf'' \<mapsto> ''conn'']) \<lparr>remove_errno := (\<lambda>_. EPERM)\<rparr>", OF _ _ _ refl refl, of 0]
  by (auto simp: open_fs_def EPERM_def ENOENT_def ipsec_file_def IPSEC_CONF_DIR_def)

text \<open>
  C14: with a report buffer of at least 512 bytes the audit never leaves the buffer, writes
  exactly the reference report (header, the lines of the checks that apply, in order,
  summary) and returns the number of warnings, between 0 and 5.
\<close>
theorem audit_exact:
  assumes "wf_policy p" "length b = len" "512 \<le> len" "len < 2 ^ 64"
  shows "\<exists>b'. sec_policy_audit (Some p) (Some b) len = Inr (audit_warnings (audit_checks p), Some b') \<and>
    cstr b' = audit_text p \<and> audit_warnings (audit_checks p) \<in> {0..5}"
  using audit_fits [OF assms(1,2,4)] audit_text_length [OF assms(1)] assms(3) audit_warnings_bounds [of p] by simp

theorem audit_exact_witness:
  "\<exists>b'. sec_policy_audit (Some empty_policy) (Some (zeros 512)) 512 = Inr (4, Some b')"
proof -
  have "audit_warnings (audit_checks empty_policy) = 4"
    by (simp add: audit_checks_def rule_list_def empty_policy_def inactive_rules_def)
  then show ?thesis
    using audit_exact [of empty_policy "zeros 512" 512] by auto
qed

text \<open>
  C26: the audit writes outside the report buffer exactly when the header fits and the lines
  after it do not: a line that is cut still moves the offset, the next size wraps around and
  the next line is written past the end.
\<close>
theorem audit_overflow:
  assumes p: "wf_policy p" and b: "length b = len" "0 < len" "len < 2 ^ 62"
  shows "sec_policy_audit (Some p) (Some b) len = Inl OutOfBounds \<longleftrightarrow>
    length (audit_header p) < len \<and> len < length (audit_body p)"
proof (cases "length (audit_header p) < len")
  case False
  then show ?thesis
    using snprintf_cut [of 0 b "audit_header p"] b by (auto simp: sec_policy_audit_def size_sub_le)
next
  case True
  let ?ls = "audit_lines (audit_checks p)" and ?w = "audit_warnings (audit_checks p)"
  have body: "length (audit_body p) = length (audit_header p) + length ?ls"
    by (simp add: audit_body_def)
  have small: "length (audit_body p) < 2 ^ 63"
    using audit_header_length [OF p] audit_lines_length [OF p] by (simp add: body)
  obtain b1 where b1: "snprintf b 0 len (audit_header p) = Inr (b1, int (length (audit_header p)))" "length b1 = len"
    using snprintf_first [of "audit_header p" b] b True by auto
  note unfold = audit_eq_steps [OF p b(1,2) True b1(1)]
  from audit_steps_offset [of "audit_checks p" b1 len "length (audit_header p)" 0]
  consider b2 where "audit_steps len (audit_checks p) (b1, length (audit_header p), 0) =
        Inr (b2, length (audit_body p), ?w)" "length b2 = len"
    | "len < length (audit_body p)"
      "audit_steps len (audit_checks p) (b1, length (audit_header p), 0) = Inl OutOfBounds"
    using b1 b True small by (auto simp: body)
  then show ?thesis
  proof cases
    case 1
    show ?thesis
    proof (cases "len < length (audit_body p)")
      case True
      then show ?thesis
        using 1 small write_past_end [of b2 "length (audit_body p)"] \<open>length (audit_header p) < len\<close>
        by (simp add: unfold)
    next
      case False
      then show ?thesis
        using 1 b write_to_end [of "length (audit_body p)" b2 "line_summary ?w"] by (auto simp: unfold split: if_splits)
    qed
  next
    case 2
    then show ?thesis
      using True by (simp add: unfold)
  qed
qed

theorem audit_overflow_witness:
  "sec_policy_audit (Some empty_policy) (Some (zeros 128)) 128 = Inl OutOfBounds"
proof -
  have "length (audit_header empty_policy) < 128"
    using audit_header_length [OF wf_empty_policy] by simp
  moreover have "128 < length (audit_body empty_policy)"
    by (simp add: audit_body_def audit_checks_def rule_list_def empty_policy_def inactive_rules_def line_disabled_def
      line_empty_def line_no_deny_def line_no_ipsec_def)
  ultimately show ?thesis
    by (subst audit_overflow) simp_all
qed

end
