(* ===== verification/RT_Setup.thy ===== *)
theory RT_Setup
  imports CNum OS_Files
begin

text \<open>
  rt_setup.c: setting up, restoring and checking the real-time environment. The static
  variables of the file are the record \<open>rt_state\<close>; the scheduler, the memory lock, the CPU
  set, the irqbalance daemon and the files of the machine are the record \<open>rt_os\<close>, with a
  field for every call the kernel may refuse. Messages on stdout and stderr are left out.
  Times are exact numbers: the rounding of \<open>double\<close> is not modelled.
\<close>

section \<open>Data\<close>

record rt_config =
  use_rt_scheduling :: bool
  rt_priority :: int
  lock_memory :: bool
  disable_cpu_freq :: bool
  isolate_cpu :: int
  disable_irq_balance :: bool

record rt_check_result =
  rt_scheduling_ok :: bool
  memory_locked :: bool
  cpu_isolated :: bool
  irq_balance_disabled :: bool
  max_latency_us :: real
  report :: buf

text \<open>The static variables; the saved governor is kept as the C string it holds.\<close>

record rt_state =
  g_rt_config :: rt_config
  g_rt_initialized :: bool
  g_saved_sched :: int
  g_saved_policy :: int
  g_saved_governor :: string

definition SCHED_OTHER :: int where "SCHED_OTHER = 0"
definition SCHED_FIFO :: int where "SCHED_FIFO = 1"
definition SCHED_RR :: int where "SCHED_RR = 2"
definition CPU_SETSIZE :: int where "CPU_SETSIZE = 1024"

lemmas sched_defs = SCHED_OTHER_def SCHED_FIFO_def SCHED_RR_def

record rt_os =
  sched_policy :: int
  sched_prio :: int
  getsched_ok :: bool
  getparam_ok :: bool
  setsched_ok :: "int \<Rightarrow> int \<Rightarrow> bool"
  uninit_prio :: int
  mem_locked :: bool
  mlock_ok :: bool
  munlock_ok :: bool
  nproc :: int
  affinity :: "int set"
  setaff_ok :: "int set \<Rightarrow> bool"
  getaff_ok :: bool
  irq_running :: bool
  systemctl :: "string \<Rightarrow> int"
  rt_files :: fs

section \<open>System calls\<close>

definition sched_getscheduler :: "rt_os \<Rightarrow> int" where
  "sched_getscheduler os = (if getsched_ok os then sched_policy os else -1)"

definition sched_setscheduler :: "rt_os \<Rightarrow> int \<Rightarrow> int \<Rightarrow> int \<times> rt_os" where
  "sched_setscheduler os pol prio =
     (if setsched_ok os pol prio then (0, os\<lparr>sched_policy := pol, sched_prio := prio\<rparr>) else (-1, os))"

definition sched_setaffinity :: "rt_os \<Rightarrow> int set \<Rightarrow> int \<times> rt_os" where
  "sched_setaffinity os cpus = (if setaff_ok os cpus then (0, os\<lparr>affinity := cpus\<rparr>) else (-1, os))"

text \<open>\<open>CPU_SET\<close> ignores a number beyond the size of the set.\<close>

definition cpu_set :: "int \<Rightarrow> int set \<Rightarrow> int set" where
  "cpu_set cpu s = (if 0 \<le> cpu \<and> cpu < CPU_SETSIZE then insert cpu s else s)"

definition gov_path :: "nat \<Rightarrow> string" where
  "gov_path cpu = ''/sys/devices/system/cpu/cpu'' @ fmt_u cpu @ ''/cpufreq/scaling_governor''"

definition cpus :: "rt_os \<Rightarrow> nat list" where
  "cpus os = [0..<nat (nproc os)]"

text \<open>
  The three commands given to \<open>system\<close>, and their effect on the daemon. The field \<open>systemctl\<close>
  is the result of the call; for the query only that it failed altogether (\<open>-1\<close>) counts,
  otherwise the result is the exit status 0, or 3 in the form \<open>system\<close> returns it.
\<close>

definition CMD_STOP :: string where "CMD_STOP = ''systemctl stop irqbalance 2>/dev/null''"
definition CMD_START :: string where "CMD_START = ''systemctl start irqbalance 2>/dev/null''"
definition CMD_ACTIVE :: string where "CMD_ACTIVE = ''systemctl is-active --quiet irqbalance 2>/dev/null''"

lemmas cmd_defs = CMD_STOP_def CMD_START_def CMD_ACTIVE_def

definition system :: "rt_os \<Rightarrow> string \<Rightarrow> int \<times> rt_os" where
  "system os cmd =
     (if cmd = CMD_STOP then (systemctl os cmd, if systemctl os cmd = 0 then os\<lparr>irq_running := False\<rparr> else os)
      else if cmd = CMD_START then (systemctl os cmd, if systemctl os cmd = 0 then os\<lparr>irq_running := True\<rparr> else os)
      else if cmd = CMD_ACTIVE then (if systemctl os cmd = -1 then -1 else if irq_running os then 0 else 768, os)
      else (systemctl os cmd, os))"

text \<open>Opening a file for writing, writing one string and closing it; a failed open changes nothing.\<close>

definition try_write :: "rt_os \<Rightarrow> string \<Rightarrow> string \<Rightarrow> rt_os" where
  "try_write os p txt = (case write_file (rt_files os) p txt of None \<Rightarrow> os | Some f \<Rightarrow> os\<lparr>rt_files := f\<rparr>)"

section \<open>Configuration and initialisation\<close>

definition zero_rt_config :: rt_config where
  "zero_rt_config = \<lparr>use_rt_scheduling = False, rt_priority = 0, lock_memory = False,
     disable_cpu_freq = False, isolate_cpu = 0, disable_irq_balance = False\<rparr>"

definition rt_config_default :: "rt_config option \<Rightarrow> rt_config option" where
  "rt_config_default cfg =
     (case cfg of
        None \<Rightarrow> None
      | Some _ \<Rightarrow> Some (zero_rt_config\<lparr>use_rt_scheduling := True, rt_priority := 80, lock_memory := True,
          disable_cpu_freq := True, isolate_cpu := -1, disable_irq_balance := True\<rparr>))"

definition rt_setup_init :: "rt_state \<Rightarrow> rt_config option \<Rightarrow> int \<times> rt_state" where
  "rt_setup_init st cfg =
     (case cfg of
        None \<Rightarrow> (- EINVAL, st)
      | Some c \<Rightarrow>
          if rt_priority c < 1 \<or> rt_priority c > 99 then (- EINVAL, st)
          else (0, st\<lparr>g_rt_config := c, g_rt_initialized := True\<rparr>))"

section \<open>Apply\<close>

text \<open>Step 1: save the scheduling policy and switch to SCHED_FIFO; \<open>False\<close> when refused.\<close>

definition apply_sched :: "rt_state \<Rightarrow> rt_os \<Rightarrow> bool \<times> rt_state \<times> rt_os" where
  "apply_sched st os =
     (if use_rt_scheduling (g_rt_config st) then
        let pol = sched_getscheduler os;
            st1 = st\<lparr>g_saved_policy := (if pol < 0 then SCHED_OTHER else pol)\<rparr>;
            st2 = st1\<lparr>g_saved_sched := (if getparam_ok os then sched_prio os else 0)\<rparr>
        in case sched_setscheduler os SCHED_FIFO (rt_priority (g_rt_config st)) of
             (r, os1) \<Rightarrow> (r = 0, st2, os1)
      else (True, st, os))"

definition apply_mlock :: "rt_state \<Rightarrow> rt_os \<Rightarrow> rt_os" where
  "apply_mlock st os =
     (if lock_memory (g_rt_config st) \<and> mlock_ok os then os\<lparr>mem_locked := True\<rparr> else os)"

text \<open>Step 3: the governor of CPU 0 is saved, then every CPU is set to performance.\<close>

definition chomp :: "string \<Rightarrow> string" where
  "chomp s = (if s \<noteq> [] \<and> last s = NL then butlast s else s)"

definition save_governor :: "rt_state \<Rightarrow> rt_os \<Rightarrow> nat \<Rightarrow> rt_state" where
  "save_governor st os cpu =
     (if cpu = 0 then
        (case fopen_r (rt_files os) (gov_path cpu) of
           None \<Rightarrow> st
         | Some txt \<Rightarrow>
             (case fgets 64 txt of
                None \<Rightarrow> st
              | Some (l, _) \<Rightarrow> st\<lparr>g_saved_governor := chomp (cstr l)\<rparr>))
      else st)"

fun apply_governors :: "nat list \<Rightarrow> rt_state \<Rightarrow> rt_os \<Rightarrow> rt_state \<times> rt_os" where
  "apply_governors [] st os = (st, os)"
| "apply_governors (cpu # cs) st os =
     apply_governors cs (save_governor st os cpu) (try_write os (gov_path cpu) ''performance'')"

definition apply_affinity :: "rt_state \<Rightarrow> rt_os \<Rightarrow> rt_os" where
  "apply_affinity st os =
     (if isolate_cpu (g_rt_config st) \<ge> 0
      then snd (sched_setaffinity os (cpu_set (isolate_cpu (g_rt_config st)) {})) else os)"

definition apply_irq :: "rt_state \<Rightarrow> rt_os \<Rightarrow> rt_os" where
  "apply_irq st os =
     (if disable_irq_balance (g_rt_config st) then snd (system os CMD_STOP) else os)"

definition rt_setup_apply :: "platform \<Rightarrow> rt_state \<Rightarrow> rt_os \<Rightarrow> int \<times> rt_state \<times> rt_os" where
  "rt_setup_apply pf st os =
     (if \<not> g_rt_initialized st then (- EPERM, st, os)
      else if pf = PLATFORM_LINUX then
        (case apply_sched st os of
           (False, st1, os1) \<Rightarrow> (- EPERM, st1, os1)
         | (True, st1, os1) \<Rightarrow>
             let os2 = apply_mlock st1 os1;
                 (st3, os3) = (if disable_cpu_freq (g_rt_config st1) then apply_governors (cpus os2) st1 os2
                               else (st1, os2));
                 os4 = apply_affinity st3 os3;
                 os5 = apply_irq st3 os4
             in (0, st3, os5))
      else (- ENOSYS, st, os))"

section \<open>Restore\<close>

definition restore_sched :: "rt_state \<Rightarrow> rt_os \<Rightarrow> rt_os" where
  "restore_sched st os =
     (if use_rt_scheduling (g_rt_config st)
      then snd (sched_setscheduler os (g_saved_policy st) (g_saved_sched st)) else os)"

definition restore_mlock :: "rt_state \<Rightarrow> rt_os \<Rightarrow> rt_os" where
  "restore_mlock st os =
     (if lock_memory (g_rt_config st) \<and> munlock_ok os then os\<lparr>mem_locked := False\<rparr> else os)"

definition restore_governors :: "rt_state \<Rightarrow> rt_os \<Rightarrow> rt_os" where
  "restore_governors st os =
     (if disable_cpu_freq (g_rt_config st) \<and> g_saved_governor st \<noteq> []
      then fold (\<lambda>cpu o'. try_write o' (gov_path cpu) (g_saved_governor st)) (cpus os) os else os)"

definition restore_affinity :: "rt_state \<Rightarrow> rt_os \<Rightarrow> rt_os" where
  "restore_affinity st os =
     (if isolate_cpu (g_rt_config st) \<ge> 0
      then snd (sched_setaffinity os (fold (\<lambda>cpu. cpu_set (int cpu)) (cpus os) {})) else os)"

definition restore_irq :: "rt_state \<Rightarrow> rt_os \<Rightarrow> rt_os" where
  "restore_irq st os =
     (if disable_irq_balance (g_rt_config st) then snd (system os CMD_START) else os)"

definition rt_setup_restore :: "platform \<Rightarrow> rt_state \<Rightarrow> rt_os \<Rightarrow> rt_state \<times> rt_os" where
  "rt_setup_restore pf st os =
     (if \<not> g_rt_initialized st then (st, os)
      else if pf = PLATFORM_LINUX then
        (st\<lparr>g_rt_initialized := False\<rparr>,
         restore_irq st (restore_affinity st (restore_governors st (restore_mlock st (restore_sched st os)))))
      else (st\<lparr>g_rt_initialized := False\<rparr>, os))"

section \<open>Latency measurement\<close>

text \<open>
  \<open>clock k\<close> is what the \<open>k\<close>-th call of \<open>clock_gettime\<close> stores (seconds and nanoseconds),
  \<open>None\<close> when it fails.
\<close>

definition elapsed :: "int \<times> int \<Rightarrow> int \<times> int \<Rightarrow> real" where
  "elapsed t_start t_end = of_int (fst t_end - fst t_start) * 10 ^ 9 + of_int (snd t_end - snd t_start)"

fun latency_loop :: "(nat \<Rightarrow> (int \<times> int) option) \<Rightarrow> real \<Rightarrow> nat \<Rightarrow> nat \<Rightarrow> real \<Rightarrow> real option" where
  "latency_loop clock base 0 k max_dev = Some max_dev"
| "latency_loop clock base (Suc n) k max_dev =
     (case clock k of None \<Rightarrow> None | Some t_start \<Rightarrow>
     (case clock (k + 1) of None \<Rightarrow> None | Some t_end \<Rightarrow>
        let dev = (elapsed t_start t_end - base * 1000) / 1000;
            dev' = (if dev < 0 then - dev else dev)
        in latency_loop clock base n (k + 2) (if dev' > max_dev then dev' else max_dev)))"

definition rt_setup_measure_latency ::
    "(nat \<Rightarrow> (int \<times> int) option) \<Rightarrow> real option \<Rightarrow> int \<Rightarrow> int \<times> real option" where
  "rt_setup_measure_latency clock out samples =
     (if out = None \<or> samples \<le> 0 then (- EINVAL, out)
      else (case clock 0 of None \<Rightarrow> (- EIO, out) | Some t_start \<Rightarrow>
           (case clock 1 of None \<Rightarrow> (- EIO, out) | Some t_end \<Rightarrow>
              let baseline_per_iter = elapsed t_start t_end / 1000
              in case latency_loop clock baseline_per_iter (nat samples) 2 0 of
                   None \<Rightarrow> (- EIO, out)
                 | Some m \<Rightarrow> (0, Some m))))"

section \<open>Check\<close>

text \<open>\<open>sscanf(line, "VmLck: %lu kB", &locked_kb) == 1\<close>.\<close>

definition scan_vmlck :: "string \<Rightarrow> nat option" where
  "scan_vmlck line =
     (if take 6 line = ''VmLck:'' then map_option fst (scan_lu (drop 6 line)) else None)"

function find_vmlck :: "string \<Rightarrow> bool" where
  "find_vmlck txt =
     (case fgets 256 txt of
        None \<Rightarrow> False
      | Some (l, r) \<Rightarrow> (case scan_vmlck (cstr l) of Some kb \<Rightarrow> kb > 0 | None \<Rightarrow> find_vmlck r))"
  by pat_completeness auto
termination
  by (relation "measure length") (auto dest: fgets_shorter)

declare find_vmlck.simps [simp del]

definition sched_line :: "rt_os \<Rightarrow> bool \<times> string" where
  "sched_line os =
     (let pol = sched_getscheduler os in
      if pol = SCHED_FIFO \<or> pol = SCHED_RR then
        (True, ''[OK] RT scheduling active: policy='' @ fmt_d pol @ '', priority='' @
           fmt_d (if getparam_ok os then sched_prio os else uninit_prio os) @ [NL])
      else (False, ''[FAIL] RT scheduling not active (current policy='' @ fmt_d pol @ '')'' @ [NL]))"

definition isolated :: "rt_state \<Rightarrow> rt_os \<Rightarrow> bool" where
  "isolated st os =
     (g_rt_initialized st \<and> isolate_cpu (g_rt_config st) \<ge> 0 \<and> getaff_ok os \<and>
      length (filter (\<lambda>cpu. int cpu < CPU_SETSIZE \<and> int cpu \<in> affinity os) (cpus os)) = 1)"

text \<open>A line of the report: printed at the offset without a test that it fits.\<close>

definition report_line :: "string \<Rightarrow> buf \<times> nat \<Rightarrow> fault + (buf \<times> nat)" where
  "report_line s bo =
     (case bo of (b, off) \<Rightarrow> bindE (snprintf b off (size_sub 512 off) s) (\<lambda>(b', written).
        Inr (b', if written > 0 then off + nat written else off)))"

definition mem_line :: "bool \<Rightarrow> string" where
  "mem_line x = ''['' @ (if x then ''OK'' else ''FAIL'') @ ''] Memory lock: '' @
     (if x then ''locked'' else ''not locked'') @ [NL]"

definition cpu_line :: "bool \<Rightarrow> string" where
  "cpu_line x = ''['' @ (if x then ''OK'' else ''INFO'') @ ''] CPU isolation: '' @
     (if x then ''isolated'' else ''not configured'') @ [NL]"

definition irq_line :: "bool \<Rightarrow> string" where
  "irq_line x = ''['' @ (if x then ''OK'' else ''WARN'') @ ''] irqbalance: '' @
     (if x then ''disabled'' else ''still running'') @ [NL]"

definition lat_line :: "real option \<Rightarrow> string" where
  "lat_line m = (case m of
       Some x \<Rightarrow> ''[INFO] Max loop latency (1000 samples): '' @ fmt_f2 x @ '' us'' @ [NL]
     | None \<Rightarrow> ''[WARN] Latency measurement failed'' @ [NL])"

definition other_report :: string where
  "other_report =
     ''PLATFORM_LINUX not defined - real-time features unavailable.'' @ [NL] @
     ''RT scheduling:   not available'' @ [NL] @
     ''Memory lock:     not available'' @ [NL] @
     ''CPU isolation:   not available'' @ [NL] @
     ''irqbalance:      not available'' @ [NL] @
     ''Latency measure: using CLOCK_MONOTONIC (limited accuracy)'' @ [NL]"

definition rt_setup_check ::
    "platform \<Rightarrow> rt_state \<Rightarrow> rt_os \<Rightarrow> (nat \<Rightarrow> (int \<times> int) option) \<Rightarrow> rt_check_result option \<Rightarrow>
     fault + (int \<times> rt_check_result option)" where
  "rt_setup_check pf st os clock result =
     (case result of
        None \<Rightarrow> Inr (- EINVAL, None)
      | Some _ \<Rightarrow>
          if pf = PLATFORM_LINUX then
            let (sched, s1) = sched_line os;
                mem = (case fopen_r (rt_files os) ''/proc/self/status'' of None \<Rightarrow> False | Some t \<Rightarrow> find_vmlck t);
                cpu = isolated st os;
                irq = (fst (system os CMD_ACTIVE) \<noteq> 0);
                lat = (case rt_setup_measure_latency clock (Some 0) 1000 of (r, m) \<Rightarrow> if r = 0 then m else None)
            in bindE (report_line s1 (zeros 512, 0)) (\<lambda>r1.
               bindE (report_line (mem_line mem) r1) (\<lambda>r2.
               bindE (report_line (cpu_line cpu) r2) (\<lambda>r3.
               bindE (report_line (irq_line irq) r3) (\<lambda>r4.
               bindE (report_line (lat_line lat) r4) (\<lambda>(b, _).
                 Inr (0, Some \<lparr>rt_scheduling_ok = sched, memory_locked = mem, cpu_isolated = cpu,
                   irq_balance_disabled = irq, max_latency_us = (case lat of Some x \<Rightarrow> x | None \<Rightarrow> 0),
                   report = b\<rparr>))))))
          else
            bindE (snprintf (zeros 512) 0 512 other_report) (\<lambda>(b, _).
              Inr (0, Some \<lparr>rt_scheduling_ok = False, memory_locked = False, cpu_isolated = False,
                irq_balance_disabled = False, max_latency_us = 0, report = b\<rparr>)))"

section \<open>What one step leaves alone\<close>

lemma try_write_frame: "\<exists>f. try_write os p txt = os\<lparr>rt_files := f\<rparr>"
proof (cases "write_file (rt_files os) p txt")
  case None
  then have "try_write os p txt = os\<lparr>rt_files := rt_files os\<rparr>"
    by (simp add: try_write_def del: write_file_None)
  then show ?thesis ..
qed (auto simp: try_write_def)

lemma try_write_simps [simp]:
  "sched_policy (try_write os p txt) = sched_policy os" "sched_prio (try_write os p txt) = sched_prio os"
  "mem_locked (try_write os p txt) = mem_locked os" "nproc (try_write os p txt) = nproc os"
  "affinity (try_write os p txt) = affinity os" "irq_running (try_write os p txt) = irq_running os"
  "setaff_ok (try_write os p txt) = setaff_ok os" "systemctl (try_write os p txt) = systemctl os"
  "setsched_ok (try_write os p txt) = setsched_ok os" "munlock_ok (try_write os p txt) = munlock_ok os"
  by (simp_all add: try_write_def split: option.splits)

lemma try_write_files [simp]:
  "can_write (rt_files (try_write os p txt)) = can_write (rt_files os)"
  "can_read (rt_files (try_write os p txt)) = can_read (rt_files os)"
  "accepts (rt_files (try_write os p txt)) = accepts (rt_files os)"
  by (auto simp: try_write_def split: option.splits dest: write_file_frame)

text \<open>The files an operation can set.\<close>

definition settable :: "rt_os \<Rightarrow> string \<Rightarrow> string \<Rightarrow> bool" where
  "settable os p txt \<longleftrightarrow> can_write (rt_files os) p \<and> accepts (rt_files os) p txt"

lemma settable_try_write [simp]: "settable (try_write os p t) q u = settable os q u"
  by (simp add: settable_def)

lemma try_write_content:
  "content (rt_files (try_write os p txt)) =
     (if settable os p txt then (content (rt_files os))(p \<mapsto> txt) else content (rt_files os))"
  by (auto simp: try_write_def settable_def split: option.splits
      dest: write_file_content write_file_rejected write_file_SomeD)

lemma save_governor_frame: "\<exists>g. save_governor st os c = st\<lparr>g_saved_governor := g\<rparr>"
proof (cases "save_governor st os c = st")
  case True
  then have "save_governor st os c = st\<lparr>g_saved_governor := g_saved_governor st\<rparr>"
    by simp
  then show ?thesis ..
qed (auto simp: save_governor_def split: option.splits if_splits)

lemma apply_governors_frame:
  "\<exists>g f. apply_governors cs st os = (st\<lparr>g_saved_governor := g\<rparr>, os\<lparr>rt_files := f\<rparr>)"
proof (induction cs arbitrary: st os)
  case Nil
  have "apply_governors [] st os =
      (st\<lparr>g_saved_governor := g_saved_governor st\<rparr>, os\<lparr>rt_files := rt_files os\<rparr>)"
    by simp
  then show ?case by blast
next
  case (Cons c cs)
  obtain g where g: "save_governor st os c = st\<lparr>g_saved_governor := g\<rparr>"
    using save_governor_frame by blast
  obtain f where f: "try_write os (gov_path c) ''performance'' = os\<lparr>rt_files := f\<rparr>"
    using try_write_frame by blast
  show ?case
    using Cons.IH [of "st\<lparr>g_saved_governor := g\<rparr>" "os\<lparr>rt_files := f\<rparr>"] by (simp add: g f)
qed

text \<open>Every governor that can be set is set, and a governor once set stays set.\<close>

lemma apply_governors_content:
  "(c \<in> set cs \<and> settable os (gov_path c) ''performance'') \<or>
     content (rt_files os) (gov_path c) = Some ''performance'' \<Longrightarrow>
   content (rt_files (snd (apply_governors cs st os))) (gov_path c) = Some ''performance''"
proof (induction cs arbitrary: st os)
  case (Cons d cs)
  show ?case
    using Cons.prems by (auto intro!: Cons.IH simp: try_write_content split: if_splits)
qed simp

lemma save_governor_other: "c \<noteq> 0 \<Longrightarrow> save_governor st os c = st"
  by (simp add: save_governor_def)

lemma apply_governors_saved:
  "0 \<notin> set cs \<Longrightarrow> fst (apply_governors cs st os) = st"
  by (induction cs arbitrary: st os) (auto simp: save_governor_other)

lemma apply_governors_first:
  assumes "0 < n" "fopen_r (rt_files os) (gov_path 0) = Some txt" "fgets 64 txt = Some (l, r)"
  shows "g_saved_governor (fst (apply_governors [0..<n] st os)) = chomp (cstr l)"
  using assms by (simp add: upt_conv_Cons apply_governors_saved save_governor_def)

lemma restore_fold_content:
  "(c \<in> set cs \<and> settable os (gov_path c) g) \<or> content (rt_files os) (gov_path c) = Some g \<Longrightarrow>
   content (rt_files (fold (\<lambda>cpu o'. try_write o' (gov_path cpu) g) cs os)) (gov_path c) = Some g"
proof (induction cs arbitrary: os)
  case (Cons d cs)
  show ?case
    using Cons.prems by (auto intro!: Cons.IH simp: try_write_content split: if_splits)
qed simp

lemma restore_fold_frame: "\<exists>f. fold (\<lambda>cpu o'. try_write o' (gov_path cpu) g) cs os = os\<lparr>rt_files := f\<rparr>"
proof (induction cs arbitrary: os)
  case Nil
  have "fold (\<lambda>cpu o'. try_write o' (gov_path cpu) g) [] os = os\<lparr>rt_files := rt_files os\<rparr>"
    by simp
  then show ?case ..
next
  case (Cons c cs)
  obtain f where "try_write os (gov_path c) g = os\<lparr>rt_files := f\<rparr>"
    using try_write_frame by blast
  then show ?case
    using Cons.IH [of "os\<lparr>rt_files := f\<rparr>"] by simp
qed

section \<open>The result of apply\<close>

text \<open>The scheduling step decides the result; after it nothing makes the set-up fail.\<close>

definition sched_refused :: "rt_state \<Rightarrow> rt_os \<Rightarrow> bool" where
  "sched_refused st os \<longleftrightarrow> use_rt_scheduling (g_rt_config st) \<and>
     \<not> setsched_ok os SCHED_FIFO (rt_priority (g_rt_config st))"

definition saved_sched :: "rt_state \<Rightarrow> rt_os \<Rightarrow> rt_state" where
  "saved_sched st os =
     (if use_rt_scheduling (g_rt_config st)
      then st\<lparr>g_saved_policy := (if sched_getscheduler os < 0 then SCHED_OTHER else sched_getscheduler os),
              g_saved_sched := (if getparam_ok os then sched_prio os else 0)\<rparr>
      else st)"

definition fifo_os :: "rt_state \<Rightarrow> rt_os \<Rightarrow> rt_os" where
  "fifo_os st os =
     (if use_rt_scheduling (g_rt_config st)
      then os\<lparr>sched_policy := SCHED_FIFO, sched_prio := rt_priority (g_rt_config st)\<rparr> else os)"

lemma apply_sched_eq:
  "apply_sched st os =
     (if sched_refused st os then (False, saved_sched st os, os) else (True, saved_sched st os, fifo_os st os))"
  by (auto simp: apply_sched_def sched_refused_def saved_sched_def fifo_os_def sched_setscheduler_def Let_def)

lemma saved_sched_simps [simp]:
  "g_rt_config (saved_sched st os) = g_rt_config st" "g_rt_initialized (saved_sched st os) = g_rt_initialized st"
  "g_saved_governor (saved_sched st os) = g_saved_governor st"
  by (simp_all add: saved_sched_def)

lemma fifo_os_simps [simp]:
  "mem_locked (fifo_os st os) = mem_locked os" "nproc (fifo_os st os) = nproc os"
  "affinity (fifo_os st os) = affinity os" "irq_running (fifo_os st os) = irq_running os"
  "rt_files (fifo_os st os) = rt_files os" "mlock_ok (fifo_os st os) = mlock_ok os"
  "setaff_ok (fifo_os st os) = setaff_ok os" "systemctl (fifo_os st os) = systemctl os"
  "setsched_ok (fifo_os st os) = setsched_ok os" "munlock_ok (fifo_os st os) = munlock_ok os"
  by (simp_all add: fifo_os_def)

definition governed :: "rt_state \<Rightarrow> rt_os \<Rightarrow> rt_state \<times> rt_os" where
  "governed st os = (if disable_cpu_freq (g_rt_config st) then apply_governors (cpus os) st os else (st, os))"

lemma governed_frame: "\<exists>g f. governed st os = (st\<lparr>g_saved_governor := g\<rparr>, os\<lparr>rt_files := f\<rparr>)"
proof (cases "disable_cpu_freq (g_rt_config st)")
  case True
  then show ?thesis
    using apply_governors_frame by (simp add: governed_def)
next
  case False
  then have "governed st os = (st\<lparr>g_saved_governor := g_saved_governor st\<rparr>, os\<lparr>rt_files := rt_files os\<rparr>)"
    by (simp add: governed_def)
  then show ?thesis by blast
qed

lemma rt_apply_linux_eq:
  assumes "g_rt_initialized st"
  shows "rt_setup_apply PLATFORM_LINUX st os =
    (if sched_refused st os then (- EPERM, saved_sched st os, os)
     else let (st', os') = governed (saved_sched st os) (apply_mlock st (fifo_os st os))
          in (0, st', apply_irq st (apply_affinity st os')))"
proof -
  have [simp]: "apply_mlock (saved_sched st os) o' = apply_mlock st o'" for o'
    by (simp add: apply_mlock_def)
  obtain g f where gov: "governed (saved_sched st os) (apply_mlock st (fifo_os st os)) =
      ((saved_sched st os)\<lparr>g_saved_governor := g\<rparr>, (apply_mlock st (fifo_os st os))\<lparr>rt_files := f\<rparr>)"
    using governed_frame by blast
  have "apply_irq ((saved_sched st os)\<lparr>g_saved_governor := g\<rparr>) o' = apply_irq st o'"
    "apply_affinity ((saved_sched st os)\<lparr>g_saved_governor := g\<rparr>) o' = apply_affinity st o'" for o'
    by (simp_all add: apply_irq_def apply_affinity_def)
  then show ?thesis
    using assms gov by (auto simp: rt_setup_apply_def apply_sched_eq governed_def)
qed

section \<open>Apply, then restore\<close>

lemma apply_step_simps [simp]:
  "sched_policy (apply_mlock st os) = sched_policy os" "sched_prio (apply_mlock st os) = sched_prio os"
  "setsched_ok (apply_mlock st os) = setsched_ok os" "munlock_ok (apply_mlock st os) = munlock_ok os"
  "rt_files (apply_mlock st os) = rt_files os" "nproc (apply_mlock st os) = nproc os"
  "setaff_ok (apply_mlock st os) = setaff_ok os" "systemctl (apply_mlock st os) = systemctl os"
  "affinity (apply_mlock st os) = affinity os" "irq_running (apply_mlock st os) = irq_running os"
  "sched_policy (apply_affinity st os) = sched_policy os" "sched_prio (apply_affinity st os) = sched_prio os"
  "setsched_ok (apply_affinity st os) = setsched_ok os" "munlock_ok (apply_affinity st os) = munlock_ok os"
  "rt_files (apply_affinity st os) = rt_files os" "nproc (apply_affinity st os) = nproc os"
  "mem_locked (apply_affinity st os) = mem_locked os" "systemctl (apply_affinity st os) = systemctl os"
  "irq_running (apply_affinity st os) = irq_running os"
  "sched_policy (apply_irq st os) = sched_policy os" "sched_prio (apply_irq st os) = sched_prio os"
  "setsched_ok (apply_irq st os) = setsched_ok os" "munlock_ok (apply_irq st os) = munlock_ok os"
  "rt_files (apply_irq st os) = rt_files os" "nproc (apply_irq st os) = nproc os"
  "mem_locked (apply_irq st os) = mem_locked os" "affinity (apply_irq st os) = affinity os"
  "systemctl (apply_irq st os) = systemctl os"
  by (simp_all add: apply_mlock_def apply_affinity_def apply_irq_def sched_setaffinity_def system_def)

lemma restore_step_simps [simp]:
  "sched_policy (restore_mlock st os) = sched_policy os" "sched_prio (restore_mlock st os) = sched_prio os"
  "rt_files (restore_mlock st os) = rt_files os" "nproc (restore_mlock st os) = nproc os"
  "systemctl (restore_mlock st os) = systemctl os" "irq_running (restore_mlock st os) = irq_running os"
  "sched_policy (restore_affinity st os) = sched_policy os" "sched_prio (restore_affinity st os) = sched_prio os"
  "rt_files (restore_affinity st os) = rt_files os" "mem_locked (restore_affinity st os) = mem_locked os"
  "systemctl (restore_affinity st os) = systemctl os" "irq_running (restore_affinity st os) = irq_running os"
  "sched_policy (restore_irq st os) = sched_policy os" "sched_prio (restore_irq st os) = sched_prio os"
  "rt_files (restore_irq st os) = rt_files os" "mem_locked (restore_irq st os) = mem_locked os"
  "rt_files (restore_sched st os) = rt_files os" "nproc (restore_sched st os) = nproc os"
  "mem_locked (restore_sched st os) = mem_locked os" "munlock_ok (restore_sched st os) = munlock_ok os"
  "systemctl (restore_sched st os) = systemctl os" "irq_running (restore_sched st os) = irq_running os"
  by (simp_all add: restore_mlock_def restore_affinity_def restore_irq_def restore_sched_def
      sched_setaffinity_def system_def sched_setscheduler_def)

lemma restore_governors_frame: "\<exists>f. restore_governors st os = os\<lparr>rt_files := f\<rparr>"
proof (cases "disable_cpu_freq (g_rt_config st) \<and> g_saved_governor st \<noteq> []")
  case True
  then show ?thesis
    using restore_fold_frame by (simp add: restore_governors_def)
next
  case False
  then have "restore_governors st os = os\<lparr>rt_files := rt_files os\<rparr>"
    by (auto simp: restore_governors_def)
  then show ?thesis ..
qed

lemma restore_governors_simps [simp]:
  "sched_policy (restore_governors st os) = sched_policy os" "sched_prio (restore_governors st os) = sched_prio os"
  "mem_locked (restore_governors st os) = mem_locked os" "systemctl (restore_governors st os) = systemctl os"
  "irq_running (restore_governors st os) = irq_running os"
  using restore_governors_frame [of st os] by auto

text \<open>The state and the machine after a successful apply.\<close>

lemma apply_successE:
  assumes "g_rt_initialized st" "rt_setup_apply PLATFORM_LINUX st os = (0, st', os')"
  obtains g f where "\<not> sched_refused st os" "st' = (saved_sched st os)\<lparr>g_saved_governor := g\<rparr>"
    "os' = apply_irq st (apply_affinity st ((apply_mlock st (fifo_os st os))\<lparr>rt_files := f\<rparr>))"
    "governed (saved_sched st os) (apply_mlock st (fifo_os st os)) =
       (st', (apply_mlock st (fifo_os st os))\<lparr>rt_files := f\<rparr>)"
proof -
  have ok: "\<not> sched_refused st os"
    using assms by (auto simp: rt_apply_linux_eq EPERM_def)
  obtain g f where gov: "governed (saved_sched st os) (apply_mlock st (fifo_os st os)) =
      ((saved_sched st os)\<lparr>g_saved_governor := g\<rparr>, (apply_mlock st (fifo_os st os))\<lparr>rt_files := f\<rparr>)"
    using governed_frame by blast
  have "rt_setup_apply PLATFORM_LINUX st os = (0, (saved_sched st os)\<lparr>g_saved_governor := g\<rparr>,
      apply_irq st (apply_affinity st ((apply_mlock st (fifo_os st os))\<lparr>rt_files := f\<rparr>)))"
    unfolding rt_apply_linux_eq [OF assms(1)] gov using ok by simp
  then have "st' = (saved_sched st os)\<lparr>g_saved_governor := g\<rparr>"
      "os' = apply_irq st (apply_affinity st ((apply_mlock st (fifo_os st os))\<lparr>rt_files := f\<rparr>))"
    unfolding assms(2) by (simp_all only: prod.inject)
  then show thesis
    using ok gov by (intro that [of g f]) simp_all
qed

lemma restore_sched_after_apply:
  assumes "g_rt_initialized st" "rt_setup_apply PLATFORM_LINUX st os = (0, st', os')"
    and "getsched_ok os" "getparam_ok os" "0 \<le> sched_policy os"
    and "setsched_ok os (sched_policy os) (sched_prio os)"
    and "rt_setup_restore PLATFORM_LINUX st' os' = (st'', os'')"
  shows "sched_policy os'' = sched_policy os \<and> sched_prio os'' = sched_prio os"
proof -
  obtain g f where st': "st' = (saved_sched st os)\<lparr>g_saved_governor := g\<rparr>"
    and os': "os' = apply_irq st (apply_affinity st ((apply_mlock st (fifo_os st os))\<lparr>rt_files := f\<rparr>))"
    using assms(1,2) by (rule apply_successE)
  have os'': "os'' = restore_irq st' (restore_affinity st' (restore_governors st' (restore_mlock st' (restore_sched st' os'))))"
    using assms(1,7) st' by (simp add: rt_setup_restore_def)
  show ?thesis
  proof (cases "use_rt_scheduling (g_rt_config st)")
    case True
    then show ?thesis
      using assms(3-6) st' os' unfolding os''
      by (simp add: restore_sched_def sched_setscheduler_def saved_sched_def sched_getscheduler_def)
  next
    case False
    then show ?thesis
      using st' os' unfolding os'' by (simp add: restore_sched_def fifo_os_def)
  qed
qed

text \<open>
  A set-up and a restore, whether the set-up succeeded or not, on any platform: the policy
  and the priority are as before, and neither is memory newly locked nor irqbalance newly
  stopped. The other direction does not hold: the restore also unlocks memory that was
  locked before, and starts an irqbalance that did not run.
\<close>

definition rt_left_as_found :: "rt_os \<Rightarrow> rt_os \<Rightarrow> bool" where
  "rt_left_as_found os os' \<longleftrightarrow> sched_policy os' = sched_policy os \<and> sched_prio os' = sched_prio os \<and>
     (munlock_ok os \<longrightarrow> mem_locked os' \<longrightarrow> mem_locked os) \<and>
     (systemctl os CMD_START = 0 \<longrightarrow> irq_running os \<longrightarrow> irq_running os')"

definition sched_restorable :: "rt_os \<Rightarrow> bool" where
  "sched_restorable os \<longleftrightarrow> getsched_ok os \<and> getparam_ok os \<and> 0 \<le> sched_policy os \<and>
     setsched_ok os (sched_policy os) (sched_prio os)"

lemma rt_left_as_found_refl [simp]: "rt_left_as_found os os"
  by (simp add: rt_left_as_found_def)

lemma restore_irq_running: "systemctl os CMD_START = 0 \<Longrightarrow>
    irq_running (restore_irq st os) \<longleftrightarrow> irq_running os \<or> disable_irq_balance (g_rt_config st)"
  by (simp add: restore_irq_def system_def cmd_defs)

lemma restore_mem_locked: "mem_locked (restore_mlock st os) \<longleftrightarrow>
    mem_locked os \<and> \<not> (lock_memory (g_rt_config st) \<and> munlock_ok os)"
  by (simp add: restore_mlock_def)

lemma apply_restore_leaves:
  assumes "sched_restorable os" "rt_setup_apply pf st os = (r, st', os')" "rt_setup_restore pf st' os' = (st'', os'')"
  shows "rt_left_as_found os os''"
proof (cases "g_rt_initialized st \<and> pf = PLATFORM_LINUX")
  case False
  then have "os'' = os"
    using assms(2,3) by (auto simp: rt_setup_apply_def rt_setup_restore_def split: if_splits)
  then show ?thesis
    by simp
next
  case True
  show ?thesis
  proof (cases "sched_refused st os")
    case refused: True
    then have "st' = saved_sched st os" "os' = os"
      using True assms(2) by (auto simp: rt_apply_linux_eq)
    moreover from this have "os'' = restore_irq st' (restore_affinity st' (restore_governors st' (restore_mlock st' (restore_sched st' os))))"
      using True assms(3) by (simp add: rt_setup_restore_def)
    moreover have "restore_sched (saved_sched st os) os = os"
      using assms(1) refused
      by (simp add: sched_restorable_def sched_refused_def restore_sched_def saved_sched_def sched_getscheduler_def
        sched_setscheduler_def)
    ultimately show ?thesis
      by (simp add: rt_left_as_found_def restore_irq_running restore_mem_locked)
  next
    case False
    then have r: "r = 0"
      using True assms(2) by (auto simp: rt_apply_linux_eq Let_def split: prod.splits)
    then obtain g f where st': "st' = (saved_sched st os)\<lparr>g_saved_governor := g\<rparr>"
      and os': "os' = apply_irq st (apply_affinity st ((apply_mlock st (fifo_os st os))\<lparr>rt_files := f\<rparr>))"
      using True assms(2) apply_successE by metis
    have os'': "os'' = restore_irq st' (restore_affinity st' (restore_governors st' (restore_mlock st' (restore_sched st' os'))))"
      using assms(3) True st' by (simp add: rt_setup_restore_def)
    have "sched_policy os'' = sched_policy os \<and> sched_prio os'' = sched_prio os"
      using restore_sched_after_apply [of st os st' os' st'' os''] True r assms by (simp add: sched_restorable_def)
    moreover have "irq_running os'" if "irq_running os" "\<not> disable_irq_balance (g_rt_config st)"
      using that by (simp add: os' apply_irq_def)
    moreover have "mem_locked os' = mem_locked os" if "\<not> lock_memory (g_rt_config st)"
      using that by (simp add: os' apply_mlock_def)
    ultimately show ?thesis
      by (auto simp: rt_left_as_found_def os'' restore_irq_running restore_mem_locked st' os')
  qed
qed

section \<open>The files that change\<close>

text \<open>Of the files, a set-up and a restore write only the governors of the CPUs.\<close>

abbreviation governor_files :: "rt_os \<Rightarrow> string set" where
  "governor_files os \<equiv> gov_path ` set (cpus os)"

lemma try_write_kept: "p \<in> P \<Longrightarrow> files_kept P (rt_files os) (rt_files (try_write os p txt))"
  by (auto simp: try_write_def split: option.splits intro: write_file_kept)

lemma apply_governors_kept:
  "gov_path ` set cs \<subseteq> P \<Longrightarrow> files_kept P (rt_files os) (rt_files (snd (apply_governors cs st os)))"
proof (induction cs arbitrary: st os)
  case (Cons c cs)
  then show ?case
    by (auto intro: files_kept_trans [OF try_write_kept Cons.IH])
qed simp

lemma restore_fold_kept:
  "gov_path ` set cs \<subseteq> P \<Longrightarrow>
   files_kept P (rt_files os) (rt_files (fold (\<lambda>cpu o'. try_write o' (gov_path cpu) g) cs os))"
proof (induction cs arbitrary: os)
  case (Cons c cs)
  then show ?case
    by (auto intro: files_kept_trans [OF try_write_kept Cons.IH])
qed simp

lemma governed_kept: "files_kept (governor_files os) (rt_files os) (rt_files (snd (governed st os)))"
  by (simp add: governed_def apply_governors_kept)

lemma cpus_nproc: "nproc o1 = nproc o2 \<Longrightarrow> cpus o1 = cpus o2"
  by (simp add: cpus_def)

lemma rt_apply_kept:
  assumes "rt_setup_apply pf st os = (r, st', os')"
  shows "files_kept (governor_files os) (rt_files os) (rt_files os') \<and> nproc os' = nproc os"
proof (cases "g_rt_initialized st \<and> pf = PLATFORM_LINUX \<and> \<not> sched_refused st os")
  case True
  let ?os = "apply_mlock st (fifo_os st os)"
  obtain g f where gov: "governed (saved_sched st os) ?os = ((saved_sched st os)\<lparr>g_saved_governor := g\<rparr>, ?os\<lparr>rt_files := f\<rparr>)"
    using governed_frame by blast
  have "files_kept (governor_files ?os) (rt_files ?os) f"
    using governed_kept [of ?os "saved_sched st os"] by (simp add: gov)
  moreover have "cpus ?os = cpus os"
    by (rule cpus_nproc) simp
  ultimately show ?thesis
    using assms True by (auto simp: rt_apply_linux_eq gov)
qed (use assms in \<open>auto simp: apply_sched_eq rt_setup_apply_def split: if_splits\<close>)

lemma rt_restore_kept:
  assumes "rt_setup_restore pf st os = (st', os')"
  shows "files_kept (governor_files os) (rt_files os) (rt_files os')"
proof -
  let ?os = "restore_mlock st (restore_sched st os)"
  have "cpus ?os = cpus os"
    by (rule cpus_nproc) simp
  then have "files_kept (governor_files os) (rt_files os) (rt_files (restore_governors st ?os))"
    using restore_fold_kept [of "cpus os" "governor_files os" ?os] by (simp add: restore_governors_def)
  then show ?thesis
    using assms by (auto simp: rt_setup_restore_def split: if_splits)
qed

section \<open>Latency\<close>

text \<open>The deviation of the \<open>i\<close>-th batch from the reference batch, in microseconds.\<close>

definition deviation :: "(nat \<Rightarrow> (int \<times> int) option) \<Rightarrow> nat \<Rightarrow> real" where
  "deviation clock i =
     \<bar>elapsed (the (clock (2 + 2 * i))) (the (clock (3 + 2 * i))) - elapsed (the (clock 0)) (the (clock 1))\<bar> / 1000"

lemma latency_loop_max:
  assumes "\<forall>j < 2 * n. clock (k + j) \<noteq> None"
  shows "latency_loop clock base n k m =
    Some (fold max (map (\<lambda>i. \<bar>elapsed (the (clock (k + 2 * i))) (the (clock (k + 2 * i + 1))) - base * 1000\<bar> / 1000) [0..<n]) m)"
  using assms
proof (induction n arbitrary: k m)
  case (Suc n)
  have "clock (k + 0) \<noteq> None" "clock (k + 1) \<noteq> None"
    using Suc.prems [rule_format, of 0] Suc.prems [rule_format, of 1] by simp_all
  then obtain s t where st: "clock k = Some s" "clock (k + 1) = Some t"
    by auto
  let ?d = "\<bar>elapsed s t - base * 1000\<bar> / 1000"
  have prem: "\<forall>j < 2 * n. clock ((k + 2) + j) \<noteq> None"
  proof (intro allI impI)
    fix j assume "j < 2 * n"
    then have "clock (k + (j + 2)) \<noteq> None"
      by (intro Suc.prems [rule_format]) simp
    then show "clock ((k + 2) + j) \<noteq> None"
      by (simp add: ac_simps)
  qed
  have "latency_loop clock base (Suc n) k m = latency_loop clock base n (k + 2) (max ?d m)"
  proof -
    have "(if (elapsed s t - base * 1000) / 1000 < 0 then - ((elapsed s t - base * 1000) / 1000)
        else (elapsed s t - base * 1000) / 1000) = ?d"
      by (simp add: abs_if diff_divide_distrib)
    moreover have "(if ?d > m then ?d else m) = max ?d m"
      by (simp add: max_def)
    ultimately show ?thesis
      using st by (simp only: latency_loop.simps option.case Let_def)
  qed
  then show ?case
    using Suc.IH [OF prem] st
    by (simp add: upt_conv_Cons comp_def ac_simps del: upt_Suc flip: map_Suc_upt)
qed simp

lemma fold_max_Max: "fold max xs (m::real) = Max (insert m (set xs))"
  by (simp add: Max.set_eq_fold flip: list.set(2))

section \<open>The report of the check fits its buffer\<close>

lemma report_line_ok:
  assumes "length b = 512" "off < 512"
  shows "\<exists>b'. report_line s (b, off) = Inr (b', off + length s) \<and> length b' = 512 \<and>
    (off + length s < 512 \<longrightarrow> terminated b')"
proof -
  obtain b' where b': "snprintf b off (size_sub 512 off) s = Inr (b', int (length s))" "length b' = 512"
    using snprintf_cut [of off b s] assms by auto
  moreover have "terminated b'"
    using b'(1) assms by (auto simp: snprintf_def Let_def terminated_def size_sub_le split: if_splits)
  ultimately show ?thesis
    by (auto simp: report_line_def)
qed

lemma report_line_terminated:
  "length b = 512 \<Longrightarrow> off < 512 \<Longrightarrow> report_line s (b, off) = Inr (b', off') \<Longrightarrow> terminated b'"
  by (auto simp: report_line_def snprintf_def Let_def terminated_def size_sub_le bindE_Inr_iff split: if_splits)

lemma sched_line_length:
  assumes "is_s32 (sched_policy os)" "is_s32 (sched_prio os)" "is_s32 (uninit_prio os)"
  shows "length (snd (sched_line os)) \<le> 80"
proof -
  have "is_s32 (sched_getscheduler os)"
    using assms by (simp add: sched_getscheduler_def is_s32_def)
  then have "length (fmt_d (sched_getscheduler os)) \<le> 11"
    by (rule fmt_d_length)
  moreover have "length (fmt_d (sched_prio os)) \<le> 11" "length (fmt_d (uninit_prio os)) \<le> 11"
    using assms by (auto intro: fmt_d_length)
  ultimately show ?thesis
    by (auto simp: sched_line_def Let_def)
qed

lemma line_lengths:
  "length (mem_line x) \<le> 31" "length (cpu_line x) \<le> 37" "length (irq_line x) \<le> 33"
  by (simp_all add: mem_line_def cpu_line_def irq_line_def)

lemma four_lines_ok:
  assumes "length s1 \<le> 80" "length s2 \<le> 31" "length s3 \<le> 37" "length s4 \<le> 33"
  shows "\<exists>b off. bindE (report_line s1 (zeros 512, 0)) (\<lambda>r1. bindE (report_line s2 r1) (\<lambda>r2.
      bindE (report_line s3 r2) (\<lambda>r3. bindE (report_line s4 r3) (\<lambda>r4.
      bindE (report_line s5 r4) (\<lambda>(b, _). Inr (k b)))))) = Inr (k b) \<and> length b = 512 \<and> terminated b"
proof -
  obtain b1 where b1: "report_line s1 (zeros 512, 0) = Inr (b1, length s1)" "length b1 = 512"
    using report_line_ok [of "zeros 512" 0 s1] by auto
  obtain b2 where b2: "report_line s2 (b1, length s1) = Inr (b2, length s1 + length s2)" "length b2 = 512"
    using report_line_ok [OF b1(2), of "length s1" s2] assms by auto
  obtain b3 where b3: "report_line s3 (b2, length s1 + length s2) = Inr (b3, length s1 + length s2 + length s3)"
      "length b3 = 512"
    using report_line_ok [OF b2(2), of "length s1 + length s2" s3] assms by auto
  obtain b4 where b4: "report_line s4 (b3, length s1 + length s2 + length s3) =
      Inr (b4, length s1 + length s2 + length s3 + length s4)" "length b4 = 512"
    using report_line_ok [OF b3(2), of "length s1 + length s2 + length s3" s4] assms by auto
  have off: "length s1 + length s2 + length s3 + length s4 < 512"
    using assms by simp
  obtain b5 where b5: "report_line s5 (b4, length s1 + length s2 + length s3 + length s4) =
      Inr (b5, length s1 + length s2 + length s3 + length s4 + length s5)" "length b5 = 512"
    using report_line_ok [OF b4(2) off, of s5] by auto
  show ?thesis
    using b1 b2 b3 b4 b5 report_line_terminated [OF b4(2) off b5(1)] by auto
qed

section \<open>Properties\<close>

definition demo_rt_os :: rt_os where
  "demo_rt_os = \<lparr>sched_policy = SCHED_OTHER, sched_prio = 0, getsched_ok = True, getparam_ok = True,
     setsched_ok = (\<lambda>_ _. True), uninit_prio = 7, mem_locked = False, mlock_ok = True, munlock_ok = True, nproc = 2,
     affinity = {0, 1}, setaff_ok = (\<lambda>_. True), getaff_ok = True, irq_running = True, systemctl = (\<lambda>_. 0),
     rt_files = open_fs [gov_path 0 \<mapsto> ''powersave'' @ [NL], gov_path 1 \<mapsto> ''ondemand'' @ [NL]]\<rparr>"

definition demo_rt_state :: rt_state where
  "demo_rt_state = \<lparr>g_rt_config = \<lparr>use_rt_scheduling = True, rt_priority = 80, lock_memory = True, disable_cpu_freq = True,
     isolate_cpu = 1, disable_irq_balance = True\<rparr>, g_rt_initialized = True, g_saved_sched = 0, g_saved_policy = 0,
     g_saved_governor = []\<rparr>"

text \<open>
  C34: the result of applying is decided before anything on the machine changes: -EPERM
  without initialisation, -ENOSYS off Linux, -EPERM when real-time scheduling is asked for
  and the kernel refuses the policy, otherwise 0. On an error the machine, the configuration
  and the initialisation are as before.
\<close>
theorem apply_result:
  assumes "rt_setup_apply pf st os = (r, st', os')"
  shows "r = (if \<not> g_rt_initialized st then - EPERM else if pf \<noteq> PLATFORM_LINUX then - ENOSYS
      else if use_rt_scheduling (g_rt_config st) \<and> \<not> setsched_ok os SCHED_FIFO (rt_priority (g_rt_config st))
      then - EPERM else 0) \<and>
    (r \<noteq> 0 \<longrightarrow> os' = os \<and> g_rt_config st' = g_rt_config st \<and> g_rt_initialized st' = g_rt_initialized st)"
proof (cases "g_rt_initialized st \<and> pf = PLATFORM_LINUX")
  case True
  then show ?thesis
    using assms by (auto simp: rt_apply_linux_eq sched_refused_def Let_def split: if_splits prod.splits)
next
  case False
  then show ?thesis
    using assms by (auto simp: rt_setup_apply_def split: if_splits)
qed

theorem apply_result_witness:
  "\<exists>st'. rt_setup_apply PLATFORM_LINUX demo_rt_state (demo_rt_os\<lparr>setsched_ok := (\<lambda>_ _. False)\<rparr>) =
    (-1, st', demo_rt_os\<lparr>setsched_ok := (\<lambda>_ _. False)\<rparr>)"
proof -
  obtain r st' os' where a: "rt_setup_apply PLATFORM_LINUX demo_rt_state (demo_rt_os\<lparr>setsched_ok := (\<lambda>_ _. False)\<rparr>) = (r, st', os')"
    by (metis surj_pair)
  show ?thesis
    using apply_result [OF a] a by (simp add: demo_rt_state_def EPERM_def)
qed

lemma apply_governors_settable [simp]: "settable (snd (apply_governors cs st os)) p t = settable os p t"
  by (induction cs arbitrary: st os) auto

lemma settable_files: "rt_files o1 = rt_files o2 \<Longrightarrow> settable o1 = settable o2"
  by (rule ext)+ (simp add: settable_def)

text \<open>The machine after a successful apply, field by field.\<close>

lemma apply_success_facts:
  assumes "g_rt_initialized st" "rt_setup_apply PLATFORM_LINUX st os = (0, st', os')"
  shows "use_rt_scheduling (g_rt_config st) \<longrightarrow>
      sched_policy os' = SCHED_FIFO \<and> sched_prio os' = rt_priority (g_rt_config st)"
    and "mem_locked os' = (lock_memory (g_rt_config st) \<and> mlock_ok os \<or> mem_locked os)"
    and "irq_running os' = (irq_running os \<and> \<not> (disable_irq_balance (g_rt_config st) \<and> systemctl os CMD_STOP = 0))"
    and "g_rt_config st' = g_rt_config st" "g_rt_initialized st'"
    and "nproc os' = nproc os" "systemctl os' = systemctl os" "munlock_ok os' = munlock_ok os" "setsched_ok os' = setsched_ok os"
    and "settable os' p t = settable os p t"
    and "disable_cpu_freq (g_rt_config st) \<Longrightarrow> c < nat (nproc os) \<Longrightarrow> settable os (gov_path c) ''performance'' \<Longrightarrow>
      content (rt_files os') (gov_path c) = Some ''performance''"
    and "disable_cpu_freq (g_rt_config st) \<Longrightarrow> 0 < nat (nproc os) \<Longrightarrow>
      fopen_r (rt_files os) (gov_path 0) = Some s \<Longrightarrow> fgets 64 s = Some (l, rest) \<Longrightarrow> g_saved_governor st' = chomp (cstr l)"
proof -
  obtain g f where e: "st' = (saved_sched st os)\<lparr>g_saved_governor := g\<rparr>"
    "os' = apply_irq st (apply_affinity st ((apply_mlock st (fifo_os st os))\<lparr>rt_files := f\<rparr>))"
    "governed (saved_sched st os) (apply_mlock st (fifo_os st os)) = (st', (apply_mlock st (fifo_os st os))\<lparr>rt_files := f\<rparr>)"
    using apply_successE [OF assms] by metis
  have m: "mlock_ok (fifo_os st os) = mlock_ok os" "cpus (apply_mlock st (fifo_os st os)) = [0..<nat (nproc os)]"
    by (simp_all add: cpus_def)
  show "use_rt_scheduling (g_rt_config st) \<longrightarrow>
      sched_policy os' = SCHED_FIFO \<and> sched_prio os' = rt_priority (g_rt_config st)"
    by (simp add: e(2) fifo_os_def)
  show "mem_locked os' = (lock_memory (g_rt_config st) \<and> mlock_ok os \<or> mem_locked os)"
    by (auto simp add: e(2) apply_mlock_def m)
  show "irq_running os' = (irq_running os \<and> \<not> (disable_irq_balance (g_rt_config st) \<and> systemctl os CMD_STOP = 0))"
    by (simp add: e(2) apply_irq_def system_def)
  show "g_rt_config st' = g_rt_config st" "g_rt_initialized st'"
    using assms(1) by (simp_all add: e(1))
  show "nproc os' = nproc os" "systemctl os' = systemctl os" "munlock_ok os' = munlock_ok os" "setsched_ok os' = setsched_ok os"
    by (simp_all add: e(2))
  have files: "rt_files os' = f"
    by (simp add: e(2))
  have set: "settable os' q u = settable (snd (governed (saved_sched st os) (apply_mlock st (fifo_os st os)))) q u" for q u
    using e(3) files by (simp add: settable_def)
  have same: "settable (apply_mlock st (fifo_os st os)) = settable os"
    by (rule settable_files) simp
  show "settable os' p t = settable os p t"
    unfolding set governed_def using same by simp
  show "content (rt_files os') (gov_path c) = Some ''performance''"
    if "disable_cpu_freq (g_rt_config st)" "c < nat (nproc os)" "settable os (gov_path c) ''performance''"
    using that e(3) m(2) same apply_governors_content [of c "[0..<nat (nproc os)]" "apply_mlock st (fifo_os st os)" "saved_sched st os"]
    by (simp add: files governed_def)
  show "g_saved_governor st' = chomp (cstr l)"
    if "disable_cpu_freq (g_rt_config st)" "0 < nat (nproc os)"
      "fopen_r (rt_files os) (gov_path 0) = Some s" "fgets 64 s = Some (l, rest)"
    using that e(3) m(2) apply_governors_first [of "nat (nproc os)" "apply_mlock st (fifo_os st os)" s l rest "saved_sched st os"]
    by (simp add: governed_def)
qed

text \<open>
  C23: a successful set-up does what the configuration asks for: the process runs under
  SCHED_FIFO with the configured priority, memory is locked when that is asked for and
  granted, irqbalance is stopped when its command succeeds, and every CPU whose governor
  file takes the text has the governor \<open>performance\<close>.
\<close>
theorem apply_effects:
  assumes "g_rt_initialized st" "rt_setup_apply PLATFORM_LINUX st os = (0, st', os')"
  shows "(use_rt_scheduling (g_rt_config st) \<longrightarrow>
      sched_policy os' = SCHED_FIFO \<and> sched_prio os' = rt_priority (g_rt_config st)) \<and>
    mem_locked os' = (lock_memory (g_rt_config st) \<and> mlock_ok os \<or> mem_locked os) \<and>
    irq_running os' = (irq_running os \<and> \<not> (disable_irq_balance (g_rt_config st) \<and> systemctl os CMD_STOP = 0)) \<and>
    (\<forall>c < nat (nproc os). disable_cpu_freq (g_rt_config st) \<longrightarrow> settable os (gov_path c) ''performance'' \<longrightarrow>
      content (rt_files os') (gov_path c) = Some ''performance'')"
  using apply_success_facts(1-3,11) [OF assms] by blast

lemma demo_apply: "\<exists>st' os'. rt_setup_apply PLATFORM_LINUX demo_rt_state demo_rt_os = (0, st', os')"
  by (simp add: rt_apply_linux_eq sched_refused_def demo_rt_state_def demo_rt_os_def split: prod.splits)

theorem apply_effects_witness:
  "\<exists>st' os'. rt_setup_apply PLATFORM_LINUX demo_rt_state demo_rt_os = (0, st', os') \<and>
     sched_policy os' = SCHED_FIFO \<and> mem_locked os' \<and> \<not> irq_running os' \<and>
     content (rt_files os') (gov_path 1) = Some ''performance''"
proof -
  obtain st' os' where r: "rt_setup_apply PLATFORM_LINUX demo_rt_state demo_rt_os = (0, st', os')"
    using demo_apply by blast
  have "g_rt_initialized demo_rt_state"
    by (simp add: demo_rt_state_def)
  from apply_effects [OF this r] show ?thesis
    using r by (auto simp: demo_rt_state_def demo_rt_os_def settable_def open_fs_def)
qed

text \<open>
  C8: restoring undoes the scheduling and the memory lock: after a successful set-up and a
  restore the process has the policy and the priority it had before, when they could be
  read and the kernel grants them again; locked memory is unlocked; and the module is no
  longer initialised.
\<close>
theorem restore_undoes_apply:
  assumes "g_rt_initialized st" "rt_setup_apply PLATFORM_LINUX st os = (0, st', os')"
    and "getsched_ok os" "getparam_ok os" "0 \<le> sched_policy os"
    and "setsched_ok os (sched_policy os) (sched_prio os)"
  shows "\<exists>st'' os''. rt_setup_restore PLATFORM_LINUX st' os' = (st'', os'') \<and> \<not> g_rt_initialized st'' \<and>
    sched_policy os'' = sched_policy os \<and> sched_prio os'' = sched_prio os \<and>
    (lock_memory (g_rt_config st) \<and> munlock_ok os \<longrightarrow> \<not> mem_locked os'')"
proof -
  obtain st'' os'' where r: "rt_setup_restore PLATFORM_LINUX st' os' = (st'', os'')"
    by (cases "rt_setup_restore PLATFORM_LINUX st' os'")
  note f = apply_success_facts [OF assms(1,2)]
  have "st'' = st'\<lparr>g_rt_initialized := False\<rparr>"
    "os'' = restore_irq st' (restore_affinity st' (restore_governors st' (restore_mlock st' (restore_sched st' os'))))"
    using r f(5) by (simp_all add: rt_setup_restore_def)
  moreover have "lock_memory (g_rt_config st) \<and> munlock_ok os \<longrightarrow> \<not> mem_locked (restore_mlock st' (restore_sched st' os'))"
    using f(4,8) by (simp add: restore_mlock_def)
  ultimately show ?thesis
    using r restore_sched_after_apply [OF assms r] by simp
qed

theorem restore_undoes_apply_witness:
  "\<exists>st' os' st'' os''. rt_setup_apply PLATFORM_LINUX demo_rt_state demo_rt_os = (0, st', os') \<and>
     rt_setup_restore PLATFORM_LINUX st' os' = (st'', os'') \<and> sched_policy os'' = SCHED_OTHER \<and> \<not> mem_locked os''"
proof -
  obtain st' os' where r: "rt_setup_apply PLATFORM_LINUX demo_rt_state demo_rt_os = (0, st', os')"
    using demo_apply by blast
  have "g_rt_initialized demo_rt_state"
    by (simp add: demo_rt_state_def)
  from restore_undoes_apply [OF this r] show ?thesis
    using r by (auto simp: demo_rt_state_def demo_rt_os_def SCHED_OTHER_def)
qed

text \<open>
  C39: restoring gives every CPU the governor CPU 0 had. Only the first CPU's governor is
  saved, so after a set-up and a restore each CPU whose file takes that text has the first
  line of CPU 0's file, whatever it had before.
\<close>
theorem restore_spreads_governor:
  assumes "g_rt_initialized st" "rt_setup_apply PLATFORM_LINUX st os = (0, st', os')"
    and "disable_cpu_freq (g_rt_config st)" "fopen_r (rt_files os) (gov_path 0) = Some (g @ NL # rest)"
    and "NL \<notin> set g" "NUL \<notin> set g" "g \<noteq> []" "length g < 63"
    and "c < nat (nproc os)" "settable os (gov_path c) g"
  shows "content (rt_files (snd (rt_setup_restore PLATFORM_LINUX st' os'))) (gov_path c) = Some g"
proof -
  note f = apply_success_facts [OF assms(1,2)]
  have "fgets 64 (g @ NL # rest) = Some (g @ [NL], rest)"
    using assms(5,8) by (intro fgets_line) auto
  moreover have "cstr (g @ [NL]) = g @ [NL]"
    using assms(6) by (intro cstr_id) auto
  ultimately have saved: "g_saved_governor st' = g"
    using f(12) [OF assms(3) _ assms(4)] assms(9) by (simp add: chomp_def)
  let ?o = "restore_mlock st' (restore_sched st' os')"
  have "rt_files ?o = rt_files os'" "cpus ?o = [0..<nat (nproc os)]"
    using f(6) by (simp_all add: cpus_def)
  then have "settable ?o (gov_path c) g"
    using settable_files [of ?o os'] f(10) [of "gov_path c" g] assms(10) by simp
  then have "content (rt_files (restore_governors st' ?o)) (gov_path c) = Some g"
    using restore_fold_content [of c "cpus ?o" ?o g] \<open>cpus ?o = _\<close> assms(3,7,9) saved f(4)
    by (simp add: restore_governors_def)
  then show ?thesis
    using f(5) by (simp add: rt_setup_restore_def)
qed

theorem restore_spreads_governor_witness:
  "\<exists>st' os'. rt_setup_apply PLATFORM_LINUX demo_rt_state demo_rt_os = (0, st', os') \<and>
     content (rt_files (snd (rt_setup_restore PLATFORM_LINUX st' os'))) (gov_path 1) = Some ''powersave'' \<and>
     content (rt_files demo_rt_os) (gov_path 1) = Some (''ondemand'' @ [NL])"
proof -
  obtain st' os' where r: "rt_setup_apply PLATFORM_LINUX demo_rt_state demo_rt_os = (0, st', os')"
    using demo_apply by blast
  have ne: "gov_path 0 \<noteq> gov_path 1"
    by (simp add: gov_path_def fmt_u_def show_base.simps dig_lower_def)
  have "g_rt_initialized demo_rt_state"
    by (simp add: demo_rt_state_def)
  from restore_spreads_governor [OF this r, of "''powersave''" "[]" 1] show ?thesis
    using r ne by (auto simp: demo_rt_state_def demo_rt_os_def settable_def open_fs_def fopen_r_def)
qed

text \<open>
  C38: setting up twice loses the original policy. The second call saves the real-time policy
  the first one installed, so after restoring the process still runs under SCHED_FIFO with
  the configured priority.
\<close>
theorem double_apply_loses_policy:
  assumes "g_rt_initialized st" "use_rt_scheduling (g_rt_config st)"
    and "rt_setup_apply PLATFORM_LINUX st os = (0, st1, os1)" "rt_setup_apply PLATFORM_LINUX st1 os1 = (0, st2, os2)"
    and "getsched_ok os1" "getparam_ok os1"
  shows "sched_policy (snd (rt_setup_restore PLATFORM_LINUX st2 os2)) = SCHED_FIFO \<and>
    sched_prio (snd (rt_setup_restore PLATFORM_LINUX st2 os2)) = rt_priority (g_rt_config st)"
proof -
  note f = apply_success_facts [OF assms(1,3)]
  have fifo: "sched_policy os1 = SCHED_FIFO" "sched_prio os1 = rt_priority (g_rt_config st)"
    using f(1) assms(2) by simp_all
  have "\<not> sched_refused st os"
    using apply_successE [OF assms(1,3)] by blast
  then have "setsched_ok os1 (sched_policy os1) (sched_prio os1)"
    using assms(2) f(9) fifo by (simp add: sched_refused_def)
  then show ?thesis
    using restore_sched_after_apply [OF f(5) assms(4-6), of "fst (rt_setup_restore PLATFORM_LINUX st2 os2)"
        "snd (rt_setup_restore PLATFORM_LINUX st2 os2)"] fifo
    by (simp add: SCHED_FIFO_def)
qed

theorem double_apply_loses_policy_witness:
  "\<exists>st1 os1 st2 os2. rt_setup_apply PLATFORM_LINUX demo_rt_state demo_rt_os = (0, st1, os1) \<and>
     rt_setup_apply PLATFORM_LINUX st1 os1 = (0, st2, os2) \<and>
     sched_policy (snd (rt_setup_restore PLATFORM_LINUX st2 os2)) = SCHED_FIFO"
proof -
  obtain st1 os1 where r: "rt_setup_apply PLATFORM_LINUX demo_rt_state demo_rt_os = (0, st1, os1)"
    using demo_apply by blast
  have i: "g_rt_initialized demo_rt_state" "use_rt_scheduling (g_rt_config demo_rt_state)"
    by (simp_all add: demo_rt_state_def)
  note f = apply_success_facts [OF i(1) r]
  obtain g h where "os1 = apply_irq demo_rt_state (apply_affinity demo_rt_state
      ((apply_mlock demo_rt_state (fifo_os demo_rt_state demo_rt_os))\<lparr>rt_files := h\<rparr>))"
    using apply_successE [OF i(1) r] by metis
  then have k: "getsched_ok os1" "getparam_ok os1"
    by (simp_all add: apply_irq_def apply_affinity_def apply_mlock_def fifo_os_def sched_setaffinity_def system_def demo_rt_os_def)
  have "\<not> sched_refused st1 os1"
    using f(9) by (simp add: sched_refused_def demo_rt_os_def)
  then obtain st2 os2 where "rt_setup_apply PLATFORM_LINUX st1 os1 = (0, st2, os2)"
    using f(5) by (cases "governed (saved_sched st1 os1) (apply_mlock st1 (fifo_os st1 os1))") (simp add: rt_apply_linux_eq)
  then show ?thesis
    using double_apply_loses_policy [OF i r _ k] r by blast
qed

text \<open>
  C28: the check never leaves its report buffer of 512 bytes and never fails: for every state
  of the machine, every content of the status file and every behaviour of the clock it
  returns 0 with a terminated report. Its lines are printed one after the other without a
  test that they fit; only the last one, the latency, has no bounded length, and it is cut.
\<close>
theorem check_never_faults:
  assumes "is_s32 (sched_policy os)" "is_s32 (sched_prio os)" "is_s32 (uninit_prio os)"
  shows "\<exists>res. rt_setup_check pf st os clock (Some r0) = Inr (0, Some res) \<and> length (report res) = 512 \<and>
    terminated (report res)"
proof (cases "pf = PLATFORM_LINUX")
  case True
  obtain sched s1 where s1: "sched_line os = (sched, s1)" "length s1 \<le> 80"
    using sched_line_length [OF assms] by (cases "sched_line os") auto
  show ?thesis
    unfolding rt_setup_check_def option.case if_P [OF True] s1(1) Let_def prod.case
    using four_lines_ok [OF s1(2) line_lengths] by fastforce
next
  case False
  have "length other_report < length (zeros 512)"
    by (simp add: other_report_def)
  then obtain b where "snprintf (zeros 512) 0 512 other_report = Inr (b, int (length other_report))" "length b = 512"
    "holds b other_report"
    using snprintf_first [of other_report "zeros 512"] by auto
  then show ?thesis
    using False by (auto simp: rt_setup_check_def holds_terminated)
qed

theorem check_never_faults_witness:
  "\<exists>res. rt_setup_check PLATFORM_LINUX demo_rt_state demo_rt_os (\<lambda>_. None)
     (Some \<lparr>rt_scheduling_ok = False, memory_locked = False, cpu_isolated = False, irq_balance_disabled = False,
       max_latency_us = 0, report = []\<rparr>) = Inr (0, Some res) \<and> terminated (report res)"
  using check_never_faults [of demo_rt_os PLATFORM_LINUX demo_rt_state "\<lambda>_. None"]
  by (auto simp: demo_rt_os_def is_s32_def SCHED_OTHER_def)

text \<open>
  C32: the latency measured over \<open>n\<close> samples is the largest deviation of a sample from the
  reference sample, in microseconds; the measurement needs a positive number of samples and
  makes two calls of the clock per sample and two for the reference.
\<close>
theorem latency_is_maximum:
  assumes "0 < samples" "\<forall>j < 2 + 2 * nat samples. clock j \<noteq> None"
  shows "rt_setup_measure_latency clock (Some x) samples = (0, Some (Max (deviation clock ` {..<nat samples})))"
proof -
  let ?n = "nat samples"
  obtain s t where st: "clock 0 = Some s" "clock 1 = Some t"
    using assms(2) [rule_format, of 0] assms(2) [rule_format, of 1] by auto
  have "\<forall>j < 2 * ?n. clock (2 + j) \<noteq> None"
    using assms(2) by simp
  from latency_loop_max [OF this, of "elapsed s t / 1000" 0]
  have "latency_loop clock (elapsed s t / 1000) ?n 2 0 = Some (fold max (map (deviation clock) [0..<?n]) 0)"
    using st by (simp add: deviation_def [abs_def] numeral_3_eq_3 ac_simps)
  also have "fold max (map (deviation clock) [0..<?n]) 0 = Max (insert 0 (deviation clock ` {..<?n}))"
    by (simp add: fold_max_Max atLeast0LessThan)
  also have "\<dots> = Max (deviation clock ` {..<?n})"
  proof -
    have "0 \<le> deviation clock 0"
      by (simp add: deviation_def)
    moreover have "deviation clock 0 \<in> deviation clock ` {..<?n}"
      using assms(1) by (intro imageI) simp
    ultimately have "0 \<le> Max (deviation clock ` {..<?n})"
      by (meson Max_ge finite_imageI finite_lessThan order_trans)
    then show ?thesis
      using assms(1) by (subst Max_insert) (auto simp: lessThan_empty_iff)
  qed
  finally show ?thesis
    using st assms(1) by (simp add: rt_setup_measure_latency_def)
qed

theorem latency_is_maximum_witness:
  "rt_setup_measure_latency (\<lambda>k. Some (0, if k = 3 then 5000 else 0)) (Some 0) 2 =
     (0, Some (Max (deviation (\<lambda>k. Some (0, if k = 3 then 5000 else 0)) ` {..<2})))"
  using latency_is_maximum [of 2 "\<lambda>k. Some (0, if k = 3 then 5000 else 0)" 0] by simp

end
