(* ===== verification/App_Config.thy ===== *)
theory App_Config
  imports IO_Device Network_Config Security_Policy RT_Setup
begin

text \<open>
  app_config.c: the configuration of the whole program, its defaults, its file format and
  its validation. The file is read line by line with \<open>fgets\<close> into an array of 512 bytes;
  a line is handled as the C string it is after the line end was cut off. The pointers
  \<open>strip\<close> and \<open>strchr\<close> return into the line buffer are the strings that start there.
\<close>

section \<open>Data\<close>

record app_config =
  device :: io_device_cfg
  network :: net_if_config
  tcp_tuning :: tcp_tuning_config
  security :: sec_policy
  security_enabled :: bool
  realtime :: rt_config
  realtime_enabled :: bool
  log_level :: int
  log_file :: buf
  config_file :: buf

definition CONFIG_MAX_PATH :: nat where "CONFIG_MAX_PATH = 256"

definition zero_net_config :: net_if_config where
  "zero_net_config = \<lparr>if_name = zeros 16, net_ip_addr = 0, net_netmask = 0, net_gateway = 0,
     net_mac_addr = replicate 6 0, configured = False\<rparr>"

definition zero_tcp :: tcp_tuning_config where
  "zero_tcp = \<lparr>tcp_timestamps = False, tcp_window_scaling = False, tcp_sack = False,
     tcp_rmem = (0, 0, 0), tcp_wmem = (0, 0, 0)\<rparr>"

definition zero_policy :: sec_policy where
  "zero_policy = \<lparr>rules = replicate MAX_FW_RULES zero_rule, rule_count = 0, enabled = False\<rparr>"

definition zero_config :: app_config where
  "zero_config = \<lparr>device = zero_cfg, network = zero_net_config, tcp_tuning = zero_tcp, security = zero_policy,
     security_enabled = False, realtime = zero_rt_config, realtime_enabled = False, log_level = 0,
     log_file = zeros CONFIG_MAX_PATH, config_file = zeros CONFIG_MAX_PATH\<rparr>"

section \<open>Helpers\<close>

text \<open>The second loop of \<open>strip\<close> never removes the first character.\<close>

function strip_end :: "string \<Rightarrow> string" where
  "strip_end t = (if 1 < length t \<and> isspace (last t) then strip_end (butlast t) else t)"
  by pat_completeness auto
termination
  by (relation "measure length") auto

declare strip_end.simps [simp del]

definition strip :: "string \<Rightarrow> string" where
  "strip s = strip_end (dropWhile isspace s)"

definition is_true :: "string \<Rightarrow> bool" where
  "is_true v \<longleftrightarrow> v = ''true'' \<or> v = ''1''"

definition apply_kv :: "app_config \<Rightarrow> string \<Rightarrow> string \<Rightarrow> app_config" where
  "apply_kv cfg key val =
     (let d = device cfg; n = network cfg; rt = realtime cfg in
      if key = ''product_name'' then cfg\<lparr>device := d\<lparr>product_name := strncpy (product_name d) val (26 - 1)\<rparr>\<rparr>
      else if key = ''station_name'' then cfg\<lparr>device := d\<lparr>station_name := strncpy (station_name d) val (241 - 1)\<rparr>\<rparr>
      else if key = ''interface'' then
        cfg\<lparr>device := d\<lparr>interface_name := strncpy (interface_name d) val (16 - 1)\<rparr>,
            network := n\<lparr>if_name := strncpy (if_name n) val (16 - 1)\<rparr>\<rparr>
      else if key = ''ip_addr'' then
        cfg\<lparr>device := d\<lparr>ip_addr := parse_ip val\<rparr>, network := n\<lparr>net_ip_addr := parse_ip val\<rparr>\<rparr>
      else if key = ''netmask'' then
        cfg\<lparr>device := d\<lparr>netmask := parse_ip val\<rparr>, network := n\<lparr>net_netmask := parse_ip val\<rparr>\<rparr>
      else if key = ''gateway'' then
        cfg\<lparr>device := d\<lparr>gateway := parse_ip val\<rparr>, network := n\<lparr>net_gateway := parse_ip val\<rparr>\<rparr>
      else if key = ''vendor_id'' then cfg\<lparr>device := d\<lparr>vendor_id := word_of_nat (strtoul val)\<rparr>\<rparr>
      else if key = ''device_id'' then cfg\<lparr>device := d\<lparr>device_id := word_of_nat (strtoul val)\<rparr>\<rparr>
      else if key = ''tick_us'' then cfg\<lparr>device := d\<lparr>tick_us := word_of_nat (strtoul val)\<rparr>\<rparr>
      else if key = ''send_hello'' then cfg\<lparr>device := d\<lparr>send_hello := is_true val\<rparr>\<rparr>
      else if key = ''file_directory'' then
        cfg\<lparr>device := d\<lparr>file_directory := strncpy (file_directory d) val (240 - 1)\<rparr>\<rparr>
      else if key = ''log_level'' then cfg\<lparr>log_level := atoi val\<rparr>
      else if key = ''log_file'' then cfg\<lparr>log_file := strncpy (log_file cfg) val (CONFIG_MAX_PATH - 1)\<rparr>
      else if key = ''security_enabled'' then cfg\<lparr>security_enabled := is_true val\<rparr>
      else if key = ''realtime_enabled'' then cfg\<lparr>realtime_enabled := is_true val\<rparr>
      else if key = ''rt_priority'' then cfg\<lparr>realtime := rt\<lparr>rt_priority := atoi val\<rparr>\<rparr>
      else if key = ''rt_scheduling'' then cfg\<lparr>realtime := rt\<lparr>use_rt_scheduling := is_true val\<rparr>\<rparr>
      else if key = ''lock_memory'' then cfg\<lparr>realtime := rt\<lparr>lock_memory := is_true val\<rparr>\<rparr>
      else if key = ''isolate_cpu'' then cfg\<lparr>realtime := rt\<lparr>isolate_cpu := atoi val\<rparr>\<rparr>
      else cfg)"

section \<open>Defaults\<close>

definition default_device :: io_device_cfg where
  "default_device = zero_cfg
     \<lparr>product_name := strncpy (zeros 26) ''p-net IO Device'' (26 - 1),
      station_name := strncpy (zeros 241) ''iodevice1'' (241 - 1),
      interface_name := strncpy (zeros 16) ''eth0'' (16 - 1),
      ip_addr := parse_ip ''192.168.0.100'', netmask := parse_ip ''255.255.255.0'',
      gateway := parse_ip ''192.168.0.1'', vendor_id := 1, device_id := 1, tick_us := 1000, send_hello := True,
      file_directory := strncpy (zeros 240) ''/tmp/pnet'' (240 - 1)\<rparr>"

definition app_config_default :: "app_config option \<Rightarrow> app_config option" where
  "app_config_default cfg = (case cfg of None \<Rightarrow> None
     | Some _ \<Rightarrow> Some (zero_config
         \<lparr>device := default_device,
          network := zero_net_config
            \<lparr>if_name := strncpy (zeros 16) ''eth0'' (16 - 1), net_ip_addr := ip_addr default_device,
             net_netmask := netmask default_device, net_gateway := gateway default_device, configured := True\<rparr>,
          tcp_tuning := zero_tcp\<lparr>tcp_timestamps := False, tcp_window_scaling := False, tcp_sack := False\<rparr>,
          security_enabled := True,
          security := the (snd (sec_policy_init (Some zero_policy))),
          realtime_enabled := True,
          realtime := the (rt_config_default (Some zero_rt_config)),
          log_level := 2,
          log_file := strncpy (zeros CONFIG_MAX_PATH) ''/var/log/pnet-manager.log'' (CONFIG_MAX_PATH - 1),
          config_file := strncpy (zeros CONFIG_MAX_PATH) ''/etc/pnet-manager/config.conf'' (CONFIG_MAX_PATH - 1)\<rparr>))"

section \<open>Loading\<close>

text \<open>
  One pass of the loop: the key and the value of a line, \<open>None\<close> for a line that is
  skipped. The line arrives as the bytes \<open>fgets\<close> stored.
\<close>

definition parse_line :: "string \<Rightarrow> (string \<times> string) option" where
  "parse_line l =
     (let trimmed = strip (takeWhile (\<lambda>c. c \<noteq> CR \<and> c \<noteq> NL) (cstr l)) in
      if trimmed = [] \<or> hd trimmed = CHR ''#'' \<or> hd trimmed = CHR '';'' then None
      else if CHR ''='' \<notin> set trimmed then None
      else let eq = length (takeWhile (\<lambda>c. c \<noteq> CHR ''='') trimmed);
               key = strip (take eq trimmed);
               val = strip (drop (eq + 1) trimmed)
           in if key \<noteq> [] \<and> val \<noteq> [] then Some (key, val) else None)"

definition load_line :: "app_config \<Rightarrow> string \<Rightarrow> app_config" where
  "load_line cfg l = (case parse_line l of None \<Rightarrow> cfg | Some (key, val) \<Rightarrow> apply_kv cfg key val)"

function load_lines :: "app_config \<Rightarrow> string \<Rightarrow> app_config" where
  "load_lines cfg txt = (case fgets 512 txt of None \<Rightarrow> cfg | Some (l, r) \<Rightarrow> load_lines (load_line cfg l) r)"
  by pat_completeness auto
termination
  by (relation "measure (length \<circ> snd)") (auto dest: fgets_shorter)

declare load_lines.simps [simp del]

definition app_config_load :: "fs \<Rightarrow> app_config option \<Rightarrow> string option \<Rightarrow> int \<times> app_config option" where
  "app_config_load f cfg path =
     (case (cfg, path) of
        (Some c, Some p) \<Rightarrow>
          (case fopen_r f p of
             None \<Rightarrow> (-1, Some c)
           | Some txt \<Rightarrow>
               let c1 = the (app_config_default (Some c));
                   c2 = c1\<lparr>config_file := strncpy (config_file c1) p (CONFIG_MAX_PATH - 1)\<rparr>
               in (0, Some (load_lines c2 txt)))
      | _ \<Rightarrow> (-1, cfg))"

section \<open>Saving\<close>

definition bool_text :: "bool \<Rightarrow> string" where
  "bool_text b = (if b then ''true'' else ''false'')"

definition ip_text :: "u32 \<Rightarrow> fault + string" where
  "ip_text ip = bindE (format_ip ip (zeros 16) 16) read_str"

text \<open>The text the \<open>fprintf\<close> calls produce, in order.\<close>

definition save_text :: "app_config \<Rightarrow> fault + string" where
  "save_text cfg =
     (let d = device cfg; rt = realtime cfg in
      bindE (read_str (product_name d)) (\<lambda>product.
      bindE (read_str (station_name d)) (\<lambda>station.
      bindE (read_str (interface_name d)) (\<lambda>ifn.
      bindE (ip_text (ip_addr d)) (\<lambda>ip.
      bindE (ip_text (netmask d)) (\<lambda>nm.
      bindE (ip_text (gateway d)) (\<lambda>gw.
      bindE (read_str (file_directory d)) (\<lambda>dir.
      bindE (read_str (log_file cfg)) (\<lambda>logf.
        Inr (
          ''# p-net IO Device Manager Configuration'' @ [NL] @
          ''# Auto-generated - edit with care'' @ [NL] @ [NL] @
          ''# IO Device'' @ [NL] @
          ''product_name='' @ product @ [NL] @
          ''station_name='' @ station @ [NL] @
          ''interface='' @ ifn @ [NL] @
          ''ip_addr='' @ ip @ [NL] @
          ''netmask='' @ nm @ [NL] @
          ''gateway='' @ gw @ [NL] @
          ''vendor_id=0x'' @ fmt_X 4 (unat (vendor_id d)) @ [NL] @
          ''device_id=0x'' @ fmt_X 4 (unat (device_id d)) @ [NL] @
          ''tick_us='' @ fmt_u (unat (tick_us d)) @ [NL] @
          ''send_hello='' @ bool_text (send_hello d) @ [NL] @
          ''file_directory='' @ dir @ [NL] @
          [NL] @ ''# Logging'' @ [NL] @
          ''log_level='' @ fmt_d (log_level cfg) @ [NL] @
          ''log_file='' @ logf @ [NL] @
          [NL] @ ''# Security'' @ [NL] @
          ''security_enabled='' @ bool_text (security_enabled cfg) @ [NL] @
          [NL] @ ''# Real-time'' @ [NL] @
          ''realtime_enabled='' @ bool_text (realtime_enabled cfg) @ [NL] @
          ''rt_priority='' @ fmt_d (rt_priority rt) @ [NL] @
          ''rt_scheduling='' @ bool_text (use_rt_scheduling rt) @ [NL] @
          ''lock_memory='' @ bool_text (lock_memory rt) @ [NL] @
          ''isolate_cpu='' @ fmt_d (isolate_cpu rt) @ [NL]))))))))))"

definition app_config_save :: "fs \<Rightarrow> app_config option \<Rightarrow> string option \<Rightarrow> fault + (int \<times> fs)" where
  "app_config_save f cfg path =
     (case (cfg, path) of
        (Some c, Some p) \<Rightarrow>
          if \<not> can_write f p then Inr (-1, f)
          else bindE (save_text c) (\<lambda>txt.
            case write_file f p txt of None \<Rightarrow> Inr (-1, f) | Some f' \<Rightarrow> Inr (0, f'))
      | _ \<Rightarrow> Inr (-1, f))"

section \<open>Validation\<close>

definition app_config_validate :: "app_config option \<Rightarrow> fault + int" where
  "app_config_validate cfg =
     (case cfg of
        None \<Rightarrow> Inr (-1)
      | Some c \<Rightarrow>
          if interface_name (device c) = [] then Inl OutOfBounds
          else if hd (interface_name (device c)) = NUL then Inr (-1)
          else if ip_addr (device c) = 0 then Inr (-1)
          else if ip_addr (device c) = 0 \<or> ip_addr (device c) = 0xFFFFFFFF then Inr (-1)
          else if tick_us (device c) = 0 then Inr (-1)
          else if vendor_id (device c) = 0 then Inr (-1)
          else if device_id (device c) = 0 then Inr (-1)
          else if log_level c < 0 \<or> log_level c > 3 then Inr (-1)
          else if realtime_enabled c \<and> (rt_priority (realtime c) < 1 \<or> rt_priority (realtime c) > 99) then Inr (-1)
          else Inr 0)"

section \<open>Lines of the file format\<close>

text \<open>A key or a value that survives stripping and line splitting.\<close>

definition trim :: "string \<Rightarrow> bool" where
  "trim s \<longleftrightarrow> s \<noteq> [] \<and> \<not> isspace (hd s) \<and> \<not> isspace (last s) \<and>
     NUL \<notin> set s \<and> CR \<notin> set s \<and> NL \<notin> set s"

lemma strip_end_id: "s = [] \<or> \<not> isspace (last s) \<Longrightarrow> strip_end s = s"
  by (subst strip_end.simps) auto

lemma strip_trim: "trim s \<Longrightarrow> strip s = s"
  by (cases s) (simp_all add: strip_def trim_def strip_end_id)

lemma strip_Nil [simp]: "strip [] = []"
  by (simp add: strip_def strip_end_id)

lemma cut_line:
  assumes "NUL \<notin> set s" "CR \<notin> set s" "NL \<notin> set s"
  shows "takeWhile (\<lambda>c. c \<noteq> CR \<and> c \<noteq> NL) (cstr (s @ [NL])) = s"
proof -
  have "cstr (s @ [NL]) = s @ [NL]"
    using assms by (intro cstr_id) auto
  moreover have "takeWhile (\<lambda>c. c \<noteq> CR \<and> c \<noteq> NL) (s @ [NL]) = s"
    using assms(2,3) by (induction s) auto
  ultimately show ?thesis
    by simp
qed

text \<open>A configuration line: the key without \<open>=\<close> and not starting a comment.\<close>

definition kv_line :: "string \<Rightarrow> string \<Rightarrow> string" where
  "kv_line k v = k @ ''='' @ v"

definition key_ok :: "string \<Rightarrow> bool" where
  "key_ok k \<longleftrightarrow> trim k \<and> CHR ''='' \<notin> set k \<and> hd k \<noteq> CHR ''#'' \<and> hd k \<noteq> CHR '';''"

lemma parse_kv_line:
  assumes "key_ok k" "trim v"
  shows "parse_line (kv_line k v @ [NL]) = Some (k, v)"
proof -
  have clean: "NUL \<notin> set (kv_line k v)" "CR \<notin> set (kv_line k v)" "NL \<notin> set (kv_line k v)"
    using assms by (auto simp: kv_line_def key_ok_def trim_def)
  then have "trim (kv_line k v)"
    using assms by (cases k) (auto simp: kv_line_def key_ok_def trim_def)
  then have line: "strip (takeWhile (\<lambda>c. c \<noteq> CR \<and> c \<noteq> NL) (cstr (kv_line k v @ [NL]))) = kv_line k v"
    using cut_line [OF clean] by (simp add: strip_trim)
  have eq: "takeWhile (\<lambda>c. c \<noteq> CHR ''='') (kv_line k v) = k"
    using assms(1) unfolding key_ok_def kv_line_def by (simp add: takeWhile_append takeWhile_eq_all_conv)
  have "kv_line k v \<noteq> []" "hd (kv_line k v) = hd k" "CHR ''='' \<in> set (kv_line k v)"
    using assms(1) by (auto simp: kv_line_def key_ok_def trim_def)
  moreover have "take (length k) (kv_line k v) = k" "drop (length k + 1) (kv_line k v) = v"
    by (simp_all add: kv_line_def)
  ultimately show ?thesis
    unfolding parse_line_def Let_def line eq
    using assms by (auto simp: key_ok_def strip_trim) (simp_all add: trim_def)
qed

lemma parse_skipped:
  "parse_line [NL] = None"
  "NUL \<notin> set s \<Longrightarrow> CR \<notin> set s \<Longrightarrow> NL \<notin> set s \<Longrightarrow> \<not> isspace (last s) \<Longrightarrow> hd s = CHR ''#'' \<Longrightarrow> s \<noteq> [] \<Longrightarrow>
     parse_line (s @ [NL]) = None"
proof -
  show "parse_line [NL] = None"
    using cut_line [of "[]"] by (simp add: parse_line_def)
next
  assume s: "NUL \<notin> set s" "CR \<notin> set s" "NL \<notin> set s" "\<not> isspace (last s)" "hd s = CHR ''#''" "s \<noteq> []"
  then have "strip s = s"
    by (intro strip_trim) (simp add: trim_def isspace_def)
  then show "parse_line (s @ [NL]) = None"
    using s cut_line [of s] by (simp add: parse_line_def)
qed

text \<open>A text made of short lines is handled line by line.\<close>

definition line_ok :: "string \<Rightarrow> bool" where
  "line_ok l \<longleftrightarrow> NL \<notin> set l \<and> length l < 511"

lemma load_lines_Nil [simp]: "load_lines cfg [] = cfg"
  by (subst load_lines.simps) (simp add: fgets_def)

lemma load_lines_line: "line_ok l \<Longrightarrow> load_lines cfg (l @ NL # r) = load_lines (load_line cfg (l @ [NL])) r"
  by (subst load_lines.simps) (simp add: fgets_line line_ok_def)

definition join_lines :: "string list \<Rightarrow> string" where
  "join_lines ls = concat (map (\<lambda>l. l @ [NL]) ls)"

lemma join_lines_simps [simp]:
  "join_lines [] = []" "join_lines (l # ls) = l @ NL # join_lines ls"
  by (simp_all add: join_lines_def)

lemma load_lines_join:
  "list_all line_ok ls \<Longrightarrow> load_lines cfg (join_lines ls) = foldl (\<lambda>c l. load_line c (l @ [NL])) cfg ls"
  by (induction ls arbitrary: cfg) (simp_all add: load_lines_line)

section \<open>Value codecs\<close>

text \<open>
  How a field is written to the file and read back. Each kind of field has a printer and a
  parser; the laws are that the printed text is one the file format keeps and that parsing
  it returns the value.
\<close>

locale value_codec =
  fixes encode :: "'a \<Rightarrow> string"
    and decode :: "string \<Rightarrow> 'a"
    and valid :: "'a \<Rightarrow> bool"
  assumes encode_trim: "valid x \<Longrightarrow> trim (encode x)"
    and encode_length: "valid x \<Longrightarrow> length (encode x) \<le> 255"
    and decode_encode: "valid x \<Longrightarrow> decode (encode x) = x"
begin

lemma line_parses:
  "key_ok k \<Longrightarrow> valid x \<Longrightarrow> \<exists>v. parse_line (kv_line k (encode x) @ [NL]) = Some (k, v) \<and> decode v = x"
  by (simp add: parse_kv_line encode_trim decode_encode)

lemma line_loads:
  "key_ok k \<Longrightarrow> valid x \<Longrightarrow> load_line cfg (kv_line k (encode x) @ [NL]) = apply_kv cfg k (encode x)"
  by (simp add: load_line_def parse_kv_line encode_trim)

lemma line_short: "key_ok k \<Longrightarrow> valid x \<Longrightarrow> length k \<le> 200 \<Longrightarrow> line_ok (kv_line k (encode x))"
  using encode_trim [of x] encode_length [of x] by (auto simp: line_ok_def kv_line_def key_ok_def trim_def)

end

definition graph :: "char \<Rightarrow> bool" where
  "graph c \<longleftrightarrow> \<not> isspace c \<and> c \<noteq> NUL"

lemma trim_graph:
  assumes "s \<noteq> []" "list_all graph s"
  shows "trim s"
proof -
  have g: "graph c" if "c \<in> set s" for c
    using that assms(2) by (simp add: list_all_iff)
  have "\<not> graph NUL" "\<not> graph CR" "\<not> graph NL"
    by (simp_all add: graph_def isspace_def)
  then show ?thesis
    using assms(1) g g [OF hd_in_set] g [OF last_in_set] by (auto simp: trim_def graph_def)
qed

lemma graph_digits: "all_digs b s \<Longrightarrow> list_all graph s"
  by (auto simp: all_digs_def list_all_iff graph_def dest: digit_not_special)

lemma graph_fmt_d [simp]: "list_all graph (fmt_d i)"
  by (auto simp: fmt_d_def graph_digits [OF fmt_u_digits(1)] graph_def isspace_def)

lemma graph_dotted_quad [simp]: "list_all graph (dotted_quad ip)"
  by (simp add: dotted_quad_def dotted_def graph_digits [OF fmt_u_digits(1)] graph_def isspace_def)

lemma dotted_quad_nonempty [simp]: "dotted_quad ip \<noteq> []"
  using dotted_quad_length_ge [of ip] by auto

interpretation ip_codec: value_codec dotted_quad parse_ip "\<lambda>_. True"
  by unfold_locales (simp_all add: trim_graph order.trans [OF dotted_quad_length])

definition hex_text :: "u16 \<Rightarrow> string" where
  "hex_text x = ''0x'' @ fmt_X 4 (unat x)"

interpretation id_codec: value_codec hex_text "\<lambda>s. word_of_nat (strtoul s)" "\<lambda>_. True"
proof
  fix x :: u16
  have x: "unat x < 16 ^ 4"
    using unsigned_less [of x] by simp
  then show "length (hex_text x) \<le> 255"
    by (simp add: fmt_X_length hex_text_def)
  show "trim (hex_text x)"
    by (rule trim_graph) (auto simp: hex_text_def graph_digits [OF fmt_X_digits(1)] graph_def isspace_def)
  have "strtoul (hex_text x) = unat x"
    using x unfolding hex_text_def by (intro strtoul_fmt_X) (simp add: ULONG_MAX_def)
  then show "word_of_nat (strtoul (hex_text x)) = x"
    by simp
qed

interpretation u32_codec: value_codec "\<lambda>x :: u32. fmt_u (unat x)" "\<lambda>s. word_of_nat (strtoul s)" "\<lambda>_. True"
proof
  fix x :: u32
  have "unat x < 2 ^ 32"
    by (rule order.strict_trans2 [OF unsigned_less]) simp
  then have x: "unat x < 10 ^ 10"
    by simp
  show "length (fmt_u (unat x)) \<le> 255"
    using fmt_u_length [OF x] by simp
  show "trim (fmt_u (unat x))"
    by (simp add: trim_graph graph_digits [OF fmt_u_digits(1)])
  show "word_of_nat (strtoul (fmt_u (unat x))) = x"
    using x by (simp add: strtoul_fmt_u ULONG_MAX_def)
qed

interpretation int_codec: value_codec fmt_d atoi is_s32
  by unfold_locales (simp_all add: trim_graph atoi_fmt_d order.trans [OF fmt_d_length])

interpretation bool_codec: value_codec bool_text is_true "\<lambda>_. True"
  by unfold_locales (auto simp: bool_text_def is_true_def trim_def isspace_def)

interpretation text_codec: value_codec "\<lambda>s. s" "\<lambda>s. s" "\<lambda>s. trim s \<and> length s \<le> 255"
  by unfold_locales auto

section \<open>Saving and loading\<close>

text \<open>The saved text as lines.\<close>

definition setting_lines :: "app_config \<Rightarrow> string list" where
  "setting_lines cfg =
     (let d = device cfg; rt = realtime cfg in
      [''# p-net IO Device Manager Configuration'', ''# Auto-generated - edit with care'', [], ''# IO Device'',
       kv_line ''product_name'' (cstr (product_name d)),
       kv_line ''station_name'' (cstr (station_name d)),
       kv_line ''interface'' (cstr (interface_name d)),
       kv_line ''ip_addr'' (dotted_quad (ip_addr d)),
       kv_line ''netmask'' (dotted_quad (netmask d)),
       kv_line ''gateway'' (dotted_quad (gateway d)),
       kv_line ''vendor_id'' (hex_text (vendor_id d)),
       kv_line ''device_id'' (hex_text (device_id d)),
       kv_line ''tick_us'' (fmt_u (unat (tick_us d))),
       kv_line ''send_hello'' (bool_text (send_hello d)),
       kv_line ''file_directory'' (cstr (file_directory d)),
       [], ''# Logging'',
       kv_line ''log_level'' (fmt_d (log_level cfg)),
       kv_line ''log_file'' (cstr (log_file cfg)),
       [], ''# Security'',
       kv_line ''security_enabled'' (bool_text (security_enabled cfg)),
       [], ''# Real-time'',
       kv_line ''realtime_enabled'' (bool_text (realtime_enabled cfg)),
       kv_line ''rt_priority'' (fmt_d (rt_priority rt)),
       kv_line ''rt_scheduling'' (bool_text (use_rt_scheduling rt)),
       kv_line ''lock_memory'' (bool_text (lock_memory rt)),
       kv_line ''isolate_cpu'' (fmt_d (isolate_cpu rt))])"

lemma ip_text_eq [simp]: "ip_text ip = Inr (dotted_quad ip)"
proof -
  have "length (dotted_quad ip) < 16"
    using dotted_quad_length [of ip] by simp
  moreover have "NUL \<notin> set (dotted_quad ip)"
    using ip_codec.encode_trim [of ip] by (simp add: trim_def)
  ultimately show ?thesis
    using snprintf_first [of "dotted_quad ip" "zeros 16"]
    by (auto simp: ip_text_def format_ip_def holds_terminated holds_cstr)
qed

text \<open>What a well-formed configuration is, and which one the file keeps.\<close>

definition wf_config :: "app_config \<Rightarrow> bool" where
  "wf_config c \<longleftrightarrow> wf_cfg (device c) \<and> str_field 16 (if_name (network c)) \<and> length (net_mac_addr (network c)) = 6 \<and>
     wf_policy (security c) \<and> str_field 256 (log_file c) \<and> str_field 256 (config_file c) \<and>
     is_s32 (log_level c) \<and> is_s32 (rt_priority (realtime c)) \<and> is_s32 (isolate_cpu (realtime c))"

definition savable :: "app_config \<Rightarrow> bool" where
  "savable c \<longleftrightarrow> trim (cstr (product_name (device c))) \<and> trim (cstr (station_name (device c))) \<and>
     trim (cstr (interface_name (device c))) \<and> trim (cstr (file_directory (device c))) \<and> trim (cstr (log_file c))"

lemma save_text_eq:
  assumes "wf_config cfg"
  shows "save_text cfg = Inr (join_lines (setting_lines cfg))"
proof -
  have "terminated (log_file cfg)" "wf_cfg (device cfg)"
    using assms str_field_terminated by (auto simp: wf_config_def)
  then show ?thesis
    using wf_cfg_terminated [of "device cfg"]
    by (simp add: save_text_def Let_def setting_lines_def kv_line_def hex_text_def)
qed

lemma keys_ok [simp]:
  "key_ok ''product_name''" "key_ok ''station_name''" "key_ok ''interface''" "key_ok ''ip_addr''"
  "key_ok ''netmask''" "key_ok ''gateway''" "key_ok ''vendor_id''" "key_ok ''device_id''" "key_ok ''tick_us''"
  "key_ok ''send_hello''" "key_ok ''file_directory''" "key_ok ''log_level''" "key_ok ''log_file''"
  "key_ok ''security_enabled''" "key_ok ''realtime_enabled''" "key_ok ''rt_priority''"
  "key_ok ''rt_scheduling''" "key_ok ''lock_memory''" "key_ok ''isolate_cpu''"
  by (simp_all add: key_ok_def trim_def isspace_def)

lemma field_text:
  assumes "str_field n b" "trim (cstr b)" "n \<le> 256"
  shows "trim (cstr b) \<and> length (cstr b) \<le> 255"
  using assms length_cstr_terminated [of b] last_nul_terminated [of b] by (auto simp: str_field_def)

lemma saved_lines_short:
  assumes "wf_config cfg" "savable cfg"
  shows "list_all line_ok (setting_lines cfg)"
proof -
  have s: "trim (cstr (product_name (device cfg))) \<and> length (cstr (product_name (device cfg))) \<le> 255"
    "trim (cstr (station_name (device cfg))) \<and> length (cstr (station_name (device cfg))) \<le> 255"
    "trim (cstr (interface_name (device cfg))) \<and> length (cstr (interface_name (device cfg))) \<le> 255"
    "trim (cstr (file_directory (device cfg))) \<and> length (cstr (file_directory (device cfg))) \<le> 255"
    "trim (cstr (log_file cfg)) \<and> length (cstr (log_file cfg)) \<le> 255"
    using assms by (auto simp: wf_config_def wf_cfg_def savable_def dest!: field_text)
  have i: "is_s32 (log_level cfg)" "is_s32 (rt_priority (realtime cfg))" "is_s32 (isolate_cpu (realtime cfg))"
    using assms by (simp_all add: wf_config_def)
  note short = text_codec.line_short ip_codec.line_short id_codec.line_short u32_codec.line_short
    bool_codec.line_short int_codec.line_short
  show ?thesis
    using s i by (simp add: setting_lines_def Let_def short) (simp add: line_ok_def)
qed

text \<open>The effect of each key.\<close>

lemma apply_kv_keys:
  "apply_kv c ''product_name'' v = c\<lparr>device := (device c)\<lparr>product_name := strncpy (product_name (device c)) v 25\<rparr>\<rparr>"
  "apply_kv c ''station_name'' v = c\<lparr>device := (device c)\<lparr>station_name := strncpy (station_name (device c)) v 240\<rparr>\<rparr>"
  "apply_kv c ''interface'' v = c\<lparr>device := (device c)\<lparr>interface_name := strncpy (interface_name (device c)) v 15\<rparr>,
     network := (network c)\<lparr>if_name := strncpy (if_name (network c)) v 15\<rparr>\<rparr>"
  "apply_kv c ''ip_addr'' v = c\<lparr>device := (device c)\<lparr>ip_addr := parse_ip v\<rparr>,
     network := (network c)\<lparr>net_ip_addr := parse_ip v\<rparr>\<rparr>"
  "apply_kv c ''netmask'' v = c\<lparr>device := (device c)\<lparr>netmask := parse_ip v\<rparr>,
     network := (network c)\<lparr>net_netmask := parse_ip v\<rparr>\<rparr>"
  "apply_kv c ''gateway'' v = c\<lparr>device := (device c)\<lparr>gateway := parse_ip v\<rparr>,
     network := (network c)\<lparr>net_gateway := parse_ip v\<rparr>\<rparr>"
  "apply_kv c ''vendor_id'' v = c\<lparr>device := (device c)\<lparr>vendor_id := word_of_nat (strtoul v)\<rparr>\<rparr>"
  "apply_kv c ''device_id'' v = c\<lparr>device := (device c)\<lparr>device_id := word_of_nat (strtoul v)\<rparr>\<rparr>"
  "apply_kv c ''tick_us'' v = c\<lparr>device := (device c)\<lparr>tick_us := word_of_nat (strtoul v)\<rparr>\<rparr>"
  "apply_kv c ''send_hello'' v = c\<lparr>device := (device c)\<lparr>send_hello := is_true v\<rparr>\<rparr>"
  "apply_kv c ''file_directory'' v =
     c\<lparr>device := (device c)\<lparr>file_directory := strncpy (file_directory (device c)) v 239\<rparr>\<rparr>"
  by (simp_all add: apply_kv_def Let_def)

lemma apply_kv_keys2:
  "apply_kv c ''log_level'' v = c\<lparr>log_level := atoi v\<rparr>"
  "apply_kv c ''log_file'' v = c\<lparr>log_file := strncpy (log_file c) v 255\<rparr>"
  "apply_kv c ''security_enabled'' v = c\<lparr>security_enabled := is_true v\<rparr>"
  "apply_kv c ''realtime_enabled'' v = c\<lparr>realtime_enabled := is_true v\<rparr>"
  "apply_kv c ''rt_priority'' v = c\<lparr>realtime := (realtime c)\<lparr>rt_priority := atoi v\<rparr>\<rparr>"
  "apply_kv c ''rt_scheduling'' v = c\<lparr>realtime := (realtime c)\<lparr>use_rt_scheduling := is_true v\<rparr>\<rparr>"
  "apply_kv c ''lock_memory'' v = c\<lparr>realtime := (realtime c)\<lparr>lock_memory := is_true v\<rparr>\<rparr>"
  "apply_kv c ''isolate_cpu'' v = c\<lparr>realtime := (realtime c)\<lparr>isolate_cpu := atoi v\<rparr>\<rparr>"
  by (simp_all add: apply_kv_def CONFIG_MAX_PATH_def)

text \<open>What loading the saved text of \<open>cfg\<close> makes of a configuration \<open>c\<close>.\<close>

definition restored :: "app_config \<Rightarrow> app_config \<Rightarrow> app_config" where
  "restored cfg c =
     c\<lparr>device := (device c)
         \<lparr>product_name := strncpy (product_name (device c)) (cstr (product_name (device cfg))) 25,
          station_name := strncpy (station_name (device c)) (cstr (station_name (device cfg))) 240,
          interface_name := strncpy (interface_name (device c)) (cstr (interface_name (device cfg))) 15,
          ip_addr := ip_addr (device cfg), netmask := netmask (device cfg), gateway := gateway (device cfg),
          vendor_id := vendor_id (device cfg), device_id := device_id (device cfg), tick_us := tick_us (device cfg),
          send_hello := send_hello (device cfg),
          file_directory := strncpy (file_directory (device c)) (cstr (file_directory (device cfg))) 239\<rparr>,
       network := (network c)
         \<lparr>if_name := strncpy (if_name (network c)) (cstr (interface_name (device cfg))) 15,
          net_ip_addr := ip_addr (device cfg), net_netmask := netmask (device cfg), net_gateway := gateway (device cfg)\<rparr>,
       security_enabled := security_enabled cfg,
       realtime := (realtime c)\<lparr>rt_priority := rt_priority (realtime cfg), use_rt_scheduling := use_rt_scheduling (realtime cfg),
         lock_memory := lock_memory (realtime cfg), isolate_cpu := isolate_cpu (realtime cfg)\<rparr>,
       realtime_enabled := realtime_enabled cfg, log_level := log_level cfg,
       log_file := strncpy (log_file c) (cstr (log_file cfg)) 255\<rparr>"

lemma load_comment:
  "load_line c (''# p-net IO Device Manager Configuration'' @ [NL]) = c"
  "load_line c (''# Auto-generated - edit with care'' @ [NL]) = c"
  "load_line c (''# IO Device'' @ [NL]) = c" "load_line c (''# Logging'' @ [NL]) = c"
  "load_line c (''# Security'' @ [NL]) = c" "load_line c (''# Real-time'' @ [NL]) = c" "load_line c [NL] = c"
  unfolding load_line_def by (subst parse_skipped; simp add: isspace_def)+

lemma load_saved:
  assumes "wf_config cfg" "savable cfg"
  shows "load_lines c (join_lines (setting_lines cfg)) = restored cfg c"
proof -
  have s: "trim (cstr (product_name (device cfg))) \<and> length (cstr (product_name (device cfg))) \<le> 255"
    "trim (cstr (station_name (device cfg))) \<and> length (cstr (station_name (device cfg))) \<le> 255"
    "trim (cstr (interface_name (device cfg))) \<and> length (cstr (interface_name (device cfg))) \<le> 255"
    "trim (cstr (file_directory (device cfg))) \<and> length (cstr (file_directory (device cfg))) \<le> 255"
    "trim (cstr (log_file cfg)) \<and> length (cstr (log_file cfg)) \<le> 255"
    using assms by (auto simp: wf_config_def wf_cfg_def savable_def dest!: field_text)
  have i: "is_s32 (log_level cfg)" "is_s32 (rt_priority (realtime cfg))" "is_s32 (isolate_cpu (realtime cfg))"
    using assms by (simp_all add: wf_config_def)
  note loads = text_codec.line_loads [OF _ s(1)] text_codec.line_loads [OF _ s(2)] text_codec.line_loads [OF _ s(3)]
    text_codec.line_loads [OF _ s(4)] text_codec.line_loads [OF _ s(5)]
    ip_codec.line_loads id_codec.line_loads u32_codec.line_loads bool_codec.line_loads
    int_codec.line_loads [OF _ i(1)] int_codec.line_loads [OF _ i(2)] int_codec.line_loads [OF _ i(3)]
  show ?thesis
    unfolding load_lines_join [OF saved_lines_short [OF assms]]
    unfolding setting_lines_def Let_def
    by (simp del: append_Cons add: load_comment loads apply_kv_keys apply_kv_keys2 restored_def
        ip_codec.decode_encode id_codec.decode_encode u32_codec.decode_encode
        bool_codec.decode_encode int_codec.decode_encode i)
qed

section \<open>Well-formedness\<close>

lemma default_eq: "the (app_config_default (Some c)) = the (app_config_default (Some d))"
  by (simp add: app_config_default_def)

lemma wf_default: "wf_config (the (app_config_default (Some c)))"
proof -
  have "wf_policy zero_policy"
    by (simp add: wf_policy_def zero_policy_def list_all_iff)
  then show ?thesis
    by (simp add: wf_config_def app_config_default_def zero_config_def default_device_def zero_net_config_def
      wf_cfg_def zero_cfg_def str_field_strncpy CONFIG_MAX_PATH_def rt_config_default_def zero_rt_config_def
      is_s32_def sec_policy_init_def zero_policy_def)
qed

lemma is_s32_atoi [simp]: "is_s32 (atoi s)"
  by (simp add: atoi_def split_def Let_def)

lemma apply_kv_wf: "wf_config c \<Longrightarrow> wf_config (apply_kv c k v)"
  unfolding apply_kv_def Let_def CONFIG_MAX_PATH_def
  by (simp add: wf_config_def wf_cfg_def str_field_strncpy split del: if_split) (simp split: if_split add: str_field_strncpy)

text \<open>What every assignment of a key keeps, a whole file keeps.\<close>

lemma load_lines_keep:
  assumes "\<And>c k v. P c \<Longrightarrow> P (apply_kv c k v)" "P c"
  shows "P (load_lines c t)"
  using assms(2)
proof (induction c t rule: load_lines.induct)
  case (1 c t)
  have "P (load_line c l)" for l
    using assms(1) "1.prems" by (simp add: load_line_def split: option.splits prod.splits)
  then show ?case
    using "1.IH" "1.prems" by (subst load_lines.simps) (auto split: option.splits)
qed

lemma load_lines_wf: "wf_config c \<Longrightarrow> wf_config (load_lines c t)"
  by (rule load_lines_keep) (rule apply_kv_wf)

text \<open>The parts of the configuration no key of the file reaches.\<close>

definition unreached ::
    "app_config \<Rightarrow> u8 list \<times> u8 list \<times> bool \<times> tcp_tuning_config \<times> sec_policy \<times> bool \<times> bool \<times> buf" where
  "unreached c = (mac_addr (device c), net_mac_addr (network c), configured (network c), tcp_tuning c, security c,
     disable_cpu_freq (realtime c), disable_irq_balance (realtime c), config_file c)"

lemma apply_kv_unreached: "unreached (apply_kv c k v) = unreached c"
  by (simp add: apply_kv_def Let_def unreached_def)

lemma load_lines_unreached: "unreached (load_lines c t) = unreached c"
  by (rule load_lines_keep [where P = "\<lambda>c'. unreached c' = unreached c"]) (simp_all add: apply_kv_unreached)

text \<open>The network part of the configuration mirrors the device part.\<close>

definition mirrored :: "app_config \<Rightarrow> bool" where
  "mirrored c \<longleftrightarrow> if_name (network c) = interface_name (device c) \<and> net_ip_addr (network c) = ip_addr (device c) \<and>
     net_netmask (network c) = netmask (device c) \<and> net_gateway (network c) = gateway (device c)"

lemma apply_kv_mirrored: "mirrored c \<Longrightarrow> mirrored (apply_kv c k v)"
  by (simp add: apply_kv_def Let_def mirrored_def)

lemma load_lines_mirrored: "mirrored c \<Longrightarrow> mirrored (load_lines c t)"
  by (rule load_lines_keep) (rule apply_kv_mirrored)

lemma default_mirrored: "mirrored (the (app_config_default (Some c)))"
  by (simp add: mirrored_def app_config_default_def default_device_def)

text \<open>The settings the file holds, strings as the C strings they are.\<close>

definition settings where
  "settings c = ((cstr (product_name (device c)), cstr (station_name (device c)), cstr (interface_name (device c)),
      cstr (file_directory (device c)), cstr (log_file c)),
     (ip_addr (device c), netmask (device c), gateway (device c)),
     (vendor_id (device c), device_id (device c), tick_us (device c), send_hello (device c)),
     (log_level c, security_enabled c, realtime_enabled c),
     (rt_priority (realtime c), use_rt_scheduling (realtime c), lock_memory (realtime c), isolate_cpu (realtime c)))"

lemma cstr_cstr [simp]: "cstr (cstr b) = cstr b"
  by (rule cstr_id) simp

lemma cstr_refill:
  assumes "str_field n b" "str_field n dst" "0 < n"
  shows "cstr (strncpy dst (cstr b) (n - 1)) = cstr b"
proof -
  have b: "length (cstr b) < n" and dst: "length dst = n" "last_nul dst"
    using assms length_cstr_terminated [of b] by (auto simp: str_field_def last_nul_terminated)
  have "drop (n - 1) dst = [NUL]"
  proof -
    have "drop (n - 1) dst = [last dst]"
      using dst assms(3) by (metis One_nat_def append_butlast_last_id append_eq_conv_conj last_nul_def length_butlast)
    then show ?thesis
      using dst(2) by (simp add: last_nul_def)
  qed
  then have "cstr (drop (n - 1) dst) = []"
    by (simp add: cstr_def)
  then show ?thesis
    using b cstr_strncpy [of "n - 1" dst "cstr b"] dst assms(3) by (simp add: not_less)
qed

lemma restored_settings:
  assumes "wf_config cfg" "wf_config c"
  shows "settings (restored cfg c) = settings cfg"
proof -
  have r: "str_field 26 (product_name (device cfg))" "str_field 241 (station_name (device cfg))"
      "str_field 16 (interface_name (device cfg))" "str_field 240 (file_directory (device cfg))" "str_field 256 (log_file cfg)"
    using assms(1) by (simp_all add: wf_config_def wf_cfg_def)
  have s: "str_field 26 (product_name (device c))" "str_field 241 (station_name (device c))"
      "str_field 16 (interface_name (device c))" "str_field 240 (file_directory (device c))" "str_field 256 (log_file c)"
    using assms(2) by (simp_all add: wf_config_def wf_cfg_def)
  show ?thesis
    using cstr_refill [OF r(1) s(1)] cstr_refill [OF r(2) s(2)] cstr_refill [OF r(3) s(3)]
      cstr_refill [OF r(4) s(4)] cstr_refill [OF r(5) s(5)]
    by (simp add: settings_def restored_def)
qed

lemma load_eq:
  "fopen_r f p = Some txt \<Longrightarrow> app_config_load f (Some c) (Some p) =
     (0, Some (load_lines ((the (app_config_default (Some c)))\<lparr>config_file := strncpy (zeros 256) p 255\<rparr>) txt))"
proof -
  assume "fopen_r f p = Some txt"
  moreover have "strncpy (config_file (the (app_config_default (Some c)))) p 255 = strncpy (zeros 256) p 255"
    by (simp add: app_config_default_def strncpy_def CONFIG_MAX_PATH_def zeros_def)
  ultimately show ?thesis
    by (simp add: app_config_load_def CONFIG_MAX_PATH_def)
qed

lemma wf_start: "wf_config ((the (app_config_default (Some c)))\<lparr>config_file := strncpy (zeros 256) p 255\<rparr>)"
  using wf_default [of c] by (simp add: wf_config_def str_field_strncpy)

section \<open>Properties\<close>

lemma save_eq:
  assumes "wf_config c" "can_write f p" "\<And>t. accepts f p t"
  shows "\<exists>f'. app_config_save f (Some c) (Some p) = Inr (0, f') \<and> can_read f' = can_read f \<and>
    content f' p = Some (join_lines (setting_lines c))"
  using assms by (auto simp: app_config_save_def save_text_eq write_file_def Let_def)

definition default_config :: app_config where
  "default_config = the (app_config_default (Some zero_config))"

lemma wf_default_config: "wf_config default_config"
  unfolding default_config_def by (rule wf_default)

lemma savable_default_config: "savable default_config"
  by (simp add: savable_def default_config_def app_config_default_def default_device_def zero_cfg_def zero_config_def
    cstr_strncpy_zeros CONFIG_MAX_PATH_def cstr_id trim_def isspace_def)

text \<open>Validation depends on the saved settings only.\<close>

lemma validate_eq:
  assumes "wf_config c"
  shows "app_config_validate (Some c) = Inr (if cstr (interface_name (device c)) \<noteq> [] \<and>
    ip_addr (device c) \<notin> {0, 0xFFFFFFFF} \<and> tick_us (device c) \<noteq> 0 \<and>
    vendor_id (device c) \<noteq> 0 \<and> device_id (device c) \<noteq> 0 \<and> log_level c \<in> {0..3} \<and>
    (realtime_enabled c \<longrightarrow> rt_priority (realtime c) \<in> {1..99}) then 0 else -1)"
proof -
  have "interface_name (device c) \<noteq> []"
    using assms by (auto simp: wf_config_def wf_cfg_def str_field_def)
  then show ?thesis
    by (cases "interface_name (device c)") (auto simp: app_config_validate_def cstr_def)
qed

lemma validate_settings:
  assumes "wf_config c" "wf_config c'" "settings c' = settings c"
  shows "app_config_validate (Some c') = app_config_validate (Some c)"
  using assms(3) by (simp add: validate_eq [OF assms(1)] validate_eq [OF assms(2)] settings_def)

lemma default_config_fields:
  "cstr (interface_name (device default_config)) = ''eth0''" "ip_addr (device default_config) = 0xC0A80064"
  "netmask (device default_config) = 0xFFFFFF00" "tick_us (device default_config) = 1000"
  "vendor_id (device default_config) = 1" "device_id (device default_config) = 1" "log_level default_config = 2"
  "rt_priority (realtime default_config) = 80" "security_enabled default_config"
  by (simp_all add: default_config_def app_config_default_def default_device_def cstr_strncpy_zeros cstr_id rt_config_default_def
      parse_ip_def scan_quad_def scan_u_def scan_lu_def scan_char_def starts_dig_def is_dig_def digit_val_def isspace_def
      to_ulong_def ULONG_MAX_def of_octets_def)

text \<open>
  C7: a configuration whose strings are non-empty, have no white space at their ends and no
  line breaks survives being saved and loaded: both calls return 0 and every setting of the
  file format comes back unchanged, whatever the target held before; so validation decides
  about the loaded configuration as it did about the saved one.
\<close>
theorem config_round_trip:
  assumes "wf_config c" "savable c" "can_write f p" "can_read f p" "\<And>t. accepts f p t"
  shows "\<exists>f' c'. app_config_save f (Some c) (Some p) = Inr (0, f') \<and>
    app_config_load f' (Some c0) (Some p) = (0, Some c') \<and> settings c' = settings c \<and>
    app_config_validate (Some c') = app_config_validate (Some c)"
proof -
  obtain f' where f': "app_config_save f (Some c) (Some p) = Inr (0, f')" "can_read f' = can_read f"
    "content f' p = Some (join_lines (setting_lines c))"
    using save_eq [OF assms(1,3,5)] by blast
  then have "fopen_r f' p = Some (join_lines (setting_lines c))"
    using assms(4) by (simp add: fopen_r_def)
  then have l: "app_config_load f' (Some c0) (Some p) =
      (0, Some (load_lines ((the (app_config_default (Some c0)))\<lparr>config_file := strncpy (zeros 256) p 255\<rparr>)
        (join_lines (setting_lines c))))"
    by (rule load_eq)
  let ?c = "load_lines ((the (app_config_default (Some c0)))\<lparr>config_file := strncpy (zeros 256) p 255\<rparr>) (join_lines (setting_lines c))"
  have s: "settings ?c = settings c"
    using load_saved [OF assms(1,2)] restored_settings [OF assms(1) wf_start [of p c0]] by simp
  have "wf_config ?c"
    by (rule load_lines_wf [OF wf_start])
  then show ?thesis
    using f'(1) l s validate_settings [OF assms(1) _ s] by blast
qed

theorem config_round_trip_witness:
  "\<exists>f' c'. app_config_save (open_fs Map.empty) (Some default_config) (Some ''/etc/pnet.conf'') = Inr (0, f') \<and>
    app_config_load f' (Some zero_config) (Some ''/etc/pnet.conf'') = (0, Some c') \<and> settings c' = settings default_config"
  using config_round_trip [OF wf_default_config savable_default_config, of "open_fs Map.empty" "''/etc/pnet.conf''" zero_config]
  by (fastforce simp: open_fs_def)

text \<open>
  C13: loading succeeds exactly when the file can be opened, for every content: any sequence
  of bytes yields a well-formed configuration, in which the hardware addresses, the rules of
  the security policy, the TCP tuning and the two real-time switches without a key keep
  their defaults and the path is the one given, cut to 255 characters. The addresses and the
  interface of the network part are those of the device part.
\<close>
theorem load_total:
  shows "app_config_load f (Some c) (Some p) =
      (case fopen_r f p of None \<Rightarrow> (-1, Some c) | Some t \<Rightarrow>
         (0, Some (load_lines (default_config\<lparr>config_file := strncpy (zeros 256) p 255\<rparr>) t))) \<and>
    wf_config (load_lines (default_config\<lparr>config_file := strncpy (zeros 256) p 255\<rparr>) t) \<and>
    unreached (load_lines (default_config\<lparr>config_file := strncpy (zeros 256) p 255\<rparr>) t) =
      unreached (default_config\<lparr>config_file := strncpy (zeros 256) p 255\<rparr>) \<and>
    mirrored (load_lines (default_config\<lparr>config_file := strncpy (zeros 256) p 255\<rparr>) t)"
proof -
  have d: "the (app_config_default (Some c)) = default_config"
    unfolding default_config_def by (rule default_eq)
  have "app_config_load f (Some c) (Some p) =
      (case fopen_r f p of None \<Rightarrow> (-1, Some c) | Some t \<Rightarrow>
         (0, Some (load_lines (default_config\<lparr>config_file := strncpy (zeros 256) p 255\<rparr>) t)))"
    using load_eq [of f p _ c] by (cases "fopen_r f p") (auto simp: app_config_load_def d)
  moreover have "mirrored (default_config\<lparr>config_file := strncpy (zeros 256) p 255\<rparr>)"
    using default_mirrored [of c] by (simp add: d mirrored_def)
  ultimately show ?thesis
    using wf_start [of p c] by (simp add: load_lines_wf load_lines_unreached load_lines_mirrored d)
qed

text \<open>
  C29: on a well-formed configuration validation never reads outside a field, and it accepts
  exactly when the interface name is not empty, the address is neither 0.0.0.0 nor
  255.255.255.255, the tick interval and both identifiers are not 0, the log level is 0 to 3
  and, with real-time enabled, the priority is 1 to 99. So the real-time module never refuses
  an accepted configuration; but an accepted address can be one that the network module
  calls invalid, such as 240.0.0.1.
\<close>
theorem validate_iff:
  assumes "wf_config c"
  shows "app_config_validate (Some c) =
      Inr (if cstr (interface_name (device c)) \<noteq> [] \<and> ip_addr (device c) \<notin> {0, 0xFFFFFFFF} \<and> tick_us (device c) \<noteq> 0 \<and>
        vendor_id (device c) \<noteq> 0 \<and> device_id (device c) \<noteq> 0 \<and> log_level c \<in> {0..3} \<and>
        (realtime_enabled c \<longrightarrow> rt_priority (realtime c) \<in> {1..99}) then 0 else -1) \<and>
    (app_config_validate (Some c) = Inr 0 \<longrightarrow> realtime_enabled c \<longrightarrow>
      rt_setup_init st (Some (realtime c)) = (0, st\<lparr>g_rt_config := realtime c, g_rt_initialized := True\<rparr>)) \<and>
    (app_config_validate (Some c) = Inr 0 \<longrightarrow>
      app_config_validate (Some (c\<lparr>device := (device c)\<lparr>ip_addr := 0xF0000001\<rparr>\<rparr>)) = Inr 0 \<and>
      \<not> net_ip_is_valid e (htonl e 0xF0000001))"
proof -
  have "wf_config (c\<lparr>device := (device c)\<lparr>ip_addr := 0xF0000001\<rparr>\<rparr>)"
    using assms by (simp add: wf_config_def wf_cfg_def)
  moreover have "\<not> net_ip_is_valid e (htonl e 0xF0000001)"
    by (simp add: net_ip_is_valid_def)
  ultimately show ?thesis
    using assms by (simp add: validate_eq rt_setup_init_def)
qed

theorem validate_iff_witness:
  "app_config_validate (Some default_config) = Inr 0"
  by (subst validate_iff [OF wf_default_config, THEN conjunct1]) (simp add: default_config_fields)

text \<open>A line with a key and a value, in the form the program saves it.\<close>

lemma load_kv_line: "key_ok k \<Longrightarrow> trim v \<Longrightarrow> load_line c (kv_line k v @ [NL]) = apply_kv c k v"
  by (simp add: load_line_def parse_kv_line)

lemma empty_value_skipped:
  assumes "key_ok k"
  shows "load_line c (kv_line k [] @ [NL]) = c"
proof -
  have clean: "NUL \<notin> set (kv_line k [])" "CR \<notin> set (kv_line k [])" "NL \<notin> set (kv_line k [])"
    using assms by (auto simp: kv_line_def key_ok_def trim_def)
  have "trim (kv_line k [])"
    using assms by (cases k) (auto simp: kv_line_def key_ok_def trim_def isspace_def)
  then have line: "strip (takeWhile (\<lambda>c. c \<noteq> CR \<and> c \<noteq> NL) (cstr (kv_line k [] @ [NL]))) = kv_line k []"
    using cut_line [OF clean] by (simp add: strip_trim)
  have "takeWhile (\<lambda>c. c \<noteq> CHR ''='') (kv_line k []) = k"
    using assms unfolding key_ok_def kv_line_def by (simp add: takeWhile_append takeWhile_eq_all_conv)
  then show ?thesis
    unfolding load_line_def parse_line_def Let_def line by (simp add: kv_line_def)
qed

text \<open>
  C40: what the lines of a file mean. A flag is set only by the exact values \<open>true\<close> and \<open>1\<close>;
  everything after the value on its line belongs to the value, so a flag with a comment
  behind it, as in the README's sample, is read as false. A decimal identifier or tick
  interval is read modulo the width of its field, without an error: 65537 is accepted as
  vendor 1. A key without a value is skipped, so an empty string that is saved comes back
  as the default.
\<close>
theorem config_lines:
  shows "(trim v \<longrightarrow> (\<forall>k \<in> {''send_hello'', ''security_enabled'', ''realtime_enabled'', ''rt_scheduling'', ''lock_memory''}.
      let c' = load_line c (kv_line k v @ [NL]) in
        (if k = ''send_hello'' then send_hello (device c') else if k = ''security_enabled'' then security_enabled c'
         else if k = ''realtime_enabled'' then realtime_enabled c'
         else if k = ''rt_scheduling'' then use_rt_scheduling (realtime c') else lock_memory (realtime c')) =
        (v = ''true'' \<or> v = ''1''))) \<and>
    (n \<le> ULONG_MAX \<longrightarrow>
      vendor_id (device (load_line c (kv_line ''vendor_id'' (fmt_u n) @ [NL]))) = word_of_nat n \<and>
      device_id (device (load_line c (kv_line ''device_id'' (fmt_u n) @ [NL]))) = word_of_nat n \<and>
      tick_us (device (load_line c (kv_line ''tick_us'' (fmt_u n) @ [NL]))) = word_of_nat n) \<and>
    (key_ok k \<longrightarrow> load_line c (kv_line k [] @ [NL]) = c)"
proof -
  have "trim (fmt_u n)"
    by (simp add: trim_graph graph_digits [OF fmt_u_digits(1)])
  then show ?thesis
    using empty_value_skipped [of k c]
    by (simp add: Let_def load_kv_line apply_kv_keys apply_kv_keys2 is_true_def strtoul_fmt_u)
qed

theorem config_lines_witness:
  "\<not> lock_memory (realtime (load_line default_config (''lock_memory=1  # mlockall'' @ [NL]))) \<and>
   vendor_id (device (load_line default_config (kv_line ''vendor_id'' (fmt_u 65537) @ [NL]))) = 1 \<and>
   load_line default_config (''log_file='' @ [NL]) = default_config"
proof -
  have "trim ''1  # mlockall''"
    by (simp add: trim_def isspace_def)
  then show ?thesis
    using config_lines [of "''1  # mlockall''" default_config 65537 "''log_file''"]
    by (simp add: kv_line_def ULONG_MAX_def)
qed

end
