(* ===== verification/Cmdline.thy ===== *)
theory Cmdline
  imports Prelude
begin

text \<open>
  The command line of main.c: the options, the usage text, and the loop over \<open>getopt\<close>.
  \<open>getopt\<close> is the C library's; it is modelled for the option string \<open>c:vh\<close> the program passes.
  It reads the elements after the program name: an element that starts with a dash holds a
  cluster of option letters, \<open>-c\<close> takes the rest of its element or else the next element,
  and \<open>--\<close> ends the options. The C libraries differ in what an operand does: GNU's skips it,
  by moving it behind the options, while the others, and GNU's too where POSIXLY_CORRECT
  is set, end the options there. The flag \<open>perm\<close> says which one is used.
\<close>

section \<open>Options\<close>

definition DEFAULT_CONFIG_FILE :: string where "DEFAULT_CONFIG_FILE = ''/etc/pnet-manager/config.conf''"
definition EXIT_SUCCESS :: int where "EXIT_SUCCESS = 0"
definition EXIT_FAILURE :: int where "EXIT_FAILURE = 1"

text \<open>
  What a call of \<open>getopt\<close> returns: one of the three letters, the first with its argument,
  or a question mark, for an unknown letter and for a missing argument.
\<close>

datatype opt = Opt_c string | Opt_v | Opt_h | Opt_other

definition flag_opt :: "char \<Rightarrow> opt" where
  "flag_opt ch = (if ch = CHR ''v'' then Opt_v else if ch = CHR ''h'' then Opt_h else Opt_other)"

text \<open>The options of one cluster, and the elements left after it.\<close>

fun getopt_cluster :: "string \<Rightarrow> string list \<Rightarrow> opt list \<times> string list" where
  "getopt_cluster [] as = ([], as)"
| "getopt_cluster (ch # cs) as =
     (if ch = CHR ''c'' then
        (if cs \<noteq> [] then ([Opt_c cs], as)
         else case as of [] \<Rightarrow> ([Opt_other], []) | a # as' \<Rightarrow> ([Opt_c a], as'))
      else (case getopt_cluster cs as of (os, rest) \<Rightarrow> (flag_opt ch # os, rest)))"

lemma getopt_cluster_length: "getopt_cluster cs as = (os, rest) \<Longrightarrow> length rest \<le> length as"
  by (induction cs arbitrary: os) (auto split: if_splits list.splits prod.splits)

definition is_operand :: "string \<Rightarrow> bool" where
  "is_operand a \<longleftrightarrow> length a < 2 \<or> hd a \<noteq> CHR ''-''"

text \<open>Everything \<open>getopt\<close> returns when it is called until it returns -1.\<close>

function getopt :: "bool \<Rightarrow> string list \<Rightarrow> opt list" where
  "getopt perm [] = []"
| "getopt perm (a # as) =
     (if a = ''--'' then []
      else if is_operand a then (if perm then getopt perm as else [])
      else (case getopt_cluster (tl a) as of (os, rest) \<Rightarrow> os @ getopt perm rest))"
  by pat_completeness auto
termination
  by (relation "measure (length \<circ> snd)") (auto dest: getopt_cluster_length [OF sym])

section \<open>The loop over the options\<close>

definition print_usage :: "string \<Rightarrow> string" where
  "print_usage prog =
     ''Usage: '' @ prog @ '' [OPTIONS]'' @ [NL, NL] @
     ''Options:'' @ [NL] @
     ''  -c <file>   Path to configuration file'' @ [NL] @
     ''              (default: '' @ DEFAULT_CONFIG_FILE @ '')'' @ [NL] @
     ''  -v          Verbose output (set log level to DEBUG)'' @ [NL] @
     ''  -h          Show this help message'' @ [NL] @
     [NL] @
     ''Signals:'' @ [NL] @
     ''  SIGINT, SIGTERM   Graceful shutdown'' @ [NL]"

text \<open>The program leaves the loop with an exit status and the usage text, or with path and verbosity.\<close>

fun parse_opts :: "string \<Rightarrow> opt list \<Rightarrow> string \<Rightarrow> bool \<Rightarrow> (int \<times> string) + (string \<times> bool)" where
  "parse_opts prog [] path verbose = Inr (path, verbose)"
| "parse_opts prog (Opt_c f # os) path verbose = parse_opts prog os f verbose"
| "parse_opts prog (Opt_v # os) path verbose = parse_opts prog os path True"
| "parse_opts prog (Opt_h # os) path verbose = Inl (EXIT_SUCCESS, print_usage prog)"
| "parse_opts prog (Opt_other # os) path verbose = Inl (EXIT_FAILURE, print_usage prog)"

definition parse_args :: "bool \<Rightarrow> string list \<Rightarrow> (int \<times> string) + (string \<times> bool)" where
  "parse_args perm argv =
     (case argv of
        [] \<Rightarrow> Inr (DEFAULT_CONFIG_FILE, False)
      | prog # as \<Rightarrow> parse_opts prog (getopt perm as) DEFAULT_CONFIG_FILE False)"

section \<open>Writing options and reading them\<close>

text \<open>How a user writes an option; the flag asks for a file name attached to its letter.\<close>

fun spell :: "bool \<times> opt \<Rightarrow> string list" where
  "spell (attached, Opt_c f) = (if attached \<and> f \<noteq> [] then [''-c'' @ f] else [''-c'', f])"
| "spell (attached, Opt_v) = [''-v'']"
| "spell (attached, Opt_h) = [''-h'']"
| "spell (attached, Opt_other) = [''-?'']"

lemma getopt_spell: "getopt perm (spell o1 @ as) = snd o1 # getopt perm as"
  by (cases o1 rule: spell.cases) (auto simp: is_operand_def flag_opt_def)

lemma getopt_spells: "getopt perm (concat (map spell os) @ as) = map snd os @ getopt perm as"
  by (induction os) (simp_all add: getopt_spell del: getopt.simps)

lemma getopt_flag:
  "x \<notin> {CHR ''c'', CHR ''-''} \<Longrightarrow> getopt perm ([CHR ''-'', x] # as) = flag_opt x # getopt perm as"
  by (simp add: is_operand_def)

text \<open>The file names among the options, in order.\<close>

fun opt_files :: "opt list \<Rightarrow> string list" where
  "opt_files [] = []"
| "opt_files (Opt_c f # os) = f # opt_files os"
| "opt_files (_ # os) = opt_files os"

lemma parse_opts_plain:
  "Opt_h \<notin> set os \<Longrightarrow> Opt_other \<notin> set os \<Longrightarrow>
   parse_opts prog (os @ os') path verbose = parse_opts prog os' (last (path # opt_files os)) (verbose \<or> Opt_v \<in> set os)"
  by (induction prog os path verbose rule: parse_opts.induct) auto

lemma parse_opts_codes: "parse_opts prog os path verbose = Inl (code, t) \<Longrightarrow> code \<in> {EXIT_SUCCESS, EXIT_FAILURE} \<and> t = print_usage prog"
  by (induction prog os path verbose rule: parse_opts.induct) auto

lemma parse_args_codes: "parse_args perm argv = Inl (code, t) \<Longrightarrow> code \<in> {EXIT_SUCCESS, EXIT_FAILURE}"
  by (auto simp: parse_args_def split: list.splits dest: parse_opts_codes)

section \<open>Properties\<close>

text \<open>
  C20: what a user writes is what the program reads. After options \<open>-c\<close> and \<open>-v\<close>, with
  the file names attached or in an element of their own and even when they look like options,
  the last \<open>-c\<close> decides the file, without one the default does, and verbosity is on exactly
  when there is a \<open>-v\<close>. A following \<open>-h\<close> ends the program with status 0 and the usage text,
  an unknown letter or a \<open>-c\<close> without its file with status 1 and the same text. A
  following \<open>--\<close> ends the options; an operand does so too, or is skipped, as the C library
  has it.
\<close>
theorem command_line:
  assumes "Opt_h \<notin> snd ` set os" "Opt_other \<notin> snd ` set os"
    and "given = concat (map spell os)"
    and "result = Inr (last (DEFAULT_CONFIG_FILE # opt_files (map snd os)), Opt_v \<in> snd ` set os)"
  shows "parse_args perm (prog # given) = result \<and>
    parse_args perm (prog # given @ ''--'' # rest) = result \<and>
    parse_args perm (prog # given @ ''-h'' # rest) = Inl (EXIT_SUCCESS, print_usage prog) \<and>
    (x \<notin> {CHR ''c'', CHR ''v'', CHR ''h'', CHR ''-''} \<longrightarrow>
      parse_args perm (prog # given @ [CHR ''-'', x] # rest) = Inl (EXIT_FAILURE, print_usage prog)) \<and>
    parse_args perm (prog # given @ [''-c'']) = Inl (EXIT_FAILURE, print_usage prog) \<and>
    (is_operand a \<longrightarrow> parse_args perm (prog # given @ a # rest) =
      (if perm then parse_args perm (prog # given @ rest) else result))"
proof -
  have flags: "Opt_h \<notin> set (map snd os)" "Opt_other \<notin> set (map snd os)"
    using assms(1,2) by auto
  have after: "parse_args p (prog # given @ as) =
      parse_opts prog (getopt p as) (last (DEFAULT_CONFIG_FILE # opt_files (map snd os))) (Opt_v \<in> snd ` set os)" for p as
    by (simp add: parse_args_def assms(3) getopt_spells parse_opts_plain [OF flags])
  have opts: "getopt perm (''--'' # rest) = []" "getopt perm (''-h'' # rest) = Opt_h # getopt perm rest"
    "getopt perm [''-c''] = [Opt_other]"
    "is_operand a \<Longrightarrow> getopt perm (a # rest) = (if perm then getopt perm rest else [])"
    by (auto simp: is_operand_def flag_opt_def)
  have unknown: "getopt perm ([CHR ''-'', x] # rest) = Opt_other # getopt perm rest"
    if "x \<notin> {CHR ''c'', CHR ''v'', CHR ''h'', CHR ''-''}"
    using that getopt_flag [of x perm rest] by (simp add: flag_opt_def)
  show ?thesis
    using after [of perm "[]"] by (simp add: after opts unknown assms(4) del: getopt.simps(2))
qed

theorem command_line_witness:
  "parse_args True [''pnet'', ''-ca.conf'', ''-v'', ''-c'', ''-h''] = Inr (''-h'', True) \<and>
   parse_args True [''pnet'', ''-ca.conf'', ''-v'', ''-c'', ''-h'', ''-x'', ''-v''] = Inl (1, print_usage ''pnet'') \<and>
   parse_args False [''pnet'', ''-ca.conf'', ''-v'', ''-c'', ''-h'', ''x'', ''-h''] = Inr (''-h'', True)"
  using command_line [OF _ _ refl refl, of "[(True, Opt_c ''a.conf''), (False, Opt_v), (False, Opt_c ''-h'')]"
      True "''pnet''" "[''-v'']" "CHR ''x''"]
    command_line [OF _ _ refl refl, of "[(True, Opt_c ''a.conf''), (False, Opt_v), (False, Opt_c ''-h'')]"
      False "''pnet''" "[''-h'']" _ "''x''"]
  by (simp add: is_operand_def EXIT_FAILURE_def)

end
