(* ===== verification/Main_Loop.thy ===== *)
theory Main_Loop
  imports App_Config Cmdline
begin

text \<open>
  main.c: the program. Its environment is the record \<open>env\<close> (platform, byte order, stack,
  whether it was built with systemd, which \<open>getopt\<close> it uses), the machine it runs on the
  record \<open>machine\<close>. Of what it prints, the usage text, the banner and the messages of the
  shutdown are kept in \<open>m_printed\<close>; the progress messages are left out. The notifications
  for systemd and the sleeps are kept as a list of effects, newest last.

  The files of the machine are in two places. \<open>m_files\<close> are those the program looks up its
  configuration in: it reads one of them, before the real-time set-up, and writes none. The
  files of the real-time module (the governors under /sys, /proc/self/status) are \<open>rt_files\<close>
  inside \<open>m_rtos\<close>, where rt_setup.c reads and writes them. What a run changes of the machine's
  files is therefore what it changes of \<open>rt_files\<close>, and \<open>main_terminates\<close> says which.

  The main loop runs until a signal arrives. Its input is the list of its passes: the
  monotonic clock a pass reads, and whether a signal is delivered during the pass; a signal
  that is delivered after the handlers were installed and before the loop is the flag
  \<open>early\<close>. When the list ends with the loop still running the result is \<open>None\<close>.
\<close>

section \<open>Data\<close>

record 'n env =
  e_platform :: platform
  e_endian :: endianness
  e_api :: "'n pnet_api"
  e_systemd :: bool
  e_permute :: bool

record machine =
  m_files :: fs
  m_net :: net_os
  m_rt :: rt_state
  m_rtos :: rt_os
  m_shell :: "string \<Rightarrow> int"
  m_cmds :: "string list"
  m_sigaction_ok :: bool
  m_printed :: string

datatype effect = Notify string | Sleep u32

record 'n loop_state =
  l_dev :: "'n io_device"
  g_running :: bool
  consecutive_errors :: int
  recovery_attempts :: int
  backoff_us :: u32
  last_watchdog_ms :: u64
  effects :: "effect list"

definition PNET_MGR_VERSION :: string where "PNET_MGR_VERSION = ''1.0.1''"
definition MAX_CONSECUTIVE_ERRORS :: int where "MAX_CONSECUTIVE_ERRORS = 5"
definition RECOVERY_BACKOFF_BASE :: u32 where "RECOVERY_BACKOFF_BASE = 1000000"
definition RECOVERY_BACKOFF_MAX :: u32 where "RECOVERY_BACKOFF_MAX = 30000000"
definition MAX_RECOVERY_ATTEMPTS :: int where "MAX_RECOVERY_ATTEMPTS = 0"
definition WATCHDOG_PING_MS :: u64 where "WATCHDOG_PING_MS = 15000"

section \<open>Helpers\<close>

definition signal_handler :: "'n loop_state \<Rightarrow> 'n loop_state" where
  "signal_handler st = st\<lparr>g_running := False\<rparr>"

definition install_signal_handlers :: "machine \<Rightarrow> int" where
  "install_signal_handlers m = (if m_sigaction_ok m then 0 else -1)"

definition main_ip_to_str :: "u32 \<Rightarrow> fault + string" where
  "main_ip_to_str ip = bindE (snprintf (zeros 16) 0 16 (dotted_quad ip)) (\<lambda>(b, _). read_str b)"

definition rule_line :: string where
  "rule_line = ''=========================================================='' @ [NL]"

definition level_name :: "int \<Rightarrow> string" where
  "level_name l = (if l = 0 then ''(ERROR)'' else if l = 1 then ''(WARN)'' else if l = 2 then ''(INFO)''
     else if l = 3 then ''(DEBUG)'' else ''(?)'')"

definition on_off :: "bool \<Rightarrow> string" where
  "on_off b = (if b then ''enabled'' else ''disabled'')"

definition print_banner :: "app_config \<Rightarrow> fault + string" where
  "print_banner cfg =
     (let d = device cfg in
      bindE (main_ip_to_str (ip_addr d)) (\<lambda>ip.
      bindE (main_ip_to_str (netmask d)) (\<lambda>nm.
      bindE (main_ip_to_str (gateway d)) (\<lambda>gw.
      bindE (read_str (product_name d)) (\<lambda>product.
      bindE (read_str (station_name d)) (\<lambda>station.
      bindE (read_str (interface_name d)) (\<lambda>ifn.
      bindE (read_str (config_file cfg)) (\<lambda>file.
        Inr (rule_line @
          ''  p-net IO Device Manager  v'' @ PNET_MGR_VERSION @ [NL] @ rule_line @
          ''  Product name  : '' @ product @ [NL] @
          ''  Station name  : '' @ station @ [NL] @
          ''  Interface     : '' @ ifn @ [NL] @
          ''  IP address    : '' @ ip @ [NL] @
          ''  Netmask       : '' @ nm @ [NL] @
          ''  Gateway       : '' @ gw @ [NL] @
          ''  Vendor ID     : 0x'' @ fmt_X 4 (unat (vendor_id d)) @ [NL] @
          ''  Device ID     : 0x'' @ fmt_X 4 (unat (device_id d)) @ [NL] @
          ''  Tick interval : '' @ fmt_u (unat (tick_us d)) @ '' us'' @ [NL] @
          ''  Security      : '' @ on_off (security_enabled cfg) @ [NL] @
          ''  Real-time     : '' @ on_off (realtime_enabled cfg) @ [NL] @
          ''  Log level     : '' @ fmt_d (log_level cfg) @ '' '' @ level_name (log_level cfg) @ [NL] @
          ''  Config file   : '' @ file @ [NL] @ rule_line)))))))))"

definition notify :: "'n env \<Rightarrow> string \<Rightarrow> effect list" where
  "notify env s = (if e_systemd env then [Notify s] else [])"

definition watchdog_notify :: "'n env \<Rightarrow> effect list" where
  "watchdog_notify env = notify env ''WATCHDOG=1''"

definition watchdog_notify_stopping :: "'n env \<Rightarrow> effect list" where
  "watchdog_notify_stopping env = notify env ''STOPPING=1''"

definition watchdog_notify_ready :: "'n env \<Rightarrow> effect list" where
  "watchdog_notify_ready env = notify env ''READY=1''"

text \<open>The status is formatted into an array of 256 bytes first.\<close>

definition watchdog_notify_status :: "'n env \<Rightarrow> string \<Rightarrow> effect list" where
  "watchdog_notify_status env s = notify env (''STATUS='' @ take 255 s)"

section \<open>Applying the configuration\<close>

definition apply_network :: "platform \<Rightarrow> net_os \<Rightarrow> app_config \<Rightarrow> fault + (int \<times> net_os)" where
  "apply_network pf os cfg =
     (if pf = PLATFORM_LINUX then
        bindE (read_str (interface_name (device cfg))) (\<lambda>iface.
          case net_if_set_ip pf os (Some iface) (net_ip_addr (network cfg)) of (r1, os1) \<Rightarrow>
            if r1 < 0 then Inr (-1, os1)
            else (case net_if_set_netmask pf os1 (Some iface) (net_netmask (network cfg)) of (r2, os2) \<Rightarrow>
              if r2 < 0 then Inr (-1, os2)
              else (case net_if_set_up pf os2 (Some iface) of (r3, os3) \<Rightarrow>
                if r3 < 0 then Inr (-1, os3) else Inr (0, os3))))
      else Inr (0, os))"

definition apply_security ::
    "platform \<Rightarrow> endianness \<Rightarrow> (string \<Rightarrow> int) \<Rightarrow> app_config \<Rightarrow> fault + (int \<times> string list)" where
  "apply_security pf e sh cfg =
     (if \<not> security_enabled cfg then Inr (0, [])
      else bindE (sec_policy_apply pf e sh (Some (security cfg))) (\<lambda>(r, cmds).
        Inr (if r < 0 then -1 else 0, cmds)))"

definition apply_realtime :: "platform \<Rightarrow> rt_state \<Rightarrow> rt_os \<Rightarrow> app_config \<Rightarrow> int \<times> rt_state \<times> rt_os" where
  "apply_realtime pf rt os cfg =
     (if \<not> realtime_enabled cfg then (0, rt, os)
      else (case rt_setup_init rt (Some (realtime cfg)) of (r1, rt1) \<Rightarrow>
        if r1 < 0 then (-1, rt1, os)
        else (case rt_setup_apply pf rt1 os of (r2, rt2, os2) \<Rightarrow>
          if r2 < 0 then (-1, rt2, os2) else (0, rt2, os2))))"

section \<open>The device\<close>

definition device_init_and_start ::
    "'n pnet_api \<Rightarrow> 'n io_device \<Rightarrow> io_device_cfg \<Rightarrow> fault + (int \<times> 'n io_device)" where
  "device_init_and_start api dev cfg =
     bindE (io_device_init (Some zero_device) (Some cfg)) (\<lambda>(r, dev1).
       if r < 0 then Inr (-1, the dev1)
       else bindE (io_device_start api dev1) (\<lambda>(r2, dev2).
         if r2 < 0 then Inr (-1, the (io_device_cleanup dev2)) else Inr (0, the dev2)))"

definition device_stop_and_cleanup :: "'n pnet_api \<Rightarrow> 'n io_device \<Rightarrow> 'n io_device" where
  "device_stop_and_cleanup api dev =
     (case io_device_stop api (Some dev) of (_, _, dev1) \<Rightarrow> the (io_device_cleanup dev1))"

section \<open>The main loop\<close>

text \<open>Exponential backoff, capped, at the width of \<open>useconds_t\<close>.\<close>

definition next_backoff :: "u32 \<Rightarrow> u32" where
  "next_backoff b = (let doubled = b * 2 in if doubled > RECOVERY_BACKOFF_MAX then RECOVERY_BACKOFF_MAX else doubled)"

text \<open>
  The recovery branch; the flag says that the loop is left with \<open>break\<close>. The counters have
  type \<open>int\<close>: a count beyond its largest value is a fault.
\<close>

definition recover :: "'n env \<Rightarrow> io_device_cfg \<Rightarrow> 'n loop_state \<Rightarrow> fault + (bool \<times> 'n loop_state)" where
  "recover env cfg st0 =
     bindE (int_add (recovery_attempts st0) 1) (\<lambda>attempts.
      let st = st0\<lparr>recovery_attempts := attempts\<rparr> in
      if MAX_RECOVERY_ATTEMPTS > 0 \<and> recovery_attempts st > MAX_RECOVERY_ATTEMPTS then Inr (True, st)
      else
        let status = watchdog_notify_status env (''recovering attempt '' @ fmt_d (recovery_attempts st));
            dev1 = device_stop_and_cleanup (e_api env) (l_dev st);
            st1 = st\<lparr>effects := effects st @ status @ [Sleep (backoff_us st)], backoff_us := next_backoff (backoff_us st)\<rparr>
        in bindE (device_init_and_start (e_api env) dev1 cfg) (\<lambda>(r, dev2).
             if r = 0
             then Inr (False, st1\<lparr>l_dev := dev2, consecutive_errors := 0,
                    effects := effects st1 @ watchdog_notify_status env ''running''\<rparr>)
             else Inr (False, st1\<lparr>l_dev := dev2\<rparr>)))"

text \<open>The tick of a pass with its error handling.\<close>

definition tick_part :: "'n env \<Rightarrow> io_device_cfg \<Rightarrow> 'n loop_state \<Rightarrow> fault + (bool \<times> 'n loop_state)" where
  "tick_part env cfg st =
     (case io_device_tick (e_api env) (Some (l_dev st)) of (rc, dev1, _) \<Rightarrow>
        if rc = 0 then
          Inr (False, st\<lparr>l_dev := the dev1, consecutive_errors := 0, recovery_attempts := 0,
            backoff_us := RECOVERY_BACKOFF_BASE\<rparr>)
        else
          let dev2 = (the dev1)\<lparr>error_count := error_count (the dev1) + 1\<rparr>
          in bindE (int_add (consecutive_errors st) 1) (\<lambda>errors.
             let st1 = st\<lparr>l_dev := dev2, consecutive_errors := errors\<rparr>
             in if MAX_CONSECUTIVE_ERRORS > 0 \<and> consecutive_errors st1 \<ge> MAX_CONSECUTIVE_ERRORS
                then recover env cfg st1 else Inr (False, st1)))"

definition watchdog_part :: "'n env \<Rightarrow> u64 \<Rightarrow> 'n loop_state \<Rightarrow> 'n loop_state" where
  "watchdog_part env now_ms st =
     (if now_ms - last_watchdog_ms st \<ge> WATCHDOG_PING_MS
      then st\<lparr>effects := effects st @ watchdog_notify env, last_watchdog_ms := now_ms\<rparr> else st)"

definition loop_pass :: "'n env \<Rightarrow> io_device_cfg \<Rightarrow> u64 \<Rightarrow> 'n loop_state \<Rightarrow> fault + (bool \<times> 'n loop_state)" where
  "loop_pass env cfg now_ms st =
     bindE (tick_part env cfg st) (\<lambda>(brk, st1).
       if brk then Inr (True, st1)
       else let st2 = watchdog_part env now_ms st1
            in Inr (False, st2\<lparr>effects := effects st2 @ [Sleep (tick_us cfg)]\<rparr>))"

fun main_loop :: "'n env \<Rightarrow> io_device_cfg \<Rightarrow> 'n loop_state \<Rightarrow> (u64 \<times> bool) list \<Rightarrow> fault + 'n loop_state option" where
  "main_loop env cfg st [] = Inr (if g_running st then None else Some st)"
| "main_loop env cfg st ((now_ms, sig) # ps) =
     (if \<not> g_running st then Inr (Some st)
      else bindE (loop_pass env cfg now_ms st) (\<lambda>(brk, st1).
        let st2 = (if sig then signal_handler st1 else st1)
        in if brk then Inr (Some st2) else main_loop env cfg st2 ps))"

section \<open>The program\<close>

definition load_config :: "fs \<Rightarrow> string \<Rightarrow> bool \<Rightarrow> fault + app_config" where
  "load_config f path verbose =
     (case app_config_load f (Some zero_config) (Some path) of (r, c) \<Rightarrow>
        bindE (if r < 0 then
                 let c1 = the (app_config_default c)
                 in bindE (snprintf (config_file c1) 0 (length (config_file c1)) path)
                      (\<lambda>(b, _). Inr (c1\<lparr>config_file := b\<rparr>))
               else Inr (the c))
          (\<lambda>c2. Inr (if verbose then c2\<lparr>log_level := 3\<rparr> else c2)))"

text \<open>Everything before the main loop: an exit status, or the configuration to run with.\<close>

definition startup :: "'n env \<Rightarrow> machine \<Rightarrow> string list \<Rightarrow> fault + ((int + app_config) \<times> machine)" where
  "startup env m argv =
     (case parse_args (e_permute env) argv of
        Inl (code, usage) \<Rightarrow> Inr (Inl code, m\<lparr>m_printed := m_printed m @ usage\<rparr>)
      | Inr (path, verbose) \<Rightarrow>
          bindE (load_config (m_files m) path verbose) (\<lambda>cfg.
          bindE (app_config_validate (Some cfg)) (\<lambda>valid.
            if valid < 0 then Inr (Inl EXIT_FAILURE, m)
            else bindE (print_banner cfg) (\<lambda>banner.
              let m0 = m\<lparr>m_printed := m_printed m @ banner\<rparr> in
              if install_signal_handlers m0 < 0 then Inr (Inl EXIT_FAILURE, m0)
              else bindE (apply_network (e_platform env) (m_net m0) cfg) (\<lambda>(r1, net).
                let m1 = m0\<lparr>m_net := net\<rparr> in
                if r1 < 0 then Inr (Inl EXIT_FAILURE, m1)
                else bindE (apply_security (e_platform env) (e_endian env) (m_shell m1) cfg) (\<lambda>(r2, cmds).
                  let m2 = m1\<lparr>m_cmds := m_cmds m1 @ cmds\<rparr> in
                  if r2 < 0 then Inr (Inl EXIT_FAILURE, m2)
                  else (case apply_realtime (e_platform env) (m_rt m2) (m_rtos m2) cfg of (r3, rt, os) \<Rightarrow>
                    Inr (Inr cfg, m2\<lparr>m_rt := rt, m_rtos := os\<rparr>))))))))"

definition start_state :: "'n env \<Rightarrow> 'n io_device \<Rightarrow> 'n loop_state" where
  "start_state env dev = \<lparr>l_dev = dev, g_running = True, consecutive_errors = 0, recovery_attempts = 0,
     backoff_us = RECOVERY_BACKOFF_BASE, last_watchdog_ms = 0, effects = watchdog_notify_ready env\<rparr>"

text \<open>What is printed after the loop: the counters of the device, before it is stopped.\<close>

definition shutdown_text :: "'n io_device \<Rightarrow> string" where
  "shutdown_text d = [NL] @ ''[main] Shutdown signal received, stopping ...'' @ [NL] @
     ''[io] Stopping IO device (cycles='' @ fmt_u (unat (cycle_count d)) @ '', errors='' @
     fmt_u (unat (error_count d)) @ '') ...'' @ [NL]"

definition shutdown :: "'n env \<Rightarrow> 'n loop_state \<Rightarrow> 'n loop_state" where
  "shutdown env st = st\<lparr>effects := effects st @ watchdog_notify_stopping env,
     l_dev := device_stop_and_cleanup (e_api env) (l_dev st)\<rparr>"

text \<open>The label \<open>cleanup_rt\<close>.\<close>

definition cleanup_rt :: "'n env \<Rightarrow> app_config \<Rightarrow> machine \<Rightarrow> machine" where
  "cleanup_rt env cfg m =
     (if realtime_enabled cfg
      then (case rt_setup_restore (e_platform env) (m_rt m) (m_rtos m) of (rt, os) \<Rightarrow> m\<lparr>m_rt := rt, m_rtos := os\<rparr>)
      else m)"

definition finish :: "'n env \<Rightarrow> app_config \<Rightarrow> machine \<Rightarrow> effect list \<Rightarrow> int \<times> machine \<times> effect list" where
  "finish env cfg m es = (EXIT_SUCCESS, cleanup_rt env cfg m, es @ watchdog_notify_status env ''stopped'')"

text \<open>
  The whole program: exit status, machine and effects; \<open>None\<close> when the passes given do not
  bring it to its end.
\<close>

definition main_prog ::
    "'n env \<Rightarrow> machine \<Rightarrow> string list \<Rightarrow> bool \<Rightarrow> (u64 \<times> bool) list \<Rightarrow>
     fault + (int \<times> machine \<times> effect list) option" where
  "main_prog env m argv early ps =
     bindE (startup env m argv) (\<lambda>(res, m1).
       case res of
         Inl code \<Rightarrow> Inr (Some (code, m1, []))
       | Inr cfg \<Rightarrow>
           bindE (device_init_and_start (e_api env) zero_device (device cfg)) (\<lambda>(r, dev).
             if r < 0 then Inr (Some (finish env cfg m1 []))
             else
               let st0 = (if early then signal_handler (start_state env dev) else start_state env dev) in
               bindE (main_loop env (device cfg) st0 ps) (\<lambda>res2.
                 case res2 of
                   None \<Rightarrow> Inr None
                 | Some st \<Rightarrow>
                     let m2 = m1\<lparr>m_printed := m_printed m1 @ shutdown_text (l_dev st)\<rparr>
                     in Inr (Some (finish env cfg m2 (effects (shutdown env st)))))))"

section \<open>No fault before the loop\<close>

lemma wf_config_terminated:
  assumes "wf_config c"
  shows "terminated (config_file c)" "terminated (interface_name (device c))" "wf_cfg (device c)" "wf_policy (security c)"
  using assms str_field_terminated wf_cfg_terminated by (auto simp: wf_config_def)

lemma load_config_ok: "\<exists>c. load_config f path verbose = Inr c \<and> wf_config c"
proof -
  obtain r c where rc: "app_config_load f (Some zero_config) (Some path) = (r, Some c)" "r < 0 \<or> wf_config c"
    using load_eq [of f path _ zero_config] load_lines_wf [OF wf_start [of path zero_config]]
    by (cases "fopen_r f path") (auto simp: app_config_load_def)
  show ?thesis
  proof (cases "r < 0")
    case True
    let ?c = "the (app_config_default (Some c))"
    have wf: "wf_config ?c"
      by (rule wf_default)
    then have len: "length (config_file ?c) = 256" "last_nul (config_file ?c)"
      by (auto simp: wf_config_def str_field_def)
    obtain b where b: "snprintf (config_file ?c) 0 (length (config_file ?c)) path = Inr (b, int (length path))"
      using snprintf_no_fault [of 0 "length (config_file ?c)"] by auto
    have "str_field 256 b"
      using b len by (auto simp: snprintf_def Let_def str_field_def last_nul_def last_drop split: if_splits)
    then show ?thesis
      using True rc wf b by (auto simp: load_config_def wf_config_def is_s32_def)
  next
    case False
    then show ?thesis
      using rc by (auto simp: load_config_def wf_config_def is_s32_def)
  qed
qed

lemma main_ip_to_str_eq [simp]: "main_ip_to_str ip = Inr (dotted_quad ip)"
proof -
  have "main_ip_to_str ip = ip_text ip"
    by (cases "snprintf (zeros 16) 0 16 (dotted_quad ip)")
      (auto simp: main_ip_to_str_def ip_text_def format_ip_def simp del: ip_text_eq)
  then show ?thesis
    by simp
qed

lemma print_banner_ok: "wf_config c \<Longrightarrow> \<exists>t. print_banner c = Inr t"
  using wf_config_terminated [of c] wf_cfg_terminated [of "device c"] by (simp add: print_banner_def Let_def)

lemma validate_ok: "wf_config c \<Longrightarrow> \<exists>r. app_config_validate (Some c) = Inr r \<and> (r = 0 \<or> r = -1)"
  by (auto simp: app_config_validate_def wf_config_def wf_cfg_def str_field_def)

lemma apply_network_ok: "wf_config c \<Longrightarrow> \<exists>r os'. apply_network pf os c = Inr (r, os')"
  using wf_config_terminated [of c] by (auto simp: apply_network_def split: prod.splits)

lemma apply_security_ok: "wf_config c \<Longrightarrow> \<exists>r cmds. apply_security pf e sh c = Inr (r, cmds)"
proof -
  assume "wf_config c"
  then have wf: "wf_policy (security c)"
    by (rule wf_config_terminated)
  have "\<exists>r cmds. sec_policy_apply pf e sh (Some (security c)) = Inr (r, cmds)"
  proof (cases "pf = PLATFORM_LINUX")
    case True
    then show ?thesis
      using apply_linux_eq [OF wf] by simp
  next
    case False
    then show ?thesis
      using generate_script_eq [OF wf, of "zeros 4096" 4096 e] by (auto simp: sec_policy_apply_def)
  qed
  then show ?thesis
    by (auto simp: apply_security_def)
qed

lemma startup_ok:
  "\<exists>res m'. startup env m argv = Inr (res, m') \<and> m_files m' = m_files m \<and>
     (case res of Inl code \<Rightarrow> m_rt m' = m_rt m \<and> m_rtos m' = m_rtos m \<and> code \<in> {EXIT_SUCCESS, EXIT_FAILURE}
      | Inr cfg \<Rightarrow> wf_config cfg \<and> app_config_validate (Some cfg) = Inr 0 \<and>
          (m_rt m', m_rtos m') = snd (apply_realtime (e_platform env) (m_rt m) (m_rtos m) cfg))"
proof (cases "parse_args (e_permute env) argv")
  case (Inl code)
  then show ?thesis
    using parse_args_codes [of "e_permute env" argv "fst code" "snd code"] by (cases code) (auto simp: startup_def)
next
  case (Inr pv)
  obtain c where c: "load_config (m_files m) (fst pv) (snd pv) = Inr c" "wf_config c"
    using load_config_ok by blast
  obtain v where v: "app_config_validate (Some c) = Inr v" "v = 0 \<or> v = -1"
    using validate_ok [OF c(2)] by blast
  obtain t where t: "print_banner c = Inr t"
    using print_banner_ok [OF c(2)] by blast
  obtain r1 net where net: "apply_network (e_platform env) (m_net m) c = Inr (r1, net)"
    using apply_network_ok [OF c(2)] by blast
  obtain r2 cmds where sec: "apply_security (e_platform env) (e_endian env) (m_shell m) c = Inr (r2, cmds)"
    using apply_security_ok [OF c(2)] by blast
  show ?thesis
    using Inr c v t net sec by (auto simp: startup_def Let_def split: prod.splits)
qed

section \<open>The running loop\<close>

lemma tick_started:
  assumes "pnet_stack api ok" "dev_ok ok d" "started d"
  shows "\<exists>d' t. io_device_tick api (Some d) = (0, Some d', t) \<and> dev_ok ok d' \<and> started d' \<and>
    cycle_count d' = cycle_count d + 1 \<and> error_count d' = error_count d"
proof -
  obtain net where net: "pnet_handle d = Some net"
    using assms(2,3) by (auto simp: dev_ok_def dev_handle_ok_def)
  have s: "dev_state d \<noteq> IO_DEVICE_STATE_ERROR"
    using assms(3) by auto
  obtain t where t: "io_device_tick api (Some d) =
     (0, Some ((after_events d (state_events (snd (api_periodic api net))))
        \<lparr>pnet_handle := Some (fst (api_periodic api net)), cycle_count := cycle_count d + 1\<rparr>), t)"
    using tick_Some [OF net s, of api] by blast
  then have "dev_ok ok ((after_events d (state_events (snd (api_periodic api net))))
        \<lparr>pnet_handle := Some (fst (api_periodic api net)), cycle_count := cycle_count d + 1\<rparr>)"
    using pnet_stack.tick_ok [OF assms(1,2)] by blast
  then show ?thesis
    using t assms(3) foldl_event_state_started [of "dev_state d" "state_events (snd (api_periodic api net))"]
    by (auto simp: after_events_def)
qed

text \<open>The device after a tick, and after many on a device that was started.\<close>

definition tick_dev :: "'n pnet_api \<Rightarrow> 'n io_device \<Rightarrow> 'n io_device" where
  "tick_dev api d = the (fst (snd (io_device_tick api (Some d))))"

lemma ticks_started:
  assumes "pnet_stack api ok" "dev_ok ok d" "started d"
  shows "dev_ok ok ((tick_dev api ^^ n) d) \<and> started ((tick_dev api ^^ n) d) \<and>
    fst (io_device_tick api (Some ((tick_dev api ^^ n) d))) = 0 \<and>
    cycle_count ((tick_dev api ^^ n) d) = cycle_count d + of_nat n \<and> error_count ((tick_dev api ^^ n) d) = error_count d"
proof (induction n)
  case 0
  then show ?case
    using tick_started [OF assms] assms by auto
next
  case (Suc n)
  then obtain d' t where d': "io_device_tick api (Some ((tick_dev api ^^ n) d)) = (0, Some d', t)" "dev_ok ok d'" "started d'"
    "cycle_count d' = cycle_count d + of_nat n + 1" "error_count d' = error_count d"
    using tick_started [OF assms(1), of "(tick_dev api ^^ n) d"] by auto
  have "(tick_dev api ^^ Suc n) d = d'"
    using d'(1) by (simp add: tick_dev_def)
  then show ?case
    using d' tick_started [OF assms(1) d'(2,3)] by (auto simp: ac_simps)
qed

text \<open>What one pass over a started device does.\<close>

definition steady :: "('n \<Rightarrow> bool) \<Rightarrow> 'n loop_state \<Rightarrow> bool" where
  "steady ok st \<longleftrightarrow> dev_ok ok (l_dev st) \<and> started (l_dev st)"

definition is_sleep :: "effect \<Rightarrow> bool" where
  "is_sleep e = (case e of Sleep _ \<Rightarrow> True | Notify _ \<Rightarrow> False)"

definition sleeps :: "'n loop_state \<Rightarrow> effect list" where
  "sleeps st = filter is_sleep (effects st)"

lemma sleeps_notify [simp]: "filter is_sleep (notify env s) = []"
  by (simp add: notify_def is_sleep_def)

lemma is_sleep_Sleep [simp]: "is_sleep (Sleep n)"
  by (simp add: is_sleep_def)

lemma watchdog_part_simps [simp]:
  "l_dev (watchdog_part env now st) = l_dev st" "g_running (watchdog_part env now st) = g_running st"
  "consecutive_errors (watchdog_part env now st) = consecutive_errors st"
  "recovery_attempts (watchdog_part env now st) = recovery_attempts st"
  "backoff_us (watchdog_part env now st) = backoff_us st"
  "sleeps (watchdog_part env now st) = sleeps st"
  by (simp_all add: watchdog_part_def sleeps_def watchdog_notify_def)

lemma sleeps_snoc: "sleeps (st\<lparr>effects := effects st @ [Sleep n]\<rparr>) = sleeps st @ [Sleep n]"
  by (simp add: sleeps_def)

lemma watchdog_part_effects:
  "\<exists>es. effects (watchdog_part env now st) = effects st @ es \<and> set es \<subseteq> {Notify ''WATCHDOG=1''}"
  by (auto simp: watchdog_part_def watchdog_notify_def notify_def)

lemma steady_pass:
  assumes "pnet_stack (e_api env) ok" "steady ok st"
  shows "\<exists>st'. loop_pass env cfg now st = Inr (False, st') \<and> steady ok st' \<and> g_running st' = g_running st \<and>
    l_dev st' = tick_dev (e_api env) (l_dev st) \<and>
    cycle_count (l_dev st') = cycle_count (l_dev st) + 1 \<and> error_count (l_dev st') = error_count (l_dev st) \<and>
    recovery_attempts st' = 0 \<and> consecutive_errors st' = 0 \<and>
    (\<exists>es. effects st' = effects st @ es @ [Sleep (tick_us cfg)] \<and> set es \<subseteq> {Notify ''WATCHDOG=1''})"
proof -
  obtain d' t where "io_device_tick (e_api env) (Some (l_dev st)) = (0, Some d', t)" "dev_ok ok d'" "started d'"
    "cycle_count d' = cycle_count (l_dev st) + 1" "error_count d' = error_count (l_dev st)"
    using tick_started [OF assms(1)] assms(2) unfolding steady_def by blast
  then show ?thesis
    using watchdog_part_effects [of env now "st\<lparr>l_dev := d', consecutive_errors := 0, recovery_attempts := 0,
            backoff_us := RECOVERY_BACKOFF_BASE\<rparr>"]
    by (auto simp: loop_pass_def tick_part_def tick_dev_def Let_def steady_def)
qed

lemma signal_handler_simps [simp]:
  "\<not> g_running (signal_handler st)" "l_dev (signal_handler st) = l_dev st" "effects (signal_handler st) = effects st"
  "recovery_attempts (signal_handler st) = recovery_attempts st"
  by (simp_all add: signal_handler_def)

lemma signalled_loop [simp]: "main_loop env cfg (signal_handler st) ps = Inr (Some (signal_handler st))"
  by (cases ps) auto

lemma steady_loop:
  assumes "pnet_stack (e_api env) ok" "steady ok st" "g_running st" "list_all (\<lambda>(_, sig). \<not> sig) ps"
  shows "\<exists>st' es. main_loop env cfg st (ps @ (now, True) # rest) = Inr (Some st') \<and> steady ok st' \<and>
    l_dev st' = (tick_dev (e_api env) ^^ (length ps + 1)) (l_dev st) \<and>
    cycle_count (l_dev st') = cycle_count (l_dev st) + of_nat (length ps + 1) \<and>
    error_count (l_dev st') = error_count (l_dev st) \<and> recovery_attempts st' = 0 \<and>
    effects st' = effects st @ es \<and> filter is_sleep es = replicate (length ps + 1) (Sleep (tick_us cfg)) \<and>
    set es \<subseteq> {Notify ''WATCHDOG=1'', Sleep (tick_us cfg)}"
  using assms(2-4)
proof (induction ps arbitrary: st)
  case Nil
  obtain st1 es where st1: "loop_pass env cfg now st = Inr (False, st1)" "steady ok st1"
    "cycle_count (l_dev st1) = cycle_count (l_dev st) + 1" "error_count (l_dev st1) = error_count (l_dev st)"
    "recovery_attempts st1 = 0" "effects st1 = effects st @ es @ [Sleep (tick_us cfg)]"
    "set es \<subseteq> {Notify ''WATCHDOG=1''}" "l_dev st1 = tick_dev (e_api env) (l_dev st)"
    using steady_pass [OF assms(1) Nil.prems(1), of cfg now] by blast
  moreover have "filter is_sleep es = []"
    using st1(7) by (auto simp: filter_empty_conv is_sleep_def)
  ultimately show ?case
    using Nil.prems by (intro exI [of _ "signal_handler st1"] exI [of _ "es @ [Sleep (tick_us cfg)]"])
      (auto simp: steady_def)
next
  case (Cons p ps)
  obtain n where p: "p = (n, False)"
    using Cons.prems(3) by (cases p) auto
  obtain st1 es where st1: "loop_pass env cfg n st = Inr (False, st1)" "steady ok st1" "g_running st1"
    "cycle_count (l_dev st1) = cycle_count (l_dev st) + 1" "error_count (l_dev st1) = error_count (l_dev st)"
    "effects st1 = effects st @ es @ [Sleep (tick_us cfg)]" "set es \<subseteq> {Notify ''WATCHDOG=1''}"
    "l_dev st1 = tick_dev (e_api env) (l_dev st)"
    using steady_pass [OF assms(1) Cons.prems(1), of cfg n] Cons.prems(2) by auto
  have no_sleep: "filter is_sleep es = []"
    using st1(7) by (auto simp: filter_empty_conv is_sleep_def)
  obtain st' es' where st': "main_loop env cfg st1 (ps @ (now, True) # rest) = Inr (Some st')" "steady ok st'"
    "cycle_count (l_dev st') = cycle_count (l_dev st1) + of_nat (length ps + 1)"
    "error_count (l_dev st') = error_count (l_dev st1)" "recovery_attempts st' = 0" "effects st' = effects st1 @ es'"
    "filter is_sleep es' = replicate (length ps + 1) (Sleep (tick_us cfg))"
    "set es' \<subseteq> {Notify ''WATCHDOG=1'', Sleep (tick_us cfg)}"
    "l_dev st' = (tick_dev (e_api env) ^^ (length ps + 1)) (l_dev st1)"
    using Cons.IH [OF st1(2,3)] Cons.prems(3) by auto
  have "l_dev st' = (tick_dev (e_api env) ^^ (length (p # ps) + 1)) (l_dev st)"
    unfolding st'(9) st1(8) by (simp add: funpow_swap1)
  then show ?case
    using st' st1 no_sleep Cons.prems(2) p
    by (intro exI [of _ st'] exI [of _ "es @ Sleep (tick_us cfg) # es'"]) auto
qed

lemma init_and_start_ok:
  assumes "pnet_stack api ok" "wf_cfg c"
  shows "\<exists>r d. device_init_and_start api dev c = Inr (r, d) \<and> dev_ok ok d \<and>
    cycle_count d = 0 \<and> error_count d = 0 \<and>
    (r = 0 \<and> dev_state d = IO_DEVICE_STATE_CONNECTED \<or> r = -1 \<and> d = zero_device)"
proof -
  obtain d1 :: "'a io_device" where d1: "io_device_init (Some zero_device) (Some c) = Inr (0, Some d1)"
    "config d1 = c" "dev_state d1 = IO_DEVICE_STATE_INITIALIZED" "cycle_count d1 = 0" "error_count d1 = 0"
    using init_Some [OF assms(2), where d = "zero_device :: 'a io_device"] by simp
  have ok1: "dev_ok ok d1"
    using device_init_ok [OF assms(2) d1(1)] by simp
  obtain p where p: "build_pnet_cfg api c = Inr p"
    using build_pnet_cfg_eq [OF assms(2), of api] by blast
  then have "\<exists>r2 d2. io_device_start api (Some d1) = Inr (r2, Some d2) \<and>
    (r2 = 0 \<and> dev_state d2 = IO_DEVICE_STATE_CONNECTED \<and> cycle_count d2 = 0 \<and> error_count d2 = 0 \<or> r2 = -1)"
    using d1 by (auto simp: io_device_start_def start_stack_def split: option.splits prod.splits)
  then obtain r2 d2 where start: "io_device_start api (Some d1) = Inr (r2, Some d2)"
    "r2 = 0 \<and> dev_state d2 = IO_DEVICE_STATE_CONNECTED \<and> cycle_count d2 = 0 \<and> error_count d2 = 0 \<or> r2 = -1"
    by blast
  have ok2: "dev_ok ok d2"
    by (rule pnet_stack.start_ok [OF assms(1) ok1 start(1)])
  have "zero_device\<lparr>dev_state := IO_DEVICE_STATE_IDLE\<rparr> = (zero_device :: 'a io_device)"
    "cycle_count (zero_device :: 'a io_device) = 0" "error_count (zero_device :: 'a io_device) = 0"
    by (simp_all add: zero_device_def)
  then show ?thesis
    using d1(1) start ok2 zero_device_ok by (auto simp: device_init_and_start_def io_device_cleanup_def)
qed

lemma stop_and_cleanup_eq [simp]: "device_stop_and_cleanup api d = zero_device"
  by (auto simp: device_stop_and_cleanup_def io_device_stop_def io_device_cleanup_def zero_device_def
    split: option.splits prod.splits)

section \<open>Failing restarts\<close>

definition backoff :: "nat \<Rightarrow> nat" where
  "backoff k = min (2 ^ k * 1000000) 30000000"

lemma backoff_le: "backoff k \<le> 30000000" "1000000 \<le> backoff k"
  by (auto simp: backoff_def min_def)

text \<open>Doubling and capping at the width of \<open>useconds_t\<close> never wraps.\<close>

lemma backoff_step: "next_backoff (word_of_nat (backoff k)) = word_of_nat (backoff (Suc k))"
proof -
  have "(word_of_nat (backoff k) :: u32) * 2 = word_of_nat (backoff k * 2)"
    by simp
  moreover have "unat (word_of_nat (backoff k * 2) :: u32) = backoff k * 2"
    using backoff_le(1) [of k] by (simp del: of_nat_mult add: unsigned_of_nat take_bit_nat_eq_self)
  moreover have "backoff (Suc k) = min (backoff k * 2) 30000000"
    by (auto simp: backoff_def min_def)
  ultimately show ?thesis
    by (simp add: next_backoff_def Let_def RECOVERY_BACKOFF_MAX_def word_less_nat_alt min_def)
qed

lemma zero_device_handle [simp]: "pnet_handle zero_device = None"
  by (simp add: zero_device_def)

text \<open>A pass over a device that is not there and cannot be restarted.\<close>

definition dead :: "nat \<Rightarrow> 'n loop_state \<Rightarrow> bool" where
  "dead k st \<longleftrightarrow> pnet_handle (l_dev st) = None \<and> 4 \<le> consecutive_errors st \<and> backoff_us st = word_of_nat (backoff k)"

lemma dead_pass:
  assumes "dead k st" "device_init_and_start (e_api env) zero_device cfg = Inr (r, zero_device)" "r \<noteq> 0"
    and "consecutive_errors st + 1 < 2 ^ 31" "0 \<le> recovery_attempts st" "recovery_attempts st + 1 < 2 ^ 31"
  shows "\<exists>st'. loop_pass env cfg now st = Inr (False, st') \<and> dead (Suc k) st' \<and> g_running st' = g_running st \<and>
    recovery_attempts st' = recovery_attempts st + 1 \<and> consecutive_errors st' = consecutive_errors st + 1 \<and>
    sleeps st' = sleeps st @ [Sleep (word_of_nat (backoff k)), Sleep (tick_us cfg)]"
proof -
  have "io_device_tick (e_api env) (Some (l_dev st)) = (-1, Some (l_dev st), [])"
    using assms(1) by (simp add: dead_def tick_refused)
  moreover have "device_init_and_start (e_api env) d cfg = Inr (r, zero_device)" for d
    using assms(2) by (simp add: device_init_and_start_def)
  moreover define st1 where "st1 = st\<lparr>l_dev := zero_device, consecutive_errors := consecutive_errors st + 1,
    recovery_attempts := recovery_attempts st + 1, backoff_us := word_of_nat (backoff (Suc k)),
    effects := effects st @ watchdog_notify_status env (''recovering attempt '' @ fmt_d (recovery_attempts st + 1)) @
      [Sleep (word_of_nat (backoff k))]\<rparr>"
  moreover have "int_add (consecutive_errors st) 1 = Inr (consecutive_errors st + 1)"
    "int_add (recovery_attempts st) 1 = Inr (recovery_attempts st + 1)"
    using assms(1,4-6) by (simp_all add: int_add_def is_s32_def dead_def)
  ultimately have "tick_part env cfg st = Inr (False, st1)"
    using assms(1,3) backoff_step [of k]
    by (simp add: tick_part_def recover_def Let_def MAX_RECOVERY_ATTEMPTS_def MAX_CONSECUTIVE_ERRORS_def dead_def)
  moreover have "sleeps st1 = sleeps st @ [Sleep (word_of_nat (backoff k))]"
    by (simp add: st1_def sleeps_def watchdog_notify_status_def)
  moreover have "dead (Suc k) st1" "g_running st1 = g_running st" "recovery_attempts st1 = recovery_attempts st + 1"
    "consecutive_errors st1 = consecutive_errors st + 1"
    using assms(1) by (simp_all add: st1_def dead_def)
  ultimately show ?thesis
    by (simp add: loop_pass_def Let_def dead_def sleeps_snoc)
qed

lemma dead_loop:
  assumes "device_init_and_start (e_api env) zero_device cfg = Inr (r, zero_device)" "r \<noteq> 0"
    and "dead k st" "g_running st" "list_all (\<lambda>(_, sig). \<not> sig) ps"
    and "consecutive_errors st + int (length ps) + 1 < 2 ^ 31" "0 \<le> recovery_attempts st"
    and "recovery_attempts st + int (length ps) + 1 < 2 ^ 31"
  shows "\<exists>st'. main_loop env cfg st (ps @ (now, True) # rest) = Inr (Some st') \<and>
    recovery_attempts st' = recovery_attempts st + int (length ps + 1) \<and>
    sleeps st' = sleeps st @
      concat (map (\<lambda>i. [Sleep (word_of_nat (backoff i)), Sleep (tick_us cfg)]) [k..<k + length ps + 1])"
  using assms(3-8)
proof (induction ps arbitrary: st k)
  case Nil
  obtain st1 where "loop_pass env cfg now st = Inr (False, st1)" "recovery_attempts st1 = recovery_attempts st + 1"
    "sleeps st1 = sleeps st @ [Sleep (word_of_nat (backoff k)), Sleep (tick_us cfg)]"
    using dead_pass [OF Nil.prems(1) assms(1,2), of now] Nil.prems(4-6) by auto
  then show ?case
    using Nil.prems by (intro exI [of _ "signal_handler st1"]) (auto simp: sleeps_def)
next
  case (Cons p ps)
  obtain n where p: "p = (n, False)"
    using Cons.prems(3) by (cases p) auto
  obtain st1 where st1: "loop_pass env cfg n st = Inr (False, st1)" "dead (Suc k) st1" "g_running st1"
    "recovery_attempts st1 = recovery_attempts st + 1" "consecutive_errors st1 = consecutive_errors st + 1"
    "sleeps st1 = sleeps st @ [Sleep (word_of_nat (backoff k)), Sleep (tick_us cfg)]"
    using dead_pass [OF Cons.prems(1) assms(1,2), of n] Cons.prems(2,4-6) by auto
  moreover have "[k..<k + length (p # ps) + 1] = k # [Suc k..<Suc k + length ps + 1]"
    by (simp add: upt_rec)
  ultimately show ?case
    using Cons.IH [OF st1(2,3)] Cons.prems p by fastforce
qed

text \<open>A list of passes with a signal in it, split at the first one.\<close>

lemma split_first_signal:
  "\<exists>now. (now, True) \<in> set ps \<Longrightarrow> \<exists>ps1 now rest. ps = ps1 @ (now, True) # rest \<and> list_all (\<lambda>(_, sig). \<not> sig) ps1"
proof (induction ps)
  case (Cons p ps)
  show ?case
  proof (cases "snd p")
    case True
    then show ?thesis
      by (intro exI [of _ "[]"] exI [of _ "fst p"] exI [of _ ps]) (cases p, simp)
  next
    case False
    then have "\<exists>now. (now, True) \<in> set ps"
      using Cons.prems by auto
    then obtain ps1 now rest where "ps = ps1 @ (now, True) # rest" "list_all (\<lambda>(_, sig). \<not> sig) ps1"
      using Cons.IH by blast
    then show ?thesis
      using False by (intro exI [of _ "p # ps1"] exI [of _ now] exI [of _ rest]) (cases p, simp)
  qed
qed simp

lemma apply_realtime_cases:
  "apply_realtime pf rt os cfg = (r, rt', os') \<Longrightarrow> \<not> realtime_enabled cfg \<Longrightarrow> rt' = rt \<and> os' = os"
  by (simp add: apply_realtime_def)

lemma restore_uninit: "\<not> g_rt_initialized (fst (rt_setup_restore pf rt os))"
  by (simp add: rt_setup_restore_def)

lemma cleanup_uninit:
  assumes "\<not> realtime_enabled cfg \<Longrightarrow> \<not> g_rt_initialized (m_rt m)"
  shows "\<not> g_rt_initialized (m_rt (cleanup_rt env cfg m))"
  using assms restore_uninit by (auto simp: cleanup_rt_def split: prod.splits) (metis fst_conv restore_uninit)

lemma start_steady:
  assumes "dev_ok ok d" "dev_state d = IO_DEVICE_STATE_CONNECTED"
  shows "steady ok (start_state env d)" "g_running (start_state env d)"
  using assms by (simp_all add: steady_def start_state_def)

section \<open>Properties\<close>

definition mock_env :: "mock_pnet env" where
  "mock_env = \<lparr>e_platform = PLATFORM_OTHER, e_endian = LittleEndian, e_api = mock_api, e_systemd = True, e_permute = True\<rparr>"

text \<open>A machine without a configuration file, so that the program runs on the defaults.\<close>

definition demo_machine :: machine where
  "demo_machine = \<lparr>m_files = open_fs Map.empty, m_net = demo_os, m_rt = demo_rt_state\<lparr>g_rt_initialized := False\<rparr>,
     m_rtos = demo_rt_os, m_shell = (\<lambda>_. 0), m_cmds = [], m_sigaction_ok = True, m_printed = []\<rparr>"

text \<open>A device that was started on the mock.\<close>

lemma mock_starts:
  assumes "wf_cfg c"
  shows "\<exists>d. device_init_and_start mock_api zero_device c = Inr (0, d) \<and> dev_ok mock_ok d \<and>
    dev_state d = IO_DEVICE_STATE_CONNECTED \<and> cycle_count d = 0"
  using start_mock_eq [of "zero_device\<lparr>config := c, dev_state := IO_DEVICE_STATE_INITIALIZED, pnet_handle := None,
      active_arep := 0, cycle_count := 0, error_count := 0, input_size := EXAMPLE_INPUT_SIZE, output_size := EXAMPLE_OUTPUT_SIZE,
      input_data := replicate 256 0, output_data := replicate 256 0\<rparr>"] assms
    init_and_start_ok [OF mock.pnet_stack_axioms assms, of zero_device]
  by (auto simp: device_init_and_start_def init_Some)

lemma mock_steady: "\<exists>st. steady mock_ok st \<and> g_running st \<and> effects st = [] \<and> cycle_count (l_dev st) = 0"
proof -
  obtain d where "dev_ok mock_ok d" "dev_state d = IO_DEVICE_STATE_CONNECTED" "cycle_count d = 0"
    using mock_starts [OF wf_zero_cfg] by blast
  then show ?thesis
    by (intro exI [of _ "(start_state mock_env d)\<lparr>effects := []\<rparr>"]) (simp add: steady_def start_state_def)
qed

text \<open>A loop that was started ends with the first signal, at once when there was one before it.\<close>

lemma started_loop_ends:
  assumes "pnet_stack (e_api env) ok" "dev_ok ok d" "dev_state d = IO_DEVICE_STATE_CONNECTED"
    and "early \<or> (now, True) \<in> set ps"
  shows "\<exists>st. main_loop env cfg (if early then signal_handler (start_state env d) else start_state env d) ps = Inr (Some st)"
proof (cases early)
  case True
  then show ?thesis
    by simp
next
  case False
  then obtain ps1 n rest where "ps = ps1 @ (n, True) # rest" "list_all (\<lambda>(_, sig). \<not> sig) ps1"
    using split_first_signal [of ps] assms(4) by blast
  then show ?thesis
    using False steady_loop [OF assms(1) start_steady [OF assms(2,3)], where ps = ps1 and cfg = cfg and now = n and rest = rest]
    by auto
qed

text \<open>
  The program returns, and the machine it leaves: the one a failed start-up leaves, or the
  one the clean-up makes of a machine on which the real-time set-up was tried.
\<close>

lemma main_prog_ends:
  assumes "pnet_stack (e_api env) ok" "early \<or> (now, True) \<in> set ps"
  obtains code m' es where "main_prog env m argv early ps = Inr (Some (code, m', es))"
    and "code \<in> {EXIT_SUCCESS, EXIT_FAILURE}" "m_files m' = m_files m"
    and "m_rt m' = m_rt m \<and> m_rtos m' = m_rtos m \<or>
      (\<exists>cfg m1. m' = cleanup_rt env cfg m1 \<and>
        (m_rt m1, m_rtos m1) = snd (apply_realtime (e_platform env) (m_rt m) (m_rtos m) cfg))"
proof -
  obtain res m1 where st: "startup env m argv = Inr (res, m1)" "m_files m1 = m_files m"
    "case res of Inl code \<Rightarrow> m_rt m1 = m_rt m \<and> m_rtos m1 = m_rtos m \<and> code \<in> {EXIT_SUCCESS, EXIT_FAILURE}
      | Inr cfg \<Rightarrow> wf_config cfg \<and> app_config_validate (Some cfg) = Inr 0 \<and>
          (m_rt m1, m_rtos m1) = snd (apply_realtime (e_platform env) (m_rt m) (m_rtos m) cfg)"
    using startup_ok by blast
  show thesis
  proof (cases res)
    case (Inl code)
    then show thesis
      using st by (intro that [of code m1 "[]"]) (simp_all add: main_prog_def)
  next
    case (Inr cfg)
    obtain r d where d: "device_init_and_start (e_api env) zero_device (device cfg) = Inr (r, d)" "dev_ok ok d"
      "r = 0 \<and> dev_state d = IO_DEVICE_STATE_CONNECTED \<or> r = -1 \<and> d = zero_device"
      using init_and_start_ok [OF assms(1) wf_config_terminated(3)] st(3) Inr by fastforce
    have "\<exists>t es. main_prog env m argv early ps = Inr (Some (finish env cfg (m1\<lparr>m_printed := t\<rparr>) es))"
    proof (cases "r = 0")
      case True
      then obtain st where "main_loop env (device cfg) (if early then signal_handler (start_state env d) else start_state env d) ps =
          Inr (Some st)"
        using d(3) started_loop_ends [OF assms(1) d(2) _ assms(2), of "device cfg"] by auto
      then have "main_prog env m argv early ps =
          Inr (Some (finish env cfg (m1\<lparr>m_printed := m_printed m1 @ shutdown_text (l_dev st)\<rparr>) (effects (shutdown env st))))"
        using True d(1) st(1) Inr by (simp add: main_prog_def Let_def del: signalled_loop)
      then show ?thesis
        by blast
    next
      case False
      then have "main_prog env m argv early ps = Inr (Some (finish env cfg (m1\<lparr>m_printed := m_printed m1\<rparr>) []))"
        using d st(1) Inr by (auto simp: main_prog_def)
      then show ?thesis
        by blast
    qed
    then obtain t es where "main_prog env m argv early ps = Inr (Some (finish env cfg (m1\<lparr>m_printed := t\<rparr>) es))"
      by blast
    then show thesis
      using st(2,3) Inr
      by (intro that [of EXIT_SUCCESS "cleanup_rt env cfg (m1\<lparr>m_printed := t\<rparr>)"])
        (auto simp: finish_def cleanup_rt_def split: prod.splits intro!: exI [of _ cfg] exI [of _ "m1\<lparr>m_printed := t\<rparr>"])
  qed
qed

text \<open>Of the files of the real-time module, a set-up with its clean-up writes only governors.\<close>

lemma cleanup_files:
  assumes "(m_rt m1, m_rtos m1) = snd (apply_realtime pf rt os cfg)" "e_platform env = pf"
  shows "files_kept (governor_files os) (rt_files os) (rt_files (m_rtos (cleanup_rt env cfg m1)))"
proof -
  have a: "files_kept (governor_files os) (rt_files os) (rt_files (m_rtos m1)) \<and> nproc (m_rtos m1) = nproc os"
    using assms(1) by (auto simp: apply_realtime_def split: if_splits prod.splits dest!: rt_apply_kept)
  then have "cpus (m_rtos m1) = cpus os"
    by (intro cpus_nproc) simp
  then have "files_kept (governor_files os) (rt_files (m_rtos m1)) (rt_files (m_rtos (cleanup_rt env cfg m1)))"
    by (auto simp: cleanup_rt_def split: prod.splits dest!: rt_restore_kept)
  then show ?thesis
    using a files_kept_trans by blast
qed

text \<open>
  C1: the program leaves no buffer and always ends. For every stack that fulfils the
  contract, every command line, every configuration file and every machine, once a signal
  arrives, even one before the loop, the program returns with status 0 or 1. The files it
  may read its configuration from are as before, and of the files its real-time module works
  on every one has its contents and its mode, apart from the frequency governors of the
  machine's CPUs, which it may leave changed. The real-time module does not stay marked as
  initialised if it was not before; whether the kernel granted the restore is not said here.
\<close>
theorem main_terminates:
  assumes "pnet_stack (e_api env) ok" "early \<or> (now, True) \<in> set ps"
  shows "\<exists>code m' es. main_prog env m argv early ps = Inr (Some (code, m', es)) \<and> code \<in> {EXIT_SUCCESS, EXIT_FAILURE} \<and>
    m_files m' = m_files m \<and> (\<not> g_rt_initialized (m_rt m) \<longrightarrow> \<not> g_rt_initialized (m_rt m')) \<and>
    (\<forall>p. (\<forall>cpu \<in> set (cpus (m_rtos m)). p \<noteq> gov_path cpu) \<longrightarrow>
      content (rt_files (m_rtos m')) p = content (rt_files (m_rtos m)) p \<and>
      perms (rt_files (m_rtos m')) p = perms (rt_files (m_rtos m)) p)"
proof -
  obtain code m' es where e: "main_prog env m argv early ps = Inr (Some (code, m', es))"
    "code \<in> {EXIT_SUCCESS, EXIT_FAILURE}" "m_files m' = m_files m"
    "m_rt m' = m_rt m \<and> m_rtos m' = m_rtos m \<or> (\<exists>cfg m1. m' = cleanup_rt env cfg m1 \<and>
        (m_rt m1, m_rtos m1) = snd (apply_realtime (e_platform env) (m_rt m) (m_rtos m) cfg))"
    by (rule main_prog_ends [OF assms])
  have "\<not> g_rt_initialized (m_rt (cleanup_rt env cfg m1))" if "\<not> g_rt_initialized (m_rt m)"
    "(m_rt m1, m_rtos m1) = snd (apply_realtime (e_platform env) (m_rt m) (m_rtos m) cfg)" for cfg m1
    by (rule cleanup_uninit) (use that in \<open>simp add: apply_realtime_def\<close>)
  then have "\<not> g_rt_initialized (m_rt m')" if "\<not> g_rt_initialized (m_rt m)"
    using e(4) that by auto
  moreover have "files_kept (governor_files (m_rtos m)) (rt_files (m_rtos m)) (rt_files (m_rtos m'))"
    using e(4) cleanup_files [OF _ refl] by auto
  ultimately show ?thesis
    using e by (intro exI [of _ code] exI [of _ m'] exI [of _ es]) (auto simp: files_kept_def)
qed

theorem main_terminates_witness:
  "\<exists>code m' es. main_prog mock_env demo_machine [''pnet'', ''-v'', ''-c'', ''a.conf''] False [(0, False), (20000, True)] =
     Inr (Some (code, m', es)) \<and> content (rt_files (m_rtos m')) ''/proc/self/status'' =
       content (rt_files (m_rtos demo_machine)) ''/proc/self/status''"
  using main_terminates [of mock_env mock_ok False 20000 "[(0, False), (20000, True)]" demo_machine
      "[''pnet'', ''-v'', ''-c'', ''a.conf'']"]
    mock.pnet_stack_axioms
  by (auto simp: mock_env_def gov_path_def)

lemma cleanup_leaves:
  assumes "\<not> g_rt_initialized (m_rt m)" "sched_restorable (m_rtos m)"
    and "(m_rt m1, m_rtos m1) = snd (apply_realtime pf (m_rt m) (m_rtos m) cfg)" "e_platform env = pf"
  shows "rt_left_as_found (m_rtos m) (m_rtos (cleanup_rt env cfg m1))"
proof (cases "realtime_enabled cfg \<and> \<not> fst (rt_setup_init (m_rt m) (Some (realtime cfg))) < 0")
  case True
  then show ?thesis
    using assms(3,4) apply_restore_leaves [OF assms(2)]
    by (auto simp: apply_realtime_def cleanup_rt_def split: prod.splits if_splits)
next
  case False
  then have "m_rtos m1 = m_rtos m \<and> (realtime_enabled cfg \<longrightarrow> m_rt m1 = m_rt m)"
    using assms(3) by (auto simp: apply_realtime_def rt_setup_init_def EINVAL_def split: if_splits)
  then show ?thesis
    using assms(1) by (auto simp: cleanup_rt_def rt_setup_restore_def)
qed

text \<open>
  C11: the program hands the machine back. However it ends, by an error before the loop, a
  device that does not start, or a signal, and whether its real-time set-up succeeded, was
  refused or was not asked for: the process has the scheduling policy and the priority it
  was started with, provided they could be read and the kernel grants them again; memory is
  locked only if it was locked before, provided it can be unlocked; and irqbalance runs if
  it did, provided it can be started.
\<close>
theorem main_leaves_scheduler:
  assumes "pnet_stack (e_api env) ok" "early \<or> (now, True) \<in> set ps"
    and "\<not> g_rt_initialized (m_rt m)" "sched_restorable (m_rtos m)"
  shows "\<exists>code m' es. main_prog env m argv early ps = Inr (Some (code, m', es)) \<and>
    sched_policy (m_rtos m') = sched_policy (m_rtos m) \<and> sched_prio (m_rtos m') = sched_prio (m_rtos m) \<and>
    (munlock_ok (m_rtos m) \<longrightarrow> mem_locked (m_rtos m') \<longrightarrow> mem_locked (m_rtos m)) \<and>
    (systemctl (m_rtos m) CMD_START = 0 \<longrightarrow> irq_running (m_rtos m) \<longrightarrow> irq_running (m_rtos m'))"
proof -
  obtain code m' es where e: "main_prog env m argv early ps = Inr (Some (code, m', es))"
    "m_rt m' = m_rt m \<and> m_rtos m' = m_rtos m \<or> (\<exists>cfg m1. m' = cleanup_rt env cfg m1 \<and>
        (m_rt m1, m_rtos m1) = snd (apply_realtime (e_platform env) (m_rt m) (m_rtos m) cfg))"
    by (rule main_prog_ends [OF assms(1,2)])
  then have "rt_left_as_found (m_rtos m) (m_rtos m')"
    using cleanup_leaves [OF assms(3,4)] by auto
  then show ?thesis
    using e(1) unfolding rt_left_as_found_def by blast
qed

theorem main_leaves_scheduler_witness:
  "\<exists>code m' es. main_prog mock_env demo_machine [''pnet''] True [] = Inr (Some (code, m', es)) \<and>
     sched_policy (m_rtos m') = SCHED_OTHER \<and> \<not> mem_locked (m_rtos m') \<and> irq_running (m_rtos m')"
  using main_leaves_scheduler [of mock_env mock_ok True 0 "[]" demo_machine "[''pnet'']"] mock.pnet_stack_axioms
  by (auto simp: mock_env_def demo_machine_def sched_restorable_def demo_rt_os_def SCHED_OTHER_def)

lemma startup_printed:
  "startup env m argv = Inr (Inr cfg, m') \<Longrightarrow> \<exists>t. print_banner cfg = Inr t \<and> m_printed m' = m_printed m @ t"
  by (auto simp: startup_def bindE_Inr_iff Let_def case_prod_unfold split: sum.splits if_splits)

lemma startup_usage:
  "parse_args (e_permute env) argv = Inl (code, usage) \<Longrightarrow>
   startup env m argv = Inr (Inl code, m\<lparr>m_printed := m_printed m @ usage\<rparr>)"
  by (simp add: startup_def)

text \<open>
  C19: starting up never faults, and a start-up that fails touches neither the scheduler nor
  any other real-time setting; when it succeeds, the configuration it hands to the device
  is well-formed and has passed validation, and its banner was printed. When the command line
  asks for the usage text, or is wrong, printing it is all the program does.
\<close>
theorem startup_safe:
  shows "(\<exists>res m'. startup env m argv = Inr (res, m') \<and> m_files m' = m_files m \<and>
     (case res of Inl code \<Rightarrow> m_rt m' = m_rt m \<and> m_rtos m' = m_rtos m \<and> code \<in> {EXIT_SUCCESS, EXIT_FAILURE}
      | Inr cfg \<Rightarrow> wf_config cfg \<and> app_config_validate (Some cfg) = Inr 0 \<and>
          (\<exists>banner. print_banner cfg = Inr banner \<and> m_printed m' = m_printed m @ banner) \<and>
          (m_rt m', m_rtos m') = snd (apply_realtime (e_platform env) (m_rt m) (m_rtos m) cfg))) \<and>
    (\<forall>code usage. parse_args (e_permute env) argv = Inl (code, usage) \<longrightarrow>
      main_prog env m argv early ps = Inr (Some (code, m\<lparr>m_printed := m_printed m @ usage\<rparr>, [])))"
proof -
  obtain res m' where r: "startup env m argv = Inr (res, m')" "m_files m' = m_files m"
    "case res of Inl code \<Rightarrow> m_rt m' = m_rt m \<and> m_rtos m' = m_rtos m \<and> code \<in> {EXIT_SUCCESS, EXIT_FAILURE}
      | Inr cfg \<Rightarrow> wf_config cfg \<and> app_config_validate (Some cfg) = Inr 0 \<and>
          (m_rt m', m_rtos m') = snd (apply_realtime (e_platform env) (m_rt m) (m_rtos m) cfg)"
    using startup_ok by blast
  then show ?thesis
    using startup_printed [of env m argv _ m'] by (auto simp: main_prog_def startup_usage split: sum.splits)
qed

theorem startup_safe_witness:
  "\<exists>m'. main_prog mock_env demo_machine [''pnet'', ''-h''] False [] = Inr (Some (EXIT_SUCCESS, m', [])) \<and>
     m_printed m' = print_usage ''pnet''"
proof -
  have "parse_args (e_permute mock_env) [''pnet'', ''-h''] = Inl (EXIT_SUCCESS, print_usage ''pnet'')"
    by (simp add: parse_args_def is_operand_def flag_opt_def)
  then show ?thesis
    using startup_safe [of mock_env demo_machine "[''pnet'', ''-h'']" False "[]"] by (auto simp: demo_machine_def)
qed

text \<open>
  C10: a device that was started is ticked once per pass until the signal, with one sleep of
  the tick interval per pass; no tick fails, no recovery is ever attempted, the cycle
  counter counts the passes and the error counter stays. Apart from the sleeps the loop only
  sends watchdog pings. So the recovery branch of the loop is not reached after a
  successful start, whatever the stack reports through its callbacks.
\<close>
theorem main_loop_steady:
  assumes "pnet_stack (e_api env) ok" "dev_ok ok (l_dev st)"
    and "dev_state (l_dev st) \<in> {IO_DEVICE_STATE_CONNECTED, IO_DEVICE_STATE_RUNNING}"
    and "g_running st" "list_all (\<lambda>(_, sig). \<not> sig) ps"
  shows "\<exists>st'. main_loop env cfg st (ps @ (now, True) # rest) = Inr (Some st') \<and>
    dev_state (l_dev st') \<in> {IO_DEVICE_STATE_CONNECTED, IO_DEVICE_STATE_RUNNING} \<and>
    cycle_count (l_dev st') = cycle_count (l_dev st) + of_nat (length ps + 1) \<and>
    error_count (l_dev st') = error_count (l_dev st) \<and> recovery_attempts st' = 0 \<and>
    (\<exists>es. effects st' = effects st @ es \<and> filter is_sleep es = replicate (length ps + 1) (Sleep (tick_us cfg)) \<and>
      set es \<subseteq> {Notify ''WATCHDOG=1'', Sleep (tick_us cfg)})"
proof -
  have "steady ok st"
    using assms(2,3) by (simp add: steady_def)
  then show ?thesis
    using steady_loop [OF assms(1) _ assms(4,5), of cfg now rest] unfolding steady_def by blast
qed

theorem main_loop_steady_witness:
  "\<exists>st st'. main_loop mock_env zero_cfg st [(0, False), (1, False), (2, True)] = Inr (Some st') \<and>
     cycle_count (l_dev st') = 3 \<and> recovery_attempts st' = 0"
proof -
  obtain st :: "mock_pnet loop_state" where st: "dev_ok mock_ok (l_dev st)" "started (l_dev st)" "g_running st" "cycle_count (l_dev st) = 0"
    using mock_steady unfolding steady_def by blast
  have "pnet_stack (e_api mock_env) mock_ok"
    using mock.pnet_stack_axioms by (simp add: mock_env_def)
  then show ?thesis
    using main_loop_steady [of mock_env mock_ok st "[(0, False), (1, False)]" zero_cfg 2 "[]"] st by auto
qed

lemma zero_cfg_tick: "tick_us zero_cfg = 0"
  by (simp add: zero_cfg_def)

text \<open>
  C31: once at least four errors in a row have been counted, so that the next one reaches the
  threshold of five, and while the device cannot be restarted, every pass makes one attempt:
  it sleeps one second before the first attempt and doubles the delay up to thirty seconds,
  computed without wrap-around, and then sleeps one tick interval. No number of attempts
  ends the loop, as long as both counters (of errors in a row, of attempts) stay within the
  32 bits of their type; a count beyond that would be a signed overflow.
\<close>
theorem recovery_backoff:
  assumes "device_init_and_start (e_api env) zero_device cfg = Inr (r, zero_device)" "r \<noteq> 0"
    and "pnet_handle (l_dev st) = None" "4 \<le> consecutive_errors st" "backoff_us st = RECOVERY_BACKOFF_BASE"
    and "g_running st" "list_all (\<lambda>(_, sig). \<not> sig) ps"
    and "consecutive_errors st + int (length ps) + 1 < 2 ^ 31" "0 \<le> recovery_attempts st"
    and "recovery_attempts st + int (length ps) + 1 < 2 ^ 31"
  shows "\<exists>st'. main_loop env cfg st (ps @ (now, True) # rest) = Inr (Some st') \<and>
    recovery_attempts st' = recovery_attempts st + int (length ps + 1) \<and>
    filter is_sleep (effects st') = filter is_sleep (effects st) @
      concat (map (\<lambda>k. [Sleep (word_of_nat (min (2 ^ k * 1000000) 30000000)), Sleep (tick_us cfg)]) [0..<length ps + 1])"
proof -
  have "dead 0 st"
    using assms(3-5) by (simp add: dead_def backoff_def RECOVERY_BACKOFF_BASE_def)
  then show ?thesis
    using dead_loop [OF assms(1,2) _ assms(6-10), of 0 now rest] by (simp add: sleeps_def backoff_def)
qed

theorem recovery_backoff_witness:
  "\<exists>st'. main_loop \<lparr>e_platform = PLATFORM_LINUX, e_endian = LittleEndian,
        e_api = mock_api\<lparr>api_init := (\<lambda>_. None)\<rparr>, e_systemd = False, e_permute = True\<rparr> zero_cfg
      \<lparr>l_dev = zero_device, g_running = True, consecutive_errors = 4, recovery_attempts = 0,
       backoff_us = RECOVERY_BACKOFF_BASE, last_watchdog_ms = 0, effects = []\<rparr>
      [(0, False), (0, True)] = Inr (Some st') \<and>
    filter is_sleep (effects st') = [Sleep 1000000, Sleep 0, Sleep 2000000, Sleep 0]"
proof -
  let ?api = "mock_api\<lparr>api_init := (\<lambda>_. None)\<rparr>"
  have "device_init_and_start ?api zero_device zero_cfg = Inr (-1, zero_device)"
    using build_pnet_cfg_eq [OF wf_zero_cfg, of ?api]
    by (auto simp: device_init_and_start_def init_Some io_device_start_def start_stack_def io_device_cleanup_def zero_device_def)
  then show ?thesis
    using recovery_backoff [of "\<lparr>e_platform = PLATFORM_LINUX, e_endian = LittleEndian, e_api = ?api, e_systemd = False, e_permute = True\<rparr>"
        zero_cfg "-1" "\<lparr>l_dev = zero_device, g_running = True, consecutive_errors = 4, recovery_attempts = 0,
       backoff_us = RECOVERY_BACKOFF_BASE, last_watchdog_ms = 0, effects = []\<rparr>" "[(0, False)]" 0 "[]"]
    by (auto simp: upt_rec zero_cfg_tick simp del: main_loop.simps)
qed

text \<open>
  C27: the address a configuration names reaches the kernel in host byte order. After the
  network was configured on a little-endian machine, the interface has the octets of the
  configured address in reverse; only on a big-endian machine does it have the address.
\<close>
theorem network_byte_order:
  assumes "wf_config cfg" "apply_network PLATFORM_LINUX os cfg = Inr (0, os')"
  shows "\<exists>i. ifaces os' (take 15 (cstr (interface_name (device cfg)))) = Some i \<and>
    dotted_quad (ntohl LittleEndian (ifc_addr i)) =
      dotted (octet 0 (net_ip_addr (network cfg))) (octet 8 (net_ip_addr (network cfg)))
        (octet 16 (net_ip_addr (network cfg))) (octet 24 (net_ip_addr (network cfg))) \<and>
    dotted_quad (ntohl BigEndian (ifc_addr i)) = dotted_quad (net_ip_addr (network cfg))"
proof -
  have "terminated (interface_name (device cfg))"
    using assms(1) by (rule wf_config_terminated)
  then have "\<exists>i. ifaces os' (take 15 (cstr (interface_name (device cfg)))) = Some i \<and> ifc_addr i = net_ip_addr (network cfg)"
    using assms(2) by (auto simp: apply_network_def linux_ops net_if_set_up_def ifr_name_eq
      split: option.splits if_splits prod.splits)
  then show ?thesis
    by (auto simp: dotted_quad_def octet_bswap32)
qed

theorem network_byte_order_witness:
  "\<exists>i os'. apply_network PLATFORM_LINUX
     \<lparr>ifaces = [''eth0'' \<mapsto> \<lparr>ifc_addr = 0, ifc_mask = 0, ifc_flags = 0, ifc_hw = []\<rparr>], open_fds = 0, sock_ok = True,
      ioctl_ok = (\<lambda>_ _. True), default_mask = (\<lambda>a. a), ifap = None\<rparr> default_config = Inr (0, os') \<and>
     ifaces os' ''eth0'' = Some i \<and>
     dotted_quad (ntohl LittleEndian (ifc_addr i)) = dotted (octet 0 (net_ip_addr (network default_config)))
       (octet 8 (net_ip_addr (network default_config))) (octet 16 (net_ip_addr (network default_config)))
       (octet 24 (net_ip_addr (network default_config)))"
proof -
  let ?os = "\<lparr>ifaces = [''eth0'' \<mapsto> \<lparr>ifc_addr = 0, ifc_mask = 0, ifc_flags = 0, ifc_hw = []\<rparr>], open_fds = 0, sock_ok = True,
      ioctl_ok = (\<lambda>_ _. True), default_mask = (\<lambda>a. a), ifap = None\<rparr>"
  have n: "cstr (interface_name (device default_config)) = ''eth0''"
    by (simp add: default_config_def app_config_default_def default_device_def cstr_strncpy_zeros cstr_id)
  moreover have "terminated (interface_name (device default_config))"
    using wf_default_config by (rule wf_config_terminated)
  ultimately obtain os' where os': "apply_network PLATFORM_LINUX ?os default_config = Inr (0, os')"
    by (simp add: apply_network_def linux_ops net_if_set_up_def ifr_name_eq cstr_id)
  then show ?thesis
    using network_byte_order [OF wf_default_config os'] n by auto
qed

end
