(* ===== verification/Firewall_Script.thy ===== *)
theory Firewall_Script
  imports Security_Policy
begin

text \<open>
  What the shell runs when a policy is applied. \<open>sec_policy_apply\<close> hands the generated text
  to \<open>system\<close> as one string; the shell executes it line by line. A line without a word and a
  line whose first word starts with a number sign run nothing. \<open>commands\<close> is this view of a
  text whose lines are complete commands, as the lines of the script are: none of them
  ends with a backslash or leaves a quotation open.
\<close>

section \<open>The lines of a text\<close>

fun lines_of :: "string \<Rightarrow> string list" where
  "lines_of [] = [[]]"
| "lines_of (c # s) = (if c = NL then [] # lines_of s else (c # hd (lines_of s)) # tl (lines_of s))"

definition is_command :: "string \<Rightarrow> bool" where
  "is_command l = (case dropWhile (\<lambda>c. c = CHR '' '' \<or> c = CHR 0x09) l of [] \<Rightarrow> False | c # _ \<Rightarrow> c \<noteq> CHR ''#'')"

definition commands :: "string \<Rightarrow> string list" where
  "commands s = filter is_command (lines_of s)"

lemma lines_of_nonempty [simp]: "lines_of s \<noteq> []"
  by (cases s) auto

lemma lines_of_append: "lines_of (s @ NL # t) = lines_of s @ lines_of t"
  by (induction s) auto

lemma lines_of_single: "NL \<notin> set l \<Longrightarrow> lines_of l = [l]"
  by (induction l) auto

lemma is_command_simps [simp]:
  "\<not> is_command []" "\<not> is_command (CHR ''#'' # s)" "is_command (CHR ''i'' # s)"
  "is_command (CHR ''s'' # s)" "is_command (CHR ''e'' # s)"
  by (simp_all add: is_command_def)

lemma commands_Nil [simp]: "commands [] = []"
  by (simp add: commands_def)

text \<open>A text is executed piece by piece, each piece ending with its line.\<close>

lemma commands_append: "commands (s @ NL # t) = commands s @ commands t"
  by (simp add: commands_def lines_of_append)

lemma commands_line:
  "NL \<notin> set l \<Longrightarrow> commands (l @ NL # s) = (if is_command l then l # commands s else commands s)"
  by (simp add: commands_append) (simp add: commands_def lines_of_single)

lemma commands_blank [simp]: "commands (NL # s) = commands s"
  using commands_line [of "[]"] by simp

lemma commands_comment: "NL \<notin> set l \<Longrightarrow> commands (CHR ''#'' # l @ NL # s) = commands s"
  using commands_line [of "CHR ''#'' # l" s] by simp

section \<open>The commands of the script\<close>

definition echo_line :: "int \<Rightarrow> string" where
  "echo_line n = ''echo '' @ [DQ] @ ''PROFINET security policy applied: '' @ fmt_d n @ '' rules'' @ [DQ]"

definition one_line :: "sec_rule \<Rightarrow> bool" where
  "one_line r \<longleftrightarrow> NL \<notin> set (cstr (comment r))"

lemma names_one_line [simp]:
  "NL \<notin> set (chain_to_str c)" "NL \<notin> set (action_to_str a)" "NL \<notin> set (proto_to_str p)"
  by (cases c; cases a; simp add: proto_to_str_def)+

lemma active_text: "active r \<Longrightarrow> NL \<notin> set (rule_text r) \<and> is_command (rule_text r)"
  by (simp add: rule_text_def)

lemma commands_header: "commands (script_header n @ s) = ''set -e'' # commands s"
  using commands_comment [of "''!/bin/bash''"] commands_comment [of "'' Auto-generated PROFINET security policy''"]
    commands_comment [of "'' Rule count: '' @ fmt_d n"] commands_line [of "''set -e''"]
  by (simp add: script_header_def)

lemma commands_footer: "commands (script_footer n) = [echo_line n]"
  using commands_line [of "echo_line n" "[]"] by (simp add: script_footer_def echo_line_def)

lemma commands_block:
  assumes "one_line r"
  shows "commands (rule_block i r @ s) = (if active r then rule_text r # commands s else commands s)"
proof -
  have "commands (rule_block i r @ s) = commands (rule_text r @ NL # NL # s)"
    using commands_comment [of "'' Rule '' @ fmt_d (int i) @ '': '' @ cstr (comment r)"] assms
    by (simp add: rule_block_def one_line_def)
  also have "\<dots> = (if active r then rule_text r # commands s else commands s)"
    using commands_line [of "rule_text r" "NL # s"] active_text [of r] assms
      commands_comment [of "'' [inactive] rule: '' @ cstr (comment r)"]
    by (auto simp: rule_text_def one_line_def)
  finally show ?thesis .
qed

lemma commands_blocks:
  "\<forall>i \<in> set is. one_line (rules p ! i) \<Longrightarrow>
   commands (rule_blocks p is @ s) = map rule_text (filter active (map (\<lambda>i. rules p ! i) is)) @ commands s"
  by (induction "is") (simp_all add: rule_blocks_def commands_block)

lemma rule_list_nth: "wf_policy p \<Longrightarrow> rule_list p = map (\<lambda>i. rules p ! i) [0..<nat (rule_count p)]"
  by (auto simp: rule_list_def wf_policy_def map_nth intro!: nth_equalityI)

lemma commands_script:
  assumes "wf_policy p" "list_all one_line (rule_list p)"
  shows "commands (script_text p) = ''set -e'' # map rule_text (filter active (rule_list p)) @ [echo_line (rule_count p)]"
proof -
  have "\<forall>i \<in> set [0..<nat (rule_count p)]. one_line (rules p ! i)"
    using assms by (auto simp: rule_list_nth list_all_iff)
  then show ?thesis
    by (simp add: script_text_def commands_header commands_blocks commands_footer rule_list_nth [OF assms(1)])
qed

text \<open>A line break in a comment, of any rule, active or not, starts a line of its own.\<close>

lemma injected_line:
  assumes "NL \<notin> set v" "is_command v"
  shows "v \<in> set (commands (s @ NL # v @ NL # t))"
  by (simp add: commands_append) (simp add: commands_def lines_of_single assms)

lemma injected_command:
  assumes "i < nat (rule_count p)" "cstr (comment (rules p ! i)) = u @ NL # v" "NL \<notin> set v" "is_command v"
  shows "v \<in> set (commands (script_text p))"
proof -
  have "[0..<nat (rule_count p)] = [0..<i] @ i # [Suc i..<nat (rule_count p)]"
    using assms(1) upt_add_eq_append [of 0 i "nat (rule_count p) - i"] by (simp add: upt_conv_Cons)
  then obtain a b where "rule_blocks p [0..<nat (rule_count p)] = a @ rule_block i (rules p ! i) @ b"
    by (auto simp: rule_blocks_def)
  then have "script_text p = (script_header (rule_count p) @ a @ ''# Rule '' @ fmt_d (int i) @ '': '' @ u) @ NL # v @ NL #
      (rule_text (rules p ! i) @ [NL, NL] @ b @ script_footer (rule_count p))"
    by (simp add: script_text_def rule_block_def assms(2))
  then show ?thesis
    using injected_line [OF assms(3,4)] by (simp only:)
qed

section \<open>Properties\<close>

text \<open>
  C5: the shell runs the rule table. When a well-formed policy is applied on Linux and its
  script fits, the shell gets the flush and one script. If no comment has a line break, the
  commands of the script are exactly: stop at the first error, the iptables command of each
  active rule in table order, and the message with the number of rules. Inactive rules and
  comments run nothing. A comment with a line break, even of an inactive rule, adds its
  last line to the commands.
\<close>
theorem script_runs_rules:
  assumes "wf_policy p" "sec_policy_apply PLATFORM_LINUX e sh (Some p) = Inr (r, cmds)" "r \<noteq> - ENOSPC"
  shows "\<exists>script. cmds = [''iptables -F PNET_CHAIN 2>/dev/null'', script] \<and> r = (if sh script = 0 then 0 else - EIO) \<and>
    (list_all one_line (rule_list p) \<longrightarrow>
      commands script = ''set -e'' # map rule_text (filter active (rule_list p)) @ [echo_line (rule_count p)]) \<and>
    (\<forall>i u v. i < nat (rule_count p) \<longrightarrow> cstr (comment (rules p ! i)) = u @ NL # v \<longrightarrow> NL \<notin> set v \<longrightarrow> is_command v \<longrightarrow>
      v \<in> set (commands script))"
proof -
  have "cmds = [''iptables -F PNET_CHAIN 2>/dev/null'', script_text p]" "r = (if sh (script_text p) = 0 then 0 else - EIO)"
    using assms(2,3) by (auto simp: apply_linux_eq [OF assms(1)] split: if_splits)
  then show ?thesis
    using commands_script [OF assms(1)] injected_command by blast
qed

definition demo_rule :: "bool \<Rightarrow> string \<Rightarrow> sec_rule" where
  "demo_rule a c = zero_rule\<lparr>protocol := 17, dst_port := 34964, active := a, comment := c @ zeros (64 - length c)\<rparr>"

definition demo_policy :: sec_policy where
  "demo_policy = \<lparr>rules = demo_rule True ''PROFINET'' # demo_rule False (''x'' @ NL # ''reboot'') # replicate 62 zero_rule,
     rule_count = 2, enabled = True\<rparr>"

lemma demo_comments: "cstr (comment (demo_rule a ''PROFINET'')) = ''PROFINET''"
  "cstr (comment (demo_rule a (''x'' @ NL # ''reboot''))) = ''x'' @ NL # ''reboot''"
  using cstr_append_zeros [of "''PROFINET''" 56] cstr_append_zeros [of "''x'' @ NL # ''reboot''" 56]
  by (simp_all add: demo_rule_def)

lemma wf_demo_policy: "wf_policy demo_policy"
  by (simp add: wf_policy_def demo_policy_def demo_rule_def MAX_FW_RULES_def wf_rule_def terminated_def zeros_def list_all_iff zero_rule_def)

lemma rule_block_length:
  assumes "wf_rule r" "i < 64"
  shows "length (rule_block i r) \<le> 341"
proof -
  have "length (cstr (comment r)) < 64"
    using assms(1) length_cstr_terminated [of "comment r"] by (simp add: wf_rule_def)
  then show ?thesis
    using rule_text_bounds(1) [OF assms(1)] fmt_d_length [of "int i"] assms(2) by (simp add: rule_block_def is_s32_def)
qed

theorem script_runs_rules_witness:
  "\<exists>script. sec_policy_apply PLATFORM_LINUX LittleEndian (\<lambda>_. 0) (Some demo_policy) =
      Inr (0, [''iptables -F PNET_CHAIN 2>/dev/null'', script]) \<and> ''reboot'' \<in> set (commands script)"
proof -
  have wf: "wf_rule (demo_rule True ''PROFINET'')" "wf_rule (demo_rule False (''x'' @ NL # ''reboot''))"
    using wf_demo_policy by (simp_all add: wf_policy_def demo_policy_def)
  have "rule_blocks demo_policy [0..<2] = rule_block 0 (demo_rule True ''PROFINET'') @
      rule_block 1 (demo_rule False (''x'' @ NL # ''reboot''))"
    by (simp add: rule_blocks_def demo_policy_def upt_rec)
  then have "length (script_text demo_policy) < 4096"
    using rule_block_length [OF wf(1), of 0] rule_block_length [OF wf(2), of 1] fmt_d_length [of 2]
    by (simp add: script_text_def script_header_def script_footer_def is_s32_def demo_policy_def)
  then have run: "sec_policy_apply PLATFORM_LINUX LittleEndian (\<lambda>_. 0) (Some demo_policy) =
      Inr (0, [''iptables -F PNET_CHAIN 2>/dev/null'', script_text demo_policy])"
    by (simp add: apply_linux_eq [OF wf_demo_policy])
  have "1 < nat (rule_count demo_policy)" "cstr (comment (rules demo_policy ! 1)) = ''x'' @ NL # ''reboot''"
    "NL \<notin> set ''reboot''" "is_command ''reboot''" "0 \<noteq> - ENOSPC"
    using demo_comments(2) [of False] by (simp_all add: demo_policy_def is_command_def ENOSPC_def)
  then show ?thesis
    using script_runs_rules [OF wf_demo_policy run] run by blast
qed

end
