(* ===== verification/Pnal.thy ===== *)
theory Pnal
  imports Prelude
begin

text \<open>
  pnal_config.h: the clock of the platform layer, the only function that header defines. A
  reading of the monotonic clock is the pair of seconds and nanoseconds \<open>clock_gettime\<close>
  stores; the result is cut to 32 bits.
\<close>

definition pnal_get_system_uptime_10ms :: "int \<times> int \<Rightarrow> u32" where
  "pnal_get_system_uptime_10ms ts = (case ts of (tv_sec, tv_nsec) \<Rightarrow> word_of_int (tv_sec * 100 + tv_nsec div 10000000))"

definition clock_ns :: "int \<times> int \<Rightarrow> int" where
  "clock_ns ts = fst ts * 1000000000 + snd ts"

text \<open>The unit is a hundredth of a second, not the microsecond the comment names.\<close>

lemma uptime_centiseconds: "uint (pnal_get_system_uptime_10ms ts) = (clock_ns ts div 10000000) mod 2 ^ 32"
proof -
  have "clock_ns ts div 10000000 = fst ts * 100 + snd ts div 10000000"
    using div_mult_self2 [of 10000000 "snd ts" "fst ts * 100"] by (simp add: clock_ns_def algebra_simps)
  then show ?thesis
    unfolding pnal_get_system_uptime_10ms_def case_prod_beta by (simp only: uint_word_of_int) simp
qed

text \<open>The counter wraps, but the difference of two readings is right for 497 days.\<close>

lemma uptime_difference:
  assumes "clock_ns t1 \<le> clock_ns t2" "clock_ns t2 div 10000000 - clock_ns t1 div 10000000 < 2 ^ 32"
  shows "uint (pnal_get_system_uptime_10ms t2 - pnal_get_system_uptime_10ms t1) =
    clock_ns t2 div 10000000 - clock_ns t1 div 10000000"
proof -
  have "clock_ns t1 div 10000000 \<le> clock_ns t2 div 10000000"
    using assms(1) by (rule zdiv_mono1) simp
  moreover have "uint (pnal_get_system_uptime_10ms t2 - pnal_get_system_uptime_10ms t1) =
      (clock_ns t2 div 10000000 - clock_ns t1 div 10000000) mod 2 ^ 32"
    by (simp add: uint_word_ariths uptime_centiseconds mod_diff_eq)
  ultimately show ?thesis
    using assms(2) by simp
qed

end
