(* ===== verification/Spec2Isabelle.thy ===== *)
theory Spec2Isabelle
  imports Main_Loop Firewall_Script Pnal
begin

text \<open>
  A verification library for the p-net IO device manager, a C program that configures a
  machine for PROFINET (network interface, firewall, real-time settings) and then runs an
  IO device on the p-net stack.

  \<^bold>\<open>The program and its model.\<close> Each C file has one theory, main.c two; the functions keep
  their names. Local loops are recursive functions next to the function they belong to.

  \<^item> \<open>Main_Loop\<close>: src/src/main.c. \<open>main_prog\<close> is \<open>main\<close>, composed of \<open>startup\<close>
    (arguments, configuration, network, firewall, real-time), \<open>main_loop\<close> with its passes
    \<open>loop_pass\<close> (tick, recovery, watchdog, sleep), \<open>shutdown\<close> with its messages
    \<open>shutdown_text\<close>, \<open>cleanup_rt\<close> and \<open>finish\<close>. The files the program looks up its
    configuration in are \<open>m_files\<close>, those of the real-time module are in its \<open>rt_os\<close>. The
    locals of the loop and the global \<open>g_running\<close> are the record \<open>loop_state\<close>.
  \<^item> \<open>Cmdline\<close>: the command line of src/src/main.c. \<open>parse_args\<close> is the loop over the options,
    \<open>getopt\<close> the C library's scanner for the option string c:vh, \<open>print_usage\<close> the usage text.
  \<^item> \<open>App_Config\<close>: src/src/config/app_config.c, the configuration file. Its calls go to
    \<open>sec_policy_init\<close> and \<open>rt_config_default\<close>; \<open>parse_ip\<close> and \<open>format_ip\<close> are in \<open>Net_Addr\<close>.
  \<^item> \<open>IO_Device\<close>: src/src/app/io_device.c, the device: a record \<open>io_device\<close> with its state
    machine, the configuration it hands to the stack, both sets of callbacks, the exchange
    of process data.
  \<^item> \<open>PNet_Api\<close>: the API of the stack and its mock, src/tests/mock/. The stack is a value of
    the record \<open>pnet_api\<close>, an argument of every operation that uses it. The stack itself is
    not in the repository; what the program relies on is the locale \<open>pnet_stack\<close>, extended
    for writing input data by \<open>pnet_stack_total\<close>, and the mock is an interpretation of both.
  \<^item> \<open>Network_Config\<close>: src/src/net/network_config.c. The interfaces and the open descriptors
    of the machine are the record \<open>net_os\<close>, the files under /proc/sys the record \<open>fs\<close>.
  \<^item> \<open>RT_Setup\<close>: src/src/realtime/rt_setup.c. The static variables are the record
    \<open>rt_state\<close>, the scheduler, affinity, memory lock and daemon of the machine \<open>rt_os\<close>.
  \<^item> \<open>Security_Policy\<close>: src/src/security/security_policy.c, the rule table, the script, the
    tunnel files, the audit. \<open>Firewall_Script\<close> adds what the shell makes of the script:
    \<open>commands\<close> are the lines of a text that run something.
  \<^item> \<open>Pnal\<close>: the uptime function of src/include/pnal_config.h.
  \<^item> \<open>Prelude\<close>, \<open>CNum\<close>, \<open>Net_Addr\<close>, \<open>OS_Files\<close>: what the code uses of C and POSIX, as that
    language and its library define it: \<open>snprintf\<close>, \<open>strncpy\<close>, \<open>fgets\<close>, \<open>strtoul\<close>, \<open>atoi\<close>,
    \<open>sscanf\<close> and \<open>printf\<close> conversions, \<open>inet_pton\<close>, \<open>inet_ntop\<close>, \<open>htonl\<close>, files.

  \<^bold>\<open>Conventions.\<close> A pointer argument is an option, \<open>None\<close> for \<open>NULL\<close>. An operation that
  accesses memory through a computed offset or relies on a terminating NUL returns a sum:
  \<open>Inl\<close> a fault (\<open>OutOfBounds\<close>, \<open>Unterminated\<close>), \<open>Inr\<close> the result. The loop's counters of type
  \<open>int\<close> are integers, and counting beyond 32 bits is the fault \<open>SignedOverflow\<close>. Return codes are
  integers, error numbers negative as in the code. Fixed-width fields are words and wrap.
  The preprocessor's choices are arguments: the platform, the build of the stack, systemd;
  so is the kind of \<open>getopt\<close> the C library has.
  The decisions of the operating system (what a path allows, which call is refused, what
  the shell returns) are fields of the machine's records, so a theorem holds for all of
  them unless it names one.

  \<^bold>\<open>Bounds and fuel.\<close> All loops of the source except the main loop are bounded and total
  here. The main loop ends when a signal arrives, so \<open>main_loop\<close> recurses over the list of its passes
  (clock reading, signal or not) and returns \<open>None\<close> when the list ends first; a list that
  has a signal in it is always long enough, and after a signal before the loop every list
  is, which is what \<open>main_terminates\<close> states.

  \<^bold>\<open>What the lemmas show.\<close>

  \<^item> The interfaces. \<open>pnet_stack\<close> states what a stack keeps; under it every operation of the
    device keeps \<open>dev_ok\<close>, by rule induction over the step relation \<open>dev_step\<close> of the calls
    that fulfil the duties of a caller, and its state and its handle follow the specification
    \<open>automaton\<close>. Under \<open>pnet_stack_total\<close> there is progress
    too: a call that fulfils \<open>call_ok\<close> returns. The mock and a stack without a state of its
    own interpret both.
    \<open>bounded_table\<close> states what a table with a capacity promises, and refines sequences of
    calls to a list; the rule table interprets it. \<open>value_codec\<close> states that the text of a
    value is read back; six kinds of values interpret it, and the round trip of the
    configuration file rests on them.
  \<^item> The whole program. This theory composes the parts: a configuration that was saved is the
    one the program loads, applies and runs with. The commands the shell gets are those of
    the active rules, unless a comment has a line break.
  \<^item> Text generation. The script, the audit report and the saved configuration are each
    proved equal to a reference text as long as it fits, with the exact result when it does
    not.
  \<^item> Life cycles. The device keeps its invariant over every sequence of calls with a
    well-formed configuration and lengths its arrays hold; a started
    device is ticked until the signal; real-time settings are undone by the restore, and the
    whole program, however it ends, gives back its scheduling policy and priority, leaves no
    memory locked that was not, and irqbalance running if it ran; a tunnel is gone after its
    removal.
  \<^item> The command line. What a user writes is what the program reads, on both kinds of
    \<open>getopt\<close>; a wrong command line does nothing but print the usage text.
  \<^item> Faults. Starting up, checking and validating never leave a buffer; the audit and the
    reading of outputs can, and the exact conditions are stated.
  \<^item> Deviations. Some theorems state behaviour the program does not mean to have: the byte
    order of the configured address, the errors a removal hides, tunnel names that are cut,
    governors that are not put back, flags that a comment switches off, commands in the
    comment of a rule, a firewall without rules.

  \<^bold>\<open>Not modelled.\<close> Messages on stdout and stderr, except the usage text, the banner, the messages
  of the shutdown, the status listing and the lines the callbacks print. How a program the shell starts behaves, iptables
  included: its exit status is a field of the machine. A signal before the handlers are
  installed, which ends the process at once. \<open>double\<close> is modelled by real numbers without
  rounding. Memory is available: \<open>calloc\<close> in the mock succeeds, and the stack \<open>pnet_init\<close> returns depends on the configuration only. A stack calls back only from
  \<open>pnet_handle_periodic\<close>. Concurrent changes of files and interfaces by other processes. The
  tests, the build files, the deployment files and the p-net stack.
\<close>

section \<open>From a saved configuration to the running device\<close>

text \<open>
  A machine that grants what the program asks for: signal handlers can be installed, the
  interface exists, the kernel serves every request on it, and the shell succeeds.
\<close>

definition granted :: "machine \<Rightarrow> string \<Rightarrow> bool" where
  "granted m ifn \<longleftrightarrow> m_sigaction_ok m \<and> sock_ok (m_net m) \<and> (\<forall>r n. ioctl_ok (m_net m) r n) \<and>
     ifaces (m_net m) ifn \<noteq> None \<and> (\<forall>cmd. m_shell m cmd = 0)"

lemma load_saved_config:
  assumes "wf_config c" "savable c" "app_config_save f (Some c) (Some p) = Inr (0, f')" "can_read f p" "\<And>t. accepts f p t"
  shows "\<exists>c'. load_config f' p False = Inr c' \<and> wf_config c' \<and> settings c' = settings c \<and> mirrored c' \<and>
    security c' = zero_policy"
proof -
  have w: "can_read f' = can_read f" "content f' p = Some (join_lines (setting_lines c))"
    using assms(3,5) by (auto simp: app_config_save_def save_text_eq [OF assms(1)] write_file_def Let_def split: if_splits option.splits)
  then have "fopen_r f' p = Some (join_lines (setting_lines c))"
    using assms(4) by (simp add: fopen_r_def)
  note l = load_eq [OF this, of zero_config]
  let ?d = "(the (app_config_default (Some zero_config)))\<lparr>config_file := strncpy (zeros 256) p 255\<rparr>"
  let ?c = "load_lines ?d (join_lines (setting_lines c))"
  have "settings ?c = settings c"
    using load_saved [OF assms(1,2)] restored_settings [OF assms(1) wf_start [of p zero_config]] by simp
  moreover have "wf_config ?c"
    by (rule load_lines_wf [OF wf_start])
  moreover have "mirrored ?c"
    using default_mirrored [of zero_config] by (intro load_lines_mirrored) (simp add: mirrored_def)
  moreover have "security ?c = security ?d"
    using load_lines_unreached [of ?d "join_lines (setting_lines c)"] by (simp add: unreached_def)
  moreover have "security ?d = zero_policy"
    by (simp add: app_config_default_def sec_policy_init_def zero_policy_def)
  ultimately show ?thesis
    using l by (simp add: load_config_def)
qed

lemma granted_network:
  assumes "granted m ifn" "wf_config c" "cstr (interface_name (device c)) = ifn"
  shows "\<exists>os i. apply_network PLATFORM_LINUX (m_net m) c = Inr (0, os) \<and> ifaces os ifn = Some i \<and>
    ifc_addr i = net_ip_addr (network c) \<and> ifc_mask i = net_netmask (network c) \<and> ifc_flags i AND IFF_UP = IFF_UP"
proof -
  have t: "terminated (interface_name (device c))" "length ifn < 16"
    using wf_config_terminated(2,3) [OF assms(2)] length_cstr_terminated [of "interface_name (device c)"] assms(3)
    by (auto simp: wf_cfg_def str_field_def)
  then have "ifr_name ifn = ifn"
    using ifr_name_eq [of ifn] assms(3) by auto
  then show ?thesis
    using assms t by (auto simp: granted_def apply_network_def linux_ops net_if_set_up_def)
qed

lemma zero_policy_script: "wf_policy zero_policy" "length (script_text zero_policy) < 4096"
    "commands (script_text zero_policy) = [''set -e'', echo_line 0]"
proof -
  show wf: "wf_policy zero_policy"
    by (simp add: wf_policy_def zero_policy_def list_all_iff)
  show "length (script_text zero_policy) < 4096"
    using fmt_d_length [of 0]
    by (simp add: script_text_def rule_blocks_def zero_policy_def script_header_def script_footer_def is_s32_def)
  show "commands (script_text zero_policy) = [''set -e'', echo_line 0]"
    using commands_script [OF wf] by (simp add: rule_list_def zero_policy_def)
qed

lemma empty_security:
  assumes "security c = zero_policy" "\<And>cmd. sh cmd = 0"
  shows "apply_security PLATFORM_LINUX e sh c = Inr (0, if security_enabled c
    then [''iptables -F PNET_CHAIN 2>/dev/null'', script_text zero_policy] else [])"
  using zero_policy_script assms by (auto simp: apply_security_def apply_linux_eq)


text \<open>The start-up, from the saved file to the machine the loop runs on.\<close>

lemma saved_startup:
  assumes "wf_config c" "savable c" "app_config_validate (Some c) = Inr 0"
    and "app_config_save f (Some c) (Some path) = Inr (0, m_files m)" "can_read f path" "\<And>t. accepts f path t"
    and "e_platform env = PLATFORM_LINUX" "granted m (cstr (interface_name (device c)))"
  shows "\<exists>c' m1 i. startup env m [prog, ''-c'', path] = Inr (Inr c', m1) \<and> wf_config c' \<and> settings c' = settings c \<and>
    ifaces (m_net m1) (cstr (interface_name (device c))) = Some i \<and>
    ifc_addr i = ip_addr (device c) \<and> ifc_mask i = netmask (device c) \<and> ifc_flags i AND IFF_UP = IFF_UP \<and>
    m_cmds m1 = m_cmds m @ (if security_enabled c
      then [''iptables -F PNET_CHAIN 2>/dev/null'', script_text zero_policy] else [])"
proof -
  obtain c' where c': "load_config (m_files m) path False = Inr c'" "wf_config c'" "settings c' = settings c"
    "mirrored c'" "security c' = zero_policy"
    using load_saved_config [OF assms(1,2,4,5,6)] by blast
  have eq: "cstr (interface_name (device c')) = cstr (interface_name (device c))" "ip_addr (device c') = ip_addr (device c)"
    "netmask (device c') = netmask (device c)" "security_enabled c' = security_enabled c"
    using c'(3) by (simp_all add: settings_def)
  have v: "app_config_validate (Some c') = Inr 0"
    using validate_settings [OF assms(1) c'(2,3)] assms(3) by simp
  obtain t where t: "print_banner c' = Inr t"
    using print_banner_ok [OF c'(2)] by blast
  obtain os i where net: "apply_network PLATFORM_LINUX (m_net m) c' = Inr (0, os)"
    "ifaces os (cstr (interface_name (device c))) = Some i" "ifc_addr i = net_ip_addr (network c')"
    "ifc_mask i = net_netmask (network c')" "ifc_flags i AND IFF_UP = IFF_UP"
    using granted_network [OF assms(8) c'(2) eq(1)] by blast
  have sec: "apply_security PLATFORM_LINUX (e_endian env) (m_shell m) c' = Inr (0, if security_enabled c
      then [''iptables -F PNET_CHAIN 2>/dev/null'', script_text zero_policy] else [])"
    using empty_security [OF c'(5), of "m_shell m"] assms(8) eq(4) by (simp add: granted_def)
  have args: "parse_args (e_permute env) [prog, ''-c'', path] = Inr (path, False)"
    by (simp add: parse_args_def is_operand_def)
  have sig: "install_signal_handlers (m\<lparr>m_printed := t'\<rparr>) = 0" for t'
    using assms(8) by (simp add: granted_def install_signal_handlers_def)
  show ?thesis
    using c' v t net sec args sig assms(7) eq
    by (auto simp: startup_def Let_def mirrored_def case_prod_unfold)
qed

section \<open>Properties\<close>

text \<open>
  C2: the program does what its configuration file says, from one end to the other. A valid
  configuration is saved; the program is started on Linux with that file, on a machine that
  grants what it asks for and a stack that starts. Then the interface is up and has got the
  words of the configured address and mask, as the configuration holds them; the program
  reports that it is ready and ticks the device it started with these settings once per pass
  until the signal: the device it stops is the started one after as many ticks as there were
  passes, each of them successful, and the messages it ends with name this number of cycles
  and no error. Per pass it sleeps one configured interval. It reports that it is stopping
  and stopped, and ends with status 0. But with security enabled the script it runs has no
  rule: no file can name one, and the program adds none.
\<close>
theorem program_runs_saved_configuration:
  assumes "wf_config c" "savable c" "app_config_validate (Some c) = Inr 0"
    and "app_config_save f (Some c) (Some path) = Inr (0, m_files m)" "can_read f path" "\<And>t. accepts f path t"
    and "e_platform env = PLATFORM_LINUX" "granted m (cstr (interface_name (device c)))"
    and "pnet_stack (e_api env) ok" "\<And>d. wf_cfg d \<Longrightarrow> \<exists>dev. device_init_and_start (e_api env) zero_device d = Inr (0, dev)"
    and "list_all (\<lambda>(_, sig). \<not> sig) ps"
  shows "\<exists>m' i es c' banner d st. main_prog env m [prog, ''-c'', path] False (ps @ (now, True) # rest) =
      Inr (Some (EXIT_SUCCESS, m',
        watchdog_notify_ready env @ es @ watchdog_notify_stopping env @ watchdog_notify_status env ''stopped'')) \<and>
    settings c' = settings c \<and> device_init_and_start (e_api env) zero_device (device c') = Inr (0, d) \<and>
    main_loop env (device c') (start_state env d) (ps @ (now, True) # rest) = Inr (Some st) \<and>
    l_dev st = (tick_dev (e_api env) ^^ (length ps + 1)) d \<and>
    (\<forall>k \<le> length ps. fst (io_device_tick (e_api env) (Some ((tick_dev (e_api env) ^^ k) d))) = 0) \<and>
    cycle_count (l_dev st) = of_nat (length ps + 1) \<and> error_count (l_dev st) = 0 \<and>
    print_banner c' = Inr banner \<and> m_printed m' = m_printed m @ banner @ shutdown_text (l_dev st) \<and>
    filter is_sleep es = replicate (length ps + 1) (Sleep (tick_us (device c))) \<and>
    set es \<subseteq> {Notify ''WATCHDOG=1'', Sleep (tick_us (device c))} \<and>
    ifaces (m_net m') (cstr (interface_name (device c))) = Some i \<and>
    ifc_addr i = ip_addr (device c) \<and> ifc_mask i = netmask (device c) \<and> ifc_flags i AND IFF_UP = IFF_UP \<and>
    (if security_enabled c
     then \<exists>script. m_cmds m' = m_cmds m @ [''iptables -F PNET_CHAIN 2>/dev/null'', script] \<and>
       commands script = [''set -e'', echo_line 0]
     else m_cmds m' = m_cmds m)"
proof -
  obtain c' m1 i where up: "startup env m [prog, ''-c'', path] = Inr (Inr c', m1)" "wf_config c'" "settings c' = settings c"
    "ifaces (m_net m1) (cstr (interface_name (device c))) = Some i"
    "ifc_addr i = ip_addr (device c)" "ifc_mask i = netmask (device c)" "ifc_flags i AND IFF_UP = IFF_UP"
    "m_cmds m1 = m_cmds m @ (if security_enabled c
      then [''iptables -F PNET_CHAIN 2>/dev/null'', script_text zero_policy] else [])"
    using saved_startup [OF assms(1-8)] by blast
  have tick: "tick_us (device c') = tick_us (device c)"
    using up(3) by (simp add: settings_def)
  have wf: "wf_cfg (device c')"
    by (rule wf_config_terminated(3) [OF up(2)])
  obtain d where d: "device_init_and_start (e_api env) zero_device (device c') = Inr (0, d)" "dev_ok ok d"
    "dev_state d = IO_DEVICE_STATE_CONNECTED" "cycle_count d = 0" "error_count d = 0"
    using assms(10) [OF wf] init_and_start_ok [OF assms(9) wf, of zero_device] by auto
  obtain st es where loop: "main_loop env (device c') (start_state env d) (ps @ (now, True) # rest) = Inr (Some st)"
    "effects st = effects (start_state env d) @ es" "filter is_sleep es = replicate (length ps + 1) (Sleep (tick_us (device c)))"
    "set es \<subseteq> {Notify ''WATCHDOG=1'', Sleep (tick_us (device c))}"
    "l_dev st = (tick_dev (e_api env) ^^ (length ps + 1)) (l_dev (start_state env d))"
    using steady_loop [OF assms(9) start_steady [OF d(2,3)] assms(11), where cfg = "device c'" and now = now and rest = rest]
    unfolding tick by blast
  obtain banner where banner: "print_banner c' = Inr banner" "m_printed m1 = m_printed m @ banner"
    using startup_printed [OF up(1)] by blast
  have ticks: "l_dev st = (tick_dev (e_api env) ^^ (length ps + 1)) d"
    using loop(5) by (simp add: start_state_def)
  have n: "fst (io_device_tick (e_api env) (Some ((tick_dev (e_api env) ^^ k) d))) = 0"
    "cycle_count ((tick_dev (e_api env) ^^ k) d) = of_nat k" "error_count ((tick_dev (e_api env) ^^ k) d) = 0" for k
    using ticks_started [OF assms(9) d(2), of k] d(3-5) by simp_all
  let ?m = "m1\<lparr>m_printed := m_printed m1 @ shutdown_text (l_dev st)\<rparr>"
  have "main_prog env m [prog, ''-c'', path] False (ps @ (now, True) # rest) =
      Inr (Some (finish env c' ?m (effects (shutdown env st))))"
    using up(1) d(1) loop(1) by (simp add: main_prog_def Let_def del: main_loop.simps)
  moreover have "effects (shutdown env st) = watchdog_notify_ready env @ es @ watchdog_notify_stopping env"
    using loop(2) by (simp add: shutdown_def start_state_def)
  moreover have "m_net (cleanup_rt env c' ?m) = m_net m1" "m_cmds (cleanup_rt env c' ?m) = m_cmds m1"
    "m_printed (cleanup_rt env c' ?m) = m_printed m @ banner @ shutdown_text (l_dev st)"
    using banner(2) by (simp_all add: cleanup_rt_def split: prod.splits)
  moreover have "cycle_count (l_dev st) = of_nat (length ps + 1)" "error_count (l_dev st) = 0"
    unfolding ticks by (rule n)+
  ultimately show ?thesis
    using up(3-8) loop(1,3,4) zero_policy_script(3) banner(1) d(1) ticks n(1)
    by (intro exI [of _ "cleanup_rt env c' ?m"] exI [of _ i] exI [of _ es] exI [of _ c'] exI [of _ banner] exI [of _ d] exI [of _ st])
      (simp add: finish_def del: funpow.simps main_loop.simps)
qed

theorem program_runs_saved_configuration_witness:
  "\<exists>f m' i es. app_config_save (open_fs Map.empty) (Some default_config) (Some ''/etc/pnet.conf'') = Inr (0, f) \<and>
     main_prog (mock_env\<lparr>e_platform := PLATFORM_LINUX\<rparr>) (demo_machine\<lparr>m_files := f\<rparr>) [''pnet'', ''-c'', ''/etc/pnet.conf''] False
       [(0, False), (1, True)] =
       Inr (Some (EXIT_SUCCESS, m', Notify ''READY=1'' # es @ [Notify ''STOPPING=1'', Notify ''STATUS=stopped''])) \<and>
     filter is_sleep es = [Sleep 1000, Sleep 1000] \<and> ifaces (m_net m') ''eth0'' = Some i \<and> ifc_addr i = 0xC0A80064 \<and>
     (\<exists>banner d. m_printed m' = banner @ shutdown_text (d :: mock_pnet io_device) \<and> cycle_count d = 2 \<and> error_count d = 0)"
proof -
  let ?p = "''/etc/pnet.conf''" and ?env = "mock_env\<lparr>e_platform := PLATFORM_LINUX\<rparr>"
  obtain f where f: "app_config_save (open_fs Map.empty) (Some default_config) (Some ?p) = Inr (0, f)"
    using save_eq [OF wf_default_config, of "open_fs Map.empty" ?p] by (auto simp: open_fs_def)
  let ?m = "demo_machine\<lparr>m_files := f\<rparr>"
  have valid: "app_config_validate (Some default_config) = Inr 0"
    by (simp add: validate_eq [OF wf_default_config] default_config_fields)
  have grant: "granted ?m (cstr (interface_name (device default_config)))"
    by (simp add: granted_def default_config_fields demo_machine_def demo_os_def)
  have stack: "pnet_stack (e_api ?env) mock_ok" "e_platform ?env = PLATFORM_LINUX"
    using mock.pnet_stack_axioms by (simp_all add: mock_env_def)
  have starts: "\<exists>dev. device_init_and_start (e_api ?env) zero_device d = Inr (0, dev)" if "wf_cfg d" for d
    using mock_starts [OF that] by (auto simp: mock_env_def)
  have "watchdog_notify_ready ?env = [Notify ''READY=1'']" "watchdog_notify_stopping ?env = [Notify ''STOPPING=1'']"
    "watchdog_notify_status ?env ''stopped'' = [Notify ''STATUS=stopped'']"
    by (simp_all add: watchdog_notify_ready_def watchdog_notify_stopping_def watchdog_notify_status_def notify_def mock_env_def)
  moreover have "can_read (open_fs Map.empty) ?p" "accepts (open_fs Map.empty) ?p t" for t
    by (simp_all add: open_fs_def)
  moreover have "app_config_save (open_fs Map.empty) (Some default_config) (Some ?p) = Inr (0, m_files ?m)"
    using f by simp
  ultimately show ?thesis
    using program_runs_saved_configuration [OF wf_default_config savable_default_config valid _ _ _ stack(2) grant stack(1) starts,
        of "open_fs Map.empty" ?p "[(0, False)]" "''pnet''" 1 "[]"] f
    by (fastforce simp: default_config_fields demo_machine_def simp del: fun_upd_apply main_loop.simps funpow.simps)
qed

end
